(* ===== verification/Prelude.thy ===== *)
theory Prelude
  imports Complex_Main "HOL-Library.List_Lexorder" "HOL-Library.Char_ord"
begin

text \<open>
  Shared vocabulary of the development.

  \<^item> Exceptions of the Python code are values of the type \<open>py_exc\<close>; a computation
    that may raise has type \<open>py_exc + 'a\<close>, with \<open>bindE\<close> for sequencing and
    \<open>raise_if\<close> for a guarded \<open>raise\<close>.
  \<^item> UUIDs are natural numbers (a UUID is a 128-bit number); Python strings are
    \<open>string\<close> unless a theory says otherwise.
  \<^item> A dictionary whose order matters is an association list, read with \<open>map_of\<close>.
  \<^item> \<open>scalar_one_or_none\<close> is SQLAlchemy's method on the rows a SELECT returned:
    no row gives None, one row gives it, several rows raise.
\<close>

section \<open>Exceptions\<close>

datatype py_exc =
    ValueError string
  | InvalidOperation
  | DivisionByZero
  | MultipleResultsFound
  | NoResultFound
  | IntegrityError
  | DataError
  | AppError string string
  | HTTPError nat string

type_synonym uuid = nat

named_theorems exc_simps "inversion rules for the exception monad"

definition bindE :: "'e + 'a \<Rightarrow> ('a \<Rightarrow> 'e + 'b) \<Rightarrow> 'e + 'b" where
  "bindE m f = (case m of Inl e \<Rightarrow> Inl e | Inr x \<Rightarrow> f x)"

definition raise_if :: "bool \<Rightarrow> 'e \<Rightarrow> 'e + unit" where
  "raise_if b e = (if b then Inl e else Inr ())"

definition raise_val :: "bool \<Rightarrow> string \<Rightarrow> py_exc + unit" where
  "raise_val b msg = raise_if b (ValueError msg)"

lemma bindE_simps [simp]:
  "bindE (Inl e) f = Inl e"
  "bindE (Inr x) f = f x"
  by (simp_all add: bindE_def)

lemma bindE_Inr_iff [exc_simps]:
  "bindE m f = Inr y \<longleftrightarrow> (\<exists>x. m = Inr x \<and> f x = Inr y)"
  by (cases m) auto

lemma bindE_Inl_iff [exc_simps]:
  "bindE m f = Inl e \<longleftrightarrow> m = Inl e \<or> (\<exists>x. m = Inr x \<and> f x = Inl e)"
  by (cases m) auto

lemma bindE_assoc: "bindE (bindE m f) g = bindE m (\<lambda>x. bindE (f x) g)"
  by (cases m) simp_all

lemma raise_if_simps [simp]:
  "raise_if True e = Inl e"
  "raise_if False e = Inr ()"
  by (simp_all add: raise_if_def)

lemma raise_if_Inr_iff [simp]: "raise_if b e = Inr u \<longleftrightarrow> \<not> b"
  by (simp add: raise_if_def)

lemma raise_if_Inl_iff [simp]: "raise_if b e = Inl e' \<longleftrightarrow> b \<and> e' = e"
  by (auto simp: raise_if_def)

lemma raise_val_simps [simp]:
  "raise_val True s = Inl (ValueError s)"
  "raise_val False s = Inr ()"
  by (simp_all add: raise_val_def)

lemma raise_val_Inr_iff [simp]: "raise_val b s = Inr u \<longleftrightarrow> \<not> b"
  by (simp add: raise_val_def)

lemma raise_val_Inl_iff [simp]:
  "raise_val b s = Inl e \<longleftrightarrow> b \<and> e = ValueError s"
  by (simp add: raise_val_def)

section \<open>Optional values, as Python tests them\<close>

text \<open>\<open>not x\<close> for an optional string: absent or empty.\<close>

definition falsy_str :: "string option \<Rightarrow> bool" where
  "falsy_str s \<longleftrightarrow> s = None \<or> s = Some []"

lemma falsy_str_simps [simp]:
  "falsy_str None" "falsy_str (Some [])" "\<not> falsy_str (Some (c # cs))"
  by (simp_all add: falsy_str_def)

lemma not_falsy_strE:
  assumes "\<not> falsy_str s" obtains x where "s = Some x" "x \<noteq> []"
  using assms by (cases s) (auto simp: falsy_str_def)

section \<open>Query results\<close>

fun scalar_one_or_none :: "'a list \<Rightarrow> py_exc + 'a option" where
  "scalar_one_or_none [] = Inr None"
| "scalar_one_or_none [x] = Inr (Some x)"
| "scalar_one_or_none (x # y # zs) = Inl MultipleResultsFound"

fun scalar_one :: "'a list \<Rightarrow> py_exc + 'a" where
  "scalar_one [] = Inl NoResultFound"
| "scalar_one [x] = Inr x"
| "scalar_one (x # y # zs) = Inl MultipleResultsFound"

lemma scalar_one_or_none_Some:
  "scalar_one_or_none xs = Inr (Some x) \<longleftrightarrow> xs = [x]"
  by (cases xs rule: scalar_one_or_none.cases) auto

lemma scalar_one_or_none_None:
  "scalar_one_or_none xs = Inr None \<longleftrightarrow> xs = []"
  by (cases xs rule: scalar_one_or_none.cases) auto

lemma scalar_one_or_none_Inl:
  "scalar_one_or_none xs = Inl e \<longleftrightarrow> 2 \<le> length xs \<and> e = MultipleResultsFound"
  by (cases xs rule: scalar_one_or_none.cases) auto

lemma scalar_one_Inr: "scalar_one xs = Inr x \<longleftrightarrow> xs = [x]"
  by (cases xs rule: scalar_one.cases) auto

text \<open>\<open>require_some e r\<close> is the pattern \<open>if not r: raise e\<close> on an optional row.\<close>

definition require_some :: "'e \<Rightarrow> 'a option \<Rightarrow> 'e + 'a" where
  "require_some e r = (case r of None \<Rightarrow> Inl e | Some x \<Rightarrow> Inr x)"

lemma require_some_simps [simp]:
  "require_some e None = Inl e"
  "require_some e (Some x) = Inr x"
  by (simp_all add: require_some_def)

lemma require_some_Inr_iff [simp]: "require_some e r = Inr x \<longleftrightarrow> r = Some x"
  by (cases r) auto

lemma require_some_Inl_iff [simp]: "require_some e r = Inl e' \<longleftrightarrow> r = None \<and> e' = e"
  by (cases r) auto

section \<open>Loops that may raise\<close>

text \<open>\<open>for x in xs: body\<close> with no state but the exceptions it raises.\<close>

fun for_each :: "('a \<Rightarrow> 'e + unit) \<Rightarrow> 'a list \<Rightarrow> 'e + unit" where
  "for_each f [] = Inr ()"
| "for_each f (x # xs) = bindE (f x) (\<lambda>_. for_each f xs)"

lemma for_each_Inr_iff: "for_each f xs = Inr () \<longleftrightarrow> (\<forall>x \<in> set xs. f x = Inr ())"
  by (induction xs) (auto simp: exc_simps)

text \<open>A comprehension whose element expression may raise.\<close>

fun mapE :: "('a \<Rightarrow> 'e + 'b) \<Rightarrow> 'a list \<Rightarrow> 'e + 'b list" where
  "mapE f [] = Inr []"
| "mapE f (x # xs) = bindE (f x) (\<lambda>y. bindE (mapE f xs) (\<lambda>ys. Inr (y # ys)))"

lemma mapE_Inr_iff: "mapE f xs = Inr ys \<longleftrightarrow> list_all2 (\<lambda>x y. f x = Inr y) xs ys"
proof (induction xs arbitrary: ys)
  case Nil
  then show ?case by auto
next
  case (Cons x xs)
  then show ?case by (auto simp: exc_simps list_all2_Cons1)
qed

lemma mapE_cong_Inr: "(\<And>x. x \<in> set xs \<Longrightarrow> f x = Inr (g x)) \<Longrightarrow> mapE f xs = Inr (map g xs)"
  by (induction xs) auto

section \<open>Strings\<close>

text \<open>\<open>needle in haystack\<close>.\<close>

fun is_prefix_of :: "'a list \<Rightarrow> 'a list \<Rightarrow> bool" where
  "is_prefix_of [] ys = True"
| "is_prefix_of (x # xs) [] = False"
| "is_prefix_of (x # xs) (y # ys) = (x = y \<and> is_prefix_of xs ys)"

fun contains_sub :: "'a list \<Rightarrow> 'a list \<Rightarrow> bool" where
  "contains_sub needle [] = (needle = [])"
| "contains_sub needle (y # ys) = (is_prefix_of needle (y # ys) \<or> contains_sub needle ys)"

lemma is_prefix_of_iff: "is_prefix_of xs ys \<longleftrightarrow> (\<exists>zs. ys = xs @ zs)"
  by (induction xs ys rule: is_prefix_of.induct) auto

lemma contains_sub_iff: "contains_sub xs ys \<longleftrightarrow> (\<exists>us vs. ys = us @ xs @ vs)"
proof (induction ys)
  case Nil
  then show ?case by auto
next
  case (Cons y ys)
  have "(\<exists>us vs. y # ys = us @ xs @ vs) \<longleftrightarrow>
      (\<exists>vs. y # ys = xs @ vs) \<or> (\<exists>us vs. ys = us @ xs @ vs)"
    by (metis append_Cons append_Nil list.inject neq_Nil_conv)
  then show ?case
    using Cons by (simp add: is_prefix_of_iff)
qed

section \<open>Computations with a state\<close>

text \<open>
  A handler that reads and writes a database: a function from the state to a result or exception,
  and the state it leaves. The state survives an exception, so a caller can roll it back or keep it.
\<close>

type_synonym ('s, 'a) proc = "'s \<Rightarrow> (py_exc + 'a) \<times> 's"

definition retP :: "'a \<Rightarrow> ('s, 'a) proc" where
  "retP x = (\<lambda>s. (Inr x, s))"

definition throwP :: "py_exc \<Rightarrow> ('s, 'a) proc" where
  "throwP e = (\<lambda>s. (Inl e, s))"

definition raiseP :: "string \<Rightarrow> ('s, 'a) proc" where
  "raiseP m = throwP (ValueError m)"

definition bindP :: "('s, 'a) proc \<Rightarrow> ('a \<Rightarrow> ('s, 'b) proc) \<Rightarrow> ('s, 'b) proc" where
  "bindP m f = (\<lambda>s. case m s of (Inl e, s') \<Rightarrow> (Inl e, s') | (Inr x, s') \<Rightarrow> f x s')"

definition liftP :: "py_exc + 'a \<Rightarrow> ('s, 'a) proc" where
  "liftP r = (\<lambda>s. (r, s))"

definition readP :: "('s \<Rightarrow> 'a) \<Rightarrow> ('s, 'a) proc" where
  "readP f = (\<lambda>s. (Inr (f s), s))"

definition queryP :: "('s \<Rightarrow> py_exc + 'a) \<Rightarrow> ('s, 'a) proc" where
  "queryP f = (\<lambda>s. (f s, s))"

definition modifyP :: "('s \<Rightarrow> 's) \<Rightarrow> ('s, unit) proc" where
  "modifyP f = (\<lambda>s. (Inr (), f s))"

definition assertP :: "bool \<Rightarrow> py_exc \<Rightarrow> ('s, unit) proc" where
  "assertP b e = (if b then retP () else throwP e)"

definition whenP :: "bool \<Rightarrow> ('s, unit) proc \<Rightarrow> ('s, unit) proc" where
  "whenP b m = (if b then m else retP ())"

definition tryP :: "('s, 'a) proc \<Rightarrow> (py_exc \<Rightarrow> ('s, 'a) proc) \<Rightarrow> ('s, 'a) proc" where
  "tryP m h = (\<lambda>s. case m s of (Inl e, s') \<Rightarrow> h e s' | (Inr x, s') \<Rightarrow> (Inr x, s'))"

named_theorems proc_simps "unfolding rules of the state computations"

lemmas [proc_simps] = retP_def throwP_def raiseP_def bindP_def liftP_def readP_def queryP_def
  modifyP_def assertP_def whenP_def tryP_def

text \<open>\<open>assertP b e\<close> raises \<open>e\<close> unless \<open>b\<close>. Outcome specifications: from \<open>P\<close>, a result satisfies \<open>Q\<close> and an exception \<open>E\<close>.\<close>

definition triple ::
  "('s \<Rightarrow> bool) \<Rightarrow> ('s, 'a) proc \<Rightarrow> ('a \<Rightarrow> 's \<Rightarrow> bool) \<Rightarrow> (py_exc \<Rightarrow> 's \<Rightarrow> bool) \<Rightarrow> bool" where
  "triple P m Q E \<longleftrightarrow>
     (\<forall>s. P s \<longrightarrow> (case m s of (Inr x, s') \<Rightarrow> Q x s' | (Inl e, s') \<Rightarrow> E e s'))"

lemma bindP_InrE:
  assumes "bindP m f s = (Inr y, s')"
  obtains x t where "m s = (Inr x, t)" "f x t = (Inr y, s')"
  using assms by (auto simp: bindP_def split: prod.splits sum.splits)

lemma queryP_InrE: "queryP f s = (Inr x, t) \<Longrightarrow> f s = Inr x \<and> t = s"
  by (auto simp: queryP_def)

lemma liftP_InrE: "liftP r s = (Inr x, t) \<Longrightarrow> r = Inr x \<and> t = s"
  by (auto simp: liftP_def)

lemma assertP_InrE: "assertP b e s = (Inr x, t) \<Longrightarrow> b \<and> t = s"
  by (auto simp: assertP_def retP_def throwP_def split: if_splits)

lemma bindP_step: "m s = (Inr x, t) \<Longrightarrow> bindP m f s = f x t"
  by (simp add: bindP_def)

named_theorems triple_intros "introduction rules of outcome specifications"

lemma triple_ret [triple_intros]: "(\<And>s. P s \<Longrightarrow> Q x s) \<Longrightarrow> triple P (retP x) Q E"
  by (simp add: triple_def retP_def)

lemma triple_throw [triple_intros]: "(\<And>s. P s \<Longrightarrow> E e s) \<Longrightarrow> triple P (throwP e) Q E"
  by (simp add: triple_def throwP_def)

lemma triple_raise [triple_intros]: "(\<And>s. P s \<Longrightarrow> E (ValueError m) s) \<Longrightarrow> triple P (raiseP m) Q E"
  by (simp add: raiseP_def triple_throw)

lemma triple_bind:
  "triple P m R E \<Longrightarrow> (\<And>x. triple (R x) (f x) Q E) \<Longrightarrow> triple P (bindP m f) Q E"
  unfolding triple_def bindP_def by (fastforce split: prod.splits sum.splits)

lemma triple_lift [triple_intros]:
  "(\<And>s x. P s \<Longrightarrow> r = Inr x \<Longrightarrow> Q x s) \<Longrightarrow> (\<And>s e. P s \<Longrightarrow> r = Inl e \<Longrightarrow> E e s) \<Longrightarrow> triple P (liftP r) Q E"
  by (auto simp: triple_def liftP_def split: sum.splits)

lemma triple_read [triple_intros]: "(\<And>s. P s \<Longrightarrow> Q (f s) s) \<Longrightarrow> triple P (readP f) Q E"
  by (simp add: triple_def readP_def)

lemma triple_query [triple_intros]:
  "(\<And>s x. P s \<Longrightarrow> f s = Inr x \<Longrightarrow> Q x s) \<Longrightarrow> (\<And>s e. P s \<Longrightarrow> f s = Inl e \<Longrightarrow> E e s) \<Longrightarrow> triple P (queryP f) Q E"
  by (auto simp: triple_def queryP_def split: sum.splits)

lemma triple_modify [triple_intros]: "(\<And>s. P s \<Longrightarrow> Q () (f s)) \<Longrightarrow> triple P (modifyP f) Q E"
  by (simp add: triple_def modifyP_def)

lemma triple_if [triple_intros]:
  "(b \<Longrightarrow> triple P m Q E) \<Longrightarrow> (\<not> b \<Longrightarrow> triple P n Q E) \<Longrightarrow> triple P (if b then m else n) Q E"
  by simp

lemma triple_assert [triple_intros]:
  "(\<And>s. P s \<Longrightarrow> b \<Longrightarrow> Q () s) \<Longrightarrow> (\<And>s. P s \<Longrightarrow> \<not> b \<Longrightarrow> E e s) \<Longrightarrow> triple P (assertP b e) Q E"
  by (auto simp: assertP_def triple_ret triple_throw)

lemma triple_when [triple_intros]:
  "(b \<Longrightarrow> triple P m Q E) \<Longrightarrow> (\<And>s. \<not> b \<Longrightarrow> P s \<Longrightarrow> Q () s) \<Longrightarrow> triple P (whenP b m) Q E"
  by (auto simp: whenP_def triple_ret)

lemma triple_option [triple_intros]:
  "(x = None \<Longrightarrow> triple P m Q E) \<Longrightarrow> (\<And>y. x = Some y \<Longrightarrow> triple P (n y) Q E) \<Longrightarrow>
    triple P (case x of None \<Rightarrow> m | Some y \<Rightarrow> n y) Q E"
  by (cases x) simp_all

lemma triple_prod [triple_intros]:
  "(\<And>a b. x = (a, b) \<Longrightarrow> triple P (f a b) Q E) \<Longrightarrow> triple P (case x of (a, b) \<Rightarrow> f a b) Q E"
  by (cases x) simp

lemma triple_bind_inv:
  "triple P m (\<lambda>_. P) E \<Longrightarrow> (\<And>x. triple P (f x) Q E) \<Longrightarrow> triple P (bindP m f) Q E"
  by (rule triple_bind)

lemma triple_try:
  "triple P m Q R \<Longrightarrow> (\<And>e. triple (R e) (h e) Q E) \<Longrightarrow> triple P (tryP m h) Q E"
  unfolding triple_def tryP_def by (fastforce split: prod.splits sum.splits)

lemma triple_try_inv:
  "triple P m Q (\<lambda>_. P) \<Longrightarrow> (\<And>e. triple P (h e) Q E) \<Longrightarrow> triple P (tryP m h) Q E"
  by (rule triple_try)

lemma triple_conseq:
  "triple P m Q E \<Longrightarrow> (\<And>s. P' s \<Longrightarrow> P s) \<Longrightarrow> (\<And>x s. Q x s \<Longrightarrow> Q' x s) \<Longrightarrow> (\<And>e s. E e s \<Longrightarrow> E' e s) \<Longrightarrow>
    triple P' m Q' E'"
  unfolding triple_def by (fastforce split: prod.splits sum.splits)

lemma tripleD:
  "triple P m Q E \<Longrightarrow> P s \<Longrightarrow> m s = (Inr x, s') \<Longrightarrow> Q x s'"
  "triple P m Q E \<Longrightarrow> P s \<Longrightarrow> m s = (Inl e, s') \<Longrightarrow> E e s'"
  by (auto simp: triple_def)

text \<open>A loop over a list whose body computes with the state.\<close>

fun forP :: "('a \<Rightarrow> ('s, unit) proc) \<Rightarrow> 'a list \<Rightarrow> ('s, unit) proc" where
  "forP f [] = retP ()"
| "forP f (x # xs) = bindP (f x) (\<lambda>_. forP f xs)"

fun mapP :: "('a \<Rightarrow> ('s, 'b) proc) \<Rightarrow> 'a list \<Rightarrow> ('s, 'b list) proc" where
  "mapP f [] = retP []"
| "mapP f (x # xs) = bindP (f x) (\<lambda>y. bindP (mapP f xs) (\<lambda>ys. retP (y # ys)))"

lemma triple_for:
  "(\<And>x. x \<in> set xs \<Longrightarrow> triple P (f x) (\<lambda>_. P) E) \<Longrightarrow> triple P (forP f xs) (\<lambda>_. P) E"
  by (induction xs) (auto intro!: triple_ret triple_bind)

lemma triple_map:
  "(\<And>x. x \<in> set xs \<Longrightarrow> triple P (f x) (\<lambda>_. P) E) \<Longrightarrow> triple P (mapP f xs) (\<lambda>_. P) E"
proof (induction xs)
  case Nil
  show ?case by (simp add: triple_ret)
next
  case (Cons x xs)
  show ?case unfolding mapP.simps
    by (rule triple_bind [OF Cons.prems], simp)
      (rule triple_bind [OF Cons.IH [OF Cons.prems]], auto intro: triple_ret)
qed

end
