(* ===== verification/PyDecimal.thy ===== *)
theory PyDecimal
  imports Prelude
begin

text \<open>
  The part of Python's \<open>decimal\<close> module the program uses, on finite numbers: a decimal is a
  sign, a coefficient and an exponent, exactly as \<open>Decimal._sign\<close>, \<open>_int\<close> and \<open>_exp\<close> hold it,
  and every operation rounds its exact result to the precision of the context. Infinities and
  NaNs do not occur (the values come from NUMERIC columns), and the exponent limits of a context
  (\<open>Emin\<close> and \<open>Emax\<close>, plus or minus 999999) are out of reach of the values the program holds,
  so no operation here overflows or underflows.

  \<open>dval\<close> is the rational number a decimal denotes; the lemmas bound the rounding error of each
  operation against it and say when the operation is exact.
\<close>

section \<open>Representation\<close>

datatype dec = Dec (dsign: bool) (dcoeff: nat) (dexp: int)

datatype rounding = ROUND_HALF_UP | ROUND_HALF_EVEN

record dec_context =
  prec :: nat
  rmode :: rounding

definition default_context :: dec_context where
  "default_context = \<lparr>prec = 28, rmode = ROUND_HALF_EVEN\<rparr>"

definition sgn_int :: "bool \<Rightarrow> int" where
  "sgn_int s = (if s then -1 else 1)"

definition signed_coeff :: "dec \<Rightarrow> int" where
  "signed_coeff d = sgn_int (dsign d) * int (dcoeff d)"

definition dval :: "dec \<Rightarrow> rat" where
  "dval d = of_int (signed_coeff d) * 10 powi (dexp d)"

definition dec_of_int :: "int \<Rightarrow> dec" where
  "dec_of_int i = Dec (i < 0) (nat \<bar>i\<bar>) 0"

text \<open>The number of decimal digits of a coefficient, \<open>len(self._int)\<close>; that of 0 is 1.\<close>

fun ndigits :: "nat \<Rightarrow> nat" where
  "ndigits n = (if n < 10 then 1 else Suc (ndigits (n div 10)))"

declare ndigits.simps [simp del]

definition is_zero :: "dec \<Rightarrow> bool" where
  "is_zero d \<longleftrightarrow> dcoeff d = 0"

lemma is_zero_Dec [simp]: "is_zero (Dec s c e) \<longleftrightarrow> c = 0"
  by (simp add: is_zero_def)

section \<open>Rounding\<close>

text \<open>The integer nearest to \<open>c / 10^k\<close>; the mode decides the ties.\<close>

definition div_round :: "rounding \<Rightarrow> nat \<Rightarrow> nat \<Rightarrow> nat" where
  "div_round m c k =
     (let q = c div 10 ^ k; r = c mod 10 ^ k in
      if (case m of
            ROUND_HALF_UP \<Rightarrow> 10 ^ k \<le> 2 * r
          | ROUND_HALF_EVEN \<Rightarrow> 10 ^ k < 2 * r \<or> (10 ^ k = 2 * r \<and> odd q))
      then q + 1 else q)"

text \<open>\<open>Decimal._fix\<close>: round the coefficient to the precision of the context.\<close>

definition dfix :: "dec_context \<Rightarrow> dec \<Rightarrow> dec" where
  "dfix ctx d =
     (if ndigits (dcoeff d) \<le> prec ctx then d
      else
        let k = ndigits (dcoeff d) - prec ctx;
            c = div_round (rmode ctx) (dcoeff d) k
        in if c = 10 ^ prec ctx then Dec (dsign d) (c div 10) (dexp d + int k + 1)
           else Dec (dsign d) c (dexp d + int k))"

section \<open>Operations\<close>

definition dadd :: "dec_context \<Rightarrow> dec \<Rightarrow> dec \<Rightarrow> dec" where
  "dadd ctx a b =
     (let m = min (dexp a) (dexp b);
          n = signed_coeff a * 10 ^ nat (dexp a - m) + signed_coeff b * 10 ^ nat (dexp b - m)
      in dfix ctx (Dec (if n = 0 then dsign a \<and> dsign b else n < 0) (nat \<bar>n\<bar>) m))"

definition dminus :: "dec \<Rightarrow> dec" where
  "dminus a = Dec (\<not> dsign a) (dcoeff a) (dexp a)"

definition dsub :: "dec_context \<Rightarrow> dec \<Rightarrow> dec \<Rightarrow> dec" where
  "dsub ctx a b = dadd ctx a (dminus b)"

definition dmul :: "dec_context \<Rightarrow> dec \<Rightarrow> dec \<Rightarrow> dec" where
  "dmul ctx a b = dfix ctx (Dec (dsign a \<noteq> dsign b) (dcoeff a * dcoeff b) (dexp a + dexp b))"

text \<open>Unary minus and \<open>abs\<close> round as well; minus zero is zero.\<close>

definition dneg :: "dec_context \<Rightarrow> dec \<Rightarrow> dec" where
  "dneg ctx a = dfix ctx (Dec (if is_zero a then False else \<not> dsign a) (dcoeff a) (dexp a))"

definition dabs :: "dec_context \<Rightarrow> dec \<Rightarrow> dec" where
  "dabs ctx a = dfix ctx (Dec False (dcoeff a) (dexp a))"

text \<open>
  Division, with the steps of \<open>Decimal.__truediv__\<close>: an integer quotient of at least
  \<open>prec + 1\<close> digits, marked inexact in its last digit when there is a remainder, or stripped of
  trailing zeros down to the ideal exponent when there is none; then rounded.
\<close>

fun strip_zeros :: "nat \<Rightarrow> nat \<Rightarrow> int \<Rightarrow> nat \<times> int" where
  "strip_zeros 0 c e = (c, e)"
| "strip_zeros (Suc n) c e = (if c mod 10 = 0 then strip_zeros n (c div 10) (e + 1) else (c, e))"

definition div_shift :: "dec_context \<Rightarrow> dec \<Rightarrow> dec \<Rightarrow> int" where
  "div_shift ctx a b = int (ndigits (dcoeff b)) - int (ndigits (dcoeff a)) + int (prec ctx) + 1"

definition div_num :: "int \<Rightarrow> nat \<Rightarrow> nat" where
  "div_num sh c = (if 0 \<le> sh then c * 10 ^ nat sh else c)"

definition div_den :: "int \<Rightarrow> nat \<Rightarrow> nat" where
  "div_den sh c = (if 0 \<le> sh then c else c * 10 ^ nat (- sh))"

definition ddiv :: "dec_context \<Rightarrow> dec \<Rightarrow> dec \<Rightarrow> py_exc + dec" where
  "ddiv ctx a b =
     (if is_zero b then Inl (if is_zero a then InvalidOperation else DivisionByZero)
      else
        let s = (dsign a \<noteq> dsign b);
            ideal = dexp a - dexp b
        in if is_zero a then Inr (dfix ctx (Dec s 0 ideal))
           else
             let sh = div_shift ctx a b;
                 q = div_num sh (dcoeff a) div div_den sh (dcoeff b);
                 r = div_num sh (dcoeff a) mod div_den sh (dcoeff b);
                 e = ideal - sh
             in if r \<noteq> 0
                then Inr (dfix ctx (Dec s (if q mod 5 = 0 then q + 1 else q) e))
                else (case strip_zeros (nat (ideal - e)) q e of
                        (q', e') \<Rightarrow> Inr (dfix ctx (Dec s q' e'))))"

text \<open>\<open>Decimal.quantize\<close>: the same number with the exponent of the pattern, rounded.\<close>

definition drescale :: "rounding \<Rightarrow> dec \<Rightarrow> int \<Rightarrow> dec" where
  "drescale m d x =
     (if x \<le> dexp d then Dec (dsign d) (dcoeff d * 10 ^ nat (dexp d - x)) x
      else Dec (dsign d) (div_round m (dcoeff d) (nat (x - dexp d))) x)"

definition dquantize :: "dec_context \<Rightarrow> rounding \<Rightarrow> dec \<Rightarrow> int \<Rightarrow> py_exc + dec" where
  "dquantize ctx m d x =
     (if is_zero d then Inr (Dec (dsign d) 0 x)
      else
        let adjusted = dexp d + int (ndigits (dcoeff d)) - 1;
            r = drescale m d x
        in if int (prec ctx) < adjusted - x + 1 \<or> prec ctx < ndigits (dcoeff r)
           then Inl InvalidOperation else Inr r)"

text \<open>Comparison, by value and never rounded.\<close>

definition aligned :: "dec \<Rightarrow> dec \<Rightarrow> int \<times> int" where
  "aligned a b =
     (let m = min (dexp a) (dexp b)
      in (signed_coeff a * 10 ^ nat (dexp a - m), signed_coeff b * 10 ^ nat (dexp b - m)))"

definition deq :: "dec \<Rightarrow> dec \<Rightarrow> bool" where
  "deq a b = (case aligned a b of (x, y) \<Rightarrow> x = y)"

definition dless :: "dec \<Rightarrow> dec \<Rightarrow> bool" where
  "dless a b = (case aligned a b of (x, y) \<Rightarrow> x < y)"

definition dleq :: "dec \<Rightarrow> dec \<Rightarrow> bool" where
  "dleq a b = (case aligned a b of (x, y) \<Rightarrow> x \<le> y)"

text \<open>A value of a column \<open>NUMERIC(p, s)\<close> as the driver returns it.\<close>

definition is_numeric :: "nat \<Rightarrow> nat \<Rightarrow> dec \<Rightarrow> bool" where
  "is_numeric p s d \<longleftrightarrow> dexp d = - int s \<and> dcoeff d < 10 ^ p"

section \<open>Digits\<close>

lemma ndigits_pos [simp]: "0 < ndigits n"
  by (subst ndigits.simps) simp

lemma ndigits_upper: "n < 10 ^ ndigits n"
proof (induction n rule: ndigits.induct)
  case (1 n)
  show ?case
  proof (cases "n < 10")
    case True
    then show ?thesis by (subst ndigits.simps) simp
  next
    case False
    with "1.IH" have "n div 10 < 10 ^ ndigits (n div 10)" by simp
    then have "n < 10 * 10 ^ ndigits (n div 10)" by linarith
    with False show ?thesis by (subst ndigits.simps) simp
  qed
qed

lemma ndigits_lower: "0 < n \<Longrightarrow> 10 ^ (ndigits n - 1) \<le> n"
proof (induction n rule: ndigits.induct)
  case (1 n)
  show ?case
  proof (cases "n < 10")
    case True
    then show ?thesis using "1.prems" by (subst ndigits.simps) simp
  next
    case False
    then have "10 ^ (ndigits (n div 10) - 1) \<le> n div 10" using "1.IH" by simp
    then have "10 * 10 ^ (ndigits (n div 10) - 1) \<le> n" by linarith
    moreover have "10 * 10 ^ (ndigits (n div 10) - 1) = (10::nat) ^ ndigits (n div 10)"
      by (metis ndigits_pos power_minus_mult mult.commute)
    ultimately show ?thesis using False by (subst ndigits.simps) simp
  qed
qed

lemma ndigits_le_iff: "0 < p \<Longrightarrow> ndigits n \<le> p \<longleftrightarrow> n < 10 ^ p"
proof
  assume "ndigits n \<le> p"
  then have "(10::nat) ^ ndigits n \<le> 10 ^ p" by simp
  with ndigits_upper [of n] show "n < 10 ^ p" by (rule less_le_trans)
next
  assume p: "0 < p" and n: "n < 10 ^ p"
  show "ndigits n \<le> p"
  proof (cases "n = 0")
    case True
    with p show ?thesis by (simp add: ndigits.simps)
  next
    case False
    with n have "10 ^ (ndigits n - 1) < (10::nat) ^ p"
      using ndigits_lower [of n] by linarith
    then have "ndigits n - 1 < p" by simp
    then show ?thesis by simp
  qed
qed

section \<open>Values\<close>

lemma sgn_int_simps [simp]: "sgn_int True = -1" "sgn_int False = 1"
  by (simp_all add: sgn_int_def)

lemma abs_sgn_int [simp]: "\<bar>sgn_int s\<bar> = 1"
  by (cases s) simp_all

lemma dval_Dec: "dval (Dec s c e) = of_int (sgn_int s) * (of_nat c * 10 powi e)"
  by (simp add: dval_def signed_coeff_def)

lemma powi10_pos [simp]: "0 < (10::rat) powi e"
  by simp

lemma abs_dval_Dec: "\<bar>dval (Dec s c e)\<bar> = of_nat c * 10 powi e"
  by (simp add: dval_Dec abs_mult flip: of_int_abs)

lemma dval_eq_0_iff [simp]: "dval d = 0 \<longleftrightarrow> is_zero d"
  by (cases d) (auto simp: dval_Dec is_zero_def sgn_int_def)

lemma dval_is_zero [simp]: "is_zero d \<Longrightarrow> dval d = 0"
  by simp

lemma powi10_add: "(10::rat) powi (a + b) = 10 powi a * 10 powi b"
  by (simp add: power_int_add)

lemma powi10_nat: "0 \<le> n \<Longrightarrow> (10::rat) powi n = 10 ^ nat n"
  by (simp add: power_int_def)

lemma dval_shift:
  "m \<le> e \<Longrightarrow> of_int (n * 10 ^ nat (e - m)) * 10 powi m = (of_int n * 10 powi e :: rat)"
proof -
  assume "m \<le> e"
  then have "(10::rat) powi e = 10 ^ nat (e - m) * 10 powi m"
    using powi10_add [of "e - m" m] powi10_nat [of "e - m"] by simp
  then show ?thesis by simp
qed

lemma dval_signed: "of_int n * 10 powi m = dval (Dec (n < 0) (nat \<bar>n\<bar>) m)"
  by (cases "n < 0") (simp_all add: dval_Dec)

lemma dval_zero_coeff [simp]: "dval (Dec s 0 e) = 0"
  by (simp add: dval_Dec)

lemma dval_dminus [simp]: "dval (dminus a) = - dval a"
  by (cases a) (auto simp: dminus_def dval_Dec sgn_int_def)

section \<open>Rounding\<close>

lemma div_round_err_nat:
  "2 * \<bar>int (div_round m c k) * 10 ^ k - int c\<bar> \<le> 10 ^ k"
proof -
  define P where "P = (10::nat) ^ k"
  have P: "0 < P" by (simp add: P_def)
  define q where "q = c div P"
  define r where "r = c mod P"
  have c: "c = q * P + r" and r: "r < P" using P by (simp_all add: q_def r_def)
  have cint: "int c = int q * int P + int r" using c by simp
  define up where "up = (case m of ROUND_HALF_UP \<Rightarrow> P \<le> 2 * r
      | ROUND_HALF_EVEN \<Rightarrow> P < 2 * r \<or> (P = 2 * r \<and> odd q))"
  have up1: "up \<Longrightarrow> P \<le> 2 * r" and up2: "\<not> up \<Longrightarrow> 2 * r \<le> P"
    by (auto simp: up_def split: rounding.splits)
  have dr: "div_round m c k = (if up then q + 1 else q)"
    unfolding div_round_def up_def q_def r_def P_def Let_def by (cases m) simp_all
  have "2 * \<bar>int (div_round m c k) * int P - int c\<bar> \<le> int P"
    using up1 up2 r unfolding dr cint by (cases up) (auto simp: algebra_simps)
  then show ?thesis by (simp add: P_def)
qed

lemma div_round_err:
  "\<bar>of_nat (div_round m c k) * 10 ^ k - of_nat c\<bar> \<le> (10 ^ k / 2 :: rat)"
proof -
  have "(of_int (2 * \<bar>int (div_round m c k) * 10 ^ k - int c\<bar>) :: rat) \<le> of_int (10 ^ k)"
    by (simp only: of_int_le_iff div_round_err_nat)
  then show ?thesis by (simp add: field_simps)
qed

lemma div_round_0 [simp]: "div_round m c 0 = c"
  by (simp add: div_round_def split: rounding.splits)

lemma div_round_le: "c < 10 ^ (p + k) \<Longrightarrow> div_round m c k \<le> 10 ^ p"
proof -
  assume "c < 10 ^ (p + k)"
  then have "c div 10 ^ k < 10 ^ p"
    by (simp add: power_add less_mult_imp_div_less)
  then show ?thesis by (simp add: div_round_def Let_def)
qed

lemma dfix_id: "dcoeff d < 10 ^ prec ctx \<Longrightarrow> 0 < prec ctx \<Longrightarrow> dfix ctx d = d"
  by (simp add: dfix_def ndigits_le_iff)

lemma dfix_sign [simp]: "dsign (dfix ctx d) = dsign d"
  by (simp add: dfix_def Let_def)

lemma dfix_bound:
  assumes "0 < prec ctx" shows "dcoeff (dfix ctx d) < 10 ^ prec ctx"
proof (cases "ndigits (dcoeff d) \<le> prec ctx")
  case True
  with assms show ?thesis by (simp add: dfix_def ndigits_le_iff)
next
  case False
  define k where "k = ndigits (dcoeff d) - prec ctx"
  have "dcoeff d < 10 ^ (prec ctx + k)"
    using ndigits_upper [of "dcoeff d"] False by (simp add: k_def)
  then have "div_round (rmode ctx) (dcoeff d) k \<le> 10 ^ prec ctx" by (rule div_round_le)
  then show ?thesis using False assms by (auto simp: dfix_def Let_def k_def)
qed

lemma dfix_value:
  assumes "\<not> ndigits (dcoeff d) \<le> prec ctx" "0 < prec ctx"
  defines "k \<equiv> ndigits (dcoeff d) - prec ctx"
  shows "dval (dfix ctx d) =
    of_int (sgn_int (dsign d)) * (of_nat (div_round (rmode ctx) (dcoeff d) k) * 10 ^ k * 10 powi dexp d)"
proof -
  let ?c = "div_round (rmode ctx) (dcoeff d) k"
  have k: "(10::rat) powi (dexp d + int k) = 10 ^ k * 10 powi dexp d"
    by (simp add: powi10_add mult.commute)
  show ?thesis
  proof (cases "?c = 10 ^ prec ctx")
    case True
    have "(of_nat (?c div 10) :: rat) * 10 = of_nat ?c"
      using True assms(2) by (metis (no_types, lifting) dvd_div_mult_self dvd_power of_nat_mult of_nat_numeral)
    then show ?thesis
      using True assms(1) k
      by (simp add: dfix_def Let_def k_def [symmetric] dval_Dec powi10_add algebra_simps)
  next
    case False
    then show ?thesis
      using assms(1) k by (simp add: dfix_def Let_def k_def [symmetric] dval_Dec algebra_simps)
  qed
qed

lemma dfix_err:
  assumes p: "0 < prec ctx"
  shows "\<bar>dval (dfix ctx d) - dval d\<bar> \<le> \<bar>dval d\<bar> * 10 powi (1 - int (prec ctx)) / 2"
proof (cases "ndigits (dcoeff d) \<le> prec ctx")
  case True
  then show ?thesis by (simp add: dfix_def)
next
  case False
  define n where "n = ndigits (dcoeff d)"
  define k where "k = n - prec ctx"
  let ?c = "div_round (rmode ctx) (dcoeff d) k"
  let ?E = "(10::rat) powi dexp d"
  have c0: "0 < dcoeff d"
    using False p by (cases "dcoeff d = 0") (auto simp: ndigits.simps)
  have d: "dval d = of_int (sgn_int (dsign d)) * (of_nat (dcoeff d) * ?E)"
    by (cases d) (simp add: dval_Dec)
  have "dval (dfix ctx d) - dval d =
      of_int (sgn_int (dsign d)) * ((of_nat ?c * 10 ^ k - of_nat (dcoeff d)) * ?E)"
    using dfix_value [OF False p] unfolding d k_def n_def by (simp add: algebra_simps)
  then have "\<bar>dval (dfix ctx d) - dval d\<bar> = \<bar>of_nat ?c * 10 ^ k - of_nat (dcoeff d)\<bar> * ?E"
    by (simp add: abs_mult flip: of_int_abs)
  also have "\<dots> \<le> 10 ^ k / 2 * ?E"
    by (intro mult_right_mono div_round_err) simp
  also have "\<dots> \<le> of_nat (dcoeff d) * 10 powi (1 - int (prec ctx)) / 2 * ?E"
  proof (intro mult_right_mono divide_right_mono)
    have "(10::rat) ^ k = 10 ^ (n - 1) * 10 powi (1 - int (prec ctx))"
    proof -
      have "int k = int (n - 1) + (1 - int (prec ctx))"
        using False p by (simp add: k_def n_def)
      then have "(10::rat) powi int k = 10 powi int (n - 1) * 10 powi (1 - int (prec ctx))"
        by (simp only: powi10_add)
      then show ?thesis by simp
    qed
    moreover have "(10::rat) ^ (n - 1) \<le> of_nat (dcoeff d)"
      using ndigits_lower [OF c0] unfolding n_def
      by (metis of_nat_le_iff of_nat_numeral of_nat_power)
    ultimately show "(10::rat) ^ k \<le> of_nat (dcoeff d) * 10 powi (1 - int (prec ctx))"
      by (simp add: mult_right_mono)
  qed simp_all
  also have "\<dots> = \<bar>dval d\<bar> * 10 powi (1 - int (prec ctx)) / 2"
    unfolding d by (simp add: abs_mult flip: of_int_abs)
  finally show ?thesis .
qed

section \<open>Errors of the operations\<close>

text \<open>Half a unit in the last place, relative to the number.\<close>

definition half_ulp :: "dec_context \<Rightarrow> rat" where
  "half_ulp ctx = 10 powi (1 - int (prec ctx)) / 2"

lemma half_ulp_pos [simp]: "0 < half_ulp ctx" "0 \<le> half_ulp ctx"
  by (simp_all add: half_ulp_def)

lemma half_ulp_le: "0 < prec ctx \<Longrightarrow> half_ulp ctx \<le> 1 / 2"
proof -
  assume "0 < prec ctx"
  then have "(10::rat) powi (1 - int (prec ctx)) \<le> 10 powi 0"
    by (intro power_int_increasing) simp_all
  then show ?thesis by (simp add: half_ulp_def)
qed

lemma powi_prec: "(10::rat) powi (- int (prec ctx)) = half_ulp ctx / 5"
  by (simp add: half_ulp_def power_int_diff power_int_minus field_simps)

lemma dfix_rel: "0 < prec ctx \<Longrightarrow> \<bar>dval (dfix ctx d) - dval d\<bar> \<le> \<bar>dval d\<bar> * half_ulp ctx"
  using dfix_err [of ctx d] by (simp add: half_ulp_def)

lemma dadd_exact_value:
  "\<exists>s n m. dadd ctx a b = dfix ctx (Dec s n m) \<and> dval (Dec s n m) = dval a + dval b \<and>
     m = min (dexp a) (dexp b) \<and>
     int n = \<bar>signed_coeff a * 10 ^ nat (dexp a - m) + signed_coeff b * 10 ^ nat (dexp b - m)\<bar>"
proof -
  define m where "m = min (dexp a) (dexp b)"
  define n where "n = signed_coeff a * 10 ^ nat (dexp a - m) + signed_coeff b * 10 ^ nat (dexp b - m)"
  have "dval a + dval b = of_int n * 10 powi m"
    unfolding n_def of_int_add distrib_right
    by (subst (1 2) dval_shift) (simp_all add: m_def dval_def)
  also have "\<dots> = dval (Dec (if n = 0 then dsign a \<and> dsign b else n < 0) (nat \<bar>n\<bar>) m)"
    by (simp add: dval_signed)
  finally have v: "dval a + dval b = dval (Dec (if n = 0 then dsign a \<and> dsign b else n < 0) (nat \<bar>n\<bar>) m)" .
  have "dadd ctx a b = dfix ctx (Dec (if n = 0 then dsign a \<and> dsign b else n < 0) (nat \<bar>n\<bar>) m)"
    by (simp add: dadd_def Let_def m_def n_def)
  moreover have "int (nat \<bar>n\<bar>) = \<bar>n\<bar>" by simp
  ultimately show ?thesis using v m_def n_def by metis
qed

lemma dadd_rel:
  assumes "0 < prec ctx"
  shows "\<bar>dval (dadd ctx a b) - (dval a + dval b)\<bar> \<le> \<bar>dval a + dval b\<bar> * half_ulp ctx"
proof -
  obtain s n m where "dadd ctx a b = dfix ctx (Dec s n m)" "dval (Dec s n m) = dval a + dval b"
    using dadd_exact_value by blast
  then show ?thesis using dfix_rel [OF assms, of "Dec s n m"] by simp
qed

lemma dmul_rel:
  assumes "0 < prec ctx"
  shows "\<bar>dval (dmul ctx a b) - dval a * dval b\<bar> \<le> \<bar>dval a * dval b\<bar> * half_ulp ctx"
proof -
  have "dval (Dec (dsign a \<noteq> dsign b) (dcoeff a * dcoeff b) (dexp a + dexp b)) = dval a * dval b"
    by (cases a; cases b) (auto simp: dval_Dec sgn_int_def powi10_add)
  then show ?thesis
    using dfix_rel [OF assms, of "Dec (dsign a \<noteq> dsign b) (dcoeff a * dcoeff b) (dexp a + dexp b)"]
    by (simp add: dmul_def)
qed

lemma dmul_exact:
  assumes "dcoeff a * dcoeff b < 10 ^ prec ctx" "0 < prec ctx"
  shows "dval (dmul ctx a b) = dval a * dval b"
    and "dexp (dmul ctx a b) = dexp a + dexp b"
  using assms
   apply (simp_all add: dmul_def dfix_id)
  by (cases a; cases b) (auto simp: dval_Dec sgn_int_def powi10_add)

lemma strip_zeros_value:
  "strip_zeros n c e = (c', e') \<Longrightarrow>
    of_nat c' * 10 powi e' = (of_nat c * 10 powi e :: rat) \<and> (c' = 0 \<longleftrightarrow> c = 0)"
proof (induction n c e arbitrary: c' e' rule: strip_zeros.induct)
  case (1 c e)
  then show ?case by simp
next
  case (2 n c e)
  show ?case
  proof (cases "c mod 10 = 0")
    case True
    then have c: "c = 10 * (c div 10)" by presburger
    from True 2 have "of_nat c' * 10 powi e' = (of_nat (c div 10) * 10 powi (e + 1) :: rat) \<and> (c' = 0 \<longleftrightarrow> c div 10 = 0)"
      by simp
    moreover have "(of_nat c :: rat) = 10 * of_nat (c div 10)"
      by (metis c of_nat_mult of_nat_numeral)
    ultimately show ?thesis using c by (auto simp: powi10_add)
  next
    case False
    with 2 show ?thesis by simp
  qed
qed

lemma div_num_den_value:
  "0 < cb \<Longrightarrow> of_nat (div_num sh ca) / of_nat (div_den sh cb) * 10 powi (i - sh) =
    (of_nat ca / of_nat cb * 10 powi i :: rat)"
proof (cases "0 \<le> sh")
  case True
  then have "(10::rat) powi i = 10 ^ nat sh * 10 powi (i - sh)"
    using powi10_add [of sh "i - sh"] powi10_nat [of sh] by simp
  then show ?thesis using True by (simp add: div_num_def div_den_def)
next
  case False
  assume cb: "0 < cb"
  from False have "(10::rat) powi (i - sh) = 10 ^ nat (- sh) * 10 powi i"
    using powi10_add [of "- sh" i] powi10_nat [of "- sh"] by simp
  then show ?thesis using False cb by (simp add: div_num_def div_den_def)
qed

lemma div_num_big:
  assumes "0 < dcoeff a" "sh = div_shift ctx a b"
  shows "10 ^ prec ctx * div_den sh (dcoeff b) \<le> div_num sh (dcoeff a)"
proof -
  have la: "10 ^ (ndigits (dcoeff a) - 1) \<le> dcoeff a" using assms(1) by (rule ndigits_lower)
  have ub: "dcoeff b \<le> 10 ^ ndigits (dcoeff b)" using ndigits_upper less_imp_le by blast
  obtain k where pa: "ndigits (dcoeff a) = Suc k" using gr0_implies_Suc [OF ndigits_pos] by blast
  show ?thesis
  proof (cases "0 \<le> sh")
    case True
    have "10 ^ prec ctx * dcoeff b \<le> 10 ^ (prec ctx + ndigits (dcoeff b))"
      using ub by (simp add: power_add)
    also have "prec ctx + ndigits (dcoeff b) = ndigits (dcoeff a) - 1 + nat sh"
      using True pa by (simp add: assms(2) div_shift_def)
    also have "(10::nat) ^ \<dots> \<le> dcoeff a * 10 ^ nat sh"
      using la by (simp add: power_add)
    finally show ?thesis using True by (simp add: div_num_def div_den_def)
  next
    case False
    have "10 ^ prec ctx * (dcoeff b * 10 ^ nat (- sh)) \<le> 10 ^ (prec ctx + ndigits (dcoeff b) + nat (- sh))"
      using ub by (simp add: power_add)
    also have "prec ctx + ndigits (dcoeff b) + nat (- sh) = ndigits (dcoeff a) - 1"
      using False pa by (simp add: assms(2) div_shift_def)
    also have "(10::nat) ^ \<dots> \<le> dcoeff a" by (rule la)
    finally show ?thesis using False by (simp add: div_num_def div_den_def)
  qed
qed

lemma quotient_close:
  assumes "\<bar>of_nat c - y\<bar> \<le> 1" "10 ^ prec ctx \<le> y" "x = of_int (sgn_int s) * (y * 10 powi e)"
  shows "\<bar>dval (Dec s c e) - x\<bar> \<le> \<bar>x\<bar> * (half_ulp ctx / 5)"
proof -
  have "dval (Dec s c e) - x = of_int (sgn_int s) * ((of_nat c - y) * 10 powi e)"
    by (simp add: dval_Dec assms(3) algebra_simps)
  then have "\<bar>dval (Dec s c e) - x\<bar> = \<bar>of_nat c - y\<bar> * 10 powi e"
    by (simp add: abs_mult flip: of_int_abs)
  also have "\<dots> \<le> (y * 10 powi (- int (prec ctx))) * 10 powi e"
  proof (rule mult_right_mono)
    have "1 \<le> y * 10 powi (- int (prec ctx))"
      using assms(2) by (simp add: power_int_minus field_simps)
    with assms(1) show "\<bar>of_nat c - y\<bar> \<le> y * 10 powi (- int (prec ctx))" by simp
  qed simp
  also have "\<dots> = \<bar>x\<bar> * (half_ulp ctx / 5)"
  proof -
    have "(0::rat) \<le> 10 ^ prec ctx" by simp
    with assms(2) have "0 \<le> y" by (rule order_trans [rotated])
    then show ?thesis by (simp add: assms(3) abs_mult powi_prec flip: of_int_abs)
  qed
  finally show ?thesis .
qed

lemma nat_div_near:
  assumes "0 < d"
  shows "\<bar>of_nat (if n div d mod 5 = 0 then n div d + 1 else n div d) - of_nat n / of_nat d\<bar> \<le> (1::rat)"
    and "n mod d = 0 \<Longrightarrow> of_nat (n div d) = (of_nat n / of_nat d :: rat)"
proof -
  have n: "(of_nat n :: rat) = of_nat (n div d) * of_nat d + of_nat (n mod d)"
    by (metis div_mult_mod_eq of_nat_add of_nat_mult)
  have "of_nat n / of_nat d = (of_nat (n div d) + of_nat (n mod d) / of_nat d :: rat)"
    using assms by (subst n) (simp add: add_divide_distrib)
  moreover have "0 \<le> (of_nat (n mod d) / of_nat d :: rat)" "(of_nat (n mod d) / of_nat d :: rat) < 1"
    using assms by (simp_all add: divide_less_eq)
  ultimately show "\<bar>of_nat (if n div d mod 5 = 0 then n div d + 1 else n div d) - of_nat n / of_nat d\<bar> \<le> (1::rat)"
    and "n mod d = 0 \<Longrightarrow> of_nat (n div d) = (of_nat n / of_nat d :: rat)"
    by auto
qed

text \<open>
  The quotient before the final rounding: a decimal within one part in \<open>10^prec\<close> of the exact
  quotient.
\<close>

lemma ddiv_pre:
  assumes "ddiv ctx a b = Inr r"
  shows "\<not> is_zero b \<and> (\<exists>d. r = dfix ctx d \<and>
    \<bar>dval d - dval a / dval b\<bar> \<le> \<bar>dval a / dval b\<bar> * (half_ulp ctx / 5))"
proof -
  from assms have nb: "\<not> is_zero b" by (auto simp: ddiv_def split: if_splits)
  define s where "s = (dsign a \<noteq> dsign b)"
  show ?thesis
  proof (cases "is_zero a")
    case True
    with assms nb have "r = dfix ctx (Dec s 0 (dexp a - dexp b))"
      by (simp add: ddiv_def Let_def s_def)
    then show ?thesis using nb True by (auto intro!: exI [of _ "Dec s 0 (dexp a - dexp b)"])
  next
    case na: False
    define sh where "sh = div_shift ctx a b"
    define num where "num = div_num sh (dcoeff a)"
    define den where "den = div_den sh (dcoeff b)"
    define e where "e = dexp a - dexp b - sh"
    have ca: "0 < dcoeff a" and cb: "0 < dcoeff b" using na nb by (auto simp: is_zero_def)
    have den: "0 < den" using cb by (simp add: den_def div_den_def)
    have x: "dval a / dval b = of_int (sgn_int s) * (of_nat num / of_nat den * 10 powi e)"
      unfolding num_def den_def e_def div_num_den_value [OF cb]
      by (cases a; cases b) (auto simp: dval_Dec s_def sgn_int_def power_int_diff)
    have big: "10 ^ prec ctx \<le> (of_nat num / of_nat den :: rat)"
    proof -
      have "of_nat (10 ^ prec ctx * den) \<le> (of_nat num :: rat)"
        unfolding of_nat_le_iff num_def den_def by (rule div_num_big [OF ca sh_def])
      then show ?thesis using den by (simp add: le_divide_eq)
    qed
    note unf = ddiv_def Let_def s_def [symmetric] sh_def [symmetric] num_def [symmetric]
      den_def [symmetric] e_def [symmetric]
    show ?thesis
    proof (cases "num mod den = 0")
      case False
      with assms na nb have "r = dfix ctx (Dec s (if num div den mod 5 = 0 then num div den + 1 else num div den) e)"
        unfolding unf by simp
      then show ?thesis using nb quotient_close [OF nat_div_near(1) [OF den] big x] by blast
    next
      case True
      obtain q' e' where sz: "strip_zeros (nat (dexp a - dexp b - e)) (num div den) e = (q', e')" by fastforce
      with assms na nb True have "r = dfix ctx (Dec s q' e')" unfolding unf by simp
      moreover have "dval (Dec s q' e') = dval a / dval b"
        using strip_zeros_value [OF sz] nat_div_near(2) [OF den True] by (simp add: x dval_Dec)
      ultimately show ?thesis using nb by (auto intro!: exI [of _ "Dec s q' e'"])
    qed
  qed
qed

text \<open>Two errors in a row.\<close>

lemma rel_error_trans:
  fixes x y z :: rat
  assumes "\<bar>y - x\<bar> \<le> \<bar>x\<bar> * d" "\<bar>z - y\<bar> \<le> \<bar>y\<bar> * e" "0 \<le> e"
  shows "\<bar>z - x\<bar> \<le> \<bar>x\<bar> * (d + e + d * e)"
proof -
  have y: "\<bar>y\<bar> \<le> \<bar>x\<bar> * (1 + d)" using assms(1) by (simp add: algebra_simps)
  have "\<bar>z - x\<bar> \<le> \<bar>z - y\<bar> + \<bar>y - x\<bar>" by simp
  also have "\<dots> \<le> \<bar>x\<bar> * (1 + d) * e + \<bar>x\<bar> * d"
    using assms(1,2) mult_right_mono [OF y assms(3)] by linarith
  finally show ?thesis by (simp add: algebra_simps)
qed

lemma ddiv_rel:
  assumes "ddiv ctx a b = Inr r" "0 < prec ctx"
  shows "\<bar>dval r - dval a / dval b\<bar> \<le> \<bar>dval a / dval b\<bar> * (2 * half_ulp ctx)"
proof -
  obtain d where r: "r = dfix ctx d"
    and d: "\<bar>dval d - dval a / dval b\<bar> \<le> \<bar>dval a / dval b\<bar> * (half_ulp ctx / 5)"
    using ddiv_pre [OF assms(1)] by blast
  have "\<bar>dval r - dval a / dval b\<bar> \<le>
      \<bar>dval a / dval b\<bar> * (half_ulp ctx / 5 + half_ulp ctx + half_ulp ctx / 5 * half_ulp ctx)"
    unfolding r by (rule rel_error_trans [OF d dfix_rel [OF assms(2)]]) simp
  also have "\<dots> \<le> \<bar>dval a / dval b\<bar> * (2 * half_ulp ctx)"
  proof (rule mult_left_mono)
    have "half_ulp ctx / 5 * half_ulp ctx \<le> half_ulp ctx / 5 * (1 / 2)"
      using half_ulp_le [OF assms(2)] by (intro mult_left_mono) simp_all
    then show "half_ulp ctx / 5 + half_ulp ctx + half_ulp ctx / 5 * half_ulp ctx \<le> 2 * half_ulp ctx"
      using half_ulp_pos(1) [of ctx] by linarith
  qed simp
  finally show ?thesis .
qed

lemma ddiv_total: "\<not> is_zero b \<Longrightarrow> \<exists>r. ddiv ctx a b = Inr r"
  by (auto simp: ddiv_def Let_def split: prod.splits)

lemma ddiv_not_zero: "ddiv ctx a b = Inr r \<Longrightarrow> \<not> is_zero b"
  using ddiv_pre by blast

section \<open>Comparison and quantization\<close>

lemma aligned_value:
  "aligned a b = (x, y) \<Longrightarrow>
    dval a = of_int x * 10 powi (min (dexp a) (dexp b)) \<and> dval b = of_int y * 10 powi (min (dexp a) (dexp b))"
  using dval_shift [of "min (dexp a) (dexp b)" "dexp a" "signed_coeff a"]
    dval_shift [of "min (dexp a) (dexp b)" "dexp b" "signed_coeff b"]
  by (auto simp: aligned_def Let_def dval_def)

lemma deq_iff: "deq a b \<longleftrightarrow> dval a = dval b"
  using aligned_value [of a b] by (auto simp: deq_def split: prod.splits)

lemma dless_iff: "dless a b \<longleftrightarrow> dval a < dval b"
  using aligned_value [of a b] by (auto simp: dless_def split: prod.splits)

lemma dleq_iff: "dleq a b \<longleftrightarrow> dval a \<le> dval b"
  using aligned_value [of a b] by (auto simp: dleq_def split: prod.splits)

lemma drescale_err: "\<bar>dval (drescale m d x) - dval d\<bar> \<le> 10 powi x / 2"
proof (cases "x \<le> dexp d")
  case True
  then have "dval (drescale m d x) = dval d"
    using dval_shift [OF True, of "signed_coeff d"]
    by (cases d) (simp add: drescale_def dval_def signed_coeff_def)
  then show ?thesis by simp
next
  case False
  define k where "k = nat (x - dexp d)"
  have x: "(10::rat) powi x = 10 ^ k * 10 powi dexp d"
    using False powi10_add [of "x - dexp d" "dexp d"] powi10_nat [of "x - dexp d"] by (simp add: k_def)
  have "dval (drescale m d x) - dval d =
      of_int (sgn_int (dsign d)) * ((of_nat (div_round m (dcoeff d) k) * 10 ^ k - of_nat (dcoeff d)) * 10 powi dexp d)"
    using False x by (cases d) (simp add: drescale_def dval_Dec k_def algebra_simps)
  then have "\<bar>dval (drescale m d x) - dval d\<bar> =
      \<bar>of_nat (div_round m (dcoeff d) k) * 10 ^ k - of_nat (dcoeff d)\<bar> * 10 powi dexp d"
    by (simp add: abs_mult flip: of_int_abs)
  also have "\<dots> \<le> 10 ^ k / 2 * 10 powi dexp d"
    by (intro mult_right_mono div_round_err) simp
  finally show ?thesis by (simp add: x)
qed

lemma dquantize_Inr:
  assumes "dquantize ctx m d x = Inr r"
  shows "dexp r = x" and "\<bar>dval r - dval d\<bar> \<le> 10 powi x / 2"
  using assms drescale_err [of m d x]
  by (auto simp: dquantize_def Let_def drescale_def split: if_splits)


section \<open>Bounds for stored values\<close>

lemma abs_dval: "\<bar>dval d\<bar> = of_nat (dcoeff d) * 10 powi dexp d"
  by (cases d) (simp add: abs_dval_Dec)

lemma dval_bound_digits:
  assumes "0 < dcoeff d" "\<bar>dval d\<bar> < 10 powi k"
  shows "dexp d + int (ndigits (dcoeff d)) - 1 < k"
proof (rule ccontr)
  assume "\<not> ?thesis"
  then have "(10::rat) powi k \<le> 10 powi (int (ndigits (dcoeff d) - 1) + dexp d)"
    using ndigits_pos [of "dcoeff d"] by (intro power_int_increasing) (linarith, simp)
  also have "\<dots> = of_nat (10 ^ (ndigits (dcoeff d) - 1)) * 10 powi dexp d"
    by (simp add: powi10_add)
  also have "\<dots> \<le> of_nat (dcoeff d) * 10 powi dexp d"
    using ndigits_lower [OF assms(1)] by (intro mult_right_mono) (simp_all only: of_nat_le_iff powi10_pos less_imp_le)
  also have "\<dots> = \<bar>dval d\<bar>" by (simp add: abs_dval)
  finally show False using assms(2) by simp
qed

lemma drescale_exp [simp]: "dexp (drescale m d x) = x"
  by (simp add: drescale_def)

lemma drescale_coeff_bound:
  assumes "\<bar>dval d\<bar> < 10 powi k" "x \<le> k"
  shows "dcoeff (drescale m d x) \<le> 10 ^ nat (k - x)"
proof -
  let ?r = "drescale m d x"
  have ix: "(10::rat) powi k = 10 ^ nat (k - x) * 10 powi x"
    using assms(2) powi10_add [of "k - x" x] powi10_nat [of "k - x"] by simp
  have "of_nat (dcoeff ?r) * 10 powi x = \<bar>dval ?r\<bar>"
    by (simp add: abs_dval)
  also have "\<dots> < 10 powi k + 10 powi x / 2"
    using assms(1) drescale_err [of m d x] by linarith
  also have "\<dots> = (10 ^ nat (k - x) + 1 / 2) * 10 powi x" by (simp add: ix algebra_simps)
  finally have "(of_nat (dcoeff ?r) :: rat) < 10 ^ nat (k - x) + 1 / 2"
    by (simp only: mult_less_cancel_right_pos powi10_pos)
  then have "(of_nat (dcoeff ?r) :: rat) < of_nat (10 ^ nat (k - x) + 1)" by simp
  then show ?thesis by (simp only: of_nat_less_iff)
qed

lemma dquantize_total:
  assumes "\<bar>dval d\<bar> < 10 powi k" "x \<le> k" "k - x < int (prec ctx)"
  shows "\<exists>r. dquantize ctx m d x = Inr r"
proof (cases "is_zero d")
  case True
  then show ?thesis by (simp add: dquantize_def)
next
  case False
  then have "0 < dcoeff d" by (simp add: is_zero_def)
  then have "dexp d + int (ndigits (dcoeff d)) - 1 < k" using assms(1) by (rule dval_bound_digits)
  moreover have "dcoeff (drescale m d x) < 10 ^ prec ctx"
  proof -
    have "dcoeff (drescale m d x) \<le> 10 ^ nat (k - x)" using assms(1,2) by (rule drescale_coeff_bound)
    also have "\<dots> < 10 ^ prec ctx" using assms(2,3) by (intro power_strict_increasing) simp_all
    finally show ?thesis .
  qed
  moreover have "0 < prec ctx" using assms(2,3) by linarith
  ultimately have "ndigits (dcoeff (drescale m d x)) \<le> prec ctx" by (simp add: ndigits_le_iff)
  with \<open>dexp d + int (ndigits (dcoeff d)) - 1 < k\<close> show ?thesis
    using False assms(2,3) by (simp add: dquantize_def Let_def)
qed

lemma dneg_rel: "0 < prec ctx \<Longrightarrow> \<bar>dval (dneg ctx a) - (- dval a)\<bar> \<le> \<bar>dval a\<bar> * half_ulp ctx"
proof -
  assume p: "0 < prec ctx"
  have "dval (Dec (if is_zero a then False else \<not> dsign a) (dcoeff a) (dexp a)) = - dval a"
    by (cases a) (auto simp: dval_Dec sgn_int_def)
  then show ?thesis
    using dfix_rel [OF p, of "Dec (if is_zero a then False else \<not> dsign a) (dcoeff a) (dexp a)"]
    by (simp add: dneg_def)
qed

lemma dabs_exact: "dcoeff a < 10 ^ prec ctx \<Longrightarrow> 0 < prec ctx \<Longrightarrow> dval (dabs ctx a) = \<bar>dval a\<bar>"
  by (cases a) (simp add: dabs_def dfix_id dval_Dec abs_mult flip: of_int_abs)

lemma dneg_exact: "dcoeff a < 10 ^ prec ctx \<Longrightarrow> 0 < prec ctx \<Longrightarrow> dval (dneg ctx a) = - dval a"
  by (cases a) (auto simp: dneg_def dfix_id dval_Dec sgn_int_def)

lemma dadd_exact_numeric:
  assumes "is_numeric p s a" "is_numeric p s b" "2 * (10::nat) ^ p \<le> 10 ^ prec ctx" "0 < prec ctx"
  shows "dval (dadd ctx a b) = dval a + dval b" and "dexp (dadd ctx a b) = - int s"
    and "dcoeff (dadd ctx a b) < 2 * 10 ^ p"
proof -
  obtain sg n m where h: "dadd ctx a b = dfix ctx (Dec sg n m)" "dval (Dec sg n m) = dval a + dval b"
    "m = min (dexp a) (dexp b)"
    "int n = \<bar>signed_coeff a * 10 ^ nat (dexp a - m) + signed_coeff b * 10 ^ nat (dexp b - m)\<bar>"
    using dadd_exact_value by blast
  have m: "m = - int s" using assms(1,2) h(3) by (simp add: is_numeric_def)
  have "int n = \<bar>signed_coeff a + signed_coeff b\<bar>"
    using h(4) assms(1,2) by (simp add: m is_numeric_def)
  also have "\<dots> \<le> int (dcoeff a) + int (dcoeff b)"
    by (auto simp: signed_coeff_def sgn_int_def)
  finally have n: "n < 2 * 10 ^ p" using assms(1,2) by (simp add: is_numeric_def)
  with assms(3) have "n < 10 ^ prec ctx" by simp
  then have "dadd ctx a b = Dec sg n m" using h(1) assms(4) by (simp add: dfix_id)
  with h(2) m n show "dval (dadd ctx a b) = dval a + dval b" "dexp (dadd ctx a b) = - int s"
    "dcoeff (dadd ctx a b) < 2 * 10 ^ p" by simp_all
qed

lemma is_numeric_abs:
  assumes "is_numeric p s d"
  shows "\<bar>dval d\<bar> < 10 ^ p / 10 ^ s" and "\<not> is_zero d \<Longrightarrow> 1 / 10 ^ s \<le> \<bar>dval d\<bar>"
proof -
  have v: "\<bar>dval d\<bar> = of_nat (dcoeff d) / 10 ^ s"
    using assms by (simp add: abs_dval is_numeric_def power_int_minus divide_inverse)
  have "(of_nat (dcoeff d) :: rat) < of_nat (10 ^ p)"
    using assms by (simp only: of_nat_less_iff is_numeric_def)
  then show "\<bar>dval d\<bar> < 10 ^ p / 10 ^ s" by (simp add: v divide_strict_right_mono)
  show "1 / 10 ^ s \<le> \<bar>dval d\<bar>" if "\<not> is_zero d"
    using that unfolding v is_zero_def by (intro divide_right_mono) (simp_all add: Suc_leI)
qed

end
