(* ===== verification/Formulas.thy ===== *)
theory Formulas
  imports PyDecimal
begin

text \<open>
  \<open>calculations/base.py\<close> and the five modules of \<open>calculations/formulas\<close>: the working context
  (38 digits, half up), the percentage adapter, the result record, the class attributes of each
  formula and its \<open>calculate\<close> method, every guard in its order.

  The inputs are a dictionary from role to fact, as an association list. A fact is the dictionary
  the calculation service builds; its value is a decimal (the round trip through \<open>str\<close> does not
  change a finite decimal). The lemmas show that on values of the fact store's column type every
  formula returns, or raises exactly the guard that fails, and bound the distance of the result
  from the exact ratio.
\<close>

section \<open>base.py\<close>

definition working_context :: dec_context where
  "working_context = \<lparr>prec = 38, rmode = ROUND_HALF_UP\<rparr>"

definition dec_100_0 :: dec where "dec_100_0 = Dec False 1000 (-1)"
definition dec_2_0 :: dec where "dec_2_0 = Dec False 20 (-1)"
definition dec_1_0 :: dec where "dec_1_0 = Dec False 10 (-1)"
definition dec_0_0 :: dec where "dec_0_0 = Dec False 0 (-1)"

definition to_working_fraction :: "dec \<Rightarrow> string option \<Rightarrow> py_exc + dec" where
  "to_working_fraction value unit =
     (if falsy_str unit then Inl (ValueError ''UNIT_MISMATCH'')
      else if unit = Some ''PERCENT'' then ddiv working_context value dec_100_0
      else if unit \<in> set (map Some [''CURRENCY'', ''COUNT'', ''RATIO'', ''ONE'']) then Inr value
      else Inl (ValueError ''UNIT_MISMATCH''))"

record formula_result =
  result_value_unrounded :: dec
  result_value_display :: dec
  fr_unit :: string
  fr_scale :: string
  fr_representation :: string
  fr_rounding_policy :: string
  fr_display_precision :: nat

definition to_quantized_display :: "formula_result \<Rightarrow> py_exc + dec" where
  "to_quantized_display r =
     dquantize working_context ROUND_HALF_UP (result_value_unrounded r) (- int (fr_display_precision r))"

text \<open>The dictionary of one input fact.\<close>

record fact_input =
  in_id :: "uuid option"
  in_candidate_id :: "uuid option"
  in_metric_code :: "string option"
  in_value :: dec
  in_currency :: "string option"
  in_unit :: "string option"
  in_scale :: "string option"
  in_basis :: "string option"

type_synonym inputs = "(string \<times> fact_input) list"

text \<open>The last lines every formula shares: the display value and the result record.\<close>

definition percent_result :: "dec \<Rightarrow> py_exc + formula_result" where
  "percent_result pct =
     bindE (dquantize working_context ROUND_HALF_UP pct (- 2)) (\<lambda>display.
       Inr \<lparr>result_value_unrounded = pct, result_value_display = display, fr_unit = ''PERCENT'',
            fr_scale = ''ONE'', fr_representation = ''PERCENT_DISPLAY'',
            fr_rounding_policy = ''ROUND_HALF_UP'', fr_display_precision = 2\<rparr>)"

section \<open>The formulas\<close>

definition growth_rate_calculate :: "inputs \<Rightarrow> dec option \<Rightarrow> py_exc + formula_result" where
  "growth_rate_calculate inputs annualization =
     bindE (require_some (ValueError ''INSUFFICIENT_INPUT_FACTS'') (map_of inputs ''CURRENT_VALUE'')) (\<lambda>cur.
     bindE (require_some (ValueError ''INSUFFICIENT_INPUT_FACTS'') (map_of inputs ''COMPARISON_VALUE'')) (\<lambda>comp.
     bindE (raise_val (falsy_str (in_unit cur) \<or> falsy_str (in_unit comp) \<or> in_unit cur \<noteq> in_unit comp) ''UNIT_MISMATCH'') (\<lambda>_.
     bindE (raise_val (in_currency cur \<noteq> in_currency comp) ''CURRENCY_MISMATCH'') (\<lambda>_.
     bindE (raise_val (in_scale cur \<noteq> in_scale comp) ''SCALE_NORMALIZATION_ERROR'') (\<lambda>_.
     bindE (to_working_fraction (in_value cur) (in_unit cur)) (\<lambda>cur_frac.
     bindE (to_working_fraction (in_value comp) (in_unit comp)) (\<lambda>comp_frac.
     bindE (raise_val (deq comp_frac dec_0_0) ''DIVISION_BY_ZERO'') (\<lambda>_.
     bindE (ddiv working_context cur_frac comp_frac) (\<lambda>quotient.
       let growth_rate = dsub working_context quotient dec_1_0;
           pct_unrounded = dmul working_context growth_rate dec_100_0
       in percent_result pct_unrounded)))))))))"

definition loan_to_deposit_calculate :: "inputs \<Rightarrow> dec option \<Rightarrow> py_exc + formula_result" where
  "loan_to_deposit_calculate inputs annualization =
     bindE (require_some (ValueError ''INSUFFICIENT_INPUT_FACTS'') (map_of inputs ''NUMERATOR'')) (\<lambda>loans.
     bindE (require_some (ValueError ''INSUFFICIENT_INPUT_FACTS'') (map_of inputs ''DENOMINATOR'')) (\<lambda>deposits.
     bindE (raise_val (falsy_str (in_unit loans) \<or> falsy_str (in_unit deposits) \<or> in_unit loans \<noteq> in_unit deposits) ''UNIT_MISMATCH'') (\<lambda>_.
     bindE (raise_val (in_currency loans \<noteq> in_currency deposits) ''CURRENCY_MISMATCH'') (\<lambda>_.
     bindE (raise_val (in_scale loans \<noteq> in_scale deposits) ''SCALE_NORMALIZATION_ERROR'') (\<lambda>_.
     bindE (to_working_fraction (in_value loans) (in_unit loans)) (\<lambda>loans_frac.
     bindE (to_working_fraction (in_value deposits) (in_unit deposits)) (\<lambda>deposits_frac.
     bindE (raise_val (deq deposits_frac dec_0_0) ''DIVISION_BY_ZERO'') (\<lambda>_.
     bindE (ddiv working_context loans_frac deposits_frac) (\<lambda>ratio.
       percent_result (dmul working_context ratio dec_100_0))))))))))"

definition npl_ratio_calculate :: "inputs \<Rightarrow> dec option \<Rightarrow> py_exc + formula_result" where
  "npl_ratio_calculate inputs annualization =
     bindE (require_some (ValueError ''INSUFFICIENT_INPUT_FACTS'') (map_of inputs ''NUMERATOR'')) (\<lambda>npl.
     bindE (require_some (ValueError ''INSUFFICIENT_INPUT_FACTS'') (map_of inputs ''DENOMINATOR'')) (\<lambda>loans.
     bindE (raise_val (falsy_str (in_unit npl) \<or> falsy_str (in_unit loans) \<or> in_unit npl \<noteq> in_unit loans) ''UNIT_MISMATCH'') (\<lambda>_.
     bindE (raise_val (in_currency npl \<noteq> in_currency loans) ''CURRENCY_MISMATCH'') (\<lambda>_.
     bindE (raise_val (in_scale npl \<noteq> in_scale loans) ''SCALE_NORMALIZATION_ERROR'') (\<lambda>_.
     bindE (to_working_fraction (in_value npl) (in_unit npl)) (\<lambda>npl_frac.
     bindE (to_working_fraction (in_value loans) (in_unit loans)) (\<lambda>loans_frac.
     bindE (raise_val (deq loans_frac dec_0_0) ''DIVISION_BY_ZERO'') (\<lambda>_.
     bindE (ddiv working_context npl_frac loans_frac) (\<lambda>ratio.
       percent_result (dmul working_context ratio dec_100_0))))))))))"

definition return_on_assets_calculate :: "inputs \<Rightarrow> dec option \<Rightarrow> py_exc + formula_result" where
  "return_on_assets_calculate inputs annualization =
     bindE (require_some (ValueError ''INSUFFICIENT_INPUT_FACTS'') (map_of inputs ''PERIOD_INCOME'')) (\<lambda>inc.
     bindE (require_some (ValueError ''INSUFFICIENT_INPUT_FACTS'') (map_of inputs ''BEGINNING_BALANCE'')) (\<lambda>beg.
     bindE (require_some (ValueError ''INSUFFICIENT_INPUT_FACTS'') (map_of inputs ''ENDING_BALANCE'')) (\<lambda>fin.
     bindE (raise_val (in_id beg \<noteq> None \<and> in_id fin \<noteq> None \<and> in_id beg = in_id fin) ''DUPLICATE_BALANCE_INPUT'') (\<lambda>_.
     bindE (raise_val (falsy_str (in_unit inc) \<or> falsy_str (in_unit beg) \<or> falsy_str (in_unit fin) \<or> in_unit beg \<noteq> in_unit fin) ''UNIT_MISMATCH'') (\<lambda>_.
     bindE (raise_val (in_currency beg \<noteq> in_currency fin \<or> in_currency inc \<noteq> in_currency beg) ''CURRENCY_MISMATCH'') (\<lambda>_.
     let annualization_factor = (case annualization of None \<Rightarrow> dec_1_0 | Some f \<Rightarrow> f) in
     bindE (to_working_fraction (in_value inc) (in_unit inc)) (\<lambda>inc_frac.
     bindE (to_working_fraction (in_value beg) (in_unit beg)) (\<lambda>beg_frac.
     bindE (to_working_fraction (in_value fin) (in_unit fin)) (\<lambda>end_frac.
     bindE (ddiv working_context (dadd working_context beg_frac end_frac) dec_2_0) (\<lambda>avg_assets.
     bindE (raise_val (deq avg_assets dec_0_0) ''DIVISION_BY_ZERO'') (\<lambda>_.
     bindE (ddiv working_context inc_frac avg_assets) (\<lambda>quotient.
       let roa_fraction = dmul working_context quotient annualization_factor
       in percent_result (dmul working_context roa_fraction dec_100_0)))))))))))))"

definition return_on_equity_calculate :: "inputs \<Rightarrow> dec option \<Rightarrow> py_exc + formula_result" where
  "return_on_equity_calculate inputs annualization =
     bindE (require_some (ValueError ''INSUFFICIENT_INPUT_FACTS'') (map_of inputs ''PERIOD_INCOME'')) (\<lambda>inc.
     bindE (require_some (ValueError ''INSUFFICIENT_INPUT_FACTS'') (map_of inputs ''BEGINNING_BALANCE'')) (\<lambda>beg.
     bindE (require_some (ValueError ''INSUFFICIENT_INPUT_FACTS'') (map_of inputs ''ENDING_BALANCE'')) (\<lambda>fin.
     bindE (raise_val (in_id beg \<noteq> None \<and> in_id fin \<noteq> None \<and> in_id beg = in_id fin) ''DUPLICATE_BALANCE_INPUT'') (\<lambda>_.
     bindE (raise_val (falsy_str (in_unit inc) \<or> falsy_str (in_unit beg) \<or> falsy_str (in_unit fin) \<or> in_unit beg \<noteq> in_unit fin) ''UNIT_MISMATCH'') (\<lambda>_.
     bindE (raise_val (in_currency beg \<noteq> in_currency fin \<or> in_currency inc \<noteq> in_currency beg) ''CURRENCY_MISMATCH'') (\<lambda>_.
     let annualization_factor = (case annualization of None \<Rightarrow> dec_1_0 | Some f \<Rightarrow> f) in
     bindE (to_working_fraction (in_value inc) (in_unit inc)) (\<lambda>inc_frac.
     bindE (to_working_fraction (in_value beg) (in_unit beg)) (\<lambda>beg_frac.
     bindE (to_working_fraction (in_value fin) (in_unit fin)) (\<lambda>end_frac.
     bindE (ddiv working_context (dadd working_context beg_frac end_frac) dec_2_0) (\<lambda>avg_equity.
     bindE (raise_val (deq avg_equity dec_0_0) ''DIVISION_BY_ZERO'') (\<lambda>_.
     bindE (ddiv working_context inc_frac avg_equity) (\<lambda>quotient.
       let roe_fraction = dmul working_context quotient annualization_factor
       in percent_result (dmul working_context roe_fraction dec_100_0)))))))))))))"

section \<open>Class attributes\<close>

datatype formula = GrowthRateFormula | LoanToDepositRatioFormula | NplRatioFormula
  | ReturnOnAssetsFormula | ReturnOnEquityFormula

record formula_attrs =
  formula_code :: string
  formula_version :: string
  implementation_revision :: string
  algorithm_fingerprint :: string
  required_input_roles :: "string list"
  expected_metric_codes :: "string list"
  input_role_semantics :: "(string \<times> string) list"
  result_unit :: string
  result_scale :: string
  rounding_policy :: string
  annualization_policy :: string
  display_precision :: nat
  tolerance_kind :: string
  tolerance_value :: dec
  tolerance_unit :: string
  tolerance_policy_version :: string
  comparison_requirement :: string

definition base_attrs :: formula_attrs where
  "base_attrs = \<lparr>formula_code = [], formula_version = [], implementation_revision = ''1.0.0'',
     algorithm_fingerprint = ''ALG_V1'', required_input_roles = [], expected_metric_codes = [],
     input_role_semantics = [], result_unit = [], result_scale = [], rounding_policy = [],
     annualization_policy = [], display_precision = 0, tolerance_kind = ''ABSOLUTE'',
     tolerance_value = Dec False 5 (-2), tolerance_unit = ''PERCENTAGE_POINTS'',
     tolerance_policy_version = ''1.0.0'', comparison_requirement = ''NONE''\<rparr>"

definition growth_rate_attrs :: formula_attrs where
  "growth_rate_attrs = base_attrs \<lparr>formula_code := ''GROWTH_RATE'', formula_version := ''1.0.0'',
     algorithm_fingerprint := ''GROWTH_V1'',
     required_input_roles := [''CURRENT_VALUE'', ''COMPARISON_VALUE''],
     expected_metric_codes := [''METRIC_CURRENT'', ''METRIC_COMPARISON''],
     input_role_semantics := [(''CURRENT_VALUE'', ''STOCK''), (''COMPARISON_VALUE'', ''STOCK'')],
     result_unit := ''PERCENT'', result_scale := ''ONE'', rounding_policy := ''ROUND_HALF_UP'',
     annualization_policy := ''DISCRETE_PERIOD'', display_precision := 2,
     tolerance_value := Dec False 1 (-2), comparison_requirement := ''REQUIRED_COMPARISON''\<rparr>"

definition loan_to_deposit_attrs :: formula_attrs where
  "loan_to_deposit_attrs = base_attrs \<lparr>formula_code := ''LOAN_TO_DEPOSIT_RATIO'', formula_version := ''1.0.0'',
     algorithm_fingerprint := ''LDR_V1'',
     required_input_roles := [''NUMERATOR'', ''DENOMINATOR''],
     expected_metric_codes := [''TOTAL_LOANS'', ''TOTAL_DEPOSITS''],
     input_role_semantics := [(''NUMERATOR'', ''STOCK''), (''DENOMINATOR'', ''STOCK'')],
     result_unit := ''PERCENT'', result_scale := ''ONE'', rounding_policy := ''ROUND_HALF_UP'',
     annualization_policy := ''DATE_POINT'', display_precision := 2,
     tolerance_value := Dec False 5 (-2), comparison_requirement := ''NONE''\<rparr>"

definition npl_ratio_attrs :: formula_attrs where
  "npl_ratio_attrs = base_attrs \<lparr>formula_code := ''NPL_RATIO'', formula_version := ''1.0.0'',
     algorithm_fingerprint := ''NPL_V1'',
     required_input_roles := [''NUMERATOR'', ''DENOMINATOR''],
     expected_metric_codes := [''NPL_LOANS'', ''TOTAL_LOANS''],
     input_role_semantics := [(''NUMERATOR'', ''STOCK''), (''DENOMINATOR'', ''STOCK'')],
     result_unit := ''PERCENT'', result_scale := ''ONE'', rounding_policy := ''ROUND_HALF_UP'',
     annualization_policy := ''DATE_POINT'', display_precision := 2,
     tolerance_value := Dec False 5 (-2), comparison_requirement := ''NONE''\<rparr>"

definition return_on_assets_attrs :: formula_attrs where
  "return_on_assets_attrs = base_attrs \<lparr>formula_code := ''RETURN_ON_ASSETS'', formula_version := ''1.0.0'',
     algorithm_fingerprint := ''ROA_V1'',
     required_input_roles := [''PERIOD_INCOME'', ''BEGINNING_BALANCE'', ''ENDING_BALANCE''],
     expected_metric_codes := [''NET_INCOME'', ''TOTAL_ASSETS''],
     input_role_semantics := [(''PERIOD_INCOME'', ''FLOW''), (''BEGINNING_BALANCE'', ''STOCK''), (''ENDING_BALANCE'', ''STOCK'')],
     result_unit := ''PERCENT'', result_scale := ''ONE'', rounding_policy := ''ROUND_HALF_UP'',
     annualization_policy := ''YEAR_TO_DATE'', display_precision := 2,
     tolerance_value := Dec False 5 (-2), comparison_requirement := ''REQUIRED_BEGINNING_BALANCE''\<rparr>"

definition return_on_equity_attrs :: formula_attrs where
  "return_on_equity_attrs = base_attrs \<lparr>formula_code := ''RETURN_ON_EQUITY'', formula_version := ''1.0.0'',
     algorithm_fingerprint := ''ROE_V1'',
     required_input_roles := [''PERIOD_INCOME'', ''BEGINNING_BALANCE'', ''ENDING_BALANCE''],
     expected_metric_codes := [''NET_INCOME'', ''TOTAL_EQUITY''],
     input_role_semantics := [(''PERIOD_INCOME'', ''FLOW''), (''BEGINNING_BALANCE'', ''STOCK''), (''ENDING_BALANCE'', ''STOCK'')],
     result_unit := ''PERCENT'', result_scale := ''ONE'', rounding_policy := ''ROUND_HALF_UP'',
     annualization_policy := ''YEAR_TO_DATE'', display_precision := 2,
     tolerance_value := Dec False 5 (-2), comparison_requirement := ''REQUIRED_BEGINNING_BALANCE''\<rparr>"

fun attrs :: "formula \<Rightarrow> formula_attrs" where
  "attrs GrowthRateFormula = growth_rate_attrs"
| "attrs LoanToDepositRatioFormula = loan_to_deposit_attrs"
| "attrs NplRatioFormula = npl_ratio_attrs"
| "attrs ReturnOnAssetsFormula = return_on_assets_attrs"
| "attrs ReturnOnEquityFormula = return_on_equity_attrs"

fun calculate :: "formula \<Rightarrow> inputs \<Rightarrow> dec option \<Rightarrow> py_exc + formula_result" where
  "calculate GrowthRateFormula = growth_rate_calculate"
| "calculate LoanToDepositRatioFormula = loan_to_deposit_calculate"
| "calculate NplRatioFormula = npl_ratio_calculate"
| "calculate ReturnOnAssetsFormula = return_on_assets_calculate"
| "calculate ReturnOnEquityFormula = return_on_equity_calculate"

section \<open>Accuracy\<close>

text \<open>The factor \<open>to_working_fraction\<close> applies for a unit, and the units it accepts.\<close>

definition unit_factor :: "string option \<Rightarrow> rat" where
  "unit_factor u = (if u = Some ''PERCENT'' then 1 / 100 else 1)"

definition plain_unit :: "string option \<Rightarrow> bool" where
  "plain_unit u \<longleftrightarrow> u \<in> {Some ''CURRENCY'', Some ''COUNT'', Some ''RATIO'', Some ''ONE''}"

definition supported_unit :: "string option \<Rightarrow> bool" where
  "supported_unit u \<longleftrightarrow> u = Some ''PERCENT'' \<or> plain_unit u"

lemma working_prec [simp]: "prec working_context = 38" "rmode working_context = ROUND_HALF_UP"
  by (simp_all add: working_context_def)

abbreviation hu :: rat where "hu \<equiv> half_ulp working_context"

lemma hu_eq: "hu = 1 / (2 * 10 ^ 37)"
  by (simp add: half_ulp_def power_int_minus)

lemma supported_not_falsy: "supported_unit u \<Longrightarrow> \<not> falsy_str u"
  by (auto simp: supported_unit_def plain_unit_def)

lemma unit_factor_pos [simp]: "0 < unit_factor u"
  by (simp add: unit_factor_def)

lemma dval_consts [simp]:
  "dval dec_100_0 = 100" "dval dec_2_0 = 2" "dval dec_1_0 = 1" "dval dec_0_0 = 0"
  by (simp_all add: dec_100_0_def dec_2_0_def dec_1_0_def dec_0_0_def dval_Dec power_int_minus)

lemma consts_not_zero [simp]: "\<not> is_zero dec_100_0" "\<not> is_zero dec_2_0" "\<not> is_zero dec_1_0"
  by (simp_all add: dec_100_0_def dec_2_0_def dec_1_0_def)

lemma to_working_fraction_plain: "plain_unit u \<Longrightarrow> to_working_fraction v u = Inr v"
  by (auto simp: to_working_fraction_def plain_unit_def)

lemma to_working_fraction_percent:
  "to_working_fraction v (Some ''PERCENT'') = ddiv working_context v dec_100_0"
  by (simp add: to_working_fraction_def)

lemma to_working_fraction_ok:
  assumes "supported_unit u"
  obtains a where "to_working_fraction v u = Inr a"
    "\<bar>dval a - dval v * unit_factor u\<bar> \<le> \<bar>dval v * unit_factor u\<bar> * (2 * hu)"
proof (cases "u = Some ''PERCENT''")
  case True
  obtain a where a: "ddiv working_context v dec_100_0 = Inr a"
    using ddiv_total consts_not_zero(1) by blast
  show ?thesis
    using that [of a] True a ddiv_rel [OF a]
    by (simp add: to_working_fraction_percent unit_factor_def)
next
  case False
  then have "plain_unit u" using assms by (simp add: supported_unit_def)
  then show ?thesis using that [of v] False
    by (simp add: to_working_fraction_plain unit_factor_def)
qed

lemma rel_zero_iff:
  fixes x y :: rat
  assumes "\<bar>y - x\<bar> \<le> \<bar>x\<bar> * d" "d < 1"
  shows "y = 0 \<longleftrightarrow> x = 0"
proof
  assume "y = 0"
  with assms(1) have "\<bar>x\<bar> * 1 \<le> \<bar>x\<bar> * d" by simp
  with assms(2) show "x = 0" by (metis abs_ge_zero abs_le_zero_iff linorder_not_le mult_less_cancel_left_pos order_le_less)
next
  assume "x = 0"
  with assms(1) show "y = 0" by simp
qed

lemma hu_small: "2 * hu < 1" "0 < hu"
  by (simp_all add: hu_eq)

lemma working_zero_iff:
  "\<bar>dval a - x\<bar> \<le> \<bar>x\<bar> * (2 * hu) \<Longrightarrow> is_zero a \<longleftrightarrow> x = 0"
  using rel_zero_iff [of "dval a" x "2 * hu"] hu_small by simp

text \<open>The quotient of two numbers known up to a relative error.\<close>

lemma rel_div:
  fixes x y a b d e :: rat
  assumes "\<bar>a - x\<bar> \<le> \<bar>x\<bar> * d" "\<bar>b - y\<bar> \<le> \<bar>y\<bar> * e" "y \<noteq> 0" "e \<le> 1 / 2" "0 \<le> d" "0 \<le> e"
  shows "\<bar>a / b - x / y\<bar> \<le> \<bar>x / y\<bar> * (2 * (d + e))"
proof -
  have b: "\<bar>y\<bar> / 2 \<le> \<bar>b\<bar>"
  proof -
    have "\<bar>y\<bar> * e \<le> \<bar>y\<bar> * (1 / 2)" using assms(4) by (intro mult_left_mono) simp_all
    then show ?thesis using assms(2) by linarith
  qed
  with assms(3) have b0: "b \<noteq> 0" by auto
  have "a / b - x / y = ((a - x) * y - x * (b - y)) / (b * y)"
    using b0 assms(3) by (simp add: field_simps)
  then have "\<bar>a / b - x / y\<bar> = \<bar>(a - x) * y - x * (b - y)\<bar> / (\<bar>b\<bar> * \<bar>y\<bar>)"
    by (simp add: abs_mult)
  also have "\<dots> \<le> (\<bar>x\<bar> * \<bar>y\<bar> * (d + e)) / (\<bar>b\<bar> * \<bar>y\<bar>)"
  proof (rule divide_right_mono)
    have "\<bar>(a - x) * y - x * (b - y)\<bar> \<le> \<bar>a - x\<bar> * \<bar>y\<bar> + \<bar>x\<bar> * \<bar>b - y\<bar>"
      using abs_triangle_ineq4 [of "(a - x) * y" "x * (b - y)"] by (simp add: abs_mult)
    also have "\<dots> \<le> \<bar>x\<bar> * d * \<bar>y\<bar> + \<bar>x\<bar> * (\<bar>y\<bar> * e)"
      using assms(1,2) by (intro add_mono mult_right_mono mult_left_mono) simp_all
    finally show "\<bar>(a - x) * y - x * (b - y)\<bar> \<le> \<bar>x\<bar> * \<bar>y\<bar> * (d + e)"
      by (simp add: algebra_simps)
  qed simp
  also have "\<dots> \<le> (\<bar>x\<bar> * \<bar>y\<bar> * (d + e)) / (\<bar>y\<bar> / 2 * \<bar>y\<bar>)"
  proof (rule divide_left_mono)
    show "\<bar>y\<bar> / 2 * \<bar>y\<bar> \<le> \<bar>b\<bar> * \<bar>y\<bar>" using b by (rule mult_right_mono) simp
    show "0 \<le> \<bar>x\<bar> * \<bar>y\<bar> * (d + e)" using assms(5,6) by simp
    show "0 < \<bar>b\<bar> * \<bar>y\<bar> * (\<bar>y\<bar> / 2 * \<bar>y\<bar>)"
      using b0 assms(3) by (intro mult_pos_pos divide_pos_pos) simp_all
  qed
  also have "\<dots> = \<bar>x / y\<bar> * (2 * (d + e))"
  proof -
    have gen: "\<And>A B t :: rat. B \<noteq> 0 \<Longrightarrow> A * B * t / (B / 2 * B) = A / B * (2 * t)"
      by (simp add: field_simps)
    show ?thesis unfolding abs_divide by (rule gen) (use assms(3) in simp)
  qed
  finally show ?thesis .
qed

text \<open>The tail of every formula: multiply by 100 and quantize.\<close>

definition percent_of :: "rat \<Rightarrow> formula_result \<Rightarrow> rat \<Rightarrow> bool" where
  "percent_of x r tol \<longleftrightarrow>
     \<bar>dval (result_value_unrounded r) - x\<bar> \<le> tol \<and>
     \<bar>dval (result_value_display r) - dval (result_value_unrounded r)\<bar> \<le> 1 / 200 \<and>
     dexp (result_value_display r) = -2 \<and>
     fr_unit r = ''PERCENT'' \<and> fr_scale r = ''ONE''"

lemma percent_result_ok:
  assumes "\<bar>dval p\<bar> < 10 ^ 35"
  shows "\<exists>r. percent_result p = Inr r \<and> result_value_unrounded r = p \<and>
    \<bar>dval (result_value_display r) - dval p\<bar> \<le> 1 / 200 \<and> dexp (result_value_display r) = -2 \<and>
    fr_unit r = ''PERCENT'' \<and> fr_scale r = ''ONE''"
proof -
  obtain d where d: "dquantize working_context ROUND_HALF_UP p (- 2) = Inr d"
    using dquantize_total [of p 35 "- 2" working_context ROUND_HALF_UP] assms by auto
  have "(10::rat) powi (- 2) = 1 / 100" by (simp add: power_int_minus)
  then show ?thesis using dquantize_Inr [OF d] by (simp add: percent_result_def d)
qed

lemma times_100_rel:
  assumes "\<bar>dval q - x\<bar> \<le> \<bar>x\<bar> * (15 * hu)"
  shows "\<bar>dval (dmul working_context q dec_100_0) - 100 * x\<bar> \<le> \<bar>100 * x\<bar> / 10 ^ 36"
proof -
  have "\<bar>dval (dmul working_context q dec_100_0) - x * 100\<bar> \<le> \<bar>x * 100\<bar> * (15 * hu + hu + 15 * hu * hu)"
  proof (rule rel_error_trans)
    show "\<bar>dval q * 100 - x * 100\<bar> \<le> \<bar>x * 100\<bar> * (15 * hu)"
    proof -
      have "\<bar>dval q * 100 - x * 100\<bar> = \<bar>dval q - x\<bar> * 100"
        by (simp only: left_diff_distrib [symmetric] abs_mult abs_numeral)
      moreover have "\<bar>dval q - x\<bar> * 100 \<le> \<bar>x\<bar> * (15 * hu) * 100"
        using assms by (rule mult_right_mono) simp
      ultimately show ?thesis by (simp add: abs_mult mult_ac)
    qed
    show "\<bar>dval (dmul working_context q dec_100_0) - dval q * 100\<bar> \<le> \<bar>dval q * 100\<bar> * hu"
      using dmul_rel [of working_context q dec_100_0] by simp
  qed simp
  also have "\<dots> \<le> \<bar>x * 100\<bar> * (1 / 10 ^ 36)"
    by (intro mult_left_mono) (simp_all add: hu_eq)
  finally show ?thesis by (simp add: mult.commute)
qed

lemma percent_tail:
  assumes "\<bar>dval q - x\<bar> \<le> \<bar>x\<bar> * (15 * hu)" "\<bar>x\<bar> \<le> 9 * 10 ^ 32"
  shows "\<exists>r. percent_result (dmul working_context q dec_100_0) = Inr r \<and>
    percent_of (100 * x) r (\<bar>100 * x\<bar> / 10 ^ 36)"
proof -
  let ?p = "dmul working_context q dec_100_0"
  have err: "\<bar>dval ?p - 100 * x\<bar> \<le> \<bar>100 * x\<bar> / 10 ^ 36" using assms(1) by (rule times_100_rel)
  have x: "\<bar>100 * x\<bar> \<le> 9 * 10 ^ 34" using assms(2) by (simp add: abs_mult)
  then have "\<bar>100 * x\<bar> / 10 ^ 36 \<le> 1" by simp
  with x err have "\<bar>dval ?p\<bar> \<le> 9 * 10 ^ 34 + 1" by linarith
  then have "\<bar>dval ?p\<bar> < 10 ^ 35" by simp
  then show ?thesis using percent_result_ok [of ?p] err by (auto simp: percent_of_def)
qed

section \<open>The ratio formulas on stored values\<close>

text \<open>A value of the fact store, a column of type \<open>NUMERIC(28, 6)\<close>.\<close>

abbreviation stored :: "dec \<Rightarrow> bool" where "stored \<equiv> is_numeric 28 6"

lemma stored_bounds:
  assumes "stored d"
  shows "\<bar>dval d\<bar> \<le> 10 ^ 22" and "\<not> is_zero d \<Longrightarrow> 1 / 10 ^ 6 \<le> \<bar>dval d\<bar>"
  using is_numeric_abs [OF assms] by simp_all

lemma ratio_bound:
  fixes x y :: rat
  assumes "\<bar>x\<bar> \<le> A" "B \<le> \<bar>y\<bar>" "0 < B" "0 \<le> A"
  shows "\<bar>x / y\<bar> \<le> A / B"
  unfolding abs_divide using assms by (intro frac_le) simp_all

lemma quotient_core:
  assumes "\<bar>dval a - v\<bar> \<le> \<bar>v\<bar> * (2 * hu)" "\<bar>dval b - w\<bar> \<le> \<bar>w\<bar> * (2 * hu)" "w \<noteq> 0"
    "ddiv working_context a b = Inr q"
  shows "\<bar>dval q - v / w\<bar> \<le> \<bar>v / w\<bar> * (11 * hu)"
proof -
  have ab: "\<bar>dval a / dval b - v / w\<bar> \<le> \<bar>v / w\<bar> * (2 * (2 * hu + 2 * hu))"
    using assms(1-3) by (rule rel_div) (simp_all add: hu_eq)
  have "\<bar>dval q - dval a / dval b\<bar> \<le> \<bar>dval a / dval b\<bar> * (2 * hu)"
    using assms(4) by (rule ddiv_rel) simp
  from rel_error_trans [OF ab this]
  have "\<bar>dval q - v / w\<bar> \<le> \<bar>v / w\<bar> * (2 * (2 * hu + 2 * hu) + 2 * hu + 2 * (2 * hu + 2 * hu) * (2 * hu))"
    by simp
  also have "\<dots> \<le> \<bar>v / w\<bar> * (11 * hu)"
    by (intro mult_left_mono) (simp_all add: hu_eq)
  finally show ?thesis .
qed

text \<open>Two inputs that pass every guard of a two-input formula.\<close>

definition pair_ok :: "inputs \<Rightarrow> string \<Rightarrow> string \<Rightarrow> fact_input \<Rightarrow> fact_input \<Rightarrow> bool" where
  "pair_ok inputs r1 r2 a b \<longleftrightarrow>
     map_of inputs r1 = Some a \<and> map_of inputs r2 = Some b \<and>
     in_unit a = in_unit b \<and> supported_unit (in_unit a) \<and>
     in_currency a = in_currency b \<and> in_scale a = in_scale b \<and>
     stored (in_value a) \<and> stored (in_value b)"

lemma deq_zero_iff [simp]: "deq b dec_0_0 \<longleftrightarrow> is_zero b"
  by (simp add: deq_iff)

lemma stored_ratio_bound:
  assumes "stored v" "stored w" "\<not> is_zero w"
  shows "\<bar>dval v / dval w\<bar> \<le> 10 ^ 28"
  using ratio_bound [of "dval v" "10 ^ 22" "1 / 10 ^ 6" "dval w"] stored_bounds [OF assms(1)]
    stored_bounds(2) [OF assms(2,3)] by simp

lemma pair_quotient:
  assumes "pair_ok inputs r1 r2 a b" "\<not> is_zero (in_value b)"
  obtains x y q where
    "to_working_fraction (in_value a) (in_unit a) = Inr x"
    "to_working_fraction (in_value b) (in_unit b) = Inr y"
    "\<not> is_zero y" "ddiv working_context x y = Inr q"
    "\<bar>dval q - dval (in_value a) / dval (in_value b)\<bar> \<le> \<bar>dval (in_value a) / dval (in_value b)\<bar> * (11 * hu)"
proof -
  let ?k = "unit_factor (in_unit a)"
  have u: "supported_unit (in_unit a)" "in_unit b = in_unit a"
    using assms(1) by (auto simp: pair_ok_def)
  obtain x where x: "to_working_fraction (in_value a) (in_unit a) = Inr x"
    "\<bar>dval x - dval (in_value a) * ?k\<bar> \<le> \<bar>dval (in_value a) * ?k\<bar> * (2 * hu)"
    using to_working_fraction_ok [OF u(1)] by blast
  obtain y where y: "to_working_fraction (in_value b) (in_unit a) = Inr y"
    "\<bar>dval y - dval (in_value b) * ?k\<bar> \<le> \<bar>dval (in_value b) * ?k\<bar> * (2 * hu)"
    using to_working_fraction_ok [OF u(1)] by blast
  have k: "?k \<noteq> 0" using unit_factor_pos [of "in_unit a"] by linarith
  then have w: "dval (in_value b) * ?k \<noteq> 0" using assms(2) by simp
  have "\<not> is_zero y" using working_zero_iff [OF y(2)] w by simp
  moreover from this obtain q where q: "ddiv working_context x y = Inr q" using ddiv_total by blast
  moreover have "\<bar>dval q - dval (in_value a) / dval (in_value b)\<bar> \<le> \<bar>dval (in_value a) / dval (in_value b)\<bar> * (11 * hu)"
    using quotient_core [OF x(2) y(2) w q] k by simp
  ultimately show ?thesis using that x(1) y(1) u(2) by simp
qed

lemma pair_ok_guards:
  assumes "pair_ok inputs r1 r2 a b"
  shows "map_of inputs r1 = Some a" "map_of inputs r2 = Some b"
    "\<not> falsy_str (in_unit a)" "\<not> falsy_str (in_unit b)" "in_unit a = in_unit b"
    "in_currency a = in_currency b" "in_scale a = in_scale b"
  using assms supported_not_falsy by (auto simp: pair_ok_def)

lemma npl_is_ldr: "npl_ratio_calculate = loan_to_deposit_calculate"
  by (intro ext) (simp add: npl_ratio_calculate_def loan_to_deposit_calculate_def)

lemma ldr_accurate:
  assumes "pair_ok inputs ''NUMERATOR'' ''DENOMINATOR'' a b" "\<not> is_zero (in_value b)"
  shows "\<exists>r. loan_to_deposit_calculate inputs ann = Inr r \<and>
    percent_of (100 * (dval (in_value a) / dval (in_value b))) r
      (\<bar>100 * (dval (in_value a) / dval (in_value b))\<bar> / 10 ^ 36)"
proof -
  let ?x = "dval (in_value a) / dval (in_value b)"
  obtain x y q where h: "to_working_fraction (in_value a) (in_unit a) = Inr x"
    "to_working_fraction (in_value b) (in_unit b) = Inr y" "\<not> is_zero y"
    "ddiv working_context x y = Inr q" "\<bar>dval q - ?x\<bar> \<le> \<bar>?x\<bar> * (11 * hu)"
    using pair_quotient [OF assms] by blast
  have "\<bar>?x\<bar> * (11 * hu) \<le> \<bar>?x\<bar> * (15 * hu)" by (intro mult_left_mono) simp_all
  with h(5) have q: "\<bar>dval q - ?x\<bar> \<le> \<bar>?x\<bar> * (15 * hu)" by linarith
  have "\<bar>?x\<bar> \<le> 10 ^ 28" using assms by (intro stored_ratio_bound) (simp_all add: pair_ok_def)
  then have "\<bar>?x\<bar> \<le> 9 * 10 ^ 32" by simp
  note tail = percent_tail [OF q this]
  have "loan_to_deposit_calculate inputs ann = percent_result (dmul working_context q dec_100_0)"
    using pair_ok_guards [OF assms(1)] h unfolding loan_to_deposit_calculate_def by simp
  with tail show ?thesis by simp
qed

lemma rat_tri: "\<bar>a - c\<bar> \<le> \<bar>a - b\<bar> + \<bar>b - c\<bar>" for a b c :: rat
  using abs_triangle_ineq [of "a - b" "b - c"] by simp

text \<open>The error of \<open>(q - 1) * 100\<close> when \<open>q\<close> is close to \<open>x\<close> and both operations round.\<close>

lemma growth_steps:
  fixes q x g :: rat
  assumes "\<bar>q - x\<bar> \<le> \<bar>x\<bar> * (11 * hu)" "\<bar>g - (q - 1)\<bar> \<le> \<bar>q - 1\<bar> * hu"
  shows "\<bar>g - (x - 1)\<bar> \<le> 13 * hu * (\<bar>x\<bar> + 1)" and "\<bar>g\<bar> \<le> 2 * (\<bar>x\<bar> + 1)"
proof -
  have "\<bar>x\<bar> * (11 * hu) \<le> \<bar>x\<bar> * 1" by (intro mult_left_mono) (simp_all add: hu_eq)
  then have "\<bar>q - x\<bar> \<le> \<bar>x\<bar>" using assms(1) by linarith
  then have q1: "\<bar>q - 1\<bar> \<le> 2 * (\<bar>x\<bar> + 1)"
    using abs_triangle_ineq4 [of q 1] abs_triangle_ineq2 [of q x] abs_ge_zero [of x] by simp
  have "\<bar>g - (x - 1)\<bar> \<le> \<bar>q - 1\<bar> * hu + \<bar>x\<bar> * (11 * hu)"
    using rat_tri [of g "x - 1" "q - 1"] assms by simp
  also have "\<bar>q - 1\<bar> * hu \<le> 2 * (\<bar>x\<bar> + 1) * hu" using q1 by (rule mult_right_mono) simp
  also have "\<bar>x\<bar> * (11 * hu) \<le> (\<bar>x\<bar> + 1) * (11 * hu)" by (rule mult_right_mono) simp_all
  finally show gx: "\<bar>g - (x - 1)\<bar> \<le> 13 * hu * (\<bar>x\<bar> + 1)" by (simp add: algebra_simps)
  have "13 * hu * (\<bar>x\<bar> + 1) \<le> 1 * (\<bar>x\<bar> + 1)" by (intro mult_right_mono) (simp_all add: hu_eq)
  then show "\<bar>g\<bar> \<le> 2 * (\<bar>x\<bar> + 1)"
    using rat_tri [of g 0 "x - 1"] abs_triangle_ineq4 [of x 1] gx by simp
qed

lemma growth_error:
  fixes q x g p :: rat
  assumes "\<bar>q - x\<bar> \<le> \<bar>x\<bar> * (11 * hu)" "\<bar>g - (q - 1)\<bar> \<le> \<bar>q - 1\<bar> * hu"
    "\<bar>p - g * 100\<bar> \<le> \<bar>g * 100\<bar> * hu"
  shows "\<bar>p - 100 * (x - 1)\<bar> \<le> (\<bar>x\<bar> + 1) / 10 ^ 34"
proof -
  note gs = growth_steps [OF assms(1,2)]
  have "\<bar>p - 100 * (x - 1)\<bar> \<le> \<bar>p - g * 100\<bar> + \<bar>g * 100 - (x - 1) * 100\<bar>"
    using rat_tri [of p "100 * (x - 1)" "g * 100"] by (simp add: mult.commute)
  also have "\<bar>g * 100 - (x - 1) * 100\<bar> = \<bar>g - (x - 1)\<bar> * 100"
    by (simp only: left_diff_distrib [symmetric] abs_mult abs_numeral)
  also have "\<bar>p - g * 100\<bar> + \<bar>g - (x - 1)\<bar> * 100 \<le> 2 * (\<bar>x\<bar> + 1) * 100 * hu + 13 * hu * (\<bar>x\<bar> + 1) * 100"
  proof (rule add_mono)
    have "\<bar>p - g * 100\<bar> \<le> \<bar>g\<bar> * (100 * hu)" using assms(3) by (simp add: abs_mult mult.assoc)
    also have "\<dots> \<le> 2 * (\<bar>x\<bar> + 1) * (100 * hu)" using gs(2) by (rule mult_right_mono) simp
    finally show "\<bar>p - g * 100\<bar> \<le> 2 * (\<bar>x\<bar> + 1) * 100 * hu" by (simp add: algebra_simps)
    show "\<bar>g - (x - 1)\<bar> * 100 \<le> 13 * hu * (\<bar>x\<bar> + 1) * 100" using gs(1) by (rule mult_right_mono) simp
  qed
  also have "\<dots> = (\<bar>x\<bar> + 1) * (1500 * hu)" by (simp add: algebra_simps)
  also have "\<dots> \<le> (\<bar>x\<bar> + 1) * (1 / 10 ^ 34)" by (intro mult_left_mono) (simp_all add: hu_eq)
  finally show ?thesis by simp
qed

lemma growth_bound:
  fixes x p :: rat
  assumes "\<bar>p - 100 * (x - 1)\<bar> \<le> (\<bar>x\<bar> + 1) / 10 ^ 34" "\<bar>x\<bar> \<le> 10 ^ 32"
  shows "\<bar>p\<bar> < 10 ^ 35"
proof -
  have "\<bar>100 * (x - 1)\<bar> \<le> 100 * (\<bar>x\<bar> + 1)"
    using abs_triangle_ineq4 [of x 1] by (simp add: abs_mult)
  moreover have "\<bar>p - 100 * (x - 1)\<bar> \<le> \<bar>x\<bar> + 1"
    using assms(1) by (rule order_trans) simp
  ultimately have "\<bar>p\<bar> \<le> 101 * (\<bar>x\<bar> + 1)"
    using rat_tri [of p 0 "100 * (x - 1)"] by simp
  also have "\<dots> \<le> 101 * (10 ^ 32 + 1)" using assms(2) by simp
  finally show ?thesis by simp
qed

lemma growth_accurate:
  assumes "pair_ok inputs ''CURRENT_VALUE'' ''COMPARISON_VALUE'' a b" "\<not> is_zero (in_value b)"
  defines "x \<equiv> dval (in_value a) / dval (in_value b)"
  shows "\<exists>r. growth_rate_calculate inputs ann = Inr r \<and>
    percent_of (100 * (x - 1)) r ((\<bar>x\<bar> + 1) / 10 ^ 34)"
proof -
  obtain u v q where h: "to_working_fraction (in_value a) (in_unit a) = Inr u"
    "to_working_fraction (in_value b) (in_unit b) = Inr v" "\<not> is_zero v"
    "ddiv working_context u v = Inr q" "\<bar>dval q - x\<bar> \<le> \<bar>x\<bar> * (11 * hu)"
    using pair_quotient [OF assms(1,2)] unfolding x_def by blast
  let ?g = "dsub working_context q dec_1_0"
  let ?p = "dmul working_context ?g dec_100_0"
  have g: "\<bar>dval ?g - (dval q - 1)\<bar> \<le> \<bar>dval q - 1\<bar> * hu"
    using dadd_rel [of working_context q "dminus dec_1_0"] by (simp add: dsub_def)
  have p: "\<bar>dval ?p - dval ?g * 100\<bar> \<le> \<bar>dval ?g * 100\<bar> * hu"
    using dmul_rel [of working_context ?g dec_100_0] by simp
  note err = growth_error [OF h(5) g p]
  have "\<bar>x\<bar> \<le> 10 ^ 28"
    unfolding x_def using assms(1,2) by (intro stored_ratio_bound) (simp_all add: pair_ok_def)
  then have "\<bar>x\<bar> \<le> 10 ^ 32" by simp
  with err have "\<bar>dval ?p\<bar> < 10 ^ 35" by (rule growth_bound)
  from percent_result_ok [OF this] err
  have "\<exists>r. percent_result ?p = Inr r \<and> percent_of (100 * (x - 1)) r ((\<bar>x\<bar> + 1) / 10 ^ 34)"
    by (auto simp: percent_of_def)
  moreover have "growth_rate_calculate inputs ann = percent_result ?p"
    using pair_ok_guards [OF assms(1)] h unfolding growth_rate_calculate_def by (simp add: Let_def)
  ultimately show ?thesis by simp
qed

text \<open>Three inputs that pass every guard of a return formula. The unit of the income is not compared with
  the unit of the balances.\<close>

definition balance_ok :: "inputs \<Rightarrow> fact_input \<Rightarrow> fact_input \<Rightarrow> fact_input \<Rightarrow> bool" where
  "balance_ok inputs inc beg fin \<longleftrightarrow>
     map_of inputs ''PERIOD_INCOME'' = Some inc \<and> map_of inputs ''BEGINNING_BALANCE'' = Some beg \<and>
     map_of inputs ''ENDING_BALANCE'' = Some fin \<and>
     \<not> (in_id beg \<noteq> None \<and> in_id fin \<noteq> None \<and> in_id beg = in_id fin) \<and>
     supported_unit (in_unit inc) \<and> supported_unit (in_unit beg) \<and> in_unit beg = in_unit fin \<and>
     in_currency beg = in_currency fin \<and> in_currency inc = in_currency beg \<and>
     stored (in_value inc) \<and> stored (in_value beg) \<and> stored (in_value fin)"

definition annualization_of :: "dec option \<Rightarrow> dec" where
  "annualization_of ann = (case ann of None \<Rightarrow> dec_1_0 | Some f \<Rightarrow> f)"

definition average_balance :: "fact_input \<Rightarrow> fact_input \<Rightarrow> rat" where
  "average_balance beg fin = (dval (in_value beg) + dval (in_value fin)) / 2"

lemma times_factor:
  assumes "\<bar>dval q - x\<bar> \<le> \<bar>x\<bar> * (11 * hu)"
  shows "\<bar>dval (dmul working_context q f) - x * dval f\<bar> \<le> \<bar>x * dval f\<bar> * (15 * hu)"
proof -
  have "\<bar>dval q * dval f - x * dval f\<bar> = \<bar>dval q - x\<bar> * \<bar>dval f\<bar>"
    by (simp only: left_diff_distrib [symmetric] abs_mult)
  also have "\<dots> \<le> \<bar>x\<bar> * (11 * hu) * \<bar>dval f\<bar>" using assms by (rule mult_right_mono) simp
  finally have 1: "\<bar>dval q * dval f - x * dval f\<bar> \<le> \<bar>x * dval f\<bar> * (11 * hu)"
    by (simp add: abs_mult mult_ac)
  have 2: "\<bar>dval (dmul working_context q f) - dval q * dval f\<bar> \<le> \<bar>dval q * dval f\<bar> * hu"
    using dmul_rel [of working_context q f] by simp
  have "\<bar>dval (dmul working_context q f) - x * dval f\<bar> \<le> \<bar>x * dval f\<bar> * (11 * hu + hu + 11 * hu * hu)"
    by (rule rel_error_trans [OF 1 2]) simp
  also have "\<dots> \<le> \<bar>x * dval f\<bar> * (15 * hu)" by (intro mult_left_mono) (simp_all add: hu_eq)
  finally show ?thesis .
qed

lemma roe_is_roa: "return_on_equity_calculate = return_on_assets_calculate"
  by (intro ext) (simp add: return_on_equity_calculate_def return_on_assets_calculate_def)

lemma balance_ok_guards:
  assumes "balance_ok inputs inc beg fin"
  shows "map_of inputs ''PERIOD_INCOME'' = Some inc" "map_of inputs ''BEGINNING_BALANCE'' = Some beg"
    "map_of inputs ''ENDING_BALANCE'' = Some fin"
    "\<not> (in_id beg \<noteq> None \<and> in_id fin \<noteq> None \<and> in_id beg = in_id fin)"
    "\<not> falsy_str (in_unit inc)" "\<not> falsy_str (in_unit beg)" "\<not> falsy_str (in_unit fin)"
    "in_unit beg = in_unit fin" "in_currency beg = in_currency fin" "in_currency inc = in_currency beg"
  using assms supported_not_falsy by (auto simp: balance_ok_def)

section \<open>Which exceptions a formula raises\<close>

text \<open>Dividing a stored value by 100 is exact.\<close>

lemma strip_zeros_skip:
  "k \<le> n \<Longrightarrow> strip_zeros n (c * 10 ^ k) e = strip_zeros (n - k) c (e + int k)"
proof (induction k arbitrary: n e)
  case 0
  then show ?case by simp
next
  case (Suc k)
  then obtain m where n: "n = Suc m" by (cases n) auto
  have m: "c * 10 ^ Suc k mod 10 = 0" "c * 10 ^ Suc k div 10 = c * 10 ^ k" by simp_all
  have "strip_zeros n (c * 10 ^ Suc k) e = strip_zeros m (c * 10 ^ k) (e + 1)"
    unfolding n strip_zeros.simps(2) m by simp
  with Suc n show ?case by (simp add: add.commute add.left_commute)
qed

lemma strip_zeros_bounds: "strip_zeros n c e = (c', e') \<Longrightarrow> c' \<le> c \<and> e \<le> e' \<and> e' \<le> e + int n"
proof (induction n c e arbitrary: c' e' rule: strip_zeros.induct)
  case (1 c e)
  then show ?case by simp
next
  case (2 n c e)
  show ?case
  proof (cases "c mod 10 = 0")
    case True
    with 2 have "c' \<le> c div 10 \<and> e + 1 \<le> e' \<and> e' \<le> e + 1 + int n" by simp
    then show ?thesis using div_le_dividend [of c 10] by linarith
  qed (use 2 in simp)
qed

definition fine_value :: "dec \<Rightarrow> bool" where
  "fine_value d \<longleftrightarrow> dcoeff d < 10 ^ 28 \<and> - 8 \<le> dexp d \<and> dexp d \<le> - 5 \<and> \<bar>dval d\<bar> \<le> 10 ^ 22"

lemma stored_fine: "stored d \<Longrightarrow> fine_value d"
  using stored_bounds(1) [of d] by (simp add: fine_value_def is_numeric_def)

lemma ndigits_1000 [simp]: "ndigits 1000 = 4"
  by (simp add: ndigits.simps)

lemma stored_percent_fine:
  assumes "stored v" "ddiv working_context v dec_100_0 = Inr a"
  shows "fine_value a \<and> dval a = dval v / 100"
proof (cases "is_zero v")
  case True
  with assms have "a = Dec (dsign v) 0 (- 5)"
    by (simp add: ddiv_def dec_100_0_def is_numeric_def dfix_id Let_def)
  then show ?thesis using True by (simp add: fine_value_def)
next
  case False
  define c where "c = dcoeff v"
  define sh where "sh = nat (div_shift working_context v dec_100_0)"
  have v: "dexp v = - 6" "c < 10 ^ 28" "0 < c"
    using assms(1) False by (auto simp: is_numeric_def c_def is_zero_def)
  have nd: "ndigits c \<le> 28" using v(2) by (simp add: ndigits_le_iff)
  have shift: "div_shift working_context v dec_100_0 = int sh" and sh: "3 \<le> sh"
    using nd by (auto simp: sh_def div_shift_def dec_100_0_def c_def)
  have pow: "(10::nat) ^ sh = 10 ^ (sh - 3) * 1000"
    using sh power_add [of "10::nat" "sh - 3" 3] by simp
  have num: "div_num (int sh) c = c * 10 ^ (sh - 3) * 1000" and den: "div_den (int sh) 1000 = 1000"
    using pow by (simp_all add: div_num_def div_den_def)
  have dv: "div_num (int sh) c div div_den (int sh) 1000 = c * 10 ^ (sh - 3)"
    "div_num (int sh) c mod div_den (int sh) 1000 = 0"
    unfolding num den by simp_all
  obtain c' e' where sz: "strip_zeros 3 c (- 8) = (c', e')" by fastforce
  have skip: "strip_zeros sh (c * 10 ^ (sh - 3)) (- 5 - int sh) = (c', e')"
    using strip_zeros_skip [of "sh - 3" sh c "- 5 - int sh"] sh sz by (simp add: of_nat_diff)
  have b: "c' < 10 ^ 28" "- 8 \<le> e'" using strip_zeros_bounds [OF sz] v(2) by simp_all
  have e': "e' \<le> - 5" using strip_zeros_bounds [OF sz] by simp
  have "dfix working_context (Dec (dsign v) c' e') = Dec (dsign v) c' e'"
    using b by (intro dfix_id) simp_all
  then have a: "a = Dec (dsign v) c' e'"
    using assms(2) False shift dv skip v(1)
    by (simp add: ddiv_def dec_100_0_def Let_def flip: c_def)
  have "of_nat c' * 10 powi e' = (of_nat c * 10 powi - 8 :: rat)"
    using strip_zeros_value [OF sz] by simp
  note cc = this
  moreover have "(10::rat) powi - 8 = 1 / 10 ^ 8" by (simp add: power_int_minus)
  ultimately have "\<bar>dval a\<bar> = of_nat c / 10 ^ 8"
    unfolding a abs_dval_Dec by (simp only: times_divide_eq_right mult_1_right)
  also have "(of_nat c :: rat) / 10 ^ 8 \<le> 10 ^ 28 / 10 ^ 8"
  proof (rule divide_right_mono)
    have "of_nat c < (of_nat (10 ^ 28) :: rat)" using v(2) by (simp only: of_nat_less_iff)
    then show "of_nat c \<le> (10 ^ 28 :: rat)" by simp
  qed simp
  finally have fine: "fine_value a" using b e' by (simp add: fine_value_def a)
  have "dval a = dval v / 100"
    using cc v(1) by (cases v) (simp add: a dval_Dec c_def power_int_minus mult.assoc)
  with fine show ?thesis ..
qed


lemma fine_sum:
  assumes "fine_value a" "fine_value b"
  defines "s \<equiv> dadd working_context a b"
  shows "dval s = dval a + dval b" and "\<not> is_zero s \<Longrightarrow> 1 / 10 ^ 8 \<le> \<bar>dval s\<bar>"
proof -
  define m where "m = min (dexp a) (dexp b)"
  define n where "n = signed_coeff a * 10 ^ nat (dexp a - m) + signed_coeff b * 10 ^ nat (dexp b - m)"
  have m: "- 8 \<le> m" "m \<le> - 5" using assms(1,2) by (auto simp: m_def fine_value_def)
  have part: "\<bar>signed_coeff d * 10 ^ nat (dexp d - m)\<bar> \<le> 10 ^ 31" if "fine_value d" "m \<le> dexp d" for d
  proof -
    have "nat (dexp d - m) \<le> 3" using that(1) m unfolding fine_value_def by linarith
    then have "(10::int) ^ nat (dexp d - m) \<le> 10 ^ 3" by (intro power_increasing) simp_all
    moreover have "\<bar>signed_coeff d\<bar> \<le> 10 ^ 28"
    proof -
      have "int (dcoeff d) < int (10 ^ 28)" using that(1) unfolding fine_value_def by (simp only: of_nat_less_iff)
      then show ?thesis by (simp add: signed_coeff_def abs_mult)
    qed
    ultimately have "\<bar>signed_coeff d\<bar> * 10 ^ nat (dexp d - m) \<le> 10 ^ 28 * 10 ^ 3"
      by (intro mult_mono) simp_all
    then show ?thesis by (simp add: abs_mult)
  qed
  have "\<bar>n\<bar> \<le> 2 * 10 ^ 31"
    using part [OF assms(1)] part [OF assms(2)] unfolding n_def m_def by linarith
  then have "nat \<bar>n\<bar> < 10 ^ 38" by simp
  then have s: "s = Dec (if n = 0 then dsign a \<and> dsign b else n < 0) (nat \<bar>n\<bar>) m"
    unfolding s_def dadd_def Let_def m_def [symmetric] n_def [symmetric] by (intro dfix_id) simp_all
  have v: "dval s = of_int n * 10 powi m"
    by (simp add: s dval_signed)
  moreover have "of_int n * 10 powi m = dval a + dval b"
  proof -
    have "m \<le> dexp a" "m \<le> dexp b" by (simp_all add: m_def)
    then show ?thesis unfolding n_def of_int_add distrib_right dval_def by (simp only: dval_shift)
  qed
  ultimately show "dval s = dval a + dval b" by simp
  assume "\<not> is_zero s"
  then have "1 \<le> \<bar>n\<bar>" by (simp add: s)
  then have "1 \<le> \<bar>of_int n :: rat\<bar>" by (metis of_int_1_le_iff of_int_abs)
  moreover have "(10::rat) powi - 8 \<le> 10 powi m" using m by (intro power_int_increasing) simp_all
  ultimately have "1 * (10::rat) powi - 8 \<le> \<bar>of_int n\<bar> * 10 powi m" by (intro mult_mono) simp_all
  then show "1 / 10 ^ 8 \<le> \<bar>dval s\<bar>" unfolding v by (simp add: abs_mult power_int_minus)
qed


text \<open>The guards of the formulas, the only exceptions they raise on stored values.\<close>

definition formula_guards :: "string list" where
  "formula_guards = [''INSUFFICIENT_INPUT_FACTS'', ''DUPLICATE_BALANCE_INPUT'', ''UNIT_MISMATCH'',
     ''CURRENCY_MISMATCH'', ''SCALE_NORMALIZATION_ERROR'', ''DIVISION_BY_ZERO'']"

definition guarded :: "py_exc + 'a \<Rightarrow> bool" where
  "guarded r \<longleftrightarrow> (case r of Inr _ \<Rightarrow> True | Inl (ValueError m) \<Rightarrow> m \<in> set formula_guards | _ \<Rightarrow> False)"

lemma guarded_Inr [simp]: "guarded (Inr x)"
  by (simp add: guarded_def)

lemma guarded_ValueError: "m \<in> set formula_guards \<Longrightarrow> guarded (Inl (ValueError m))"
  by (simp add: guarded_def)

lemma guarded_bind:
  "guarded m \<Longrightarrow> (\<And>x. m = Inr x \<Longrightarrow> guarded (f x)) \<Longrightarrow> guarded (bindE m f)"
  by (cases m) (auto simp: guarded_def split: py_exc.splits)

lemma guarded_steps:
  "m \<in> set formula_guards \<Longrightarrow> guarded (raise_val b m)"
  "m \<in> set formula_guards \<Longrightarrow> guarded (require_some (ValueError m) r)"
  by (cases b; simp add: guarded_ValueError) (cases r; simp add: guarded_ValueError)

lemma in_formula_guards [simp]:
  "''INSUFFICIENT_INPUT_FACTS'' \<in> set formula_guards" "''DUPLICATE_BALANCE_INPUT'' \<in> set formula_guards"
  "''UNIT_MISMATCH'' \<in> set formula_guards" "''CURRENCY_MISMATCH'' \<in> set formula_guards"
  "''SCALE_NORMALIZATION_ERROR'' \<in> set formula_guards" "''DIVISION_BY_ZERO'' \<in> set formula_guards"
  by (simp_all add: formula_guards_def)

lemma to_working_fraction_cases:
  "to_working_fraction v u =
     (if u = Some ''PERCENT'' then ddiv working_context v dec_100_0
      else if plain_unit u then Inr v else Inl (ValueError ''UNIT_MISMATCH''))"
  by (auto simp: to_working_fraction_def plain_unit_def)

lemma to_working_fraction_guarded [simp]: "guarded (to_working_fraction v u)"
  using ddiv_total [of dec_100_0 working_context v]
  by (auto simp: to_working_fraction_cases guarded_ValueError)

lemma to_working_fraction_exact:
  "stored v \<Longrightarrow> to_working_fraction v u = Inr a \<Longrightarrow> fine_value a \<and> dval a = dval v * unit_factor u"
  using stored_percent_fine [of v a]
  by (auto simp: to_working_fraction_cases stored_fine unit_factor_def split: if_splits)

lemma to_working_fraction_fine: "stored v \<Longrightarrow> to_working_fraction v u = Inr a \<Longrightarrow> fine_value a"
  using to_working_fraction_exact by blast

lemma ddiv_guarded: "\<not> is_zero b \<Longrightarrow> guarded (ddiv ctx a b)"
  using ddiv_total [of b ctx a] by auto

lemma fine_lower: "fine_value b \<Longrightarrow> \<not> is_zero b \<Longrightarrow> 1 / 10 ^ 8 \<le> \<bar>dval b\<bar>"
proof -
  assume b: "fine_value b" "\<not> is_zero b"
  then have "1 \<le> dcoeff b" "- 8 \<le> dexp b" by (auto simp: fine_value_def is_zero_def)
  then have "1 * (10::rat) powi - 8 \<le> of_nat (dcoeff b) * 10 powi dexp b"
    by (intro mult_mono power_int_increasing) simp_all
  then show ?thesis by (simp add: abs_dval power_int_minus)
qed

lemma wide_quotient:
  assumes "\<bar>dval q - x\<bar> \<le> \<bar>x\<bar> * (11 * hu)" "\<bar>x\<bar> \<le> 2 * 10 ^ 30"
  shows "guarded (percent_result (dmul working_context q dec_100_0))"
proof -
  have "\<bar>x\<bar> * (11 * hu) \<le> \<bar>x\<bar> * (15 * hu)" by (intro mult_left_mono) simp_all
  then have "\<bar>dval q - x\<bar> \<le> \<bar>x\<bar> * (15 * hu)" using assms(1) by linarith
  from percent_tail [OF this] assms(2) show ?thesis by force
qed

lemma fine_quotient:
  assumes "fine_value a" "fine_value b" "\<not> is_zero b" "ddiv working_context a b = Inr q"
  shows "\<bar>dval q - dval a / dval b\<bar> \<le> \<bar>dval a / dval b\<bar> * (11 * hu)"
    "\<bar>dval a / dval b\<bar> \<le> 2 * 10 ^ 30"
proof -
  show "\<bar>dval q - dval a / dval b\<bar> \<le> \<bar>dval a / dval b\<bar> * (11 * hu)"
    using assms(3,4) by (intro quotient_core) simp_all
  have "\<bar>dval a / dval b\<bar> \<le> 10 ^ 22 / (1 / 10 ^ 8)"
    using assms(1) fine_lower [OF assms(2,3)] by (intro ratio_bound) (simp_all add: fine_value_def)
  then show "\<bar>dval a / dval b\<bar> \<le> 2 * 10 ^ 30" by simp
qed

lemma growth_guarded:
  assumes "\<bar>dval q - x\<bar> \<le> \<bar>x\<bar> * (11 * hu)" "\<bar>x\<bar> \<le> 2 * 10 ^ 30"
  shows "guarded (percent_result (dmul working_context (dsub working_context q dec_1_0) dec_100_0))"
proof -
  let ?g = "dsub working_context q dec_1_0"
  let ?p = "dmul working_context ?g dec_100_0"
  have g: "\<bar>dval ?g - (dval q - 1)\<bar> \<le> \<bar>dval q - 1\<bar> * hu"
    using dadd_rel [of working_context q "dminus dec_1_0"] by (simp add: dsub_def)
  have p: "\<bar>dval ?p - dval ?g * 100\<bar> \<le> \<bar>dval ?g * 100\<bar> * hu"
    using dmul_rel [of working_context ?g dec_100_0] by simp
  have "\<bar>x\<bar> \<le> 10 ^ 32" using assms(2) by simp
  with growth_error [OF assms(1) g p] have "\<bar>dval ?p\<bar> < 10 ^ 35" by (rule growth_bound)
  from percent_result_ok [OF this] show ?thesis by auto
qed

text \<open>The last steps of a return formula, on the working fractions.\<close>

lemma roa_tail:
  assumes "fine_value i" "fine_value b" "fine_value e" "\<bar>dval f\<bar> \<le> 400"
    and a: "ddiv working_context (dadd working_context b e) dec_2_0 = Inr a" "\<not> is_zero a"
    and q: "ddiv working_context i a = Inr q"
  defines "x \<equiv> dval i / ((dval b + dval e) / 2) * dval f"
  shows "\<exists>r. percent_result (dmul working_context (dmul working_context q f) dec_100_0) = Inr r \<and>
    percent_of (100 * x) r (\<bar>100 * x\<bar> / 10 ^ 36)"
proof -
  define s where "s = dadd working_context b e"
  define A where "A = (dval b + dval e) / 2"
  have ds: "dval s = dval b + dval e" using fine_sum(1) [OF assms(2,3)] by (simp add: s_def)
  have ar: "\<bar>dval a - A\<bar> \<le> \<bar>A\<bar> * (2 * hu)"
    unfolding A_def using ddiv_rel [OF a(1)] ds by (simp add: s_def)
  have A0: "A \<noteq> 0" using working_zero_iff [OF ar] a(2) by simp
  then have "\<not> is_zero s" unfolding A_def by (metis ds dval_eq_0_iff divide_eq_0_iff)
  then have A: "1 / 10 ^ 8 / 2 \<le> \<bar>A\<bar>" using fine_sum(2) [OF assms(2,3)] ds by (simp add: A_def s_def)
  let ?y = "dval i / A"
  have "\<bar>dval q - ?y\<bar> \<le> \<bar>?y\<bar> * (11 * hu)"
    using ar A0 q by (intro quotient_core) simp_all
  from times_factor [OF this] have t: "\<bar>dval (dmul working_context q f) - x\<bar> \<le> \<bar>x\<bar> * (15 * hu)"
    by (simp only: x_def A_def)
  have "\<bar>?y\<bar> \<le> 10 ^ 22 / (1 / 10 ^ 8 / 2)"
    using assms(1) A by (intro ratio_bound) (simp_all add: fine_value_def)
  then have "\<bar>?y * dval f\<bar> \<le> 10 ^ 22 / (1 / 10 ^ 8 / 2) * 400"
    unfolding abs_mult using assms(4) by (intro mult_mono) simp_all
  also have "\<dots> \<le> 9 * 10 ^ 32" by simp
  finally have "\<bar>x\<bar> \<le> 9 * 10 ^ 32" by (simp only: x_def A_def)
  from percent_tail [OF t this] show ?thesis .
qed

lemma roa_guarded_tail:
  assumes "fine_value i" "fine_value b" "fine_value e" "\<bar>dval f\<bar> \<le> 400"
    and "ddiv working_context (dadd working_context b e) dec_2_0 = Inr a" "\<not> is_zero a"
    and "ddiv working_context i a = Inr q"
  shows "guarded (percent_result (dmul working_context (dmul working_context q f) dec_100_0))"
  using roa_tail [OF assms] by force

lemma roa_accurate:
  assumes ok: "balance_ok inputs inc beg fin" and nz: "average_balance beg fin \<noteq> 0"
    and f: "\<bar>dval (annualization_of ann)\<bar> \<le> 400"
  defines "x \<equiv> dval (in_value inc) * unit_factor (in_unit inc) /
     (average_balance beg fin * unit_factor (in_unit beg)) * dval (annualization_of ann)"
  shows "\<exists>r. return_on_assets_calculate inputs ann = Inr r \<and> percent_of (100 * x) r (\<bar>100 * x\<bar> / 10 ^ 36)"
proof -
  have st: "stored (in_value inc)" "stored (in_value beg)" "stored (in_value fin)"
    and un: "supported_unit (in_unit inc)" "supported_unit (in_unit beg)" "in_unit fin = in_unit beg"
    using ok by (auto simp: balance_ok_def)
  obtain i b e where w: "to_working_fraction (in_value inc) (in_unit inc) = Inr i"
      "to_working_fraction (in_value beg) (in_unit beg) = Inr b"
      "to_working_fraction (in_value fin) (in_unit fin) = Inr e"
    using to_working_fraction_ok un by metis
  have fine: "fine_value i" "fine_value b" "fine_value e" and v: "dval i = dval (in_value inc) * unit_factor (in_unit inc)"
      "dval b = dval (in_value beg) * unit_factor (in_unit beg)" "dval e = dval (in_value fin) * unit_factor (in_unit beg)"
    using to_working_fraction_exact [OF st(1) w(1)] to_working_fraction_exact [OF st(2) w(2)]
      to_working_fraction_exact [OF st(3) w(3)] un(3) by simp_all
  have avg: "(dval b + dval e) / 2 = average_balance beg fin * unit_factor (in_unit beg)"
    by (simp add: v average_balance_def algebra_simps)
  obtain a where a: "ddiv working_context (dadd working_context b e) dec_2_0 = Inr a"
    using ddiv_total consts_not_zero(2) by blast
  have "(dval b + dval e) / 2 \<noteq> 0" using nz unit_factor_pos [of "in_unit beg"] unfolding avg by (simp del: unit_factor_pos)
  moreover have "\<bar>dval a - (dval b + dval e) / 2\<bar> \<le> \<bar>(dval b + dval e) / 2\<bar> * (2 * hu)"
    using ddiv_rel [OF a] fine_sum(1) [OF fine(2,3)] by simp
  ultimately have az: "\<not> is_zero a" using working_zero_iff by blast
  then obtain q where q: "ddiv working_context i a = Inr q" using ddiv_total by blast
  have "return_on_assets_calculate inputs ann =
      percent_result (dmul working_context (dmul working_context q (annualization_of ann)) dec_100_0)"
    using balance_ok_guards [OF ok] w a az q
    unfolding return_on_assets_calculate_def annualization_of_def by (auto simp: Let_def)
  then show ?thesis using roa_tail [OF fine f a az q] unfolding x_def avg [symmetric] v(1) [symmetric] by simp
qed

definition inputs_stored :: "inputs \<Rightarrow> bool" where
  "inputs_stored inputs \<longleftrightarrow> (\<forall>(r, f) \<in> set inputs. stored (in_value f))"

lemma inputs_storedD: "inputs_stored inputs \<Longrightarrow> map_of inputs r = Some f \<Longrightarrow> stored (in_value f)"
  by (auto simp: inputs_stored_def dest!: map_of_SomeD)

lemma inputs_fine:
  "to_working_fraction (in_value f) u = Inr a \<Longrightarrow> map_of inputs r = Some f \<Longrightarrow> inputs_stored inputs \<Longrightarrow>
    fine_value a"
  using inputs_storedD to_working_fraction_fine by blast

lemma ldr_guarded: "inputs_stored inputs \<Longrightarrow> guarded (loan_to_deposit_calculate inputs ann)"
  unfolding loan_to_deposit_calculate_def
  by (intro guarded_bind guarded_steps in_formula_guards to_working_fraction_guarded ddiv_guarded)
    (auto intro!: wide_quotient fine_quotient intro: inputs_fine)

lemma growth_calc_guarded: "inputs_stored inputs \<Longrightarrow> guarded (growth_rate_calculate inputs ann)"
  unfolding growth_rate_calculate_def Let_def
  by (intro guarded_bind guarded_steps in_formula_guards to_working_fraction_guarded ddiv_guarded)
    (auto intro!: growth_guarded fine_quotient intro: inputs_fine)

lemma roa_calc_guarded:
  "inputs_stored inputs \<Longrightarrow> \<bar>dval (annualization_of ann)\<bar> \<le> 400 \<Longrightarrow>
    guarded (return_on_assets_calculate inputs ann)"
  unfolding return_on_assets_calculate_def Let_def annualization_of_def [symmetric]
  by (intro guarded_bind guarded_steps in_formula_guards to_working_fraction_guarded ddiv_guarded)
    (auto intro!: roa_guarded_tail [rotated 4] intro: inputs_fine)

section \<open>Properties\<close>

text \<open>Concrete inputs for the witnesses.\<close>

definition sample_fact :: "uuid \<Rightarrow> dec \<Rightarrow> fact_input" where
  "sample_fact i v = \<lparr>in_id = Some i, in_candidate_id = None, in_metric_code = None, in_value = v,
     in_currency = Some ''GEL'', in_unit = Some ''CURRENCY'', in_scale = Some ''ONE'',
     in_basis = Some ''SOLO''\<rparr>"

lemmas sample_simps = sample_fact_def pair_ok_def balance_ok_def supported_unit_def plain_unit_def
  is_numeric_def is_zero_def annualization_of_def average_balance_def

text \<open>C22: on two stored inputs of one supported unit, currency and scale and a nonzero denominator,
  the loan-to-deposit and the NPL ratio return a result; the unrounded value is within a relative
  \<open>10^-36\<close> of \<open>100 * numerator / denominator\<close> and the display value is it rounded to hundredths
  (within half a hundredth, at exponent -2, the code's \<open>display_precision\<close>; ADR-008 and the data model
  ask for percentages at 0.0001).\<close>

theorem ratio_formulas_accurate:
  assumes "f = LoanToDepositRatioFormula \<or> f = NplRatioFormula"
    and "pair_ok inputs ''NUMERATOR'' ''DENOMINATOR'' a b" and "\<not> is_zero (in_value b)"
  shows "\<exists>r. calculate f inputs ann = Inr r \<and>
    percent_of (100 * (dval (in_value a) / dval (in_value b))) r
      (\<bar>100 * (dval (in_value a) / dval (in_value b))\<bar> / 10 ^ 36)"
  using assms ldr_accurate by (auto simp: npl_is_ldr)

lemma ratio_formulas_accurate_witness:
  "\<exists>r. calculate NplRatioFormula [(''NUMERATOR'', sample_fact 1 (Dec False 5000000 (-6))),
      (''DENOMINATOR'', sample_fact 2 (Dec False 80000000 (-6)))] None = Inr r \<and>
    percent_of (100 * (dval (Dec False 5000000 (-6)) / dval (Dec False 80000000 (-6)))) r
      (\<bar>100 * (dval (Dec False 5000000 (-6)) / dval (Dec False 80000000 (-6)))\<bar> / 10 ^ 36)"
  using ratio_formulas_accurate [of NplRatioFormula
      "[(''NUMERATOR'', sample_fact 1 (Dec False 5000000 (-6))), (''DENOMINATOR'', sample_fact 2 (Dec False 80000000 (-6)))]"
      "sample_fact 1 (Dec False 5000000 (-6))" "sample_fact 2 (Dec False 80000000 (-6))" None]
  by (simp add: sample_simps)

text \<open>C23: the growth rate of two stored values of one supported unit, currency and scale, with a
  nonzero comparison value, is within \<open>(|c / p| + 1) / 10^34\<close> of \<open>100 * (c / p - 1)\<close>, and
  its display value is it rounded to hundredths (where ADR-008 asks for 0.0001).\<close>

theorem growth_rate_accurate:
  assumes "pair_ok inputs ''CURRENT_VALUE'' ''COMPARISON_VALUE'' a b" and "\<not> is_zero (in_value b)"
  shows "\<exists>r. calculate GrowthRateFormula inputs ann = Inr r \<and>
    percent_of (100 * (dval (in_value a) / dval (in_value b) - 1)) r
      ((\<bar>dval (in_value a) / dval (in_value b)\<bar> + 1) / 10 ^ 34)"
  using growth_accurate [OF assms] by simp

lemma growth_rate_accurate_witness:
  "\<exists>r. calculate GrowthRateFormula [(''CURRENT_VALUE'', sample_fact 1 (Dec False 9000000 (-6))),
      (''COMPARISON_VALUE'', sample_fact 2 (Dec True 7000000 (-6)))] None = Inr r \<and>
    percent_of (100 * (dval (Dec False 9000000 (-6)) / dval (Dec True 7000000 (-6)) - 1)) r
      ((\<bar>dval (Dec False 9000000 (-6)) / dval (Dec True 7000000 (-6))\<bar> + 1) / 10 ^ 34)"
  using growth_rate_accurate [of
      "[(''CURRENT_VALUE'', sample_fact 1 (Dec False 9000000 (-6))), (''COMPARISON_VALUE'', sample_fact 2 (Dec True 7000000 (-6)))]"
      "sample_fact 1 (Dec False 9000000 (-6))" "sample_fact 2 (Dec True 7000000 (-6))" None]
  by (simp add: sample_simps)

text \<open>C24: return on assets and on equity, with distinct balance facts of one supported unit, an income of
  any supported unit, one currency, a nonzero average balance and an annualization factor of at most 400
  (1.0 when none is passed), are within a relative \<open>10^-36\<close> of
  \<open>100 * income / ((beginning + ending) / 2) * factor\<close>, where a value whose unit is PERCENT counts as a
  hundredth: the code does not compare the income's unit with the balances', so an income in PERCENT over
  balances in CURRENCY gives a hundredth of the return. The display value is rounded to hundredths.\<close>

theorem return_formulas_accurate:
  assumes "f = ReturnOnAssetsFormula \<or> f = ReturnOnEquityFormula"
    and "balance_ok inputs inc beg fin" and "average_balance beg fin \<noteq> 0"
    and "\<bar>dval (annualization_of ann)\<bar> \<le> 400"
  defines "x \<equiv> dval (in_value inc) * unit_factor (in_unit inc) /
     (average_balance beg fin * unit_factor (in_unit beg)) * dval (annualization_of ann)"
  shows "\<exists>r. calculate f inputs ann = Inr r \<and> percent_of (100 * x) r (\<bar>100 * x\<bar> / 10 ^ 36)"
  using assms roa_accurate by (auto simp: roe_is_roa)

text \<open>An income of 3 per cent over balances of 50 and 70: the return is 0.2 per cent with factor 4, a hundredth of
  what an income of 3 in their currency gives.\<close>

lemma return_formulas_accurate_witness:
  "\<exists>r. calculate ReturnOnEquityFormula [(''PERIOD_INCOME'', (sample_fact 1 (Dec False 3000000 (-6)))\<lparr>in_unit := Some ''PERCENT''\<rparr>),
      (''BEGINNING_BALANCE'', sample_fact 2 (Dec False 50000000 (-6))),
      (''ENDING_BALANCE'', sample_fact 3 (Dec False 70000000 (-6)))] (Some (Dec False 4 0)) = Inr r \<and>
    percent_of (1 / 5) r (1 / 10 ^ 36)"
proof -
  let ?i = "(sample_fact 1 (Dec False 3000000 (-6)))\<lparr>in_unit := Some ''PERCENT''\<rparr>"
  let ?b = "sample_fact 2 (Dec False 50000000 (-6))" and ?e = "sample_fact 3 (Dec False 70000000 (-6))"
  have ok: "balance_ok [(''PERIOD_INCOME'', ?i), (''BEGINNING_BALANCE'', ?b), (''ENDING_BALANCE'', ?e)] ?i ?b ?e"
    "average_balance ?b ?e = 60" "dval (annualization_of (Some (Dec False 4 0))) = 4"
    by (simp_all add: sample_simps dval_Dec power_int_minus)
  have x: "dval (in_value ?i) * unit_factor (in_unit ?i) / (average_balance ?b ?e * unit_factor (in_unit ?b)) *
      dval (annualization_of (Some (Dec False 4 0))) = 1 / 500"
    unfolding ok(2,3) by (simp add: sample_fact_def unit_factor_def dval_Dec power_int_minus)
  obtain r where "calculate ReturnOnEquityFormula [(''PERIOD_INCOME'', ?i), (''BEGINNING_BALANCE'', ?b), (''ENDING_BALANCE'', ?e)]
      (Some (Dec False 4 0)) = Inr r" "percent_of (1 / 5) r (1 / 5 / 10 ^ 36)"
    using return_formulas_accurate [of ReturnOnEquityFormula _ ?i ?b ?e "Some (Dec False 4 0)", OF _ ok(1)] ok(2,3)
    unfolding x by auto
  then show ?thesis by (intro exI [of _ r]) (simp add: percent_of_def)
qed

text \<open>C26: whatever the units, currencies and scales of the inputs, a formula on stored values (with
  an annualization factor of at most 400) returns a result or raises one of the six guard errors;
  no arithmetic exception escapes.\<close>

theorem formulas_raise_guards_only:
  assumes "\<forall>(role, f) \<in> set inputs. stored (in_value f)" and "\<bar>dval (annualization_of ann)\<bar> \<le> 400"
  shows "(\<exists>r. calculate form inputs ann = Inr r) \<or>
    (\<exists>m. m \<in> set formula_guards \<and> calculate form inputs ann = Inl (ValueError m))"
proof -
  have st: "inputs_stored inputs" using assms(1) by (simp add: inputs_stored_def)
  have "guarded (calculate form inputs ann)"
    using ldr_guarded [OF st] growth_calc_guarded [OF st] roa_calc_guarded [OF st assms(2)]
    by (cases form) (simp_all add: npl_is_ldr roe_is_roa)
  then show ?thesis by (auto simp: guarded_def split: sum.splits py_exc.splits)
qed

lemma formulas_raise_guards_only_witness:
  "(\<exists>r. calculate ReturnOnAssetsFormula [(''PERIOD_INCOME'', sample_fact 1 (Dec False 3000000 (-6)))] None = Inr r) \<or>
    (\<exists>m. m \<in> set formula_guards \<and>
      calculate ReturnOnAssetsFormula [(''PERIOD_INCOME'', sample_fact 1 (Dec False 3000000 (-6)))] None = Inl (ValueError m))"
  using formulas_raise_guards_only [of "[(''PERIOD_INCOME'', sample_fact 1 (Dec False 3000000 (-6)))]" None
      ReturnOnAssetsFormula]
  by (simp add: sample_simps)

end
