(* ===== verification/PyText.thy ===== *)
theory PyText
  imports PyDecimal
begin

text \<open>
  How the program turns values into text before it hashes or stores them: \<open>str\<close> of integers,
  UUIDs and decimals, and \<open>json.dumps(..., sort_keys=True)\<close> with the default separators and
  ASCII escapes. Characters are code points below 256.

  The lemmas show that the text determines the value: two JSON values with one rendering are equal
  up to the order of their keys. \<open>sha256\<close> itself is a parameter of the definitions that hash.
\<close>

section \<open>Numbers and UUIDs\<close>

definition digit_char :: "nat \<Rightarrow> char" where
  "digit_char n = char_of (48 + n)"

fun nat_str :: "nat \<Rightarrow> string" where
  "nat_str n = (if n < 10 then [digit_char n] else nat_str (n div 10) @ [digit_char (n mod 10)])"

declare nat_str.simps [simp del]

definition int_str :: "int \<Rightarrow> string" where
  "int_str i = (if i < 0 then CHR ''-'' # nat_str (nat (- i)) else nat_str (nat i))"

definition hex_char :: "nat \<Rightarrow> char" where
  "hex_char n = (if n < 10 then char_of (48 + n) else char_of (87 + n))"

fun hex_str :: "nat \<Rightarrow> nat \<Rightarrow> string" where
  "hex_str 0 n = []"
| "hex_str (Suc k) n = hex_str k (n div 16) @ [hex_char (n mod 16)]"

text \<open>\<open>str(UUID)\<close>: 32 hexadecimal digits in groups of 8, 4, 4, 4 and 12.\<close>

definition uuid_str :: "uuid \<Rightarrow> string" where
  "uuid_str u = (let h = hex_str 32 u in
     take 8 h @ ''-'' @ take 4 (drop 8 h) @ ''-'' @ take 4 (drop 12 h) @ ''-'' @
     take 4 (drop 16 h) @ ''-'' @ drop 20 h)"

text \<open>\<open>Decimal.__str__\<close>: fixed notation unless the exponent is positive or the number is small.\<close>

definition dec_str :: "dec \<Rightarrow> string" where
  "dec_str d =
     (let ds = nat_str (dcoeff d); n = int (length ds);
          leftdigits = dexp d + n;
          dotplace = (if dexp d \<le> 0 \<and> leftdigits > -6 then leftdigits else 1);
          intpart = (if dotplace \<le> 0 then ''0'' else if dotplace \<ge> n then ds @ replicate (nat (dotplace - n)) CHR ''0''
                     else take (nat dotplace) ds);
          fracpart = (if dotplace \<le> 0 then ''.'' @ replicate (nat (- dotplace)) CHR ''0'' @ ds
                      else if dotplace \<ge> n then [] else ''.'' @ drop (nat dotplace) ds);
          expo = (if leftdigits = dotplace then []
                  else CHR ''E'' # (if 0 \<le> leftdigits - dotplace then ''+'' else []) @ int_str (leftdigits - dotplace))
      in (if dsign d then ''-'' else []) @ intpart @ fracpart @ expo)"

section \<open>JSON\<close>

datatype json =
    JNull
  | JBool bool
  | JInt int
  | JStr string
  | JList "json list"
  | JObj "(string \<times> json) list"

definition json_escape :: "char \<Rightarrow> string" where
  "json_escape c =
     (let n = of_char c :: nat in
      if n = 34 then [CHR 0x5C, CHR 0x22]
      else if n = 92 then [CHR 0x5C, CHR 0x5C]
      else if n = 8 then [CHR 0x5C, CHR ''b'']
      else if n = 9 then [CHR 0x5C, CHR ''t'']
      else if n = 10 then [CHR 0x5C, CHR ''n'']
      else if n = 12 then [CHR 0x5C, CHR ''f'']
      else if n = 13 then [CHR 0x5C, CHR ''r'']
      else if 32 \<le> n \<and> n < 127 then [c]
      else [CHR 0x5C, CHR ''u'', CHR ''0'', CHR ''0'', hex_char (n div 16), hex_char (n mod 16)])"

definition json_string :: "string \<Rightarrow> string" where
  "json_string s = CHR 0x22 # concat (map json_escape s) @ [CHR 0x22]"

fun jprint :: "json \<Rightarrow> string" and jprint_list :: "json list \<Rightarrow> string"
  and jprint_obj :: "(string \<times> json) list \<Rightarrow> string" where
  "jprint JNull = ''null''"
| "jprint (JBool b) = (if b then ''true'' else ''false'')"
| "jprint (JInt i) = int_str i"
| "jprint (JStr s) = json_string s"
| "jprint (JList xs) = ''['' @ jprint_list xs @ '']''"
| "jprint (JObj kvs) = ''{'' @ jprint_obj kvs @ ''}''"
| "jprint_list [] = []"
| "jprint_list (x # xs) = jprint x @ (if xs = [] then [] else '', '' @ jprint_list xs)"
| "jprint_obj [] = []"
| "jprint_obj ((k, v) # kvs) = json_string k @ '': '' @ jprint v @ (if kvs = [] then [] else '', '' @ jprint_obj kvs)"

text \<open>\<open>sort_keys=True\<close> orders the keys of every object.\<close>

fun jsort :: "json \<Rightarrow> json" and jsort_list :: "json list \<Rightarrow> json list"
  and jsort_obj :: "(string \<times> json) list \<Rightarrow> (string \<times> json) list" where
  "jsort (JList xs) = JList (jsort_list xs)"
| "jsort (JObj kvs) = JObj (sort_key fst (jsort_obj kvs))"
| "jsort j = j"
| "jsort_list [] = []"
| "jsort_list (x # xs) = jsort x # jsort_list xs"
| "jsort_obj [] = []"
| "jsort_obj ((k, v) # kvs) = (k, jsort v) # jsort_obj kvs"

definition json_dumps :: "json \<Rightarrow> string" where
  "json_dumps j = jprint (jsort j)"

definition opt_str :: "string option \<Rightarrow> json" where
  "opt_str s = (case s of None \<Rightarrow> JNull | Some x \<Rightarrow> JStr x)"

definition opt_uuid :: "uuid option \<Rightarrow> json" where
  "opt_uuid u = (case u of None \<Rightarrow> JNull | Some x \<Rightarrow> JStr (uuid_str x))"

section \<open>Reading numbers back\<close>

text \<open>Lower case: the letter with bit 5 set; the Latin-1 letters have their cases 32 apart as well.\<close>

definition lower_char :: "char \<Rightarrow> char" where
  "lower_char c = (let n = of_char c :: nat in
     if 65 \<le> n \<and> n \<le> 90 \<or> 192 \<le> n \<and> n \<le> 222 \<and> n \<noteq> 215
     then (case c of Char b0 b1 b2 b3 b4 b5 b6 b7 \<Rightarrow> Char b0 b1 b2 b3 b4 True b6 b7) else c)"

definition str_lower :: "string \<Rightarrow> string" where
  "str_lower = map lower_char"

text \<open>
  Upper case. The sharp s becomes two letters; the micro sign and the y with diaeresis, whose upper
  cases are no Latin-1 characters, are left as they are.
\<close>

definition upper_char :: "char \<Rightarrow> string" where
  "upper_char c = (let n = of_char c :: nat in
     if n = 223 then ''SS''
     else if 97 \<le> n \<and> n \<le> 122 \<or> 224 \<le> n \<and> n \<le> 254 \<and> n \<noteq> 247
     then (case c of Char b0 b1 b2 b3 b4 b5 b6 b7 \<Rightarrow> [Char b0 b1 b2 b3 b4 False b6 b7]) else [c])"

definition str_upper :: "string \<Rightarrow> string" where
  "str_upper s = concat (map upper_char s)"

definition is_digit :: "char \<Rightarrow> bool" where
  "is_digit c \<longleftrightarrow> 48 \<le> (of_char c :: nat) \<and> (of_char c :: nat) < 58"

definition digits_value :: "string \<Rightarrow> nat" where
  "digits_value s = foldl (\<lambda>n c. 10 * n + (of_char c - 48)) 0 s"

lemma digits_value_snoc: "digits_value (s @ [c]) = 10 * digits_value s + (of_char c - 48)"
  by (simp add: digits_value_def)

lemma of_digit_char: "n < 10 \<Longrightarrow> (of_char (digit_char n) :: nat) = 48 + n"
  by (simp add: digit_char_def)

lemma is_digit_digit_char [simp]: "n < 10 \<Longrightarrow> is_digit (digit_char n)"
  by (simp add: is_digit_def of_digit_char)

lemma nat_str_value [simp]: "digits_value (nat_str n) = n"
proof (induction n rule: nat_str.induct)
  case (1 n)
  then show ?case
    by (subst nat_str.simps) (auto simp: digits_value_snoc of_digit_char digits_value_def)
qed

lemma nat_str_digits: "c \<in> set (nat_str n) \<Longrightarrow> is_digit c"
proof (induction n rule: nat_str.induct)
  case (1 n)
  from "1.prems" show ?case
    by (subst (asm) nat_str.simps) (use "1.IH" in \<open>auto split: if_splits\<close>)
qed

lemma nat_str_not_Nil [simp]: "nat_str n \<noteq> []"
  by (subst nat_str.simps) simp

lemma length_nat_str: "length (nat_str n) = ndigits n"
proof (induction n rule: nat_str.induct)
  case (1 n)
  then show ?case by (subst nat_str.simps, subst ndigits.simps) simp
qed

lemma nat_str_inject [simp]: "nat_str m = nat_str n \<longleftrightarrow> m = n"
  by (metis nat_str_value)

lemma minus_not_digit [simp]: "\<not> is_digit CHR ''-''"
  by (simp add: is_digit_def)

lemma hd_nat_str: "hd (nat_str n) \<noteq> CHR ''-''"
  using nat_str_digits [of "hd (nat_str n)" n] by (metis hd_in_set minus_not_digit nat_str_not_Nil)

lemma int_str_inject [simp]: "int_str i = int_str j \<longleftrightarrow> i = j"
proof -
  have "nat_str n \<noteq> CHR ''-'' # s" for n s using hd_nat_str [of n] by auto
  then show ?thesis by (auto simp: int_str_def dest: sym)
qed

lemma int_str_chars: "c \<in> set (int_str i) \<Longrightarrow> is_digit c \<or> c = CHR ''-''"
  by (auto simp: int_str_def dest: nat_str_digits split: if_splits)

lemma int_str_not_Nil [simp]: "int_str i \<noteq> []"
  by (simp add: int_str_def)

section \<open>Hexadecimal text\<close>

definition hex_value :: "char \<Rightarrow> nat" where
  "hex_value c = (if (of_char c :: nat) < 58 then of_char c - 48 else of_char c - 87)"

lemma hex_value_char [simp]: "n < 16 \<Longrightarrow> hex_value (hex_char n) = n"
  by (simp add: hex_value_def hex_char_def)

lemma hex_char_inject: "m < 16 \<Longrightarrow> n < 16 \<Longrightarrow> hex_char m = hex_char n \<longleftrightarrow> m = n"
  by (metis hex_value_char)

lemma hex_char_not_minus: "n < 16 \<Longrightarrow> hex_char n \<noteq> CHR ''-''"
proof
  assume "n < 16" "hex_char n = CHR ''-''"
  then have "n = hex_value CHR ''-''" by (metis hex_value_char)
  then have "n = 0" by (simp add: hex_value_def)
  with \<open>hex_char n = CHR ''-''\<close> show False by (simp add: hex_char_def char_of_eq_iff)
qed

lemma length_hex_str [simp]: "length (hex_str k n) = k"
  by (induction k n rule: hex_str.induct) simp_all

lemma hex_str_no_minus: "c \<in> set (hex_str k n) \<Longrightarrow> c \<noteq> CHR ''-''"
  by (induction k n rule: hex_str.induct) (auto simp: hex_char_not_minus not_sym [OF hex_char_not_minus])

lemma hex_str_inject: "m < 16 ^ k \<Longrightarrow> n < 16 ^ k \<Longrightarrow> hex_str k m = hex_str k n \<longleftrightarrow> m = n"
proof (induction k arbitrary: m n)
  case 0
  then show ?case by simp
next
  case (Suc k)
  then have "m div 16 < 16 ^ k" "n div 16 < 16 ^ k" by (auto simp: less_mult_imp_div_less mult.commute)
  with Suc.IH have IH: "hex_str k (m div 16) = hex_str k (n div 16) \<longleftrightarrow> m div 16 = n div 16" by blast
  have "hex_char (m mod 16) = hex_char (n mod 16) \<longleftrightarrow> m mod 16 = n mod 16" by (simp add: hex_char_inject)
  with IH show ?case by (metis append1_eq_conv div_mult_mod_eq hex_str.simps(2))
qed

lemma regroup:
  "take 8 h @ take 4 (drop 8 h) @ take 4 (drop 12 h) @ take 4 (drop 16 h) @ drop 20 h = h"
proof -
  have "take 4 (drop 16 h) @ drop 20 h = drop 16 h" using append_take_drop_id [of 4 "drop 16 h"] by simp
  moreover have "take 4 (drop 12 h) @ drop 16 h = drop 12 h" using append_take_drop_id [of 4 "drop 12 h"] by simp
  moreover have "take 4 (drop 8 h) @ drop 12 h = drop 8 h" using append_take_drop_id [of 4 "drop 8 h"] by simp
  ultimately show ?thesis by simp
qed

lemma filter_uuid_str: "filter (\<lambda>c. c \<noteq> CHR ''-'') (uuid_str u) = hex_str 32 u"
proof -
  let ?h = "hex_str 32 u"
  have id: "filter (\<lambda>c. c \<noteq> CHR ''-'') s = s" if "set s \<subseteq> set ?h" for s
    using that hex_str_no_minus by (intro filter_True) blast
  have "set (take n (drop m ?h)) \<subseteq> set ?h" "set (drop m ?h) \<subseteq> set ?h" "set (take n ?h) \<subseteq> set ?h" for n m
    by (meson set_drop_subset set_take_subset order_trans)+
  note parts = id [OF this(1)] id [OF this(2)] id [OF this(3)]
  have "filter (\<lambda>c. c \<noteq> CHR ''-'') (uuid_str u) =
      take 8 ?h @ take 4 (drop 8 ?h) @ take 4 (drop 12 ?h) @ take 4 (drop 16 ?h) @ drop 20 ?h"
    unfolding uuid_str_def Let_def filter_append parts by simp
  then show ?thesis by (simp only: regroup)
qed

lemma uuid_str_inject: "u < 2 ^ 128 \<Longrightarrow> v < 2 ^ 128 \<Longrightarrow> uuid_str u = uuid_str v \<longleftrightarrow> u = v"
  using hex_str_inject [of u 32 v] filter_uuid_str [of u] filter_uuid_str [of v] by auto

section \<open>Decimal text\<close>

text \<open>Two decimals with one exponent and one text are equal.\<close>

lemma sign_text_inject:
  assumes "x \<noteq> []" "y \<noteq> []" "\<And>c. c \<in> set x \<Longrightarrow> c \<noteq> CHR ''-''" "\<And>c. c \<in> set y \<Longrightarrow> c \<noteq> CHR ''-''"
    "(if s then ''-'' else []) @ x = (if t then ''-'' else []) @ y"
  shows "s = t \<and> x = y"
  using assms by (cases s; cases t; cases x; cases y) auto


lemma digits_value_zeros: "digits_value (replicate k CHR ''0'' @ s) = digits_value s"
  by (induction k) (simp_all add: digits_value_def)

definition plain_text :: "nat \<Rightarrow> nat \<Rightarrow> string" where
  "plain_text k c = (let ds = nat_str c; n = length ds in
     if n \<le> k then ''0.'' @ replicate (k - n) CHR ''0'' @ ds
     else take (n - k) ds @ ''.'' @ drop (n - k) ds)"

lemma filter_digits_nat_str: "set s \<subseteq> set (nat_str c) \<Longrightarrow> filter is_digit s = s"
  using nat_str_digits by (intro filter_True) blast

lemma plain_text_value: "digits_value (filter is_digit (plain_text k c)) = c"
proof -
  have z: "filter is_digit (replicate m CHR ''0'') = replicate m CHR ''0''" for m
    by (simp add: filter_replicate is_digit_def)
  have dot: "\<not> is_digit CHR ''.''" "is_digit CHR ''0''" by (simp_all add: is_digit_def)
  have zero: "digits_value (CHR ''0'' # s) = digits_value s" for s
    using digits_value_zeros [of 1 s] by simp
  have "filter is_digit (take m s @ CHR ''.'' # drop m s) = filter is_digit s" for m s
    using filter_append [of is_digit "take m s" "drop m s"] dot by simp
  then show ?thesis
    unfolding plain_text_def Let_def
    by (cases "length (nat_str c) \<le> k"; simp add: z dot zero digits_value_zeros filter_digits_nat_str [OF order_refl])
qed

lemma dec_str_plain:
  assumes "dexp d = - int k" "k \<le> 6" "0 < k"
  shows "dec_str d = (if dsign d then ''-'' else []) @ plain_text k (dcoeff d)"
proof -
  have n: "0 < length (nat_str (dcoeff d))" by (simp add: length_nat_str)
  then have "- 6 < dexp d + int (length (nat_str (dcoeff d)))" using assms by linarith
  with assms n show ?thesis
    unfolding dec_str_def plain_text_def Let_def by (auto simp: nat_diff_distrib' of_nat_diff)
qed

lemma plain_text_no_minus: "c \<in> set (plain_text k n) \<Longrightarrow> c \<noteq> CHR ''-''"
  by (auto simp: plain_text_def Let_def split: if_splits
      dest!: nat_str_digits in_set_takeD in_set_dropD)

lemma stored_str_inject:
  assumes "is_numeric p 6 d" "is_numeric p 6 e"
  shows "dec_str d = dec_str e \<longleftrightarrow> d = e"
proof
  assume "dec_str d = dec_str e"
  then have "(if dsign d then ''-'' else []) @ plain_text 6 (dcoeff d) =
      (if dsign e then ''-'' else []) @ plain_text 6 (dcoeff e)"
    using assms by (simp add: dec_str_plain is_numeric_def)
  moreover have "plain_text 6 n \<noteq> []" for n by (simp add: plain_text_def Let_def)
  ultimately have "dsign d = dsign e \<and> plain_text 6 (dcoeff d) = plain_text 6 (dcoeff e)"
    by (intro sign_text_inject) (auto dest: plain_text_no_minus)
  moreover from this have "dcoeff d = dcoeff e" by (metis plain_text_value)
  ultimately show "d = e" using assms by (simp add: is_numeric_def dec.expand)
qed simp

section \<open>JSON text\<close>

text \<open>What may follow a value: nothing, a comma or a closing bracket.\<close>

definition stops :: "string \<Rightarrow> bool" where
  "stops r \<longleftrightarrow> r = [] \<or> hd r \<in> {CHR '','', CHR '']'', CHR ''}''}"

lemma stops_simps [simp]:
  "stops []" "stops (CHR '','' # r)" "stops (CHR '']'' # r)" "stops (CHR ''}'' # r)"
  by (simp_all add: stops_def)

definition num_char :: "char \<Rightarrow> bool" where
  "num_char c \<longleftrightarrow> is_digit c \<or> c = CHR ''-''"

lemma num_char_simps [simp]:
  "\<not> num_char CHR '',''" "\<not> num_char CHR '']''" "\<not> num_char CHR ''}''" "\<not> num_char CHR ''n''"
  "\<not> num_char CHR ''t''" "\<not> num_char CHR ''f''" "\<not> num_char CHR 0x22" "\<not> num_char CHR ''[''" "\<not> num_char CHR ''{''"
  by (simp_all add: num_char_def is_digit_def)

lemma takeWhile_num: "stops r \<Longrightarrow> takeWhile num_char (int_str i @ r) = int_str i"
proof -
  assume r: "stops r"
  have "\<forall>c \<in> set (int_str i). num_char c" using int_str_chars by (auto simp: num_char_def)
  then have "takeWhile num_char (int_str i @ r) = int_str i @ takeWhile num_char r"
    by (simp add: takeWhile_append2)
  also have "takeWhile num_char r = []" using r by (cases r) (auto simp: stops_def)
  finally show ?thesis by simp
qed

lemma int_str_prefix:
  assumes "int_str i @ r = int_str j @ r'" "stops r" "stops r'" shows "i = j \<and> r = r'"
proof -
  have "int_str i = int_str j" using takeWhile_num assms by metis
  with assms(1) show ?thesis by simp
qed

lemma int_str_hd: "\<exists>c s. int_str i = c # s \<and> num_char c"
  using int_str_chars [of _ i] by (cases "int_str i") (auto simp: num_char_def)

text \<open>The escapes are a prefix code.\<close>

lemma json_escape_shape:
  "(json_escape c = [c] \<and> c \<noteq> CHR 0x22 \<and> c \<noteq> CHR 0x5C) \<or>
   (\<exists>e s. json_escape c = CHR 0x5C # e # s \<and> (if e = CHR ''u'' then length s = 4 else s = []))"
proof -
  have eq: "(of_char CHR 0x22 :: nat) = 34" "(of_char CHR 0x5C :: nat) = 92" by simp_all
  show ?thesis unfolding json_escape_def Let_def using eq by auto
qed

definition unescape :: "string \<Rightarrow> nat" where
  "unescape s = (case s of
      [c] \<Rightarrow> of_char c
    | [_, e] \<Rightarrow> (if e = CHR ''b'' then 8 else if e = CHR ''t'' then 9 else if e = CHR ''n'' then 10
        else if e = CHR ''f'' then 12 else if e = CHR ''r'' then 13 else of_char e)
    | [_, _, _, _, h, l] \<Rightarrow> 16 * hex_value h + hex_value l
    | _ \<Rightarrow> 0)"

lemma unescape_escape: "unescape (json_escape c) = of_char c"
proof -
  define n where "n = (of_char c :: nat)"
  have "n < 256" unfolding n_def by (rule nat_of_char_less_256)
  then have "n div 16 < 16" by (simp add: less_mult_imp_div_less)
  then show ?thesis by (simp add: json_escape_def unescape_def Let_def flip: n_def)
qed

lemma json_escape_inject: "json_escape c = json_escape d \<Longrightarrow> c = d"
  by (metis unescape_escape of_char_eq_iff)

lemma json_escape_prefix:
  "json_escape c @ r = json_escape d @ r' \<Longrightarrow> c = d \<and> r = r'"
proof -
  assume eq: "json_escape c @ r = json_escape d @ r'"
  have "json_escape c = json_escape d"
    using json_escape_shape [of c] json_escape_shape [of d] eq
    by (elim disjE conjE exE) (auto split: if_splits)
  with eq show ?thesis by (auto dest: json_escape_inject)
qed

lemma json_escape_not_quote: "json_escape c @ r \<noteq> CHR 0x22 # r'"
  using json_escape_shape [of c] by (elim disjE conjE exE) auto

lemmas json_escape_quote_simps = json_escape_not_quote json_escape_not_quote [THEN not_sym]

lemma json_string_body:
  "concat (map json_escape s) @ CHR 0x22 # r = concat (map json_escape t) @ CHR 0x22 # r' \<Longrightarrow> s = t \<and> r = r'"
proof (induction s arbitrary: t)
  case Nil
  then show ?case by (cases t) (simp_all add: json_escape_quote_simps)
next
  case (Cons c s)
  show ?case
  proof (cases t)
    case Nil
    with Cons.prems json_escape_not_quote [of c "concat (map json_escape s) @ CHR 0x22 # r" r']
    show ?thesis by simp
  next
    case (Cons d t')
    with Cons.prems have "json_escape c @ (concat (map json_escape s) @ CHR 0x22 # r) =
        json_escape d @ (concat (map json_escape t') @ CHR 0x22 # r')" by simp
    from json_escape_prefix [OF this] Cons.IH Cons show ?thesis by blast
  qed
qed

lemma json_string_prefix:
  "json_string s @ r = json_string t @ r' \<Longrightarrow> s = t \<and> r = r'"
  using json_string_body [of s r t r'] by (simp add: json_string_def)

text \<open>The first character tells the constructors apart.\<close>

fun json_head :: "json \<Rightarrow> char \<Rightarrow> bool" where
  "json_head JNull c \<longleftrightarrow> c = CHR ''n''"
| "json_head (JBool b) c \<longleftrightarrow> c = (if b then CHR ''t'' else CHR ''f'')"
| "json_head (JInt i) c \<longleftrightarrow> num_char c"
| "json_head (JStr s) c \<longleftrightarrow> c = CHR 0x22"
| "json_head (JList xs) c \<longleftrightarrow> c = CHR ''[''"
| "json_head (JObj xs) c \<longleftrightarrow> c = CHR ''{''"

lemma jprint_head: "\<exists>c s. jprint j = c # s \<and> json_head j c"
  using int_str_hd by (cases j) (auto simp: json_string_def)

lemma jprint_not_close: "jprint j @ r \<noteq> CHR '']'' # r'"
  using jprint_head [of j] by (cases j) auto

lemma same_constructor:
  assumes "jprint j @ r = jprint j' @ r'"
  shows "\<exists>c. json_head j c \<and> json_head j' c"
proof -
  obtain c s where c: "jprint j = c # s" "json_head j c" using jprint_head by blast
  obtain d t where d: "jprint j' = d # t" "json_head j' d" using jprint_head by blast
  from assms c d show ?thesis by auto
qed

lemma jprint_list_close: "jprint_list xs @ CHR '']'' # r = CHR '']'' # r' \<Longrightarrow> xs = []"
  using jprint_not_close by (cases xs) auto

lemma jprint_obj_close: "jprint_obj xs @ CHR ''}'' # r = CHR ''}'' # r' \<Longrightarrow> xs = []"
  by (cases xs rule: jprint_obj.cases) (auto simp: json_string_def)

lemma jprint_prefix:
  "jprint j @ r = jprint j' @ r' \<Longrightarrow> stops r \<Longrightarrow> stops r' \<Longrightarrow> j = j' \<and> r = r'"
  "jprint_list xs @ CHR '']'' # r = jprint_list ys @ CHR '']'' # r' \<Longrightarrow> xs = ys \<and> r = r'"
  "jprint_obj kvs @ CHR ''}'' # r = jprint_obj lws @ CHR ''}'' # r' \<Longrightarrow> kvs = lws \<and> r = r'"
proof (induction j and xs and kvs arbitrary: j' r r' and ys r r' and lws r r' rule: jprint_jprint_list_jprint_obj.induct)
  case 1
  then show ?case using same_constructor [OF "1"(1)] by (cases j') (auto split: if_splits)
next
  case (2 b)
  then show ?case using same_constructor [OF "2"(1)] by (cases j') (auto split: if_splits)
next
  case (3 i)
  from same_constructor [OF "3"(1)] obtain k where j': "j' = JInt k"
    by (cases j') (auto split: if_splits)
  with 3 int_str_prefix [of i r k r'] show ?case by simp
next
  case (4 s)
  from same_constructor [OF "4"(1)] obtain t where j': "j' = JStr t"
    by (cases j') (auto split: if_splits)
  with 4 json_string_prefix [of s r t r'] show ?case by simp
next
  case (5 xs)
  from same_constructor [OF "5"(2)] obtain ys where j': "j' = JList ys"
    by (cases j') (auto split: if_splits)
  with 5 show ?case by simp
next
  case (6 kvs)
  from same_constructor [OF "6"(2)] obtain ys where j': "j' = JObj ys"
    by (cases j') (auto split: if_splits)
  with 6 show ?case by simp
next
  case 7
  then show ?case using jprint_list_close [of ys r' r] by (cases ys) auto
next
  case (8 x xs)
  show ?case
  proof (cases ys)
    case Nil
    with "8.prems" have "jprint_list (x # xs) @ CHR '']'' # r = CHR '']'' # r'" by (simp only: jprint_list.simps append_Nil)
    then show ?thesis using jprint_list_close by blast
  next
    case (Cons y ys')
    let ?t = "\<lambda>zs r. (if zs = [] then [] else '', '' @ jprint_list zs) @ CHR '']'' # r"
    have "jprint x @ ?t xs r = jprint y @ ?t ys' r'" using "8.prems" Cons by simp
    then have "x = y \<and> ?t xs r = ?t ys' r'"
      by (rule "8.IH"(1)) (simp_all split: if_split)
    then have xy: "x = y" and t: "?t xs r = ?t ys' r'" by simp_all
    show ?thesis
    proof (cases "xs = [] \<or> ys' = []")
      case True
      with t have "xs = [] \<and> ys' = [] \<and> r = r'" by (auto split: if_splits)
      with Cons xy show ?thesis by simp
    next
      case False
      with t have "jprint_list xs @ CHR '']'' # r = jprint_list ys' @ CHR '']'' # r'" by simp
      with "8.IH"(2) False have "xs = ys' \<and> r = r'" by blast
      with Cons xy show ?thesis by simp
    qed
  qed
next
  case 9
  then show ?case using jprint_obj_close [of lws r' r] by (cases lws) auto
next
  case (10 k v kvs)
  show ?case
  proof (cases lws)
    case Nil
    with "10.prems" have "jprint_obj ((k, v) # kvs) @ CHR ''}'' # r = CHR ''}'' # r'" by (simp only: jprint_obj.simps append_Nil)
    then show ?thesis using jprint_obj_close by blast
  next
    case (Cons p lws')
    obtain l w where p: "p = (l, w)" by fastforce
    let ?t = "\<lambda>zs r. (if zs = [] then [] else '', '' @ jprint_obj zs) @ CHR ''}'' # r"
    have "json_string k @ ('': '' @ jprint v @ ?t kvs r) = json_string l @ ('': '' @ jprint w @ ?t lws' r')"
      using "10.prems" Cons p by simp
    from json_string_prefix [OF this] have k: "k = l" and v: "jprint v @ ?t kvs r = jprint w @ ?t lws' r'" by simp_all
    from v have vw: "v = w \<and> ?t kvs r = ?t lws' r'" by (rule "10.IH"(1)) simp_all
    then have t: "?t kvs r = ?t lws' r'" by simp
    show ?thesis
    proof (cases "kvs = [] \<or> lws' = []")
      case True
      with t have "kvs = [] \<and> lws' = [] \<and> r = r'" by (auto split: if_splits)
      with Cons p k vw show ?thesis by simp
    next
      case False
      with t have "jprint_obj kvs @ CHR ''}'' # r = jprint_obj lws' @ CHR ''}'' # r'" by simp
      with "10.IH"(2) False have "kvs = lws' \<and> r = r'" by blast
      with Cons p k vw show ?thesis by simp
    qed
  qed
qed

lemma jprint_inject: "jprint j = jprint j' \<longleftrightarrow> j = j'"
  using jprint_prefix(1) [of j "[]" j' "[]"] by auto

lemma json_dumps_inject: "json_dumps j = json_dumps j' \<longleftrightarrow> jsort j = jsort j'"
  by (simp add: json_dumps_def jprint_inject)

end
