(* ===== verification/FormulaRegistry.thy ===== *)
theory FormulaRegistry
  imports Formulas PyText
begin

text \<open>
  \<open>calculations/registry.py\<close>: the table of formulas, its lookup with the three errors, and the
  two checksum layers. \<open>sha\<close> stands for \<open>hashlib.sha256(...).hexdigest()\<close>; the text it is applied
  to is rendered by \<open>json_dumps\<close>.
\<close>

section \<open>Checksums\<close>

definition is_valid_sha256_hex :: "string option \<Rightarrow> bool" where
  "is_valid_sha256_hex v = (case v of None \<Rightarrow> False
     | Some s \<Rightarrow> length s = 64 \<and> (\<forall>c \<in> set s. c \<in> set ''0123456789abcdef''))"

definition formula_spec_payload :: "formula \<Rightarrow> json" where
  "formula_spec_payload f = (let a = attrs f in JObj
     [(''formula_code'', JStr (formula_code a)),
      (''formula_version'', JStr (formula_version a)),
      (''required_input_roles'', JList (map JStr (sort (required_input_roles a)))),
      (''expected_metric_codes'', JList (map JStr (sort (expected_metric_codes a)))),
      (''result_unit'', JStr (result_unit a)),
      (''result_scale'', JStr (result_scale a)),
      (''rounding_policy'', JStr (rounding_policy a)),
      (''annualization_policy'', JStr (annualization_policy a)),
      (''display_precision'', JInt (int (display_precision a))),
      (''tolerance_kind'', JStr (tolerance_kind a)),
      (''tolerance_value'', JStr (dec_str (tolerance_value a))),
      (''tolerance_unit'', JStr (tolerance_unit a)),
      (''tolerance_policy_version'', JStr (tolerance_policy_version a)),
      (''comparison_requirement'', JStr (comparison_requirement a))])"

definition compute_formula_spec_checksum :: "(string \<Rightarrow> string) \<Rightarrow> formula \<Rightarrow> string" where
  "compute_formula_spec_checksum sha f = sha (json_dumps (formula_spec_payload f))"

definition implementation_payload :: "formula \<Rightarrow> json" where
  "implementation_payload f = (let a = attrs f in JObj
     [(''formula_code'', JStr (formula_code a)),
      (''formula_version'', JStr (formula_version a)),
      (''implementation_revision'', JStr (implementation_revision a)),
      (''algorithm_fingerprint'', JStr (algorithm_fingerprint a))])"

definition compute_implementation_checksum :: "(string \<Rightarrow> string) \<Rightarrow> formula \<Rightarrow> string" where
  "compute_implementation_checksum sha f = sha (json_dumps (implementation_payload f))"

section \<open>The registry\<close>

definition formula_registry :: "((string \<times> string) \<times> formula) list" where
  "formula_registry =
     [((''GROWTH_RATE'', ''1.0.0''), GrowthRateFormula),
      ((''LOAN_TO_DEPOSIT_RATIO'', ''1.0.0''), LoanToDepositRatioFormula),
      ((''NPL_RATIO'', ''1.0.0''), NplRatioFormula),
      ((''RETURN_ON_ASSETS'', ''1.0.0''), ReturnOnAssetsFormula),
      ((''RETURN_ON_EQUITY'', ''1.0.0''), ReturnOnEquityFormula)]"

definition get_formula :: "string \<Rightarrow> string \<Rightarrow> py_exc + formula" where
  "get_formula code version =
     (if code \<in> {''NET_INTEREST_MARGIN'', ''CAPITAL_ADEQUACY_RATIO''}
      then Inl (ValueError ''FORMULA_INPUT_METRIC_UNAVAILABLE'')
      else case map_of formula_registry (code, version) of
        Some f \<Rightarrow> Inr f
      | None \<Rightarrow>
          if [c. ((c, v), f) \<leftarrow> formula_registry, c = code] \<noteq> []
          then Inl (ValueError ''FORMULA_VERSION_MISMATCH'')
          else Inl (ValueError ''FORMULA_NOT_SUPPORTED''))"

definition verify_checksum ::
  "(string \<Rightarrow> string) \<Rightarrow> string \<Rightarrow> string \<Rightarrow> string option \<Rightarrow> string option \<Rightarrow> py_exc + string \<times> string" where
  "verify_checksum sha code version db_spec db_impl =
     (case map_of formula_registry (code, version) of
        None \<Rightarrow> Inl (ValueError ''FORMULA_NOT_SUPPORTED'')
      | Some f \<Rightarrow>
          let spec = compute_formula_spec_checksum sha f;
              impl = compute_implementation_checksum sha f
          in if \<not> is_valid_sha256_hex db_spec \<or> db_spec \<noteq> Some spec
             then Inl (ValueError ''FORMULA_VERSION_MISMATCH'')
             else if \<not> is_valid_sha256_hex db_impl \<or> db_impl \<noteq> Some impl
             then Inl (ValueError ''FORMULA_VERSION_MISMATCH'')
             else Inr (spec, impl))"

lemma get_formula_Inr:
  "get_formula code version = Inr f \<longleftrightarrow> version = ''1.0.0'' \<and> code = formula_code (attrs f)"
  by (cases f) (auto simp: get_formula_def formula_registry_def growth_rate_attrs_def loan_to_deposit_attrs_def
      npl_ratio_attrs_def return_on_assets_attrs_def return_on_equity_attrs_def split: if_splits)

lemma get_formula_error:
  "get_formula code version = Inl e \<Longrightarrow> e \<in> ValueError ` {''FORMULA_INPUT_METRIC_UNAVAILABLE'',
    ''FORMULA_VERSION_MISMATCH'', ''FORMULA_NOT_SUPPORTED''}"
  by (auto simp: get_formula_def split: if_splits option.splits)

lemma registry_lookup:
  "map_of formula_registry (formula_code (attrs f), ''1.0.0'') = Some f"
  by (cases f) (auto simp: formula_registry_def growth_rate_attrs_def loan_to_deposit_attrs_def
      npl_ratio_attrs_def return_on_assets_attrs_def return_on_equity_attrs_def)

lemma verify_checksum_Inr:
  "verify_checksum sha (formula_code (attrs f)) ''1.0.0'' db_spec db_impl = Inr (s, i) \<longleftrightarrow>
     is_valid_sha256_hex db_spec \<and> is_valid_sha256_hex db_impl \<and>
     db_spec = Some s \<and> db_impl = Some i \<and>
     s = compute_formula_spec_checksum sha f \<and> i = compute_implementation_checksum sha f"
  by (auto simp: verify_checksum_def registry_lookup Let_def)

lemma verify_checksum_error:
  "verify_checksum sha code version db_spec db_impl = Inl e \<Longrightarrow>
    e \<in> ValueError ` {''FORMULA_NOT_SUPPORTED'', ''FORMULA_VERSION_MISMATCH''}"
  by (auto simp: verify_checksum_def Let_def split: option.splits if_splits)

lemma formula_code_inject: "formula_code (attrs f) = formula_code (attrs g) \<longleftrightarrow> f = g"
  by (metis get_formula_Inr sum.inject(2))

lemma implementation_payload_sorted:
  "jsort (implementation_payload f) = JObj
     [(''algorithm_fingerprint'', JStr (algorithm_fingerprint (attrs f))),
      (''formula_code'', JStr (formula_code (attrs f))),
      (''formula_version'', JStr (formula_version (attrs f))),
      (''implementation_revision'', JStr (implementation_revision (attrs f)))]"
  by (simp add: implementation_payload_def Let_def)

lemma checksum_payloads_differ:
  "json_dumps (implementation_payload f) = json_dumps (implementation_payload g) \<longleftrightarrow> f = g"
  by (auto simp: json_dumps_inject implementation_payload_sorted formula_code_inject)

section \<open>Properties\<close>

text \<open>A concrete digest for the witnesses of the theorems about hashing code.\<close>

definition sample_sha :: "string \<Rightarrow> string" where
  "sample_sha s = hex_str 64 (2 * length s + (if CHR ''Q'' \<in> set s then 1 else 0))"

lemma json_escape_plain:
  "c \<in> set ''abcdefghijklmnopqrstuvwxyzABCDEFGHIJKLMNOPQRSTUVWXYZ0123456789_.- '' \<Longrightarrow> json_escape c = [c]"
  by (auto simp: json_escape_def)

lemma json_string_plain:
  "\<forall>c \<in> set s. c \<in> set ''abcdefghijklmnopqrstuvwxyzABCDEFGHIJKLMNOPQRSTUVWXYZ0123456789_.- '' \<Longrightarrow>
    json_string s = CHR 0x22 # s @ [CHR 0x22]"
  unfolding json_string_def by (induction s) (simp_all add: json_escape_plain)

lemma sample_sha_value:
  "sample_sha (json_dumps (implementation_payload f)) = hex_str 64 (case f of
     GrowthRateFormula \<Rightarrow> 266 | LoanToDepositRatioFormula \<Rightarrow> 280 | NplRatioFormula \<Rightarrow> 256
   | ReturnOnAssetsFormula \<Rightarrow> 270 | ReturnOnEquityFormula \<Rightarrow> 271)"
  unfolding json_dumps_def implementation_payload_sorted
  by (cases f) (simp_all add: sample_sha_def json_string_plain
      base_attrs_def growth_rate_attrs_def loan_to_deposit_attrs_def npl_ratio_attrs_def
      return_on_assets_attrs_def return_on_equity_attrs_def)

lemma sample_sha_inj: "inj_on sample_sha (range (\<lambda>f. json_dumps (implementation_payload f)))"
proof (rule inj_onI, elim rangeE)
  fix x y f g
  assume "sample_sha x = sample_sha y" and x: "x = json_dumps (implementation_payload f)"
    and y: "y = json_dumps (implementation_payload g)"
  then have "f = g" by (cases f; cases g) (simp_all add: sample_sha_value hex_str_inject)
  with x y show "x = y" by simp
qed

lemma hex_str_chars: "set (hex_str k n) \<subseteq> set ''0123456789abcdef''"
proof (induction k n rule: hex_str.induct)
  case (2 k n)
  have "hex_char m \<in> set ''0123456789abcdef''" if "m < 16" for m
  proof -
    have "m \<in> set [0..<16]" using that by simp
    then show ?thesis by (auto simp: upt_rec hex_char_def char_of_eq_iff)
  qed
  with 2 show ?case by simp
qed simp

lemma sample_sha_valid: "is_valid_sha256_hex (Some (sample_sha s))"
  unfolding is_valid_sha256_hex_def sample_sha_def option.case(2)
  using hex_str_chars [of 64] by (simp only: length_hex_str) blast

text \<open>When the digest does not collide on the five implementation payloads, a definition row
  that carries another formula's implementation checksum never verifies.\<close>

theorem checksum_identifies_formula:
  assumes "inj_on sha (range (\<lambda>f. json_dumps (implementation_payload f)))"
    and "verify_checksum sha code ''1.0.0'' db_spec (Some (compute_implementation_checksum sha g)) = Inr r"
  shows "code = formula_code (attrs g)"
proof -
  obtain f where f: "map_of formula_registry (code, ''1.0.0'') = Some f"
    and i: "compute_implementation_checksum sha g = compute_implementation_checksum sha f"
    using assms(2) by (auto simp: verify_checksum_def Let_def split: option.splits if_splits)
  from i assms(1) have "json_dumps (implementation_payload g) = json_dumps (implementation_payload f)"
    unfolding compute_implementation_checksum_def by (auto dest: inj_onD)
  then have "g = f" using checksum_payloads_differ by blast
  moreover have "code = formula_code (attrs f)"
    using f get_formula_Inr [of code "''1.0.0''" f] by (auto simp: get_formula_def formula_registry_def split: if_splits)
  ultimately show ?thesis by simp
qed


lemma checksum_identifies_formula_witness: "''NPL_RATIO'' = formula_code (attrs NplRatioFormula)"
proof (rule checksum_identifies_formula)
  show "inj_on sample_sha (range (\<lambda>f. json_dumps (implementation_payload f)))" by (rule sample_sha_inj)
  have "formula_code (attrs NplRatioFormula) = ''NPL_RATIO''" by (simp add: npl_ratio_attrs_def)
  then show "verify_checksum sample_sha ''NPL_RATIO'' ''1.0.0''
      (Some (compute_formula_spec_checksum sample_sha NplRatioFormula))
      (Some (compute_implementation_checksum sample_sha NplRatioFormula)) =
    Inr (compute_formula_spec_checksum sample_sha NplRatioFormula,
      compute_implementation_checksum sample_sha NplRatioFormula)"
    using verify_checksum_Inr [of sample_sha NplRatioFormula]
    by (simp add: compute_formula_spec_checksum_def compute_implementation_checksum_def sample_sha_valid)
qed

end
