(* ===== verification/Calendar.thy ===== *)
theory Calendar
  imports Formulas
begin

text \<open>
  Dates of Python's \<open>datetime\<close> (the proleptic Gregorian calendar, with \<open>toordinal\<close> as CPython
  computes it), and \<open>CalculationService.compute_act_isda_annualization_factor\<close> of
  \<open>services/calculation_service.py\<close>, in the default decimal context.
\<close>

section \<open>Dates\<close>

datatype date = Date (dyear: int) (dmonth: int) (dday: int)

instantiation date :: linorder
begin

definition less_eq_date :: "date \<Rightarrow> date \<Rightarrow> bool" where
  "less_eq_date a b \<longleftrightarrow> dyear a < dyear b \<or> dyear a = dyear b \<and>
     (dmonth a < dmonth b \<or> dmonth a = dmonth b \<and> dday a \<le> dday b)"

definition less_date :: "date \<Rightarrow> date \<Rightarrow> bool" where
  "less_date a b \<longleftrightarrow> dyear a < dyear b \<or> dyear a = dyear b \<and>
     (dmonth a < dmonth b \<or> dmonth a = dmonth b \<and> dday a < dday b)"

instance
  by standard (auto simp: less_eq_date_def less_date_def date.expand)

end

definition isleap :: "int \<Rightarrow> bool" where
  "isleap y \<longleftrightarrow> y mod 4 = 0 \<and> (y mod 100 \<noteq> 0 \<or> y mod 400 = 0)"

definition days_in_year :: "int \<Rightarrow> int" where
  "days_in_year y = (if isleap y then 366 else 365)"

definition days_in_month :: "int \<Rightarrow> int \<Rightarrow> int" where
  "days_in_month y m = (if m = 2 then (if isleap y then 29 else 28)
     else if m \<in> {4, 6, 9, 11} then 30 else 31)"

definition days_before_year :: "int \<Rightarrow> int" where
  "days_before_year y = (y - 1) * 365 + (y - 1) div 4 - (y - 1) div 100 + (y - 1) div 400"

definition days_before_month :: "int \<Rightarrow> int \<Rightarrow> int" where
  "days_before_month y m =
     [0, 31, 59, 90, 120, 151, 181, 212, 243, 273, 304, 334] ! nat (m - 1) +
     (if 2 < m \<and> isleap y then 1 else 0)"

definition day_of_year :: "date \<Rightarrow> int" where
  "day_of_year d = days_before_month (dyear d) (dmonth d) + dday d"

definition toordinal :: "date \<Rightarrow> int" where
  "toordinal d = days_before_year (dyear d) + day_of_year d"

definition valid_date :: "date \<Rightarrow> bool" where
  "valid_date d \<longleftrightarrow> 1 \<le> dyear d \<and> dyear d \<le> 9999 \<and> 1 \<le> dmonth d \<and> dmonth d \<le> 12 \<and>
     1 \<le> dday d \<and> dday d \<le> days_in_month (dyear d) (dmonth d)"

text \<open>\<open>(a - b).days\<close>.\<close>

definition days_between :: "date \<Rightarrow> date \<Rightarrow> int" where
  "days_between a b = toordinal a - toordinal b"

lemma month_cases:
  "1 \<le> m \<Longrightarrow> m \<le> 12 \<Longrightarrow> m \<in> {1, 2, 3, 4, 5, 6, 7, 8, 9, 10, 11, 12 :: int}"
  by (simp, presburger)

lemma month_end:
  "1 \<le> m \<Longrightarrow> m \<le> 12 \<Longrightarrow> days_before_month y m + days_in_month y m \<le> days_in_year y"
  by (drule (1) month_cases) (auto simp: days_before_month_def days_in_month_def days_in_year_def)

lemma month_step:
  "1 \<le> m \<Longrightarrow> m < 12 \<Longrightarrow> days_before_month y (m + 1) = days_before_month y m + days_in_month y m"
  using month_cases [of m] by (auto simp: days_before_month_def days_in_month_def)

lemma days_in_month_pos: "0 < days_in_month y m"
  by (simp add: days_in_month_def)

lemma month_mono:
  assumes "1 \<le> m" "m < n" "n \<le> 12"
  shows "days_before_month y m + days_in_month y m \<le> days_before_month y n"
  using assms(2,1,3)
proof (induction n rule: int_gr_induct)
  case base
  then show ?case by (simp add: month_step)
next
  case (step i)
  then show ?case using month_step [of i y] days_in_month_pos [of y i] by simp
qed

lemma days_before_month_nonneg: "1 \<le> m \<Longrightarrow> m \<le> 12 \<Longrightarrow> 0 \<le> days_before_month y m"
  by (drule (1) month_cases) (auto simp: days_before_month_def)

lemma day_of_year_bounds:
  "valid_date d \<Longrightarrow> 1 \<le> day_of_year d \<and> day_of_year d \<le> days_in_year (dyear d)"
  using month_end [of "dmonth d" "dyear d"] days_before_month_nonneg [of "dmonth d" "dyear d"]
  by (auto simp: valid_date_def day_of_year_def)

lemma day_of_year_mono:
  assumes "valid_date a" "valid_date b" "dyear a = dyear b" "a < b"
  shows "day_of_year a < day_of_year b"
  using assms month_mono [of "dmonth a" "dmonth b" "dyear b"]
  by (auto simp: valid_date_def less_date_def day_of_year_def)

lemma div_pred:
  fixes y k :: int
  assumes "1 < k" shows "y div k = (y - 1) div k + (if y mod k = 0 then 1 else 0)"
proof (cases "y mod k = 0")
  case True
  have "y - 1 = k * (y div k - 1) + (k - 1)" using True mult_div_mod_eq [of k y] by (simp add: algebra_simps)
  then have "(y - 1) div k = y div k - 1" by (rule int_div_pos_eq) (use assms in auto)
  with True show ?thesis by simp
next
  case False
  have "0 \<le> y mod k" using assms by simp
  with False have "1 \<le> y mod k" by linarith
  moreover have "y mod k < k" using assms by simp
  moreover have "y - 1 = k * (y div k) + (y mod k - 1)" using mult_div_mod_eq [of k y] by simp
  ultimately have "(y - 1) div k = y div k" using int_div_pos_eq [of "y - 1" k "y div k" "y mod k - 1"] by simp
  with False show ?thesis by simp
qed

lemma mod_zero_trans: "(c::int) dvd b \<Longrightarrow> y mod b = 0 \<Longrightarrow> y mod c = 0"
  by (metis dvd_trans dvd_eq_mod_eq_0)

lemma leap_sum:
  "(P \<Longrightarrow> Q) \<Longrightarrow> (Q \<Longrightarrow> R) \<Longrightarrow>
    365 + ((if R then 1 else 0) - (if Q then 1 else 0) + (if P then 1 else 0)) =
      (if R \<and> (\<not> Q \<or> P) then 366 else 365 :: int)"
  by (cases P; cases Q; cases R) simp_all

lemma year_step: "days_before_year (y + 1) = days_before_year y + days_in_year y"
proof -
  have mods: "y mod 400 = 0 \<Longrightarrow> y mod 100 = 0" "y mod 100 = 0 \<Longrightarrow> y mod 4 = 0"
    by (rule mod_zero_trans [rotated], assumption, simp)+
  have "y div 4 = (y - 1) div 4 + (if y mod 4 = 0 then 1 else 0)"
    "y div 100 = (y - 1) div 100 + (if y mod 100 = 0 then 1 else 0)"
    "y div 400 = (y - 1) div 400 + (if y mod 400 = 0 then 1 else 0)" by (rule div_pred, simp)+
  then have "days_before_year (y + 1) = y * 365 + ((y - 1) div 4 + (if y mod 4 = 0 then 1 else 0)) -
      ((y - 1) div 100 + (if y mod 100 = 0 then 1 else 0)) + ((y - 1) div 400 + (if y mod 400 = 0 then 1 else 0))"
    unfolding days_before_year_def add_diff_cancel_right' by metis
  also have "\<dots> = days_before_year y + 365 + ((if y mod 4 = 0 then 1 else 0) -
      (if y mod 100 = 0 then 1 else 0) + (if y mod 400 = 0 then 1 else 0))"
    unfolding days_before_year_def by (simp only: left_diff_distrib)
  also have "\<dots> = days_before_year y + days_in_year y"
    using leap_sum [of "y mod 400 = 0" "y mod 100 = 0" "y mod 4 = 0", OF mods] unfolding days_in_year_def isleap_def by linarith
  finally show ?thesis .
qed

lemma year_mono: "y < z \<Longrightarrow> days_before_year y + days_in_year y \<le> days_before_year z"
proof (induction z rule: int_gr_induct)
  case base
  then show ?case by (simp add: year_step)
next
  case (step i)
  moreover have "0 < days_in_year i" by (simp add: days_in_year_def)
  ultimately show ?case by (simp add: year_step)
qed

text \<open>The order of dates is the order of their ordinals.\<close>

lemma toordinal_strict:
  assumes "valid_date a" "valid_date b" "a < b" shows "toordinal a < toordinal b"
proof (cases "dyear a = dyear b")
  case True
  with assms day_of_year_mono show ?thesis by (simp add: toordinal_def)
next
  case False
  with assms(3) have "dyear a < dyear b" by (auto simp: less_date_def)
  then have "days_before_year (dyear a) + days_in_year (dyear a) \<le> days_before_year (dyear b)"
    by (rule year_mono)
  with day_of_year_bounds [OF assms(1)] day_of_year_bounds [OF assms(2)]
  show ?thesis unfolding toordinal_def by linarith
qed

lemma toordinal_less_iff:
  "valid_date a \<Longrightarrow> valid_date b \<Longrightarrow> toordinal a < toordinal b \<longleftrightarrow> a < b"
  by (metis less_asym linorder_less_linear toordinal_strict)

section \<open>The annualization factor\<close>

definition fraction_of_year :: "int \<Rightarrow> int \<Rightarrow> py_exc + dec" where
  "fraction_of_year days y = ddiv default_context (dec_of_int days) (dec_of_int (if isleap y then 366 else 365))"

definition year_fraction :: "date \<Rightarrow> date \<Rightarrow> py_exc + dec" where
  "year_fraction s e =
     (if dyear s = dyear e then fraction_of_year (days_between e s + 1) (dyear s)
      else
        bindE (fraction_of_year (days_between (Date (dyear s) 12 31) s + 1) (dyear s)) (\<lambda>frac1.
        bindE (fraction_of_year (days_between e (Date (dyear e) 1 1) + 1) (dyear e)) (\<lambda>frac2.
        Inr (dadd default_context frac1 frac2))))"

definition compute_act_isda_annualization_factor ::
  "date \<Rightarrow> date \<Rightarrow> string \<Rightarrow> (string \<times> string) list \<Rightarrow> py_exc + dec" where
  "compute_act_isda_annualization_factor s e presentation semantics =
     (if presentation = ''UNKNOWN'' then Inl (ValueError ''ANNUALIZATION_POLICY_UNRESOLVED'')
      else if presentation \<in> set [''FULL_YEAR'', ''TRAILING_TWELVE_MONTHS''] then Inr dec_1_0
      else if presentation = ''DATE_POINT'' then
        (if ''FLOW'' \<in> snd ` set semantics then Inl (ValueError ''ANNUALIZATION_POLICY_UNRESOLVED'')
         else Inr dec_1_0)
      else if presentation \<in> set [''DISCRETE_PERIOD'', ''YEAR_TO_DATE'', ''QUARTERLY'', ''SEMI_ANNUAL''] then
        (if s > e then Inl (ValueError ''ANNUALIZATION_POLICY_UNRESOLVED'')
         else bindE (year_fraction s e) (\<lambda>yf.
           if dleq yf dec_0_0 then Inl (ValueError ''ANNUALIZATION_POLICY_UNRESOLVED'')
           else ddiv default_context dec_1_0 yf))
      else Inl (ValueError ''ANNUALIZATION_POLICY_UNRESOLVED''))"

section \<open>Bounds of the factor\<close>

abbreviation hd28 :: rat where "hd28 \<equiv> half_ulp default_context"

lemma default_prec [simp]: "prec default_context = 28"
  by (simp add: default_context_def)

lemma hd28_eq: "hd28 = 1 / (2 * 10 ^ 27)"
  by (simp add: half_ulp_def power_int_minus)

lemma dval_dec_of_int [simp]: "dval (dec_of_int i) = of_int i"
  by (cases "i < 0") (simp_all add: dec_of_int_def dval_Dec)

lemma days_in_year_eq: "(if isleap y then 366 else 365) = days_in_year y"
  by (simp add: days_in_year_def)

lemma days_in_year_range: "365 \<le> days_in_year y" "days_in_year y \<le> 366"
  by (simp_all add: days_in_year_def)

lemma fraction_of_year_ok:
  assumes "1 \<le> n" "n \<le> days_in_year y"
  obtains q where "fraction_of_year n y = Inr q"
    "\<bar>dval q - of_int n / of_int (days_in_year y)\<bar> \<le> of_int n / of_int (days_in_year y) * (2 * hd28)"
proof -
  have y: "days_in_year y \<noteq> 0" using days_in_year_range [of y] by linarith
  have "\<not> is_zero (dec_of_int (days_in_year y))"
    using y by (metis dval_dec_of_int dval_is_zero of_int_eq_0_iff)
  then obtain q where q: "ddiv default_context (dec_of_int n) (dec_of_int (days_in_year y)) = Inr q"
    using ddiv_total by blast
  have nn: "0 \<le> (of_int n / of_int (days_in_year y) :: rat)" using assms by simp
  have "\<bar>dval q - of_int n / of_int (days_in_year y)\<bar> \<le> of_int n / of_int (days_in_year y) * (2 * hd28)"
    using ddiv_rel [OF q] unfolding dval_dec_of_int abs_of_nonneg [OF nn] by simp
  then show ?thesis using that [of q] q by (simp add: fraction_of_year_def days_in_year_eq)
qed

text \<open>What the code computes of a period, without rounding: the shares of the first and the last year.\<close>

definition exact_year_fraction :: "date \<Rightarrow> date \<Rightarrow> rat" where
  "exact_year_fraction s e =
     (if dyear s = dyear e then of_int (day_of_year e - day_of_year s + 1) / of_int (days_in_year (dyear s))
      else of_int (days_in_year (dyear s) - day_of_year s + 1) / of_int (days_in_year (dyear s)) +
        of_int (day_of_year e) / of_int (days_in_year (dyear e)))"

lemma ordinal_differences:
  "dyear s = dyear e \<Longrightarrow> days_between e s + 1 = day_of_year e - day_of_year s + 1"
  "days_between (Date (dyear s) 12 31) s + 1 = days_in_year (dyear s) - day_of_year s + 1"
  "days_between e (Date (dyear e) 1 1) + 1 = day_of_year e"
  by (simp_all add: days_between_def toordinal_def day_of_year_def days_before_month_def days_in_year_def)

lemma year_fraction_ok:
  assumes "valid_date s" "valid_date e" "s \<le> e"
  obtains q where "year_fraction s e = Inr q"
    "\<bar>dval q - exact_year_fraction s e\<bar> \<le> exact_year_fraction s e * (4 * hd28)"
    "1 / 366 \<le> exact_year_fraction s e" "exact_year_fraction s e \<le> 2"
proof -
  define dy where "dy = days_in_year (dyear s)"
  define ey where "ey = days_in_year (dyear e)"
  have bs: "1 \<le> day_of_year s" "day_of_year s \<le> dy" and be: "1 \<le> day_of_year e" "day_of_year e \<le> ey"
    using day_of_year_bounds [OF assms(1)] day_of_year_bounds [OF assms(2)] by (simp_all add: dy_def ey_def)
  have r: "365 \<le> dy" "dy \<le> 366" "365 \<le> ey" "ey \<le> 366"
    using days_in_year_range by (simp_all add: dy_def ey_def)
  have part: "1 / 366 \<le> (of_int n / of_int m :: rat) \<and> (of_int n / of_int m :: rat) \<le> 1"
    if "1 \<le> n" "n \<le> m" "365 \<le> m" "m \<le> 366" for n m :: int
  proof -
    have "(of_int 1 :: rat) \<le> of_int n" "(of_int n :: rat) \<le> of_int m" "(of_int m :: rat) \<le> of_int 366"
      using that by (simp_all only: of_int_le_iff)
    moreover have "0 < (of_int m :: rat)" using that by simp
    ultimately show ?thesis using frac_le [of "of_int n :: rat" 1 "of_int m" 366] by simp
  qed
  show ?thesis
  proof (cases "dyear s = dyear e")
    case True
    have "day_of_year s \<le> day_of_year e"
      using day_of_year_mono [OF assms(1,2) True] assms(3)
      by (metis order.order_iff_strict less_imp_le)
    then have n: "1 \<le> day_of_year e - day_of_year s + 1" "day_of_year e - day_of_year s + 1 \<le> dy"
      using bs be True by (simp_all add: dy_def ey_def)
    obtain q where q: "fraction_of_year (day_of_year e - day_of_year s + 1) (dyear s) = Inr q"
      "\<bar>dval q - exact_year_fraction s e\<bar> \<le> exact_year_fraction s e * (2 * hd28)"
      using fraction_of_year_ok [OF n(1), of "dyear s"] n(2) True
      unfolding dy_def exact_year_fraction_def by auto
    have b: "1 / 366 \<le> exact_year_fraction s e" "exact_year_fraction s e \<le> 1"
      using part [OF n r(1,2)] True by (simp_all add: exact_year_fraction_def dy_def)
    have "exact_year_fraction s e * (2 * hd28) \<le> exact_year_fraction s e * (4 * hd28)"
      using b(1) by (intro mult_left_mono) simp_all
    then show ?thesis using that [of q] q b True by (simp add: year_fraction_def ordinal_differences)
  next
    case False
    let ?n = "dy - day_of_year s + 1"
    have n: "1 \<le> ?n" "?n \<le> dy" using bs by simp_all
    obtain f where f: "fraction_of_year ?n (dyear s) = Inr f"
      "\<bar>dval f - of_int ?n / of_int dy\<bar> \<le> of_int ?n / of_int dy * (2 * hd28)"
      using fraction_of_year_ok n unfolding dy_def by metis
    obtain g where g: "fraction_of_year (day_of_year e) (dyear e) = Inr g"
      "\<bar>dval g - of_int (day_of_year e) / of_int ey\<bar> \<le> of_int (day_of_year e) / of_int ey * (2 * hd28)"
      using fraction_of_year_ok be unfolding ey_def by metis
    let ?F = "of_int ?n / of_int dy + of_int (day_of_year e) / of_int ey :: rat"
    have F: "exact_year_fraction s e = ?F" using False by (simp add: exact_year_fraction_def dy_def ey_def)
    have b: "1 / 366 \<le> ?F" "?F \<le> 2" using part [OF n r(1,2)] part [OF be r(3,4)] by linarith+
    have fg: "\<bar>(dval f + dval g) - ?F\<bar> \<le> ?F * (2 * hd28)"
      using f(2) g(2) by (simp only: distrib_right)
    have nn: "0 \<le> ?F" using b(1) by linarith
    from fg have "\<bar>dval f + dval g - ?F\<bar> \<le> \<bar>?F\<bar> * (2 * hd28)" unfolding abs_of_nonneg [OF nn] .
    moreover have "\<bar>dval (dadd default_context f g) - (dval f + dval g)\<bar> \<le> \<bar>dval f + dval g\<bar> * hd28"
      by (rule dadd_rel) simp
    ultimately have "\<bar>dval (dadd default_context f g) - ?F\<bar> \<le> \<bar>?F\<bar> * (2 * hd28 + hd28 + 2 * hd28 * hd28)"
      by (rule rel_error_trans) simp
    also have "\<dots> \<le> \<bar>?F\<bar> * (4 * hd28)" by (intro mult_left_mono) (simp_all add: hd28_eq)
    also have "\<bar>?F\<bar> = ?F" using nn by (rule abs_of_nonneg)
    finally show ?thesis
      using that [of "dadd default_context f g"] f(1) g(1) b False
      by (simp add: year_fraction_def ordinal_differences F dy_def ey_def)
  qed
qed


lemma recip_bound:
  fixes x y :: rat
  assumes "\<bar>y - x\<bar> \<le> x * (4 * hd28)" "1 / 366 \<le> x"
  shows "0 < y" "1 / y \<le> 367"
proof -
  have "x * (4 * hd28) \<le> x * (1 / 10 ^ 6)" using assms(2) by (intro mult_left_mono) (simp_all add: hd28_eq)
  then have "x * (1 - 1 / 10 ^ 6) \<le> y" using assms(1) by (simp add: right_diff_distrib)
  moreover have "1 / 366 * (1 - 1 / 10 ^ 6) \<le> x * (1 - 1 / 10 ^ 6)"
    using assms(2) by (rule mult_right_mono) simp
  ultimately have y: "1 / 367 \<le> y" by simp
  then show "0 < y" by linarith
  show "1 / y \<le> 367" using frac_le [of 1 1 "1 / 367" y] y by simp
qed

lemma factor_bound:
  assumes "ddiv default_context dec_1_0 q = Inr f" "0 < dval q" "1 / dval q \<le> 367"
  shows "\<bar>dval f\<bar> \<le> 400"
proof -
  have "\<bar>dval f - 1 / dval q\<bar> \<le> 1 / dval q * (2 * hd28)"
    using ddiv_rel [OF assms(1)] assms(2) by simp
  also have "1 / dval q * (2 * hd28) \<le> 367 * (2 * hd28)" using assms(3) by (rule mult_right_mono) simp
  also have "\<dots> \<le> 1" by (simp add: hd28_eq)
  finally have "\<bar>dval f - 1 / dval q\<bar> \<le> 1" .
  moreover have "0 \<le> 1 / dval q" using assms(2) by simp
  ultimately show ?thesis using assms(3) by linarith
qed

lemma annualization_shape:
  "(if a then Inl e else if b then Inr x else if c then (if d then Inl e else Inr x)
    else if m then (if g then Inl e else k) else Inl e) = r \<Longrightarrow>
   r = Inl e \<or> r = Inr x \<or> (\<not> g \<and> k = r)"
  by (auto split: if_splits)

lemma annualization_cases:
  "compute_act_isda_annualization_factor s e p sem = Inl (ValueError ''ANNUALIZATION_POLICY_UNRESOLVED'') \<or>
   compute_act_isda_annualization_factor s e p sem = Inr dec_1_0 \<or>
   s \<le> e \<and> compute_act_isda_annualization_factor s e p sem =
     bindE (year_fraction s e) (\<lambda>yf. if dleq yf dec_0_0 then Inl (ValueError ''ANNUALIZATION_POLICY_UNRESOLVED'')
       else ddiv default_context dec_1_0 yf)"
  using annualization_shape [OF compute_act_isda_annualization_factor_def [symmetric], of s e p sem]
  unfolding linorder_not_less by (elim disjE conjE) simp_all

lemma annualization_factor_bounded:
  assumes "valid_date s" "valid_date e"
    and "compute_act_isda_annualization_factor s e p sem = Inr f"
  shows "\<bar>dval f\<bar> \<le> 400"
proof -
  have one: "\<bar>dval dec_1_0\<bar> \<le> 400" by simp
  consider "f = dec_1_0" | q where "s \<le> e" "year_fraction s e = Inr q" "ddiv default_context dec_1_0 q = Inr f"
    using annualization_cases [of s e p sem] assms(3) by (auto simp: exc_simps eq_commute [of "Inr f"] split: if_splits)
  then show ?thesis
  proof cases
    case 2
    obtain q' where "year_fraction s e = Inr q'"
      "\<bar>dval q' - exact_year_fraction s e\<bar> \<le> exact_year_fraction s e * (4 * hd28)"
      "1 / 366 \<le> exact_year_fraction s e" using year_fraction_ok [OF assms(1,2) 2(1)] .
    with 2 recip_bound [of "dval q"] factor_bound show ?thesis by auto
  qed (use one in simp)
qed

text \<open>The only exception the computation raises.\<close>

lemma annualization_errors:
  assumes "valid_date s" "valid_date e"
    and "compute_act_isda_annualization_factor s e p sem = Inl x"
  shows "x = ValueError ''ANNUALIZATION_POLICY_UNRESOLVED''"
proof (rule ccontr)
  assume x: "x \<noteq> ValueError ''ANNUALIZATION_POLICY_UNRESOLVED''"
  then have eq: "s \<le> e" "bindE (year_fraction s e) (\<lambda>yf. if dleq yf dec_0_0
      then Inl (ValueError ''ANNUALIZATION_POLICY_UNRESOLVED'') else ddiv default_context dec_1_0 yf) = Inl x"
    using assms(3) annualization_cases [of s e p sem] by auto
  obtain q where q: "year_fraction s e = Inr q"
    "\<bar>dval q - exact_year_fraction s e\<bar> \<le> exact_year_fraction s e * (4 * hd28)"
    "1 / 366 \<le> exact_year_fraction s e" using year_fraction_ok [OF assms(1,2) eq(1)] .
  then have "0 < dval q" using recip_bound(1) by blast
  then have "\<not> is_zero q" using dval_is_zero [of q] by auto
  then obtain f where "ddiv default_context dec_1_0 q = Inr f" using ddiv_total by blast
  with eq(2) x q(1) show False by (auto split: if_splits)
qed


section \<open>Properties\<close>

text \<open>C28: for valid dates the annualization factor is returned or refused with
  \<open>ANNUALIZATION_POLICY_UNRESOLVED\<close>, never another exception, and a returned factor is at most
  400 in absolute value.\<close>

theorem annualization_total:
  assumes "valid_date s" and "valid_date e"
  shows "compute_act_isda_annualization_factor s e p sem = Inl (ValueError ''ANNUALIZATION_POLICY_UNRESOLVED'') \<or>
    (\<exists>f. compute_act_isda_annualization_factor s e p sem = Inr f \<and> \<bar>dval f\<bar> \<le> 400)"
  using annualization_errors [OF assms, of p sem] annualization_factor_bounded [OF assms, of p sem]
  by (cases "compute_act_isda_annualization_factor s e p sem") auto

lemma annualization_total_witness:
  "compute_act_isda_annualization_factor (Date 2024 1 1) (Date 2024 6 30) ''YEAR_TO_DATE'' [] =
      Inl (ValueError ''ANNUALIZATION_POLICY_UNRESOLVED'') \<or>
    (\<exists>f. compute_act_isda_annualization_factor (Date 2024 1 1) (Date 2024 6 30) ''YEAR_TO_DATE'' [] = Inr f \<and>
      \<bar>dval f\<bar> \<le> 400)"
  by (rule annualization_total) (simp_all add: valid_date_def days_in_month_def)

section \<open>The length of a period\<close>

text \<open>The days of a calendar year that a period covers, by the ordinals of the dates, and the length of the
  period in years: every calendar year counts with its covered share.\<close>

definition days_covered :: "date \<Rightarrow> date \<Rightarrow> int \<Rightarrow> int" where
  "days_covered s e y = max 0 (min (toordinal e) (toordinal (Date y 12 31)) - max (toordinal s) (toordinal (Date y 1 1)) + 1)"

definition length_in_years :: "date \<Rightarrow> date \<Rightarrow> rat" where
  "length_in_years s e = (\<Sum>y \<in> {dyear s..dyear e}. of_int (days_covered s e y) / of_int (days_in_year y))"

lemma new_year: "toordinal (Date y 1 1) = days_before_year y + 1"
  "toordinal (Date y 12 31) = days_before_year y + days_in_year y"
  by (simp_all add: toordinal_def day_of_year_def days_before_month_def days_in_year_def)

lemma days_covered_cases:
  assumes "valid_date s" "valid_date e" "s \<le> e" "dyear s \<le> y" "y \<le> dyear e"
  shows "days_covered s e y =
    (if y = dyear e then day_of_year e else days_in_year y) - (if y = dyear s then day_of_year s else 1) + 1"
proof -
  have s: "toordinal s = days_before_year (dyear s) + day_of_year s" and e: "toordinal e = days_before_year (dyear e) + day_of_year e"
    by (simp_all add: toordinal_def)
  have b: "1 \<le> day_of_year s" "day_of_year s \<le> days_in_year (dyear s)" "1 \<le> day_of_year e" "day_of_year e \<le> days_in_year (dyear e)"
    using day_of_year_bounds assms(1,2) by blast+
  have "min (toordinal e) (toordinal (Date y 12 31)) =
      days_before_year y + (if y = dyear e then day_of_year e else days_in_year y)"
    using assms(5) b year_mono [of y "dyear e"] by (auto simp: new_year e)
  moreover have "max (toordinal s) (toordinal (Date y 1 1)) =
      days_before_year y + (if y = dyear s then day_of_year s else 1)"
    using assms(4) b year_mono [of "dyear s" y] by (auto simp: new_year s)
  moreover have "day_of_year s \<le> day_of_year e" if "dyear s = dyear e"
    using day_of_year_mono [OF assms(1,2) that] assms(3) by (metis order.order_iff_strict less_imp_le)
  ultimately show ?thesis using b days_in_year_range [of y] by (auto simp: days_covered_def)
qed

lemma length_in_years_eq:
  assumes "valid_date s" "valid_date e" "s \<le> e"
  shows "length_in_years s e = exact_year_fraction s e + of_int (max 0 (dyear e - dyear s - 1))"
proof (cases "dyear s = dyear e")
  case True
  then show ?thesis using days_covered_cases [OF assms, of "dyear e"]
    by (simp add: length_in_years_def exact_year_fraction_def)
next
  case False
  let ?t = "\<lambda>y. of_int (days_covered s e y) / of_int (days_in_year y) :: rat"
  have lt: "dyear s < dyear e" using False assms(3) by (auto simp: less_eq_date_def)
  then have "{dyear s..dyear e} = insert (dyear s) (insert (dyear e) {dyear s<..<dyear e})" by auto
  then have "length_in_years s e = ?t (dyear s) + (?t (dyear e) + sum ?t {dyear s<..<dyear e})"
    using lt by (simp add: length_in_years_def)
  moreover have "sum ?t {dyear s<..<dyear e} = (\<Sum>y \<in> {dyear s<..<dyear e}. 1)"
  proof (rule sum.cong)
    fix y
    assume "y \<in> {dyear s<..<dyear e}"
    then show "?t y = 1" using days_covered_cases [OF assms, of y] days_in_year_range [of y] by auto
  qed simp
  moreover have "?t (dyear s) + ?t (dyear e) = exact_year_fraction s e"
    using False lt days_covered_cases [OF assms, of "dyear s"] days_covered_cases [OF assms, of "dyear e"]
    by (simp add: exact_year_fraction_def)
  ultimately show ?thesis using lt by simp
qed

text \<open>C29: on a period measured in days, with ordered valid dates, the factor is within a relative
  \<open>10^-26\<close> of the reciprocal of the period's length in years (every calendar year with the share of its
  days that the period covers, leap years with 366) less one for every calendar year between the year of
  the start and the year of the end, which the code does not count. So it is the reciprocal of the
  length exactly for periods in one calendar year or two consecutive ones.\<close>

theorem annualization_accurate:
  assumes "valid_date s" and "valid_date e" and "s \<le> e"
    and "p \<in> {''DISCRETE_PERIOD'', ''YEAR_TO_DATE'', ''QUARTERLY'', ''SEMI_ANNUAL''}"
  defines "x \<equiv> length_in_years s e - of_int (max 0 (dyear e - dyear s - 1))"
  shows "\<exists>f. compute_act_isda_annualization_factor s e p sem = Inr f \<and> \<bar>dval f - 1 / x\<bar> \<le> 1 / x / 10 ^ 26"
proof -
  have e: "x = exact_year_fraction s e" using length_in_years_eq [OF assms(1-3)] by (simp add: x_def)
  obtain q where q: "year_fraction s e = Inr q" "\<bar>dval q - x\<bar> \<le> x * (4 * hd28)" "1 / 366 \<le> x"
    using year_fraction_ok [OF assms(1-3)] unfolding e .
  have pos: "0 < dval q" using recip_bound(1) [OF q(2,3)] .
  then have nz: "\<not> is_zero q" "\<not> dleq q dec_0_0" using dval_is_zero [of q] by (auto simp: dleq_iff)
  obtain f where f: "ddiv default_context dec_1_0 q = Inr f" using ddiv_total nz by blast
  have "compute_act_isda_annualization_factor s e p sem = Inr f"
    using assms(4)
    by (elim insertE emptyE) (use assms(3) q(1) nz f in \<open>simp_all add: compute_act_isda_annualization_factor_def\<close>)
  moreover have "\<bar>dval f - 1 / x\<bar> \<le> 1 / x / 10 ^ 26"
  proof -
    have x: "0 < x" using q(3) by linarith
    have "\<bar>1 / dval q - 1 / x\<bar> \<le> \<bar>1 / x\<bar> * (2 * (0 + 4 * hd28))"
      using q(2) x by (intro rel_div) (simp_all add: hd28_eq)
    then have 1: "\<bar>1 / dval q - 1 / x\<bar> \<le> \<bar>1 / x\<bar> * (8 * hd28)" by simp
    have 2: "\<bar>dval f - 1 / dval q\<bar> \<le> \<bar>1 / dval q\<bar> * (2 * hd28)" using ddiv_rel [OF f] by simp
    have "\<bar>dval f - 1 / x\<bar> \<le> \<bar>1 / x\<bar> * (8 * hd28 + 2 * hd28 + 8 * hd28 * (2 * hd28))"
      by (rule rel_error_trans [OF 1 2]) simp
    also have "\<dots> \<le> \<bar>1 / x\<bar> * (1 / 10 ^ 26)" by (intro mult_left_mono) (simp_all add: hd28_eq)
    also have "\<bar>1 / x\<bar> = 1 / x" using x by simp
    finally show ?thesis by simp
  qed
  ultimately show ?thesis by blast
qed

text \<open>The computation forgets the years between the first and the last: for two periods with one
  start that end on the same day of different years of one length, the factor is the same.\<close>

theorem annualization_ignores_middle_years:
  assumes "dyear s < y" and "dyear s < z" and "isleap y = isleap z"
  shows "compute_act_isda_annualization_factor s (Date y m d) p sem =
    compute_act_isda_annualization_factor s (Date z m d) p sem"
proof -
  have "days_between (Date y m d) (Date y 1 1) = days_between (Date z m d) (Date z 1 1)"
    using assms(3) by (simp add: days_between_def toordinal_def day_of_year_def days_before_month_def)
  then have "year_fraction s (Date y m d) = year_fraction s (Date z m d)"
    using assms by (simp add: year_fraction_def fraction_of_year_def)
  moreover have "\<not> s > Date y m d" "\<not> s > Date z m d" using assms by (simp_all add: less_date_def)
  ultimately show ?thesis unfolding compute_act_isda_annualization_factor_def by simp
qed

lemma annualization_ignores_middle_years_witness:
  "compute_act_isda_annualization_factor (Date 2019 7 1) (Date 2021 6 30) ''DISCRETE_PERIOD'' [] =
    compute_act_isda_annualization_factor (Date 2019 7 1) (Date 2023 6 30) ''DISCRETE_PERIOD'' []"
  by (rule annualization_ignores_middle_years) (simp_all add: isleap_def)

text \<open>A first quarter: 90 of 365 days.\<close>

lemma annualization_accurate_witness:
  "\<exists>f. compute_act_isda_annualization_factor (Date 2023 1 1) (Date 2023 3 31) ''YEAR_TO_DATE'' [] = Inr f \<and>
    \<bar>dval f - 365 / 90\<bar> \<le> 365 / 90 / 10 ^ 26"
proof -
  have d: "valid_date (Date 2023 1 1)" "valid_date (Date 2023 3 31)" "Date 2023 1 1 \<le> Date 2023 3 31"
    by (simp_all add: valid_date_def days_in_month_def less_eq_date_def)
  have x: "length_in_years (Date 2023 1 1) (Date 2023 3 31) - of_int (max 0 (dyear (Date 2023 3 31) - dyear (Date 2023 1 1) - 1)) = 90 / 365"
    by (simp add: length_in_years_def days_covered_def toordinal_def day_of_year_def days_before_month_def
        days_before_year_def days_in_year_def isleap_def)
  from annualization_accurate [OF d, of "''YEAR_TO_DATE''" "[]", unfolded x] show ?thesis by simp
qed

end
