(* ===== verification/Tables.thy ===== *)
theory Tables
  imports PyText Calendar
begin

text \<open>
  Rows that several services read: financial facts, candidate evidence, document versions,
  reporting periods, formula definitions and audit events (\<open>app/models\<close>), and
  \<open>services/audit_service.py\<close>. A nullable column is an option; the columns nothing in the model
  reads (timestamps of creation, free texts) are left out. \<open>stored_as\<close> is what a NUMERIC column
  does to a value: it rounds half away from zero and refuses one that does not fit.
\<close>

section \<open>Rows\<close>

record financial_fact =
  ff_id :: uuid
  ff_org :: uuid
  ff_institution :: uuid
  ff_period :: uuid
  ff_metric_definition :: uuid
  ff_metric_code :: string
  ff_value :: dec
  ff_currency :: string
  ff_unit :: string
  ff_scale :: string
  ff_normalized :: dec
  ff_basis :: string
  ff_candidate :: "uuid option"
  ff_document :: uuid
  ff_page :: "int option"
  ff_review :: string
  ff_verified_by :: "uuid option"
  ff_supersedes :: "uuid option"
  ff_valid_to :: "nat option"
  ff_origin :: string

text \<open>What \<open>float(x)\<close> makes of a value of the JSON column \<open>bounding_box\<close>; it raises on the last.\<close>

datatype float_arg = Finite rat | NaN | Infinity | NotAFloat

record candidate_evidence =
  ce_id :: uuid
  ce_org :: uuid
  ce_candidate :: uuid
  ce_version :: uuid
  ce_page :: "int option"
  ce_sheet :: "string option"
  ce_cell :: "string option"
  ce_header :: "string option"
  ce_row :: "int option"
  ce_column :: "int option"
  ce_bbox :: "(string \<times> float_arg) list"
  ce_snippet :: "string option"

record document_version =
  dv_id :: uuid
  dv_org :: uuid
  dv_document :: uuid
  dv_object :: uuid
  dv_number :: nat
  dv_ingestion :: string
  dv_extraction :: string
  dv_detected_mime :: "string option"
  dv_declared_mime :: "string option"

record reporting_period =
  rp_id :: uuid
  rp_org :: uuid
  rp_type :: string
  rp_presentation :: string
  rp_fiscal_year :: int
  rp_quarter :: "int option"
  rp_start :: date
  rp_end :: date
  rp_label :: string
  rp_comparison_key :: string

record formula_definition =
  fd_code :: string
  fd_status :: string
  fd_implementation_checksum :: "string option"
  fd_spec_checksum :: "string option"
  fd_tolerance_kind :: string
  fd_tolerance_value :: dec
  fd_tolerance_unit :: string
  fd_tolerance_policy_version :: string

record audit_event =
  ae_org :: uuid
  ae_type :: string
  ae_user_hash :: string
  ae_org_hash :: string
  ae_payload :: "(string \<times> json) list"
  ae_previous_hash :: string
  ae_current_hash :: string

text \<open>Writing a decimal to a column \<open>NUMERIC(p, s)\<close>.\<close>

definition stored_as :: "nat \<Rightarrow> nat \<Rightarrow> dec \<Rightarrow> py_exc + dec" where
  "stored_as p s d = (let r = drescale ROUND_HALF_UP d (- int s)
     in if dcoeff r < 10 ^ p then Inr r else Inl DataError)"

text \<open>\<open>str.strip()\<close>.\<close>

definition is_space :: "char \<Rightarrow> bool" where
  "is_space c \<longleftrightarrow> (of_char c :: nat) \<in> {9, 10, 11, 12, 13, 28, 29, 30, 31, 32, 133, 160}"

definition str_strip :: "string \<Rightarrow> string" where
  "str_strip s = rev (dropWhile is_space (rev (dropWhile is_space s)))"

section \<open>The audit service\<close>

definition sensitive_keys :: "string list" where
  "sensitive_keys = [''filename'', ''display_name'', ''raw_filename'', ''raw_value'', ''content'',
     ''cell_value'', ''opaque_object_key'', ''temporary_object_key'', ''token'', ''secret'', ''password'',
     ''authorization'', ''value'', ''normalized_value'', ''result_value'', ''snapshot_value'',
     ''normalized_value_snapshot'']"

fun sanitize_payload_recursive :: "json \<Rightarrow> json" and sanitize_list :: "json list \<Rightarrow> json list"
  and sanitize_items :: "(string \<times> json) list \<Rightarrow> (string \<times> json) list" where
  "sanitize_payload_recursive (JObj kvs) = JObj (sanitize_items kvs)"
| "sanitize_payload_recursive (JList xs) = JList (sanitize_list xs)"
| "sanitize_payload_recursive j = j"
| "sanitize_list [] = []"
| "sanitize_list (x # xs) = sanitize_payload_recursive x # sanitize_list xs"
| "sanitize_items [] = []"
| "sanitize_items ((k, v) # kvs) =
     (if str_lower k \<in> set sensitive_keys then sanitize_items kvs
      else (k, sanitize_payload_recursive v) # sanitize_items kvs)"

text \<open>\<open>dict.update\<close>: a present key keeps its place and takes the new value.\<close>

definition dict_put :: "'k \<Rightarrow> 'v \<Rightarrow> ('k \<times> 'v) list \<Rightarrow> ('k \<times> 'v) list" where
  "dict_put k v d = (if k \<in> fst ` set d then map (\<lambda>(x, w). if x = k then (x, v) else (x, w)) d else d @ [(k, v)])"

definition dict_update :: "('k \<times> 'v) list \<Rightarrow> ('k \<times> 'v) list \<Rightarrow> ('k \<times> 'v) list" where
  "dict_update d upd = fold (\<lambda>(k, v). dict_put k v) upd d"

definition audit_record ::
  "(string \<Rightarrow> string) \<Rightarrow> uuid \<Rightarrow> string \<Rightarrow> string \<Rightarrow> uuid \<Rightarrow> uuid option \<Rightarrow> (string \<times> json) list \<Rightarrow> audit_event" where
  "audit_record sha org event_type target_type target_id actor payload =
     (let clean = dict_update [(''target_type'', JStr target_type), (''target_id'', JStr (uuid_str target_id))]
            (sanitize_items payload);
          u_hash = sha (case actor of None \<Rightarrow> ''system'' | Some a \<Rightarrow> uuid_str a);
          o_hash = sha (uuid_str org)
      in \<lparr>ae_org = org, ae_type = event_type, ae_user_hash = u_hash, ae_org_hash = o_hash,
          ae_payload = clean, ae_previous_hash = replicate 64 CHR ''0'',
          ae_current_hash = sha (event_type @ '':'' @ u_hash @ '':'' @ o_hash)\<rparr>)"

text \<open>No key of the result, at any depth, is sensitive.\<close>

fun clean_json :: "json \<Rightarrow> bool" and clean_list :: "json list \<Rightarrow> bool"
  and clean_items :: "(string \<times> json) list \<Rightarrow> bool" where
  "clean_json (JObj kvs) = clean_items kvs"
| "clean_json (JList xs) = clean_list xs"
| "clean_json _ = True"
| "clean_list [] = True"
| "clean_list (x # xs) = (clean_json x \<and> clean_list xs)"
| "clean_items [] = True"
| "clean_items ((k, v) # kvs) = (str_lower k \<notin> set sensitive_keys \<and> clean_json v \<and> clean_items kvs)"

lemma sanitize_clean:
  "clean_json (sanitize_payload_recursive j)" "clean_list (sanitize_list xs)" "clean_items (sanitize_items kvs)"
  by (induction j and xs and kvs rule: sanitize_payload_recursive_sanitize_list_sanitize_items.induct) simp_all

lemma clean_items_iff:
  "clean_items kvs \<longleftrightarrow> (\<forall>(k, v) \<in> set kvs. str_lower k \<notin> set sensitive_keys \<and> clean_json v)"
  by (induction kvs) auto

lemma clean_items_put:
  "clean_items d \<Longrightarrow> str_lower k \<notin> set sensitive_keys \<Longrightarrow> clean_json v \<Longrightarrow> clean_items (dict_put k v d)"
  unfolding clean_items_iff dict_put_def by (fastforce split: if_splits)

lemma clean_items_update: "clean_items d \<Longrightarrow> clean_items upd \<Longrightarrow> clean_items (dict_update d upd)"
  unfolding dict_update_def
  by (induction upd arbitrary: d) (auto simp: clean_items_put)

lemma target_keys_clean:
  "str_lower ''target_type'' \<notin> set sensitive_keys" "str_lower ''target_id'' \<notin> set sensitive_keys"
  by (simp_all add: str_lower_def lower_char_def Let_def sensitive_keys_def)

text \<open>C32: an audit event never carries a sensitive key, at any depth of its payload, whatever the
  caller passes.\<close>

theorem audit_payload_clean:
  "clean_items (ae_payload (audit_record sha org event_type target_type target_id actor payload))"
  unfolding audit_record_def Let_def audit_event.simps
  by (rule clean_items_update) (simp_all add: target_keys_clean sanitize_clean)

end
