(* ===== verification/CalculationService.thy ===== *)
theory CalculationService
  imports Tables FormulaRegistry Calendar
begin

text \<open>
  \<open>CalculationService.run_calculation\<close> of \<open>services/calculation_service.py\<close>, stage by stage in the
  order of the code: fingerprint, formula and checksums, period resolution, annualization, fact
  selection, consistency, idempotency hash, request row, reuse of a completed calculation, evidence
  validation, execution, attempt and calculation rows, reconciliation, audit, commit, and the
  recovery block that records a failed attempt.

  The session is a record: the committed rows, the rows this transaction has added, and the three
  local variables the recovery block reads. Every write of the code is an insert, so a rollback drops
  the added rows and a commit appends them. \<open>env\<close> is what other sessions commit at the points where the
  code expects them (it is indexed by the point); uniqueness constraints refuse a row that clashes
  with committed or added rows. \<open>ids\<close> supplies \<open>uuid4()\<close>, by purpose and position, and \<open>sha\<close> the digest.
  Row locks, the tenant setting and the clock are left out.
\<close>

section \<open>Rows and the session\<close>

record calc_request =
  cr_id :: uuid
  cr_org :: uuid
  cr_fingerprint :: string
  cr_formula_code :: string
  cr_institution :: uuid
  cr_period :: uuid
  cr_comparison :: "uuid option"
  cr_policy :: string
  cr_user :: uuid

record calc_attempt =
  at_id :: uuid
  at_org :: uuid
  at_request :: uuid
  at_number :: nat
  at_hash :: "string option"
  at_status :: string
  at_error :: "string option"
  at_spec_checksum :: "string option"
  at_impl_checksum :: "string option"

record calculation =
  cl_id :: uuid
  cl_org :: uuid
  cl_request :: uuid
  cl_attempt :: uuid
  cl_institution :: uuid
  cl_period :: uuid
  cl_comparison :: "uuid option"
  cl_formula_code :: string
  cl_status :: string
  cl_unrounded :: dec
  cl_display :: dec
  cl_unit :: string
  cl_scale :: string
  cl_currency :: "string option"
  cl_hash :: string
  cl_factor :: dec
  cl_attempt_number :: nat
  cl_user :: uuid

record calc_input =
  ci_id :: uuid
  ci_org :: uuid
  ci_calculation :: uuid
  ci_fact :: uuid
  ci_role :: string
  ci_metric_code :: string
  ci_normalized :: dec
  ci_currency :: string
  ci_unit :: string
  ci_scale :: string
  ci_basis :: string
  ci_period :: uuid

record calc_evidence =
  cv_id :: uuid
  cv_org :: uuid
  cv_calculation :: uuid
  cv_input :: uuid
  cv_fact :: uuid
  cv_candidate_evidence :: uuid
  cv_version :: uuid

record reconciliation =
  rc_id :: uuid
  rc_org :: uuid
  rc_calculation :: uuid
  rc_source_fact :: uuid
  rc_source_value :: dec
  rc_derived :: dec
  rc_absolute :: dec
  rc_relative :: "dec option"
  rc_tolerance_kind :: string
  rc_tolerance :: dec
  rc_status :: string

record calc_db =
  t_definitions :: "formula_definition list"
  t_periods :: "reporting_period list"
  t_facts :: "financial_fact list"
  t_candidate_evidence :: "candidate_evidence list"
  t_versions :: "document_version list"
  t_requests :: "calc_request list"
  t_attempts :: "calc_attempt list"
  t_calculations :: "calculation list"
  t_inputs :: "calc_input list"
  t_evidence :: "calc_evidence list"
  t_reconciliations :: "reconciliation list"
  t_audit :: "audit_event list"

record calc_session =
  committed :: calc_db
  added :: calc_db
  lv_hash :: "string option"
  lv_spec :: "string option"
  lv_impl :: "string option"

definition no_rows :: calc_db where
  "no_rows = \<lparr>t_definitions = [], t_periods = [], t_facts = [], t_candidate_evidence = [], t_versions = [],
     t_requests = [], t_attempts = [], t_calculations = [], t_inputs = [], t_evidence = [],
     t_reconciliations = [], t_audit = []\<rparr>"

definition merge_rows :: "calc_db \<Rightarrow> calc_db \<Rightarrow> calc_db" where
  "merge_rows a b =
     \<lparr>t_definitions = t_definitions a @ t_definitions b, t_periods = t_periods a @ t_periods b,
      t_facts = t_facts a @ t_facts b, t_candidate_evidence = t_candidate_evidence a @ t_candidate_evidence b,
      t_versions = t_versions a @ t_versions b, t_requests = t_requests a @ t_requests b,
      t_attempts = t_attempts a @ t_attempts b, t_calculations = t_calculations a @ t_calculations b,
      t_inputs = t_inputs a @ t_inputs b, t_evidence = t_evidence a @ t_evidence b,
      t_reconciliations = t_reconciliations a @ t_reconciliations b, t_audit = t_audit a @ t_audit b\<rparr>"

text \<open>What the session's queries see.\<close>

definition visible :: "calc_session \<Rightarrow> calc_db" where
  "visible s = merge_rows (committed s) (added s)"

definition rollback :: "calc_session \<Rightarrow> calc_session" where
  "rollback s = s\<lparr>added := no_rows\<rparr>"

definition commit :: "calc_session \<Rightarrow> calc_session" where
  "commit s = s\<lparr>committed := visible s, added := no_rows\<rparr>"

type_synonym env = "nat \<Rightarrow> calc_db \<Rightarrow> calc_db"
type_synonym uuid_supply = "string \<Rightarrow> nat \<Rightarrow> nat \<Rightarrow> uuid"

text \<open>Two sets of rows share a key of one of the unique constraints: on the fingerprint of a request, on the
  number of an attempt (migration 014), and on the hash of a completed calculation
  (\<open>uq_calculations_active_idempotency\<close>).\<close>

definition shares_key :: "calc_db \<Rightarrow> calc_db \<Rightarrow> bool" where
  "shares_key d d' \<longleftrightarrow>
     (\<exists>r \<in> set (t_requests d). \<exists>q \<in> set (t_requests d'). cr_org r = cr_org q \<and> cr_fingerprint r = cr_fingerprint q) \<or>
     (\<exists>x \<in> set (t_attempts d). \<exists>y \<in> set (t_attempts d').
        at_org x = at_org y \<and> at_request x = at_request y \<and> at_number x = at_number y) \<or>
     (\<exists>b \<in> set (t_calculations d). \<exists>c \<in> set (t_calculations d'). cl_status b = ''COMPLETED'' \<and>
        cl_status c = ''COMPLETED'' \<and> cl_org b = cl_org c \<and> cl_hash b = cl_hash c)"

text \<open>What other sessions commit at point \<open>i\<close> of the run. A session that inserts a key of a row pending
  here waits in the database for the end of this transaction, so its commit does not happen before.\<close>

definition others :: "env \<Rightarrow> nat \<Rightarrow> (calc_session, unit) proc" where
  "others env i = modifyP (\<lambda>s. if shares_key (env i (committed s)) (added s) then s
     else s\<lparr>committed := env i (committed s)\<rparr>)"

section \<open>Fingerprint and idempotency hash\<close>

record calc_args =
  a_org :: uuid
  a_user :: uuid
  a_formula_code :: string
  a_institution :: uuid
  a_period :: uuid
  a_comparison :: "uuid option"
  a_policy :: string

definition request_fingerprint_payload :: "calc_args \<Rightarrow> json" where
  "request_fingerprint_payload a = JObj
     [(''organization_id'', JStr (uuid_str (a_org a))),
      (''formula_code'', JStr (a_formula_code a)),
      (''formula_version'', JStr ''1.0.0''),
      (''institution_id'', JStr (uuid_str (a_institution a))),
      (''reporting_period_id'', JStr (uuid_str (a_period a))),
      (''comparison_period_id'', opt_uuid (a_comparison a)),
      (''comparison_policy'', JStr (a_policy a)),
      (''contract_schema_version'', JStr ''1.0.0'')]"

definition compute_request_fingerprint :: "(string \<Rightarrow> string) \<Rightarrow> calc_args \<Rightarrow> string" where
  "compute_request_fingerprint sha a = sha (json_dumps (request_fingerprint_payload a))"

definition role_snapshot :: "string \<times> financial_fact \<Rightarrow> json" where
  "role_snapshot rf = (case rf of (r, f) \<Rightarrow> JObj
     [(''role'', JStr r),
      (''fact_id'', JStr (uuid_str (ff_id f))),
      (''revision_id'', JStr (uuid_str (case ff_candidate f of None \<Rightarrow> ff_id f | Some c \<Rightarrow> c))),
      (''normalized_value'', JStr (dec_str (ff_normalized f))),
      (''currency'', JStr (ff_currency f)),
      (''unit'', JStr (ff_unit f)),
      (''scale'', JStr (ff_scale f)),
      (''reporting_basis'', JStr (ff_basis f))])"

definition idempotency_payload ::
  "calc_args \<Rightarrow> string \<Rightarrow> string \<Rightarrow> (string \<times> financial_fact) list \<Rightarrow> uuid option \<Rightarrow> json" where
  "idempotency_payload a spec impl facts comparison = JObj
     [(''organization_id'', JStr (uuid_str (a_org a))),
      (''formula_code'', JStr (a_formula_code a)),
      (''formula_version'', JStr ''1.0.0''),
      (''formula_spec_checksum'', JStr spec),
      (''implementation_checksum'', JStr impl),
      (''reporting_period_id'', JStr (uuid_str (a_period a))),
      (''comparison_period_id'', opt_uuid comparison),
      (''comparison_policy'', JStr (a_policy a)),
      (''annualization_policy_version'', JStr ''1.0.0''),
      (''rounding_policy_version'', JStr ''1.0.0''),
      (''reconciliation_policy_version'', JStr ''1.0.0''),
      (''idempotency_schema_version'', JStr ''1.0.0''),
      (''inputs'', JList (map role_snapshot (sort_key fst facts)))]"

definition compute_canonical_idempotency_hash ::
  "(string \<Rightarrow> string) \<Rightarrow> calc_args \<Rightarrow> string \<Rightarrow> string \<Rightarrow> (string \<times> financial_fact) list \<Rightarrow> uuid option \<Rightarrow> string" where
  "compute_canonical_idempotency_hash sha a spec impl facts comparison =
     sha (json_dumps (idempotency_payload a spec impl facts comparison))"

section \<open>Periods\<close>

definition find_period :: "calc_db \<Rightarrow> uuid \<Rightarrow> uuid \<Rightarrow> py_exc + reporting_period option" where
  "find_period db org p = scalar_one_or_none (filter (\<lambda>x. rp_id x = p \<and> rp_org x = org) (t_periods db))"

text \<open>\<open>order_by(end_date.desc()).limit(1)\<close>.\<close>

definition latest_ending :: "reporting_period list \<Rightarrow> reporting_period option" where
  "latest_ending xs = fold (\<lambda>p best. case best of None \<Rightarrow> Some p
     | Some b \<Rightarrow> if rp_end b < rp_end p then Some p else best) xs None"

definition previous_period :: "calc_db \<Rightarrow> uuid \<Rightarrow> reporting_period \<Rightarrow> reporting_period option" where
  "previous_period db org rep = latest_ending
     (filter (\<lambda>x. rp_org x = org \<and> rp_type x = rp_type rep \<and> rp_end x < rp_start rep) (t_periods db))"

definition previous_year_period :: "calc_db \<Rightarrow> uuid \<Rightarrow> reporting_period \<Rightarrow> reporting_period option" where
  "previous_year_period db org rep =
     (case filter (\<lambda>x. rp_org x = org \<and> rp_type x = rp_type rep \<and> rp_fiscal_year x = rp_fiscal_year rep - 1 \<and>
         rp_comparison_key x = rp_comparison_key rep) (t_periods db) of [] \<Rightarrow> None | x # _ \<Rightarrow> Some x)"

definition resolve_comparison ::
  "calc_db \<Rightarrow> calc_args \<Rightarrow> string \<Rightarrow> reporting_period \<Rightarrow> py_exc + uuid option \<times> reporting_period option" where
  "resolve_comparison db a requirement rep =
     (if requirement \<in> set [''REQUIRED_COMPARISON'', ''REQUIRED_BEGINNING_BALANCE''] then
        bindE (raise_val (a_policy a \<notin> set [''PREVIOUS_PERIOD'', ''PREVIOUS_YEAR_SAME_PERIOD'', ''EXPLICIT_PERIOD''])
          ''COMPARISON_POLICY_UNSUPPORTED'') (\<lambda>_.
        bindE (raise_val (a_policy a = ''EXPLICIT_PERIOD'' \<and> a_comparison a = None)
          (if requirement = ''REQUIRED_BEGINNING_BALANCE'' then ''BEGINNING_BALANCE_REQUIRED''
           else ''COMPARISON_PERIOD_REQUIRED'')) (\<lambda>_.
        case a_comparison a of
          None \<Rightarrow>
            bindE (require_some (ValueError ''COMPARISON_PERIOD_NOT_FOUND'')
              (if a_policy a = ''PREVIOUS_PERIOD'' then previous_period db (a_org a) rep
               else previous_year_period db (a_org a) rep)) (\<lambda>p. Inr (Some (rp_id p), Some p))
        | Some c \<Rightarrow>
            bindE (find_period db (a_org a) c) (\<lambda>r.
            bindE (require_some (ValueError ''COMPARISON_PERIOD_NOT_FOUND'') r) (\<lambda>p.
            bindE (raise_val (rp_type p \<noteq> rp_type rep) ''PERIOD_TYPE_MISMATCH'') (\<lambda>_.
              Inr (Some c, Some p))))))
      else Inr (None, None))"

definition check_beginning_balance ::
  "string \<Rightarrow> uuid option \<Rightarrow> reporting_period option \<Rightarrow> reporting_period \<Rightarrow> py_exc + unit" where
  "check_beginning_balance requirement resolved cmp rep =
     (if requirement = ''REQUIRED_BEGINNING_BALANCE'' then
        bindE (raise_val (resolved = None) ''BEGINNING_BALANCE_REQUIRED'') (\<lambda>_.
        bindE (require_some (ValueError ''BEGINNING_BALANCE_REQUIRED'') cmp) (\<lambda>p.
        bindE (raise_val (rp_id p = rp_id rep) ''DUPLICATE_BALANCE_INPUT'') (\<lambda>_.
          raise_val (rp_start p \<ge> rp_start rep) ''PERIOD_ORDER_INVALID'')))
      else Inr ())"

section \<open>Facts\<close>

definition eligible_facts ::
  "calc_db \<Rightarrow> uuid \<Rightarrow> uuid \<Rightarrow> uuid option \<Rightarrow> string option \<Rightarrow> financial_fact list" where
  "eligible_facts db org inst period metric =
     filter (\<lambda>f. ff_org f = org \<and> ff_institution f = inst \<and> Some (ff_period f) = period \<and>
       (case metric of None \<Rightarrow> True | Some m \<Rightarrow> ff_metric_code f = m) \<and> ff_valid_to f = None \<and>
       ff_review f = ''HUMAN_VERIFIED'' \<and> ff_origin f = ''SOURCE_REPORTED'' \<and>
       ff_basis f \<in> set [''SOLO'', ''CONSOLIDATED'']) (t_facts db)"

definition select_facts ::
  "calc_db \<Rightarrow> calc_args \<Rightarrow> formula_attrs \<Rightarrow> uuid option \<Rightarrow> py_exc + (string \<times> financial_fact) list" where
  "select_facts db a fa resolved =
     (let pick = (\<lambda>p m. scalar_one_or_none (eligible_facts db (a_org a) (a_institution a) p m));
          missing = ValueError ''INSUFFICIENT_INPUT_FACTS'';
          m0 = Some (expected_metric_codes fa ! 0); m1 = Some (expected_metric_codes fa ! 1);
          here = Some (a_period a)
      in if a_formula_code a \<in> set [''LOAN_TO_DEPOSIT_RATIO'', ''NPL_RATIO''] then
           bindE (pick here m0) (\<lambda>num. bindE (pick here m1) (\<lambda>den.
           bindE (require_some missing num) (\<lambda>n. bindE (require_some missing den) (\<lambda>d.
             Inr [(''NUMERATOR'', n), (''DENOMINATOR'', d)]))))
         else if a_formula_code a = ''GROWTH_RATE'' then
           bindE (pick here None) (\<lambda>cur. bindE (pick resolved None) (\<lambda>cmp.
           bindE (require_some missing cur) (\<lambda>c. bindE (require_some missing cmp) (\<lambda>p.
             Inr [(''CURRENT_VALUE'', c), (''COMPARISON_VALUE'', p)]))))
         else if a_formula_code a \<in> set [''RETURN_ON_ASSETS'', ''RETURN_ON_EQUITY''] then
           bindE (pick here m0) (\<lambda>inc. bindE (pick resolved m1) (\<lambda>beg. bindE (pick here m1) (\<lambda>fin.
           bindE (require_some missing inc) (\<lambda>i. bindE (require_some missing beg) (\<lambda>b.
           bindE (require_some missing fin) (\<lambda>e.
           bindE (raise_val (ff_id b = ff_id e) ''DUPLICATE_BALANCE_INPUT'') (\<lambda>_.
             Inr [(''PERIOD_INCOME'', i), (''BEGINNING_BALANCE'', b), (''ENDING_BALANCE'', e)])))))))
         else Inr [])"

definition fact_snapshot :: "financial_fact \<Rightarrow> fact_input" where
  "fact_snapshot f = \<lparr>in_id = Some (ff_id f), in_candidate_id = ff_candidate f,
     in_metric_code = Some (ff_metric_code f), in_value = ff_normalized f, in_currency = Some (ff_currency f),
     in_unit = Some (ff_unit f), in_scale = Some (ff_scale f), in_basis = Some (ff_basis f)\<rparr>"

definition inputs_by_role :: "(string \<times> financial_fact) list \<Rightarrow> inputs" where
  "inputs_by_role facts = map (\<lambda>(r, f). (r, fact_snapshot f)) facts"

text \<open>The loops that check the facts; the result is the currency of the first.\<close>

definition check_consistency :: "(string \<times> financial_fact) list \<Rightarrow> py_exc + string" where
  "check_consistency facts =
     bindE (for_each (\<lambda>(r, f). raise_val (ff_basis f = ''UNKNOWN'') ''REPORTING_BASIS_REQUIRED'') facts) (\<lambda>_.
     case facts of
       [] \<Rightarrow> Inl (AppError ''StopIteration'' [])
     | (r0, f0) # _ \<Rightarrow>
         bindE (for_each (\<lambda>(r, f).
           bindE (raise_val (ff_basis f \<noteq> ff_basis f0) ''REPORTING_BASIS_MISMATCH'') (\<lambda>_.
             raise_val (ff_currency f \<noteq> ff_currency f0) ''CURRENCY_MISMATCH'')) facts) (\<lambda>_.
         Inr (ff_currency f0)))"

section \<open>Evidence\<close>

definition pdf_box_ok :: "(string \<times> float_arg) list \<Rightarrow> bool" where
  "pdf_box_ok bbox =
     (case (map_of bbox ''x0'', map_of bbox ''y0'', map_of bbox ''x1'', map_of bbox ''y1'') of
        (Some (Finite x0), Some (Finite y0), Some (Finite x1), Some (Finite y1)) \<Rightarrow> x0 < x1 \<and> y0 < y1
      | _ \<Rightarrow> False)"

definition positive_index :: "int option \<Rightarrow> bool" where
  "positive_index i = (case i of None \<Rightarrow> False | Some n \<Rightarrow> 0 < n)"

definition blank :: "string option \<Rightarrow> bool" where
  "blank s = (case s of None \<Rightarrow> True | Some x \<Rightarrow> str_strip x = [])"

definition spreadsheet_mimes :: "string list" where
  "spreadsheet_mimes = [''application/vnd.openxmlformats-officedocument.spreadsheetml.sheet'',
     ''application/vnd.ms-excel'']"

definition version_mime :: "document_version \<Rightarrow> string option" where
  "version_mime dv = (if falsy_str (dv_detected_mime dv) then dv_declared_mime dv else dv_detected_mime dv)"

text \<open>Format-specific lineage of one piece of evidence.\<close>

definition lineage_ok :: "string option \<Rightarrow> candidate_evidence \<Rightarrow> bool" where
  "lineage_ok mime ce =
     (if mime = Some ''application/pdf'' then positive_index (ce_page ce) \<and> pdf_box_ok (ce_bbox ce)
      else if mime \<in> Some ` set spreadsheet_mimes then
        \<not> blank (ce_sheet ce) \<and>
        (\<not> blank (ce_cell ce) \<or> positive_index (ce_row ce) \<and> positive_index (ce_column ce))
      else if mime = Some ''text/csv'' then positive_index (ce_row ce) \<and> positive_index (ce_column ce)
      else True)"

definition validate_evidence :: "calc_db \<Rightarrow> uuid \<Rightarrow> candidate_evidence \<Rightarrow> py_exc + unit" where
  "validate_evidence db org ce =
     bindE (raise_val (ce_org ce \<noteq> org) ''EVIDENCE_SOURCE_MISMATCH'') (\<lambda>_.
     bindE (scalar_one_or_none (filter (\<lambda>v. dv_id v = ce_version ce \<and> dv_org v = org) (t_versions db))) (\<lambda>r.
     bindE (require_some (ValueError ''EVIDENCE_SOURCE_MISMATCH'') r) (\<lambda>dv.
       raise_val (\<not> lineage_ok (version_mime dv) ce) ''EVIDENCE_INCOMPLETE'')))"

definition make_input :: "uuid_supply \<Rightarrow> uuid \<Rightarrow> uuid \<Rightarrow> nat \<Rightarrow> string \<Rightarrow> financial_fact \<Rightarrow> calc_input" where
  "make_input ids org calc i role f =
     \<lparr>ci_id = ids ''input'' i 0, ci_org = org, ci_calculation = calc, ci_fact = ff_id f, ci_role = role,
      ci_metric_code = ff_metric_code f, ci_normalized = ff_normalized f, ci_currency = ff_currency f,
      ci_unit = ff_unit f, ci_scale = ff_scale f, ci_basis = ff_basis f, ci_period = ff_period f\<rparr>"

definition make_evidence :: "uuid_supply \<Rightarrow> uuid \<Rightarrow> uuid \<Rightarrow> nat \<Rightarrow> financial_fact \<Rightarrow> nat \<times> candidate_evidence \<Rightarrow> calc_evidence" where
  "make_evidence ids org calc i f jce = (case jce of (j, ce) \<Rightarrow>
     \<lparr>cv_id = ids ''evidence'' i j, cv_org = org, cv_calculation = calc, cv_input = ids ''input'' i 0,
      cv_fact = ff_id f, cv_candidate_evidence = ce_id ce, cv_version = ce_version ce\<rparr>)"

definition collect_role ::
  "calc_db \<Rightarrow> uuid_supply \<Rightarrow> uuid \<Rightarrow> uuid \<Rightarrow> nat \<times> string \<times> financial_fact \<Rightarrow> py_exc + calc_input \<times> calc_evidence list" where
  "collect_role db ids org calc irf = (case irf of (i, role, f) \<Rightarrow>
     bindE (require_some (ValueError ''EVIDENCE_INCOMPLETE'') (ff_candidate f)) (\<lambda>cand.
       let evs = filter (\<lambda>e. ce_org e = org \<and> ce_candidate e = cand) (t_candidate_evidence db) in
       bindE (raise_val (evs = []) ''EVIDENCE_INCOMPLETE'') (\<lambda>_.
       bindE (for_each (validate_evidence db org) evs) (\<lambda>_.
         Inr (make_input ids org calc i role f, map (make_evidence ids org calc i f) (List.enumerate 0 evs))))))"

definition collect_evidence ::
  "calc_db \<Rightarrow> uuid_supply \<Rightarrow> uuid \<Rightarrow> uuid \<Rightarrow> (string \<times> financial_fact) list \<Rightarrow>
    py_exc + calc_input list \<times> calc_evidence list" where
  "collect_evidence db ids org calc facts =
     bindE (mapE (collect_role db ids org calc) (List.enumerate 0 facts)) (\<lambda>rs.
       Inr (map fst rs, concat (map snd rs)))"

section \<open>Reconciliation\<close>

definition dsub_default :: "dec \<Rightarrow> dec \<Rightarrow> dec" where
  "dsub_default = dsub default_context"

definition allowed_tolerance :: "string \<Rightarrow> dec \<Rightarrow> dec \<Rightarrow> py_exc + dec" where
  "allowed_tolerance kind tol source =
     (if kind = ''RELATIVE'' then
        if deq source dec_0_0 then Inr tol
        else bindE (ddiv default_context tol dec_100_0) (\<lambda>t.
          Inr (dabs default_context (dmul default_context source t)))
      else Inr tol)"

definition reconcile ::
  "uuid_supply \<Rightarrow> uuid \<Rightarrow> uuid \<Rightarrow> formula_definition \<Rightarrow> dec \<Rightarrow> financial_fact \<Rightarrow> py_exc + reconciliation" where
  "reconcile ids org calc fd derived source =
     (let sv = ff_normalized source;
          abs_diff = dabs default_context (dsub_default derived sv)
      in bindE (if deq sv dec_0_0 then Inr None
           else bindE (ddiv default_context (dsub_default derived sv) sv) (\<lambda>q. Inr (Some (dabs default_context q)))) (\<lambda>rel.
         bindE (allowed_tolerance (fd_tolerance_kind fd) (fd_tolerance_value fd) sv) (\<lambda>tol.
         Inr \<lparr>rc_id = ids ''reconciliation'' 0 0, rc_org = org, rc_calculation = calc, rc_source_fact = ff_id source,
              rc_source_value = sv, rc_derived = derived, rc_absolute = abs_diff, rc_relative = rel,
              rc_tolerance_kind = fd_tolerance_kind fd, rc_tolerance = fd_tolerance_value fd,
              rc_status = (if deq abs_diff dec_0_0 then ''RECONCILED''
                 else if dleq abs_diff tol then ''WITHIN_TOLERANCE'' else ''OUTSIDE_TOLERANCE'')\<rparr>)))"

definition source_fact :: "calc_db \<Rightarrow> calc_args \<Rightarrow> py_exc + financial_fact option" where
  "source_fact db a = scalar_one_or_none (filter (\<lambda>f. ff_org f = a_org a \<and> ff_institution f = a_institution a \<and>
     ff_period f = a_period a \<and> ff_metric_code f = a_formula_code a \<and> ff_valid_to f = None \<and>
     ff_review f = ''HUMAN_VERIFIED'' \<and> ff_origin f = ''SOURCE_REPORTED'') (t_facts db))"

section \<open>Statements\<close>

definition add_rows :: "(calc_db \<Rightarrow> calc_db) \<Rightarrow> (calc_session, unit) proc" where
  "add_rows f = modifyP (\<lambda>s. s\<lparr>added := f (added s)\<rparr>)"

definition record_event :: "audit_event \<Rightarrow> (calc_session, unit) proc" where
  "record_event e = add_rows (\<lambda>d. d\<lparr>t_audit := t_audit d @ [e]\<rparr>)"

definition requests_with :: "calc_db \<Rightarrow> uuid \<Rightarrow> string \<Rightarrow> calc_request list" where
  "requests_with db org fp = filter (\<lambda>r. cr_org r = org \<and> cr_fingerprint r = fp) (t_requests db)"

definition insert_request :: "calc_request \<Rightarrow> (calc_session, unit) proc" where
  "insert_request r = (\<lambda>s.
     if requests_with (visible s) (cr_org r) (cr_fingerprint r) \<noteq> [] then (Inl IntegrityError, s)
     else add_rows (\<lambda>d. d\<lparr>t_requests := t_requests d @ [r]\<rparr>) s)"

definition attempts_of :: "calc_db \<Rightarrow> uuid \<Rightarrow> uuid \<Rightarrow> calc_attempt list" where
  "attempts_of db org req = filter (\<lambda>x. at_org x = org \<and> at_request x = req) (t_attempts db)"

text \<open>\<open>coalesce(max(attempt_number), 0) + 1\<close>.\<close>

definition next_attempt_number :: "calc_db \<Rightarrow> uuid \<Rightarrow> uuid \<Rightarrow> nat" where
  "next_attempt_number db org req = foldr (\<lambda>x n. max (at_number x) n) (attempts_of db org req) 0 + 1"

definition insert_attempt :: "calc_attempt \<Rightarrow> (calc_session, unit) proc" where
  "insert_attempt x = (\<lambda>s.
     if at_number x \<in> at_number ` set (attempts_of (visible s) (at_org x) (at_request x)) then (Inl IntegrityError, s)
     else add_rows (\<lambda>d. d\<lparr>t_attempts := t_attempts d @ [x]\<rparr>) s)"

definition completed_with :: "calc_db \<Rightarrow> uuid \<Rightarrow> string \<Rightarrow> calculation list" where
  "completed_with db org h = filter (\<lambda>c. cl_org c = org \<and> cl_hash c = h \<and> cl_status c = ''COMPLETED'') (t_calculations db)"

definition stored_calculation :: "calculation \<Rightarrow> py_exc + calculation" where
  "stored_calculation c =
     bindE (stored_as 38 10 (cl_unrounded c)) (\<lambda>u. bindE (stored_as 28 6 (cl_display c)) (\<lambda>d.
     bindE (stored_as 28 6 (cl_factor c)) (\<lambda>f. Inr (c\<lparr>cl_unrounded := u, cl_display := d, cl_factor := f\<rparr>))))"

text \<open>False: the savepoint was rolled back by a uniqueness violation.\<close>

definition insert_calculation :: "calculation \<Rightarrow> (calc_session, bool) proc" where
  "insert_calculation c =
     bindP (liftP (stored_calculation c)) (\<lambda>row.
     bindP (readP (\<lambda>s. completed_with (visible s) (cl_org c) (cl_hash c))) (\<lambda>clash.
     if clash \<noteq> [] then retP False
     else bindP (add_rows (\<lambda>d. d\<lparr>t_calculations := t_calculations d @ [row]\<rparr>)) (\<lambda>_. retP True)))"

definition stored_reconciliation :: "dec \<Rightarrow> reconciliation \<Rightarrow> py_exc + reconciliation" where
  "stored_reconciliation display r =
     bindE (stored_as 28 6 display) (\<lambda>_. bindE (stored_as 38 10 (rc_derived r)) (\<lambda>d.
     bindE (stored_as 28 6 (rc_absolute r)) (\<lambda>_. bindE (stored_as 38 10 (rc_absolute r)) (\<lambda>b.
     bindE (case rc_relative r of None \<Rightarrow> Inr None | Some q \<Rightarrow> bindE (stored_as 28 10 q) (\<lambda>x. Inr (Some x))) (\<lambda>q.
       Inr (r\<lparr>rc_derived := d, rc_absolute := b, rc_relative := q\<rparr>))))))"

definition ensure_request :: "env \<Rightarrow> nat \<Rightarrow> calc_request \<Rightarrow> (calc_session, calc_request) proc" where
  "ensure_request env i new =
     (let find_it = queryP (\<lambda>s. scalar_one_or_none (requests_with (visible s) (cr_org new) (cr_fingerprint new))) in
      bindP find_it (\<lambda>r. case r of
        Some x \<Rightarrow> retP x
      | None \<Rightarrow>
          bindP (others env i) (\<lambda>_.
          tryP (bindP (insert_request new) (\<lambda>_. retP new))
            (\<lambda>e. if e = IntegrityError
               then bindP find_it (\<lambda>r. case r of None \<Rightarrow> throwP e | Some x \<Rightarrow> retP x)
               else throwP e))))"

definition new_request ::
  "uuid_supply \<Rightarrow> (string \<Rightarrow> string) \<Rightarrow> calc_args \<Rightarrow> nat \<Rightarrow> uuid option \<Rightarrow> calc_request" where
  "new_request ids sha a i cmp =
     \<lparr>cr_id = ids ''request'' i 0, cr_org = a_org a, cr_fingerprint = compute_request_fingerprint sha a,
      cr_formula_code = a_formula_code a, cr_institution = a_institution a, cr_period = a_period a,
      cr_comparison = cmp, cr_policy = a_policy a, cr_user = a_user a\<rparr>"

section \<open>The run\<close>

type_synonym outcome = "calculation \<times> calc_input list \<times> reconciliation option"

record prepared =
  pr_resolved :: "uuid option"
  pr_factor :: dec
  pr_facts :: "(string \<times> financial_fact) list"
  pr_currency :: string

text \<open>Steps 2 to 5: periods, annualization, facts and their consistency.\<close>

definition prepare :: "calc_db \<Rightarrow> calc_args \<Rightarrow> formula \<Rightarrow> py_exc + prepared" where
  "prepare db a f =
     (let fa = attrs f in
      bindE (find_period db (a_org a) (a_period a)) (\<lambda>r.
      bindE (require_some (ValueError ''PERIOD_MISMATCH'') r) (\<lambda>rep.
      bindE (resolve_comparison db a (comparison_requirement fa) rep) (\<lambda>(resolved, cmp).
      bindE (check_beginning_balance (comparison_requirement fa) resolved cmp rep) (\<lambda>_.
      bindE (compute_act_isda_annualization_factor (rp_start rep) (rp_end rep) (rp_presentation rep)
        (input_role_semantics fa)) (\<lambda>factor.
      bindE (select_facts db a fa resolved) (\<lambda>facts.
      bindE (check_consistency facts) (\<lambda>cur.
        Inr \<lparr>pr_resolved = resolved, pr_factor = factor, pr_facts = facts, pr_currency = cur\<rparr>))))))))"

definition load_existing :: "calculation \<Rightarrow> (calc_session, outcome) proc" where
  "load_existing c =
     bindP (readP (\<lambda>s. filter (\<lambda>i. ci_calculation i = cl_id c) (t_inputs (visible s)))) (\<lambda>ins.
     bindP (queryP (\<lambda>s. scalar_one_or_none (filter (\<lambda>r. rc_calculation r = cl_id c) (t_reconciliations (visible s))))) (\<lambda>rec.
       retP (c, ins, rec)))"

definition make_calculation ::
  "uuid_supply \<Rightarrow> calc_args \<Rightarrow> prepared \<Rightarrow> calc_request \<Rightarrow> string \<Rightarrow> formula_result \<Rightarrow> nat \<Rightarrow> calculation" where
  "make_calculation ids a p req h res n =
     \<lparr>cl_id = ids ''calculation'' 0 0, cl_org = a_org a, cl_request = cr_id req, cl_attempt = ids ''attempt'' 0 0,
      cl_institution = a_institution a, cl_period = a_period a, cl_comparison = pr_resolved p,
      cl_formula_code = a_formula_code a, cl_status = ''COMPLETED'',
      cl_unrounded = result_value_unrounded res, cl_display = result_value_display res,
      cl_unit = fr_unit res, cl_scale = fr_scale res,
      cl_currency = (if fr_unit res \<in> set [''PERCENT'', ''RATIO''] then None else Some (pr_currency p)),
      cl_hash = h, cl_factor = pr_factor p, cl_attempt_number = n, cl_user = a_user a\<rparr>"

definition make_attempt ::
  "uuid_supply \<Rightarrow> nat \<Rightarrow> calc_args \<Rightarrow> calc_request \<Rightarrow> nat \<Rightarrow> string \<Rightarrow> string option \<Rightarrow> string option \<Rightarrow>
    string option \<Rightarrow> string option \<Rightarrow> calc_attempt" where
  "make_attempt ids i a req n status err h spec impl =
     \<lparr>at_id = ids ''attempt'' i 0, at_org = a_org a, at_request = cr_id req, at_number = n, at_hash = h,
      at_status = status, at_error = err, at_spec_checksum = spec, at_impl_checksum = impl\<rparr>"

definition reconcile_step ::
  "uuid_supply \<Rightarrow> calc_args \<Rightarrow> formula_definition \<Rightarrow> formula_result \<Rightarrow> (calc_session, reconciliation option) proc" where
  "reconcile_step ids a fd res =
     bindP (queryP (\<lambda>s. source_fact (visible s) a)) (\<lambda>sf. case sf of
       None \<Rightarrow> retP None
     | Some f \<Rightarrow>
         bindP (liftP (reconcile ids (a_org a) (ids ''calculation'' 0 0) fd (result_value_unrounded res) f)) (\<lambda>r.
         bindP (liftP (stored_reconciliation (result_value_display res) r)) (\<lambda>row.
         bindP (add_rows (\<lambda>d. d\<lparr>t_reconciliations := t_reconciliations d @ [row]\<rparr>)) (\<lambda>_. retP (Some r)))))"

text \<open>From the inserted calculation to the commit.\<close>

definition finish_calculation ::
  "uuid_supply \<Rightarrow> (string \<Rightarrow> string) \<Rightarrow> calc_args \<Rightarrow> formula_definition \<Rightarrow> formula_result \<Rightarrow> nat \<Rightarrow> calculation \<Rightarrow>
    calc_input list \<Rightarrow> calc_evidence list \<Rightarrow> (calc_session, outcome) proc" where
  "finish_calculation ids sha a fd res n c ins evs =
     bindP (add_rows (\<lambda>d. d\<lparr>t_inputs := t_inputs d @ ins, t_evidence := t_evidence d @ evs\<rparr>)) (\<lambda>_.
     bindP (reconcile_step ids a fd res) (\<lambda>rec.
     bindP (record_event (audit_record sha (a_org a) ''CALCULATION_COMPLETED'' ''CALCULATION_ATTEMPT''
         (ids ''attempt'' 0 0) (Some (a_user a))
         [(''formula_code'', JStr (a_formula_code a)), (''attempt_number'', JInt (int n)), (''status'', JStr ''COMPLETED'')])) (\<lambda>_.
     bindP (modifyP commit) (\<lambda>_. retP (c, ins, rec)))))"

text \<open>After the insert: a refused row means another session completed the same calculation.\<close>

definition settle_insert ::
  "uuid_supply \<Rightarrow> (string \<Rightarrow> string) \<Rightarrow> calc_args \<Rightarrow> formula_definition \<Rightarrow> string \<Rightarrow> formula_result \<Rightarrow> nat \<Rightarrow>
    calculation \<Rightarrow> calc_input list \<Rightarrow> calc_evidence list \<Rightarrow> bool \<Rightarrow> (calc_session, outcome) proc" where
  "settle_insert ids sha a fd h res n c ins evs ok =
     (if ok then finish_calculation ids sha a fd res n c ins evs
      else bindP (queryP (\<lambda>s. scalar_one_or_none (completed_with (visible s) (a_org a) h))) (\<lambda>w.
        case w of None \<Rightarrow> throwP IntegrityError | Some x \<Rightarrow> load_existing x))"

text \<open>The attempt and the calculation row.\<close>

definition store_calculation ::
  "env \<Rightarrow> uuid_supply \<Rightarrow> (string \<Rightarrow> string) \<Rightarrow> calc_args \<Rightarrow> formula_definition \<Rightarrow> prepared \<Rightarrow> string \<Rightarrow> string \<Rightarrow>
    string \<Rightarrow> calc_request \<Rightarrow> formula_result \<Rightarrow> calc_input list \<Rightarrow> calc_evidence list \<Rightarrow> (calc_session, outcome) proc" where
  "store_calculation env ids sha a fd p h spec impl req res ins evs =
     bindP (others env 2) (\<lambda>_.
     bindP (readP (\<lambda>s. next_attempt_number (visible s) (a_org a) (cr_id req))) (\<lambda>n.
     bindP (insert_attempt (make_attempt ids 0 a req n ''COMPLETED'' None (Some h) (Some spec) (Some impl))) (\<lambda>_.
     bindP (others env 3) (\<lambda>_.
     bindP (insert_calculation (make_calculation ids a p req h res n)) (\<lambda>ok.
       settle_insert ids sha a fd h res n (make_calculation ids a p req h res n) ins evs ok)))))"

text \<open>Steps 8 to the commit, when no completed calculation has the hash.\<close>

definition execute_calculation ::
  "env \<Rightarrow> uuid_supply \<Rightarrow> (string \<Rightarrow> string) \<Rightarrow> calc_args \<Rightarrow> formula \<Rightarrow> formula_definition \<Rightarrow> prepared \<Rightarrow>
    string \<Rightarrow> string \<Rightarrow> string \<Rightarrow> calc_request \<Rightarrow> (calc_session, outcome) proc" where
  "execute_calculation env ids sha a f fd p h spec impl req =
     bindP (queryP (\<lambda>s. collect_evidence (visible s) ids (a_org a) (ids ''calculation'' 0 0) (pr_facts p))) (\<lambda>(ins, evs).
     bindP (liftP (calculate f (inputs_by_role (pr_facts p)) (Some (pr_factor p)))) (\<lambda>res.
       store_calculation env ids sha a fd p h spec impl req res ins evs))"

text \<open>Steps 7 onwards: the request row, a completed calculation to reuse, or an execution.\<close>

definition serve_request ::
  "env \<Rightarrow> uuid_supply \<Rightarrow> (string \<Rightarrow> string) \<Rightarrow> calc_args \<Rightarrow> formula \<Rightarrow> formula_definition \<Rightarrow> prepared \<Rightarrow>
    string \<Rightarrow> string \<Rightarrow> string \<Rightarrow> (calc_session, outcome) proc" where
  "serve_request env ids sha a f fd p h spec impl =
     bindP (ensure_request env 1 (new_request ids sha a 0 (pr_resolved p))) (\<lambda>req.
     bindP (queryP (\<lambda>s. scalar_one_or_none (completed_with (visible s) (a_org a) h))) (\<lambda>existing.
     case existing of Some c \<Rightarrow> load_existing c
     | None \<Rightarrow> execute_calculation env ids sha a f fd p h spec impl req))"

text \<open>The body of the \<open>try\<close> block.\<close>

definition run_body :: "env \<Rightarrow> uuid_supply \<Rightarrow> (string \<Rightarrow> string) \<Rightarrow> calc_args \<Rightarrow> (calc_session, outcome) proc" where
  "run_body env ids sha a =
     bindP (liftP (get_formula (a_formula_code a) ''1.0.0'')) (\<lambda>f.
     bindP (queryP (\<lambda>s. scalar_one_or_none (filter (\<lambda>d. fd_code d = a_formula_code a \<and> fd_status d = ''ACTIVE'')
        (t_definitions (visible s))))) (\<lambda>r.
     bindP (liftP (require_some (ValueError ''FORMULA_NOT_SUPPORTED'') r)) (\<lambda>fd.
     bindP (liftP (verify_checksum sha (a_formula_code a) ''1.0.0'' (fd_spec_checksum fd) (fd_implementation_checksum fd))) (\<lambda>(spec, impl).
     bindP (modifyP (\<lambda>s. s\<lparr>lv_spec := Some spec, lv_impl := Some impl\<rparr>)) (\<lambda>_.
     bindP (queryP (\<lambda>s. prepare (visible s) a f)) (\<lambda>p.
     let h = compute_canonical_idempotency_hash sha a spec impl (pr_facts p) (pr_resolved p) in
     bindP (modifyP (\<lambda>s. s\<lparr>lv_hash := Some h\<rparr>)) (\<lambda>_.
       serve_request env ids sha a f fd p h spec impl)))))))"

definition allowlist_error_codes :: "string list" where
  "allowlist_error_codes =
     [''FORMULA_VERSION_MISMATCH'', ''FORMULA_NOT_SUPPORTED'', ''FORMULA_INPUT_METRIC_UNAVAILABLE'',
      ''INSUFFICIENT_INPUT_FACTS'', ''EVIDENCE_INCOMPLETE'', ''EVIDENCE_SOURCE_MISMATCH'',
      ''REPORTING_BASIS_REQUIRED'', ''REPORTING_BASIS_MISMATCH'', ''UNIT_MISMATCH'',
      ''SCALE_NORMALIZATION_ERROR'', ''CURRENCY_MISMATCH'', ''DIVISION_BY_ZERO'',
      ''COMPARISON_PERIOD_REQUIRED'', ''COMPARISON_PERIOD_NOT_FOUND'', ''PERIOD_TYPE_MISMATCH'',
      ''PERIOD_ORDER_INVALID'', ''BEGINNING_BALANCE_REQUIRED'', ''DUPLICATE_BALANCE_INPUT'',
      ''ANNUALIZATION_POLICY_UNRESOLVED'', ''CALCULATION_INTERNAL_ERROR'']"

definition classify :: "py_exc \<Rightarrow> string" where
  "classify e = (case e of
     ValueError m \<Rightarrow> if m \<in> set allowlist_error_codes then m else ''CALCULATION_INTERNAL_ERROR''
   | _ \<Rightarrow> ''CALCULATION_INTERNAL_ERROR'')"

text \<open>The recovery block: a failed attempt and its audit event, in a transaction of their own.\<close>

definition record_failure :: "env \<Rightarrow> uuid_supply \<Rightarrow> (string \<Rightarrow> string) \<Rightarrow> calc_args \<Rightarrow> string \<Rightarrow> (calc_session, unit) proc" where
  "record_failure env ids sha a code =
     bindP (ensure_request env 4 (new_request ids sha a 1 (a_comparison a))) (\<lambda>req.
     bindP (readP (\<lambda>s. next_attempt_number (visible s) (a_org a) (cr_id req))) (\<lambda>n.
     bindP (readP (\<lambda>s. make_attempt ids 1 a req n ''FAILED'' (Some code) (lv_hash s) (lv_spec s) (lv_impl s))) (\<lambda>x.
     bindP (others env 5) (\<lambda>_.
     bindP (insert_attempt x) (\<lambda>_.
     bindP (record_event (audit_record sha (a_org a) ''CALCULATION_FAILED'' ''CALCULATION_ATTEMPT''
         (at_id x) (Some (a_user a))
         [(''formula_code'', JStr (a_formula_code a)), (''error_code'', JStr code), (''attempt_number'', JInt (int n))])) (\<lambda>_.
       modifyP commit))))))"

definition recover :: "env \<Rightarrow> uuid_supply \<Rightarrow> (string \<Rightarrow> string) \<Rightarrow> calc_args \<Rightarrow> py_exc \<Rightarrow> (calc_session, outcome) proc" where
  "recover env ids sha a e =
     bindP (modifyP rollback) (\<lambda>_.
     bindP (tryP (record_failure env ids sha a (classify e))
       (\<lambda>_. bindP (modifyP rollback) (\<lambda>_. raiseP ''CALCULATION_FAILURE_PERSISTENCE_FAILED''))) (\<lambda>_.
       raiseP (classify e)))"

definition run_calculation :: "env \<Rightarrow> uuid_supply \<Rightarrow> (string \<Rightarrow> string) \<Rightarrow> calc_args \<Rightarrow> (calc_session, outcome) proc" where
  "run_calculation env ids sha a =
     bindP (modifyP (\<lambda>s. s\<lparr>lv_hash := None, lv_spec := None, lv_impl := None\<rparr>)) (\<lambda>_.
     bindP (record_event (audit_record sha (a_org a) ''CALCULATION_REQUESTED'' ''CALCULATION_REQUEST''
         (ids ''audit'' 0 0) (Some (a_user a))
         [(''formula_code'', JStr (a_formula_code a)), (''comparison_policy'', JStr (a_policy a))])) (\<lambda>_.
     tryP (run_body env ids sha a) (recover env ids sha a)))"

end
