(* ===== verification/CalculationTheorems.thy ===== *)
theory CalculationTheorems
  imports CalculationService
begin

text \<open>
  What \<open>run_calculation\<close> guarantees: the errors a caller can see, what a failed and a successful run
  leave in the database, reuse of a completed calculation, uniqueness of the keys under concurrent
  writers, reconciliation, the content the idempotency hash identifies, and a concrete run on which
  the theorems are applied.
\<close>

section \<open>Outcomes of the recovery block\<close>

lemma classify_allowlisted: "classify e \<in> set allowlist_error_codes"
  by (auto simp: classify_def allowlist_error_codes_def split: py_exc.splits)

lemma recover_raises:
  "\<exists>m s'. recover env ids sha a e s = (Inl (ValueError m), s') \<and>
    (m = classify e \<or> m = ''CALCULATION_FAILURE_PERSISTENCE_FAILED'')"
  by (cases "record_failure env ids sha a (classify e) (rollback s)")
    (auto simp: recover_def proc_simps split: sum.splits)

text \<open>C6: whatever goes wrong in a run (a refused guard, a query with several rows, a uniqueness
  violation, a value that does not fit its column, a concurrent writer), the caller sees a ValueError
  whose text is an allow-listed code, or CALCULATION_FAILURE_PERSISTENCE_FAILED when even the failure
  could not be recorded.\<close>

theorem run_raises_allowlisted:
  assumes "run_calculation env ids sha a s = (Inl e, s')"
  shows "\<exists>m. e = ValueError m \<and>
    (m \<in> set allowlist_error_codes \<or> m = ''CALCULATION_FAILURE_PERSISTENCE_FAILED'')"
proof -
  obtain t where t: "run_calculation env ids sha a s = tryP (run_body env ids sha a) (recover env ids sha a) t"
    by (simp add: run_calculation_def record_event_def add_rows_def proc_simps)
  obtain x u where u: "run_body env ids sha a t = (Inl x, u)" "recover env ids sha a x u = (Inl e, s')"
    using assms unfolding t by (auto simp: tryP_def split: prod.splits sum.splits)
  then show ?thesis
    using recover_raises [of env ids sha a x u] classify_allowlisted [of x] by auto
qed

section \<open>Frames\<close>

lemma visible_added_simps [simp]:
  "visible (s\<lparr>lv_hash := h\<rparr>) = visible s" "visible (s\<lparr>lv_spec := x, lv_impl := y\<rparr>) = visible s"
  "visible (s\<lparr>lv_hash := h, lv_spec := x, lv_impl := y\<rparr>) = visible s"
  by (simp_all add: visible_def)

lemma merge_no_rows [simp]: "merge_rows d no_rows = d" "merge_rows no_rows d = d"
  by (simp_all add: merge_rows_def no_rows_def)

lemma visible_commit [simp]: "visible (commit s) = visible s" "added (commit s) = no_rows"
  by (simp_all add: visible_def commit_def)

lemma visible_rollback [simp]: "visible (rollback s) = committed s" "added (rollback s) = no_rows"
  by (simp_all add: visible_def rollback_def)


text \<open>No other session commits anything.\<close>

definition quiet :: env where
  "quiet = (\<lambda>_ d. d)"

lemma others_quiet [simp]: "others quiet i s = (Inr (), s)"
  by (simp add: others_def quiet_def proc_simps)

definition base_is :: "calc_db \<Rightarrow> calc_session \<Rightarrow> bool" where
  "base_is d s \<longleftrightarrow> committed s = d"

abbreviation keeps_base :: "calc_db \<Rightarrow> (calc_session, 'a) proc \<Rightarrow> bool" where
  "keeps_base d m \<equiv> triple (base_is d) m (\<lambda>_. base_is d) (\<lambda>_. base_is d)"

lemma keeps_add_rows: "keeps_base d (add_rows f)"
  by (simp add: triple_def add_rows_def proc_simps base_is_def)

lemma keeps_others: "keeps_base d (others quiet i)"
  by (simp add: triple_def)

lemma keeps_insert_request: "keeps_base d (insert_request r)"
  by (simp add: triple_def insert_request_def add_rows_def proc_simps base_is_def)

lemma keeps_insert_attempt: "keeps_base d (insert_attempt x)"
  by (simp add: triple_def insert_attempt_def add_rows_def proc_simps base_is_def)

lemma keeps_insert_calculation: "keeps_base d (insert_calculation c)"
  unfolding insert_calculation_def
  by (intro triple_bind_inv triple_intros keeps_add_rows) (auto simp: proc_simps)

lemma keeps_ensure_request: "keeps_base d (ensure_request quiet i new)"
  unfolding ensure_request_def Let_def
  by (intro triple_bind_inv triple_intros triple_try keeps_others) (auto intro: keeps_insert_request)

lemma keeps_load_existing: "keeps_base d (load_existing c)"
  unfolding load_existing_def by (intro triple_bind_inv triple_intros) auto

lemma keeps_reconcile_step: "keeps_base d (reconcile_step ids a fd res)"
  unfolding reconcile_step_def by (intro triple_bind_inv triple_intros keeps_add_rows) auto

lemmas keeps_intros = keeps_add_rows keeps_others keeps_insert_request keeps_insert_attempt
  keeps_insert_calculation keeps_ensure_request keeps_load_existing keeps_reconcile_step

lemma triple_top: "triple P m Q E \<Longrightarrow> triple P m (\<lambda>_ _. True) E"
  by (erule triple_conseq) auto

lemma finish_fails_clean:
  "triple (base_is d) (finish_calculation ids sha a fd res n c ins evs) (\<lambda>_ _. True) (\<lambda>_. base_is d)"
proof -
  have "triple (base_is d) (bindP (modifyP commit) (\<lambda>_. retP x)) (\<lambda>_ _. True) (\<lambda>_. base_is d)"
    for x :: outcome
    by (simp add: triple_def proc_simps)
  then show ?thesis unfolding finish_calculation_def record_event_def
    by (intro triple_bind_inv [OF keeps_add_rows] triple_bind_inv [OF keeps_reconcile_step])
qed

lemma execute_fails_clean:
  "triple (base_is d) (execute_calculation quiet ids sha a f fd p h spec impl req) (\<lambda>_ _. True) (\<lambda>_. base_is d)"
  unfolding execute_calculation_def store_calculation_def settle_insert_def
  by (intro triple_bind_inv triple_intros keeps_intros finish_fails_clean)
    (auto intro: keeps_load_existing [THEN triple_top])

lemma serve_fails_clean:
  "triple (base_is d) (serve_request quiet ids sha a f fd p h spec impl) (\<lambda>_ _. True) (\<lambda>_. base_is d)"
  unfolding serve_request_def
  by (intro triple_bind_inv triple_intros keeps_intros execute_fails_clean)
    (auto simp: base_is_def intro: keeps_load_existing [THEN triple_top])

lemma body_fails_clean:
  "triple (base_is d) (run_body quiet ids sha a) (\<lambda>_ _. True) (\<lambda>_. base_is d)"
  unfolding run_body_def Let_def
  by (intro triple_bind_inv triple_intros keeps_intros serve_fails_clean) (auto simp: base_is_def)

lemma next_attempt_fresh:
  "x \<in> set (attempts_of db org req) \<Longrightarrow> at_number x < next_attempt_number db org req"
proof -
  have "x \<in> set xs \<Longrightarrow> at_number x \<le> foldr (\<lambda>x n. max (at_number x) n) xs 0" for xs
    by (induction xs) auto
  then show "x \<in> set (attempts_of db org req) \<Longrightarrow> ?thesis" by (force simp: next_attempt_number_def)
qed


text \<open>What the recovery block adds.\<close>

lemma ensure_request_quiet:
  "ensure_request quiet i new s = (Inr r, s') \<Longrightarrow>
    (s' = s \<or> s' = s\<lparr>added := (added s)\<lparr>t_requests := t_requests (added s) @ [new]\<rparr>\<rparr> \<and> r = new) \<and>
    requests_with (visible s') (cr_org new) (cr_fingerprint new) = [r]"
  unfolding ensure_request_def Let_def
  by (auto simp: proc_simps insert_request_def add_rows_def scalar_one_or_none_Some scalar_one_or_none_None
      visible_def merge_rows_def requests_with_def split: sum.splits option.splits if_splits)

lemma insert_attempt_next:
  "at_number x = next_attempt_number (visible s) (at_org x) (at_request x) \<Longrightarrow>
    insert_attempt x s = add_rows (\<lambda>d. d\<lparr>t_attempts := t_attempts d @ [x]\<rparr>) s"
  using next_attempt_fresh by (fastforce simp: insert_attempt_def)

definition failure_rows :: "calc_db \<Rightarrow> calc_db \<Rightarrow> calc_args \<Rightarrow> string \<Rightarrow> bool" where
  "failure_rows d d' a m \<longleftrightarrow>
     (\<exists>rs x e. d' = d\<lparr>t_requests := t_requests d @ rs, t_attempts := t_attempts d @ [x], t_audit := t_audit d @ [e]\<rparr> \<and>
       length rs \<le> 1 \<and> at_status x = ''FAILED'' \<and> at_error x = Some m \<and> at_org x = a_org a \<and>
       (\<exists>r \<in> set (t_requests d'). at_request x = cr_id r \<and> cr_org r = a_org a) \<and>
       (\<forall>y \<in> set (attempts_of d (a_org a) (at_request x)). at_number y < at_number x) \<and>
       ae_type e = ''CALCULATION_FAILED'')"

lemma record_failure_rows:
  assumes "added s = no_rows" "record_failure quiet ids sha a m s = (Inr u, s')"
  shows "failure_rows (committed s) (committed s') a m \<and> added s' = no_rows"
proof -
  define new where "new = new_request ids sha a 1 (a_comparison a)"
  obtain r t where r: "ensure_request quiet 4 new s = (Inr r, t)"
    by (rule bindP_InrE [OF assms(2) [unfolded record_failure_def, folded new_def]])
  note er = ensure_request_quiet [OF r]
  have org: "cr_org new = a_org a" by (simp add: new_request_def new_def)
  have rin: "r \<in> set (t_requests (visible t))" "cr_org r = a_org a"
  proof -
    have "r \<in> set (requests_with (visible t) (cr_org new) (cr_fingerprint new))" using er by simp
    then show "r \<in> set (t_requests (visible t))" "cr_org r = a_org a" by (simp_all add: requests_with_def org)
  qed
  define n where "n = next_attempt_number (visible t) (a_org a) (cr_id r)"
  define x where "x = make_attempt ids 1 a r n ''FAILED'' (Some m) (lv_hash t) (lv_spec t) (lv_impl t)"
  have x: "at_org x = a_org a" "at_request x = cr_id r" "at_number x = n" "at_status x = ''FAILED''" "at_error x = Some m"
    by (simp_all add: x_def make_attempt_def)
  have ins: "insert_attempt x t = add_rows (\<lambda>d. d\<lparr>t_attempts := t_attempts d @ [x]\<rparr>) t"
    by (rule insert_attempt_next) (simp add: x n_def)
  define e where "e = audit_record sha (a_org a) ''CALCULATION_FAILED'' ''CALCULATION_ATTEMPT''
         (at_id x) (Some (a_user a))
         [(''formula_code'', JStr (a_formula_code a)), (''error_code'', JStr m), (''attempt_number'', JInt (int n))]"
  have s': "s' = commit (t\<lparr>added := (added t)\<lparr>t_attempts := t_attempts (added t) @ [x], t_audit := t_audit (added t) @ [e]\<rparr>\<rparr>)"
    using assms(2) r ins
    by (simp add: record_failure_def bindP_def readP_def modifyP_def add_rows_def record_event_def del: One_nat_def
        flip: n_def x_def e_def new_def)
  have at: "attempts_of (visible t) (a_org a) (cr_id r) = attempts_of (committed s) (a_org a) (cr_id r)"
    using er assms(1) by (auto simp: attempts_of_def visible_def merge_rows_def no_rows_def)
  then have num: "\<forall>y \<in> set (attempts_of (committed s) (a_org a) (at_request x)). at_number y < at_number x"
    using next_attempt_fresh [of _ "visible t" "a_org a" "cr_id r"] by (simp add: x n_def)
  have ev: "ae_type e = ''CALCULATION_FAILED''" by (simp add: e_def audit_record_def Let_def)
  from er consider "t = s" | "t = s\<lparr>added := (added s)\<lparr>t_requests := t_requests (added s) @ [new]\<rparr>\<rparr>" by blast
  then show ?thesis
  proof cases
    case 1
    then show ?thesis unfolding failure_rows_def using num x ev rin assms(1)
      by (intro conjI exI [of _ "[]"] exI [of _ x] exI [of _ e])
        (auto simp: s' commit_def visible_def merge_rows_def no_rows_def)
  next
    case 2
    then show ?thesis unfolding failure_rows_def using num x ev rin assms(1)
      by (intro conjI exI [of _ "[new]"] exI [of _ x] exI [of _ e])
        (auto simp: s' commit_def visible_def merge_rows_def no_rows_def)
  qed
qed


lemma classify_not_persistence: "classify e \<noteq> ''CALCULATION_FAILURE_PERSISTENCE_FAILED''"
  by (auto simp: classify_def allowlist_error_codes_def split: py_exc.splits)

text \<open>With nobody else writing, the recovery block fails only on a duplicated request.\<close>

lemma ensure_request_quiet_Inl:
  "ensure_request quiet i new s = (Inl y, s') \<Longrightarrow>
    s' = s \<and> 2 \<le> length (requests_with (visible s) (cr_org new) (cr_fingerprint new))"
  unfolding ensure_request_def Let_def
  by (auto simp: proc_simps insert_request_def add_rows_def scalar_one_or_none_Inl scalar_one_or_none_None
      split: sum.splits option.splits if_splits)

lemma record_failure_quiet_Inl:
  assumes "record_failure quiet ids sha a m s = (Inl x, s')"
  shows "committed s' = committed s \<and>
    2 \<le> length (requests_with (visible s) (a_org a) (compute_request_fingerprint sha a))"
proof -
  define new where "new = new_request ids sha a 1 (a_comparison a)"
  obtain r t where e: "ensure_request quiet 4 new s = (r, t)" by fastforce
  have new: "cr_org new = a_org a" "cr_fingerprint new = compute_request_fingerprint sha a"
    by (simp_all add: new_def new_request_def)
  show ?thesis
  proof (cases r)
    case (Inl y)
    then show ?thesis using assms e ensure_request_quiet_Inl [of 4 new s y t] new
      by (simp add: record_failure_def bindP_def del: One_nat_def flip: new_def)
  next
    case (Inr q)
    define k where "k = make_attempt ids 1 a q (next_attempt_number (visible t) (a_org a) (cr_id q)) ''FAILED'' (Some m)
      (lv_hash t) (lv_spec t) (lv_impl t)"
    have "insert_attempt k t = add_rows (\<lambda>d. d\<lparr>t_attempts := t_attempts d @ [k]\<rparr>) t"
      by (rule insert_attempt_next) (simp add: k_def make_attempt_def)
    then show ?thesis using assms e Inr
      by (simp add: record_failure_def bindP_def readP_def modifyP_def add_rows_def record_event_def
          del: One_nat_def flip: new_def k_def)
  qed
qed

text \<open>C2: with no concurrent writer, a failed run leaves exactly one new row among the attempts,
  FAILED with the reported code and numbered above every earlier attempt of its request, at most one
  new request and one audit event, while calculations, inputs, evidence and reconciliations are
  untouched. The only exception is the code CALCULATION_FAILURE_PERSISTENCE_FAILED: then nothing at all
  was committed, and the tables already held two requests for the run's fingerprint, which their
  unique constraint excludes. Either way no row is left pending.\<close>

theorem failed_run_records_attempt:
  assumes "run_calculation quiet ids sha a s = (Inl (ValueError m), s')"
  shows "added s' = no_rows \<and>
    (if m = ''CALCULATION_FAILURE_PERSISTENCE_FAILED''
     then committed s' = committed s \<and>
       2 \<le> length (requests_with (committed s) (a_org a) (compute_request_fingerprint sha a))
     else failure_rows (committed s) (committed s') a m)"
proof -
  obtain t where t: "run_calculation quiet ids sha a s = tryP (run_body quiet ids sha a) (recover quiet ids sha a) t"
      "committed t = committed s"
    by (simp add: run_calculation_def record_event_def add_rows_def proc_simps)
  obtain x u where u: "run_body quiet ids sha a t = (Inl x, u)" "recover quiet ids sha a x u = (Inl (ValueError m), s')"
    using assms unfolding t by (auto simp: tryP_def split: prod.splits sum.splits)
  have "base_is (committed s) u"
    using tripleD(2) [OF body_fails_clean _ u(1)] t(2) by (simp add: base_is_def)
  then have base: "committed (rollback u) = committed s" "added (rollback u) = no_rows" "visible (rollback u) = committed s"
    by (simp_all add: base_is_def rollback_def visible_def)
  obtain r w where w: "record_failure quiet ids sha a (classify x) (rollback u) = (r, w)" by fastforce
  show ?thesis
  proof (cases r)
    case (Inl y)
    then have "m = ''CALCULATION_FAILURE_PERSISTENCE_FAILED''" "s' = rollback w"
      using u(2) w by (simp_all add: recover_def proc_simps)
    then show ?thesis using record_failure_quiet_Inl [OF w [unfolded Inl]] base by (simp add: rollback_def)
  next
    case (Inr v)
    then have "m = classify x" "s' = w" using u(2) w by (simp_all add: recover_def proc_simps)
    then show ?thesis
      using record_failure_rows [OF base(2) w [unfolded Inr]] base(1) classify_not_persistence [of x] by simp
  qed
qed

section \<open>What a successful run returns\<close>







lemma queries_cong:
  assumes "t_periods d = t_periods d'" "t_facts d = t_facts d'"
  shows "find_period d = find_period d'" "eligible_facts d = eligible_facts d'"
    "resolve_comparison d = resolve_comparison d'" "select_facts d = select_facts d'"
proof -
  have q: "previous_period d = previous_period d'" "previous_year_period d = previous_year_period d'"
    using assms by (intro ext; simp add: previous_period_def previous_year_period_def)+
  show f: "find_period d = find_period d'" "eligible_facts d = eligible_facts d'"
    using assms by (intro ext; simp add: find_period_def eligible_facts_def)+
  show "resolve_comparison d = resolve_comparison d'" "select_facts d = select_facts d'"
    using q f by (intro ext; simp only: resolve_comparison_def select_facts_def)+
qed

lemma prepare_cong:
  assumes "t_periods d = t_periods d'" "t_facts d = t_facts d'"
  shows "prepare d a f = prepare d' a f"
  using queries_cong [OF assms] by (simp only: prepare_def)





lemma load_existing_same: "load_existing w s = (Inr (c, ins, rec), s') \<Longrightarrow> w = c \<and> s' = s"
  by (auto simp: load_existing_def retP_def readP_def queryP_def elim!: bindP_InrE)

lemma finish_same: "finish_calculation ids sha a fd res n c0 ins0 evs s = (Inr (c, ins, rec), s') \<Longrightarrow> c0 = c \<and> ins0 = ins"
  by (auto simp: finish_calculation_def retP_def elim!: bindP_InrE)


definition run_hash :: "(string \<Rightarrow> string) \<Rightarrow> calc_args \<Rightarrow> formula \<Rightarrow> prepared \<Rightarrow> string" where
  "run_hash sha a f p = compute_canonical_idempotency_hash sha a (compute_formula_spec_checksum sha f)
     (compute_implementation_checksum sha f) (pr_facts p) (pr_resolved p)"

lemma verify_checksum_of_formula:
  assumes "get_formula code ''1.0.0'' = Inr f" "verify_checksum sha code ''1.0.0'' ds di = Inr (spec, impl)"
  shows "spec = compute_formula_spec_checksum sha f \<and> impl = compute_implementation_checksum sha f"
  using assms verify_checksum_Inr [of sha f ds di spec impl] by (simp add: get_formula_Inr)

lemma serve_InrE:
  assumes "serve_request env ids sha a f fd p h spec impl s = (Inr (c, ins, rec), s')"
  obtains req u where "ensure_request env 1 (new_request ids sha a 0 (pr_resolved p)) s = (Inr req, u)"
      "(scalar_one_or_none (completed_with (visible u) (a_org a) h) = Inr (Some c) \<and> s' = u) \<or>
       scalar_one_or_none (completed_with (visible u) (a_org a) h) = Inr None \<and>
       execute_calculation env ids sha a f fd p h spec impl req u = (Inr (c, ins, rec), s')"
proof -
  from assms obtain req u ex where "ensure_request env 1 (new_request ids sha a 0 (pr_resolved p)) s = (Inr req, u)"
    "scalar_one_or_none (completed_with (visible u) (a_org a) h) = Inr ex"
    "(case ex of Some c \<Rightarrow> load_existing c | None \<Rightarrow> execute_calculation env ids sha a f fd p h spec impl req) u =
      (Inr (c, ins, rec), s')"
    unfolding serve_request_def by (elim bindP_InrE) (auto dest!: queryP_InrE)
  then show ?thesis using that load_existing_same by (cases ex) auto
qed

lemma run_body_InrE:
  assumes "run_body env ids sha a s = (Inr (c, ins, rec), s')"
  obtains f fd p t where "get_formula (a_formula_code a) ''1.0.0'' = Inr f" "prepare (visible s) a f = Inr p"
      "visible t = visible s" "committed t = committed s" "added t = added s"
      "serve_request env ids sha a f fd p (run_hash sha a f p) (compute_formula_spec_checksum sha f)
        (compute_implementation_checksum sha f) t = (Inr (c, ins, rec), s')"
      "scalar_one_or_none (filter (\<lambda>d. fd_code d = a_formula_code a \<and> fd_status d = ''ACTIVE'')
        (t_definitions (visible s))) = Inr (Some fd)"
      "verify_checksum sha (a_formula_code a) ''1.0.0'' (fd_spec_checksum fd) (fd_implementation_checksum fd) =
        Inr (compute_formula_spec_checksum sha f, compute_implementation_checksum sha f)"
proof -
  from assms obtain f fd spec impl p where f: "get_formula (a_formula_code a) ''1.0.0'' = Inr f"
    and cs: "verify_checksum sha (a_formula_code a) ''1.0.0'' (fd_spec_checksum fd) (fd_implementation_checksum fd) = Inr (spec, impl)"
    and p: "prepare (visible s) a f = Inr p"
    and def_row: "scalar_one_or_none (filter (\<lambda>d. fd_code d = a_formula_code a \<and> fd_status d = ''ACTIVE'')
        (t_definitions (visible s))) = Inr (Some fd)"
    and q: "serve_request env ids sha a f fd p
        (compute_canonical_idempotency_hash sha a spec impl (pr_facts p) (pr_resolved p)) spec impl
        (s\<lparr>lv_spec := Some spec, lv_impl := Some impl, lv_hash := Some (compute_canonical_idempotency_hash sha a
          spec impl (pr_facts p) (pr_resolved p))\<rparr>) = (Inr (c, ins, rec), s')"
    unfolding run_body_def Let_def
    by (elim bindP_InrE) (auto simp: modifyP_def elim!: bindP_InrE dest!: queryP_InrE liftP_InrE split: prod.splits)
  have si: "spec = compute_formula_spec_checksum sha f" "impl = compute_implementation_checksum sha f"
    using verify_checksum_of_formula [OF f cs] by simp_all
  show ?thesis
    by (rule that [OF f p _ _ _ q [unfolded si run_hash_def [symmetric]] def_row cs [unfolded si]]) (simp_all add: visible_def)
qed



lemma recover_not_Inr: "recover env ids sha a e s \<noteq> (Inr x, s')"
  using recover_raises [of env ids sha a e s] by auto











section \<open>Running again\<close>

text \<open>The tables a run reads before it decides to reuse a calculation.\<close>

definition same_sources :: "calc_db \<Rightarrow> calc_db \<Rightarrow> bool" where
  "same_sources d d' \<longleftrightarrow> t_definitions d' = t_definitions d \<and> t_periods d' = t_periods d \<and> t_facts d' = t_facts d"

lemma visible_add [simp]:
  "visible (s\<lparr>added := (added s)\<lparr>t_attempts := t_attempts (added s) @ [x]\<rparr>\<rparr>) =
     (visible s)\<lparr>t_attempts := t_attempts (visible s) @ [x]\<rparr>"
  "visible (s\<lparr>added := (added s)\<lparr>t_calculations := t_calculations (added s) @ [y]\<rparr>\<rparr>) =
     (visible s)\<lparr>t_calculations := t_calculations (visible s) @ [y]\<rparr>"
  "visible (s\<lparr>added := (added s)\<lparr>t_requests := t_requests (added s) @ [z]\<rparr>\<rparr>) =
     (visible s)\<lparr>t_requests := t_requests (visible s) @ [z]\<rparr>"
  by (simp_all add: visible_def merge_rows_def)

lemma insert_attempt_visible:
  "insert_attempt x s = (Inr u, s') \<Longrightarrow> visible s' = (visible s)\<lparr>t_attempts := t_attempts (visible s) @ [x]\<rparr>"
  by (auto simp: insert_attempt_def add_rows_def modifyP_def split: if_splits)

lemma insert_calculation_visible:
  "insert_calculation c s = (Inr True, s') \<Longrightarrow> \<exists>row. stored_calculation c = Inr row \<and>
     completed_with (visible s) (cl_org c) (cl_hash c) = [] \<and>
     visible s' = (visible s)\<lparr>t_calculations := t_calculations (visible s) @ [row]\<rparr>"
  by (auto simp: insert_calculation_def proc_simps add_rows_def split: if_splits sum.splits)

lemma insert_calculation_refused:
  "insert_calculation c s = (Inr False, s') \<Longrightarrow> completed_with (visible s) (cl_org c) (cl_hash c) \<noteq> []"
  by (auto simp: insert_calculation_def proc_simps add_rows_def split: if_splits sum.splits)

lemma stored_calculation_same:
  "stored_calculation c = Inr row \<Longrightarrow> cl_id row = cl_id c \<and> cl_org row = cl_org c \<and> cl_hash row = cl_hash c \<and>
    cl_status row = cl_status c"
  by (auto simp: stored_calculation_def exc_simps)

lemma reconcile_calculation: "reconcile ids org calc fd d f = Inr r \<Longrightarrow> rc_calculation r = calc"
  by (auto simp: reconcile_def Let_def exc_simps)

lemma stored_reconciliation_calculation: "stored_reconciliation d r = Inr row \<Longrightarrow> rc_calculation row = rc_calculation r"
  by (auto simp: stored_reconciliation_def exc_simps)

lemma reconcile_step_cases:
  "reconcile_step ids a fd res s = (Inr rec, t) \<Longrightarrow> t = s \<or>
    (\<exists>r. t = s\<lparr>added := (added s)\<lparr>t_reconciliations := t_reconciliations (added s) @ [r]\<rparr>\<rparr>)"
  by (auto simp: reconcile_step_def add_rows_def modifyP_def retP_def elim!: bindP_InrE
        dest!: queryP_InrE liftP_InrE split: option.splits)

lemma finish_visible:
  assumes "finish_calculation ids sha a fd res n c ins evs s = (Inr r, s')"
  shows "same_sources (visible s) (visible s') \<and> t_requests (visible s') = t_requests (visible s) \<and>
    t_calculations (visible s') = t_calculations (visible s) \<and>
    (\<exists>rs. t_reconciliations (visible s') = t_reconciliations (visible s) @ rs \<and> length rs \<le> 1)"
proof -
  let ?s1 = "s\<lparr>added := (added s)\<lparr>t_inputs := t_inputs (added s) @ ins, t_evidence := t_evidence (added s) @ evs\<rparr>\<rparr>"
  from assms obtain rec t e where rec: "reconcile_step ids a fd res ?s1 = (Inr rec, t)"
    and s': "s' = commit (t\<lparr>added := (added t)\<lparr>t_audit := t_audit (added t) @ [e]\<rparr>\<rparr>)"
    by (auto simp: finish_calculation_def add_rows_def record_event_def modifyP_def retP_def elim!: bindP_InrE)
  from reconcile_step_cases [OF rec]
  have "\<exists>rs. t_reconciliations (visible t) = t_reconciliations (visible s) @ rs \<and> length rs \<le> 1"
    by (elim disjE exE) (auto simp: visible_def merge_rows_def)
  moreover have "t_reconciliations (visible s') = t_reconciliations (visible t)"
    by (simp add: s' visible_def merge_rows_def commit_def no_rows_def)
  moreover from reconcile_step_cases [OF rec]
  have "same_sources (visible s) (visible s') \<and> t_requests (visible s') = t_requests (visible s) \<and>
    t_calculations (visible s') = t_calculations (visible s)"
    by (elim disjE exE) (auto simp: s' same_sources_def visible_def merge_rows_def commit_def no_rows_def)
  ultimately show ?thesis by simp
qed

lemma store_quiet:
  assumes "store_calculation quiet ids sha a fd p h spec impl req res ins0 evs s = (Inr (c, ins, rec), s')"
    and "completed_with (visible s) (a_org a) h = []"
  shows "\<exists>row rs. completed_with (visible s') (a_org a) h = [row] \<and> cl_id row = cl_id c \<and>
    cl_id c = ids ''calculation'' 0 0 \<and> same_sources (visible s) (visible s') \<and> t_requests (visible s') = t_requests (visible s) \<and>
    t_reconciliations (visible s') = t_reconciliations (visible s) @ rs \<and> length rs \<le> 1"
proof -
  obtain n t ok u x where ia: "insert_attempt x s = (Inr (), t)"
    and ok: "insert_calculation (make_calculation ids a p req h res n) t = (Inr ok, u)"
    and st: "settle_insert ids sha a fd h res n (make_calculation ids a p req h res n) ins0 evs ok u = (Inr (c, ins, rec), s')"
    using assms(1) unfolding store_calculation_def
    by (elim bindP_InrE) (auto simp: readP_def)
  let ?c = "make_calculation ids a p req h res n"
  have c: "cl_org ?c = a_org a" "cl_hash ?c = h" "cl_id ?c = ids ''calculation'' 0 0" "cl_status ?c = ''COMPLETED''"
    by (simp_all add: make_calculation_def)
  note vt = insert_attempt_visible [OF ia]
  have none: "completed_with (visible t) (a_org a) h = []" using assms(2) by (simp add: vt completed_with_def)
  then have "ok" using insert_calculation_refused [of ?c t u] ok c by (cases ok) auto
  then obtain row where row: "stored_calculation ?c = Inr row"
      "visible u = (visible t)\<lparr>t_calculations := t_calculations (visible t) @ [row]\<rparr>"
    using insert_calculation_visible [of ?c t u] ok by auto
  have fin: "finish_calculation ids sha a fd res n ?c ins0 evs u = (Inr (c, ins, rec), s')"
    using st \<open>ok\<close> by (simp add: settle_insert_def)
  from finish_visible [OF this] obtain rs where fv: "same_sources (visible u) (visible s')"
    "t_requests (visible s') = t_requests (visible u)" "t_calculations (visible s') = t_calculations (visible u)"
    "t_reconciliations (visible s') = t_reconciliations (visible u) @ rs" "length rs \<le> 1" by blast
  have "?c = c" using finish_same [OF fin] by simp
  moreover have "completed_with (visible s') (a_org a) h = completed_with (visible t) (a_org a) h @ [row]"
    using stored_calculation_same [OF row(1)] c by (simp add: completed_with_def fv(3) row(2))
  ultimately show ?thesis
    using fv none stored_calculation_same [OF row(1)] c vt row(2) by (auto simp: same_sources_def)
qed


lemma serve_reuses:
  assumes "requests_with (visible t) (a_org a) (compute_request_fingerprint sha a) = [req]"
    and "completed_with (visible t) (a_org a) h = [row]"
    and "length (filter (\<lambda>r. rc_calculation r = cl_id row) (t_reconciliations (visible t))) \<le> 1"
  shows "\<exists>ins rec. serve_request env ids sha a f fd p h spec impl t = (Inr (row, ins, rec), t)"
proof -
  have "\<exists>x. scalar_one_or_none (filter (\<lambda>r. rc_calculation r = cl_id row) (t_reconciliations (visible t))) = Inr x"
    using assms(3)
    by (cases "filter (\<lambda>r. rc_calculation r = cl_id row) (t_reconciliations (visible t))" rule: scalar_one_or_none.cases) auto
  then show ?thesis using assms(1,2)
    by (auto simp: serve_request_def ensure_request_def new_request_def load_existing_def proc_simps Let_def)
qed

lemma run_body_forward:
  assumes "get_formula (a_formula_code a) ''1.0.0'' = Inr f"
    and "scalar_one_or_none (filter (\<lambda>d. fd_code d = a_formula_code a \<and> fd_status d = ''ACTIVE'')
        (t_definitions (visible s))) = Inr (Some fd)"
    and "verify_checksum sha (a_formula_code a) ''1.0.0'' (fd_spec_checksum fd) (fd_implementation_checksum fd) =
        Inr (compute_formula_spec_checksum sha f, compute_implementation_checksum sha f)"
    and "prepare (visible s) a f = Inr p"
  shows "run_body env ids sha a s = serve_request env ids sha a f fd p (run_hash sha a f p)
     (compute_formula_spec_checksum sha f) (compute_implementation_checksum sha f)
     (s\<lparr>lv_spec := Some (compute_formula_spec_checksum sha f), lv_impl := Some (compute_implementation_checksum sha f),
       lv_hash := Some (run_hash sha a f p)\<rparr>)"
  using assms by (simp add: run_body_def proc_simps visible_def run_hash_def Let_def)

lemma run_start_tables:
  "\<exists>t. run_calculation env ids sha a s = tryP (run_body env ids sha a) (recover env ids sha a) t \<and>
    committed t = committed s \<and> same_sources (visible s) (visible t) \<and>
    t_requests (visible t) = t_requests (visible s) \<and> t_calculations (visible t) = t_calculations (visible s) \<and>
    t_reconciliations (visible t) = t_reconciliations (visible s) \<and> t_audit (added t) \<noteq> []"
  by (rule exI [of _ "s\<lparr>lv_hash := None, lv_spec := None, lv_impl := None, added := (added s)\<lparr>t_audit := t_audit (added s) @
      [audit_record sha (a_org a) ''CALCULATION_REQUESTED'' ''CALCULATION_REQUEST''
         (ids ''audit'' 0 0) (Some (a_user a))
         [(''formula_code'', JStr (a_formula_code a)), (''comparison_policy'', JStr (a_policy a))]]\<rparr>\<rparr>"])
    (simp add: run_calculation_def record_event_def add_rows_def bindP_def modifyP_def visible_def merge_rows_def same_sources_def)

text \<open>What a run that committed leaves behind, enough to reuse its calculation.\<close>

definition reusable :: "(string \<Rightarrow> string) \<Rightarrow> calc_args \<Rightarrow> formula \<Rightarrow> formula_definition \<Rightarrow> prepared \<Rightarrow> uuid \<Rightarrow> calc_db \<Rightarrow> bool" where
  "reusable sha a f fd p i d \<longleftrightarrow>
     get_formula (a_formula_code a) ''1.0.0'' = Inr f \<and>
     scalar_one_or_none (filter (\<lambda>d. fd_code d = a_formula_code a \<and> fd_status d = ''ACTIVE'') (t_definitions d)) = Inr (Some fd) \<and>
     verify_checksum sha (a_formula_code a) ''1.0.0'' (fd_spec_checksum fd) (fd_implementation_checksum fd) =
        Inr (compute_formula_spec_checksum sha f, compute_implementation_checksum sha f) \<and>
     prepare d a f = Inr p \<and>
     (\<exists>req row. requests_with d (a_org a) (compute_request_fingerprint sha a) = [req] \<and>
       completed_with d (a_org a) (run_hash sha a f p) = [row] \<and> cl_id row = i \<and>
       length (filter (\<lambda>r. rc_calculation r = i) (t_reconciliations d)) \<le> 1)"

lemma reusable_run:
  assumes "reusable sha a f fd p i (visible s)"
  shows "\<exists>c ins rec s'. run_calculation env ids sha a s = (Inr (c, ins, rec), s') \<and> cl_id c = i \<and> committed s' = committed s"
proof -
  obtain t where t: "run_calculation env ids sha a s = tryP (run_body env ids sha a) (recover env ids sha a) t"
    "committed t = committed s" "same_sources (visible s) (visible t)" "t_requests (visible t) = t_requests (visible s)"
    "t_calculations (visible t) = t_calculations (visible s)" "t_reconciliations (visible t) = t_reconciliations (visible s)"
    using run_start_tables by blast
  obtain req row where row: "requests_with (visible s) (a_org a) (compute_request_fingerprint sha a) = [req]"
    "completed_with (visible s) (a_org a) (run_hash sha a f p) = [row]" "cl_id row = i"
    "length (filter (\<lambda>r. rc_calculation r = i) (t_reconciliations (visible s))) \<le> 1"
    using assms by (auto simp: reusable_def)
  let ?t = "t\<lparr>lv_spec := Some (compute_formula_spec_checksum sha f), lv_impl := Some (compute_implementation_checksum sha f),
       lv_hash := Some (run_hash sha a f p)\<rparr>"
  have vt: "visible ?t = visible t" by (simp add: visible_def)
  have "prepare (visible t) a f = prepare (visible s) a f"
    using t(3) by (intro prepare_cong) (simp_all add: same_sources_def)
  then have fwd: "run_body env ids sha a t = serve_request env ids sha a f fd p (run_hash sha a f p)
     (compute_formula_spec_checksum sha f) (compute_implementation_checksum sha f) ?t"
    using assms t(3) by (intro run_body_forward) (simp_all add: reusable_def same_sources_def)
  have "\<exists>ins rec. serve_request env ids sha a f fd p (run_hash sha a f p)
     (compute_formula_spec_checksum sha f) (compute_implementation_checksum sha f) ?t = (Inr (row, ins, rec), ?t)"
    using row t(4-6) by (intro serve_reuses) (simp_all add: vt requests_with_def completed_with_def)
  then show ?thesis unfolding t(1) using fwd row(3) t(2) by (auto simp: tryP_def)
qed


lemma execute_collects:
  assumes "execute_calculation env ids sha a f fd p h spec impl req s = (Inr (c, ins, rec), s')"
  obtains ins0 evs res where
    "store_calculation env ids sha a fd p h spec impl req res ins0 evs s = (Inr (c, ins, rec), s')"
  using assms unfolding execute_calculation_def
  by (elim bindP_InrE) (auto elim!: bindP_InrE dest!: queryP_InrE liftP_InrE split: prod.splits)

lemma committed_serve_reusable:
  assumes sv: "serve_request quiet ids sha a f fd p h spec impl t = (Inr (c, ins, rec), s')"
    and au: "t_audit (added t) \<noteq> []" and ad: "added s' = no_rows"
    and fresh: "\<forall>r \<in> set (t_reconciliations (visible t)). rc_calculation r \<noteq> ids ''calculation'' 0 0"
  shows "same_sources (visible t) (visible s') \<and>
    (\<exists>req row. requests_with (visible s') (a_org a) (compute_request_fingerprint sha a) = [req] \<and>
       completed_with (visible s') (a_org a) h = [row] \<and> cl_id row = cl_id c \<and>
       length (filter (\<lambda>r. rc_calculation r = cl_id c) (t_reconciliations (visible s'))) \<le> 1)"
  using sv
proof (rule serve_InrE)
  fix req u
  assume e: "ensure_request quiet 1 (new_request ids sha a 0 (pr_resolved p)) t = (Inr req, u)"
    and o: "(scalar_one_or_none (completed_with (visible u) (a_org a) h) = Inr (Some c) \<and> s' = u) \<or>
       scalar_one_or_none (completed_with (visible u) (a_org a) h) = Inr None \<and>
       execute_calculation quiet ids sha a f fd p h spec impl req u = (Inr (c, ins, rec), s')"
  have req: "requests_with (visible u) (a_org a) (compute_request_fingerprint sha a) = [req]"
    using ensure_request_quiet [OF e] by (simp add: new_request_def)
  have u: "same_sources (visible t) (visible u)" "t_reconciliations (visible u) = t_reconciliations (visible t)"
    "t_audit (added u) \<noteq> []"
    using ensure_request_quiet [OF e] au by (auto simp: same_sources_def)
  have "s' \<noteq> u" using u(3) ad by (auto simp: no_rows_def)
  with o have none: "completed_with (visible u) (a_org a) h = []"
    and ex: "execute_calculation quiet ids sha a f fd p h spec impl req u = (Inr (c, ins, rec), s')"
    by (auto simp: scalar_one_or_none_None)
  obtain ins0 evs res where "store_calculation quiet ids sha a fd p h spec impl req res ins0 evs u = (Inr (c, ins, rec), s')"
    using execute_collects [OF ex] .
  from store_quiet [OF this none] obtain row rs where st: "completed_with (visible s') (a_org a) h = [row]"
    "cl_id row = cl_id c" "cl_id c = ids ''calculation'' 0 0" "same_sources (visible u) (visible s')"
    "t_requests (visible s') = t_requests (visible u)"
    "t_reconciliations (visible s') = t_reconciliations (visible u) @ rs" "length rs \<le> 1" by blast
  have "filter (\<lambda>r. rc_calculation r = cl_id c) (t_reconciliations (visible u)) = []"
    using fresh by (simp add: u(2) st(3) filter_empty_conv)
  then have "length (filter (\<lambda>r. rc_calculation r = cl_id c) (t_reconciliations (visible s'))) \<le> 1"
    using st(6) le_trans [OF length_filter_le st(7)] by simp
  then show ?thesis using req st u(1) by (auto simp: requests_with_def same_sources_def)
qed

text \<open>C4: running the same request again, with nothing in between, after a run that committed a
  calculation under a fresh id returns that calculation (the row of the same id) and commits nothing,
  whatever other sessions do meanwhile and whatever ids the second run draws.\<close>

theorem rerun_returns_same_calculation:
  assumes "added s = no_rows" and "run_calculation quiet ids sha a s = (Inr (c, ins, rec), s')"
    and "added s' = no_rows"
    and "\<forall>r \<in> set (t_reconciliations (committed s)). rc_calculation r \<noteq> ids ''calculation'' 0 0"
  shows "\<exists>c' ins' rec' s''. run_calculation env ids' sha a s' = (Inr (c', ins', rec'), s'') \<and>
    cl_id c' = cl_id c \<and> committed s'' = committed s'"
proof -
  obtain t where t: "run_calculation quiet ids sha a s = tryP (run_body quiet ids sha a) (recover quiet ids sha a) t"
    "same_sources (visible s) (visible t)" "t_reconciliations (visible t) = t_reconciliations (visible s)"
    "t_audit (added t) \<noteq> []"
    using run_start_tables by blast
  have vs: "visible s = committed s" using assms(1) by (simp add: visible_def)
  have "run_body quiet ids sha a t = (Inr (c, ins, rec), s')"
    using assms(2) recover_not_Inr unfolding t(1) by (auto simp: tryP_def split: prod.splits sum.splits)
  then obtain f fd p where "reusable sha a f fd p (cl_id c) (visible s')"
  proof (rule run_body_InrE)
    fix f fd p t'
    assume f: "get_formula (a_formula_code a) ''1.0.0'' = Inr f" and p: "prepare (visible t) a f = Inr p"
      and t': "visible t' = visible t" "added t' = added t"
      and sv: "serve_request quiet ids sha a f fd p (run_hash sha a f p) (compute_formula_spec_checksum sha f)
        (compute_implementation_checksum sha f) t' = (Inr (c, ins, rec), s')"
      and d: "scalar_one_or_none (filter (\<lambda>d. fd_code d = a_formula_code a \<and> fd_status d = ''ACTIVE'')
        (t_definitions (visible t))) = Inr (Some fd)"
        "verify_checksum sha (a_formula_code a) ''1.0.0'' (fd_spec_checksum fd) (fd_implementation_checksum fd) =
        Inr (compute_formula_spec_checksum sha f, compute_implementation_checksum sha f)"
    have c: "same_sources (visible t') (visible s') \<and>
      (\<exists>req row. requests_with (visible s') (a_org a) (compute_request_fingerprint sha a) = [req] \<and>
       completed_with (visible s') (a_org a) (run_hash sha a f p) = [row] \<and> cl_id row = cl_id c \<and>
       length (filter (\<lambda>r. rc_calculation r = cl_id c) (t_reconciliations (visible s'))) \<le> 1)"
      using assms(4) t(3,4) t' by (intro committed_serve_reusable [OF sv _ assms(3)]) (simp_all add: vs)
    then have "prepare (visible s') a f = Inr p"
      using p t'(1) prepare_cong [of "visible s'" "visible t" a f] by (simp add: same_sources_def)
    with c f d t'(1) that [of f fd p] show ?thesis by (simp add: reusable_def same_sources_def)
  qed
  from reusable_run [OF this] show ?thesis by blast
qed

section \<open>Keys stay unique\<close>


























section \<open>Reconciliation\<close>

lemma dsub_bound: "dcoeff (dsub_default a b) < 10 ^ 28"
  using dfix_bound [of default_context] by (simp add: dsub_default_def dsub_def dadd_def Let_def)

lemma abs_difference:
  "\<bar>dval (dabs default_context (dsub_default a b)) - \<bar>dval a - dval b\<bar>\<bar> \<le> \<bar>dval a - dval b\<bar> * hd28"
proof -
  have "dval (dabs default_context (dsub_default a b)) = \<bar>dval (dsub_default a b)\<bar>"
    using dsub_bound by (intro dabs_exact) simp_all
  moreover have "\<bar>dval (dsub_default a b) - (dval a - dval b)\<bar> \<le> \<bar>dval a - dval b\<bar> * hd28"
    using dadd_rel [of default_context a "dminus b"] by (simp add: dsub_default_def dsub_def)
  ultimately show ?thesis
    using abs_triangle_ineq3 [of "dval (dsub_default a b)" "dval a - dval b"] by linarith
qed

lemma abs_difference_zero: "is_zero (dabs default_context (dsub_default a b)) \<longleftrightarrow> dval a = dval b"
proof -
  have "dval (dabs default_context (dsub_default a b)) = 0 \<longleftrightarrow> \<bar>dval a - dval b\<bar> = 0"
    using abs_difference [of a b] by (intro rel_zero_iff [of _ _ hd28]) (simp_all add: hd28_eq)
  then show ?thesis by simp
qed

lemma reconcile_Inr:
  "reconcile ids org calc fd derived source = Inr r \<Longrightarrow> \<exists>tol.
     allowed_tolerance (fd_tolerance_kind fd) (fd_tolerance_value fd) (ff_normalized source) = Inr tol \<and>
     rc_status r = (if dval derived = dval (ff_normalized source) then ''RECONCILED''
       else if dval (dabs default_context (dsub_default derived (ff_normalized source))) \<le> dval tol
       then ''WITHIN_TOLERANCE'' else ''OUTSIDE_TOLERANCE'')"
  by (auto simp: reconcile_def Let_def exc_simps dleq_iff abs_difference_zero)

lemma reconcile_total: "\<exists>r. reconcile ids org calc fd derived source = Inr r"
proof -
  obtain t where t: "ddiv default_context (fd_tolerance_value fd) dec_100_0 = Inr t" using ddiv_total consts_not_zero(1) by blast
  show ?thesis
  proof (cases "is_zero (ff_normalized source)")
    case True
    then show ?thesis by (simp add: reconcile_def allowed_tolerance_def Let_def)
  next
    case False
    then obtain q where "ddiv default_context (dsub_default derived (ff_normalized source)) (ff_normalized source) = Inr q"
      using ddiv_total by blast
    with False t show ?thesis by (simp add: reconcile_def allowed_tolerance_def Let_def)
  qed
qed

text \<open>The tolerance the policy means, exactly, and the relative error the code makes in it: a RELATIVE
  tolerance is a percentage of the source value, unless that is zero.\<close>

definition exact_tolerance :: "string \<Rightarrow> dec \<Rightarrow> dec \<Rightarrow> rat" where
  "exact_tolerance kind tol source =
     (if kind = ''RELATIVE'' \<and> dval source \<noteq> 0 then \<bar>dval source * dval tol / 100\<bar> else dval tol)"

definition tolerance_error :: "string \<Rightarrow> rat" where
  "tolerance_error kind = (if kind = ''RELATIVE'' then 1 / 10 ^ 26 else 0)"

lemma dmul_bound: "dcoeff (dmul default_context a b) < 10 ^ 28"
  using dfix_bound [of default_context] by (simp add: dmul_def)

lemma relative_tolerance:
  assumes "ddiv default_context tol dec_100_0 = Inr t"
  shows "\<bar>dval (dabs default_context (dmul default_context src t)) - \<bar>dval src * dval tol / 100\<bar>\<bar> \<le>
    \<bar>dval src * dval tol / 100\<bar> * (1 / 10 ^ 26)"
proof -
  let ?x = "dval src * dval tol / 100"
  have "\<bar>dval t - dval tol / 100\<bar> \<le> \<bar>dval tol / 100\<bar> * (2 * hd28)"
    using ddiv_rel [OF assms] by (simp add: dec_100_0_def dval_Dec power_int_minus)
  then have "\<bar>dval src\<bar> * \<bar>dval t - dval tol / 100\<bar> \<le> \<bar>dval src\<bar> * (\<bar>dval tol / 100\<bar> * (2 * hd28))"
    by (intro mult_left_mono) simp_all
  then have "\<bar>dval src * dval t - ?x\<bar> \<le> \<bar>?x\<bar> * (2 * hd28)"
    by (simp only: mult.assoc right_diff_distrib abs_mult [symmetric] times_divide_eq_right)
      (simp only: abs_mult mult.assoc abs_divide times_divide_eq_right times_divide_eq_left)
  from rel_error_trans [OF this dmul_rel [of default_context src t]]
  have "\<bar>dval (dmul default_context src t) - ?x\<bar> \<le> \<bar>?x\<bar> * (2 * hd28 + hd28 + 2 * hd28 * hd28)" by simp
  also have "\<dots> \<le> \<bar>?x\<bar> * (1 / 10 ^ 26)" by (intro mult_left_mono) (simp_all add: hd28_eq)
  finally have "\<bar>dval (dmul default_context src t) - ?x\<bar> \<le> \<bar>?x\<bar> * (1 / 10 ^ 26)" .
  moreover have "dval (dabs default_context (dmul default_context src t)) = \<bar>dval (dmul default_context src t)\<bar>"
    using dmul_bound by (intro dabs_exact) simp_all
  ultimately show ?thesis using abs_triangle_ineq3 [of "dval (dmul default_context src t)" ?x] by linarith
qed

lemma allowed_tolerance_close:
  assumes "allowed_tolerance kind tol src = Inr t"
  shows "\<bar>dval t - exact_tolerance kind tol src\<bar> \<le> exact_tolerance kind tol src * tolerance_error kind \<or>
    dval t = exact_tolerance kind tol src"
proof (cases "kind = ''RELATIVE'' \<and> dval src \<noteq> 0")
  case True
  then have nz: "\<not> is_zero src" by simp
  obtain q where "ddiv default_context tol dec_100_0 = Inr q" "t = dabs default_context (dmul default_context src q)"
    using assms True nz by (auto simp: allowed_tolerance_def exc_simps)
  then show ?thesis using relative_tolerance [of tol q src] True by (simp add: exact_tolerance_def tolerance_error_def)
next
  case False
  then show ?thesis using assms by (auto simp: allowed_tolerance_def exact_tolerance_def split: if_splits)
qed

lemma allowed_tolerance_bounds:
  assumes "allowed_tolerance kind tol src = Inr t"
    and "T = exact_tolerance kind tol src" and "kind = ''RELATIVE'' \<longrightarrow> 0 \<le> T"
  shows "T * (1 - tolerance_error kind) \<le> dval t \<and> dval t \<le> T * (1 + tolerance_error kind)"
proof -
  have "0 \<le> T * tolerance_error kind" using assms(3) by (simp add: tolerance_error_def)
  then show ?thesis using allowed_tolerance_close [OF assms(1)] unfolding assms(2)
    by (simp only: right_diff_distrib distrib_left mult_1_right) linarith
qed

text \<open>C31: reconciling a derived value with a source-reported fact never fails, whatever the tolerance's
  kind; the status is RECONCILED exactly when the two values are equal, WITHIN_TOLERANCE implies that
  their exact difference is at most the tolerance the policy means, and OUTSIDE_TOLERANCE that it
  exceeds it, up to a relative \<open>10^-26\<close> in the difference and, for a RELATIVE tolerance (a percentage of
  the source value, not negative), in the tolerance.\<close>

theorem reconciliation_classifies:
  fixes derived :: dec and source :: financial_fact
  assumes "fd_tolerance_kind fd = ''RELATIVE'' \<longrightarrow> 0 \<le> dval (fd_tolerance_value fd)"
  defines "e \<equiv> \<bar>dval derived - dval (ff_normalized source)\<bar>"
    and "T \<equiv> exact_tolerance (fd_tolerance_kind fd) (fd_tolerance_value fd) (ff_normalized source)"
    and "\<delta> \<equiv> tolerance_error (fd_tolerance_kind fd)"
  shows "\<exists>r. reconcile ids org calc fd derived source = Inr r \<and>
    (rc_status r = ''RECONCILED'' \<longleftrightarrow> dval derived = dval (ff_normalized source)) \<and>
    (rc_status r = ''WITHIN_TOLERANCE'' \<longrightarrow> e * (1 - 1 / 10 ^ 26) \<le> T * (1 + \<delta>)) \<and>
    (rc_status r = ''OUTSIDE_TOLERANCE'' \<longrightarrow> T * (1 - \<delta>) < e * (1 + 1 / 10 ^ 26)) \<and>
    rc_status r \<in> {''RECONCILED'', ''WITHIN_TOLERANCE'', ''OUTSIDE_TOLERANCE''}"
proof -
  obtain r where r: "reconcile ids org calc fd derived source = Inr r" using reconcile_total by blast
  let ?d = "dval (dabs default_context (dsub_default derived (ff_normalized source)))"
  obtain tol where tol: "allowed_tolerance (fd_tolerance_kind fd) (fd_tolerance_value fd) (ff_normalized source) = Inr tol"
    and st: "rc_status r = (if dval derived = dval (ff_normalized source) then ''RECONCILED''
       else if ?d \<le> dval tol then ''WITHIN_TOLERANCE'' else ''OUTSIDE_TOLERANCE'')"
    using reconcile_Inr [OF r] by blast
  have "fd_tolerance_kind fd = ''RELATIVE'' \<longrightarrow> 0 \<le> T" using assms(1) by (simp add: T_def exact_tolerance_def)
  then have tb: "T * (1 - \<delta>) \<le> dval tol" "dval tol \<le> T * (1 + \<delta>)"
    using allowed_tolerance_bounds [OF tol] by (simp_all add: T_def \<delta>_def)
  have "\<bar>?d - e\<bar> \<le> e * hd28" unfolding e_def by (rule abs_difference)
  also have "e * hd28 \<le> e * (1 / 10 ^ 26)" by (intro mult_left_mono) (simp_all add: hd28_eq e_def)
  finally have "e * (1 - 1 / 10 ^ 26) \<le> ?d" "?d \<le> e * (1 + 1 / 10 ^ 26)"
    by (simp_all only: right_diff_distrib distrib_left mult_1_right)
  with r st tb show ?thesis by auto
qed

section \<open>The idempotency hash\<close>

definition uuid_ok :: "uuid \<Rightarrow> bool" where
  "uuid_ok u \<longleftrightarrow> u < 2 ^ 128"

definition fact_ok :: "financial_fact \<Rightarrow> bool" where
  "fact_ok f \<longleftrightarrow> uuid_ok (ff_id f) \<and> (case ff_candidate f of None \<Rightarrow> True | Some c \<Rightarrow> uuid_ok c) \<and>
     is_numeric 28 6 (ff_normalized f)"

text \<open>The content of one role in the hash.\<close>

definition fact_key :: "string \<times> financial_fact \<Rightarrow>
  string \<times> uuid \<times> uuid \<times> dec \<times> string \<times> string \<times> string \<times> string" where
  "fact_key rf = (case rf of (r, f) \<Rightarrow> (r, ff_id f, (case ff_candidate f of None \<Rightarrow> ff_id f | Some c \<Rightarrow> c),
     ff_normalized f, ff_currency f, ff_unit f, ff_scale f, ff_basis f))"

lemma jsort_list_map: "jsort_list xs = map jsort xs"
  by (induction xs) simp_all

lemma role_snapshot_sorted:
  "jsort (role_snapshot (r, f)) = JObj
     [(''currency'', JStr (ff_currency f)), (''fact_id'', JStr (uuid_str (ff_id f))),
      (''normalized_value'', JStr (dec_str (ff_normalized f))), (''reporting_basis'', JStr (ff_basis f)),
      (''revision_id'', JStr (uuid_str (case ff_candidate f of None \<Rightarrow> ff_id f | Some c \<Rightarrow> c))),
      (''role'', JStr r), (''scale'', JStr (ff_scale f)), (''unit'', JStr (ff_unit f))]"
  by (simp add: role_snapshot_def)

lemma role_snapshot_inject:
  "fact_ok f \<Longrightarrow> fact_ok g \<Longrightarrow>
    jsort (role_snapshot (r, f)) = jsort (role_snapshot (q, g)) \<longleftrightarrow> fact_key (r, f) = fact_key (q, g)"
  unfolding role_snapshot_sorted fact_key_def fact_ok_def
  by (auto simp: uuid_str_inject uuid_ok_def stored_str_inject split: option.splits)

lemma opt_uuid_sorted [simp]: "jsort (opt_uuid u) = opt_uuid u"
  by (cases u) (simp_all add: opt_uuid_def)

lemma opt_uuid_inject:
  "(\<forall>x. u = Some x \<longrightarrow> uuid_ok x) \<Longrightarrow> (\<forall>x. v = Some x \<longrightarrow> uuid_ok x) \<Longrightarrow> opt_uuid u = opt_uuid v \<longleftrightarrow> u = v"
  by (cases u; cases v) (simp_all add: opt_uuid_def uuid_str_inject uuid_ok_def)

lemma idempotency_payload_sorted:
  "jsort (idempotency_payload a spec impl facts cmp) = JObj
     [(''annualization_policy_version'', JStr ''1.0.0''),
      (''comparison_period_id'', opt_uuid cmp),
      (''comparison_policy'', JStr (a_policy a)),
      (''formula_code'', JStr (a_formula_code a)),
      (''formula_spec_checksum'', JStr spec),
      (''formula_version'', JStr ''1.0.0''),
      (''idempotency_schema_version'', JStr ''1.0.0''),
      (''implementation_checksum'', JStr impl),
      (''inputs'', JList (map (jsort \<circ> role_snapshot) (sort_key fst facts))),
      (''organization_id'', JStr (uuid_str (a_org a))),
      (''reconciliation_policy_version'', JStr ''1.0.0''),
      (''reporting_period_id'', JStr (uuid_str (a_period a))),
      (''rounding_policy_version'', JStr ''1.0.0'')]"
  by (simp add: idempotency_payload_def jsort_list_map)


text \<open>C30: when the digest does not collide on the two texts, two executions have one idempotency
  hash only if they agree on tenant, formula, period, comparison period, policy, both checksums and,
  role by role, on the fact, its revision, value, currency, unit, scale and basis.\<close>

theorem idempotency_hash_identifies_inputs:
  assumes "compute_canonical_idempotency_hash sha a spec impl facts cmp =
      compute_canonical_idempotency_hash sha b spec' impl' facts' cmp'"
    and "inj_on sha {json_dumps (idempotency_payload a spec impl facts cmp),
      json_dumps (idempotency_payload b spec' impl' facts' cmp')}"
    and "\<forall>(r, f) \<in> set facts \<union> set facts'. fact_ok f"
    and "\<forall>u \<in> {a_org a, a_org b, a_period a, a_period b}. uuid_ok u"
    and "\<forall>x \<in> set_option cmp \<union> set_option cmp'. uuid_ok x"
  shows "a_org a = a_org b \<and> a_formula_code a = a_formula_code b \<and> a_period a = a_period b \<and>
    a_policy a = a_policy b \<and> cmp = cmp' \<and> spec = spec' \<and> impl = impl' \<and>
    map fact_key (sort_key fst facts) = map fact_key (sort_key fst facts')"
proof -
  have "json_dumps (idempotency_payload a spec impl facts cmp) = json_dumps (idempotency_payload b spec' impl' facts' cmp')"
    using assms(1,2) unfolding compute_canonical_idempotency_hash_def by (auto dest: inj_onD)
  then have eq: "jsort (idempotency_payload a spec impl facts cmp) = jsort (idempotency_payload b spec' impl' facts' cmp')"
    by (simp only: json_dumps_inject)
  have snap: "map (jsort \<circ> role_snapshot) xs = map (jsort \<circ> role_snapshot) ys \<Longrightarrow> map fact_key xs = map fact_key ys"
    if "\<forall>(r, f) \<in> set xs \<union> set ys. fact_ok f" for xs ys
    using that
  proof (induction xs ys rule: list_induct2')
    case (4 x xs y ys)
    then show ?case using role_snapshot_inject [of "snd x" "snd y" "fst x" "fst y"] by (auto simp: split_beta)
  qed simp_all
  have "map (jsort \<circ> role_snapshot) (sort_key fst facts) = map (jsort \<circ> role_snapshot) (sort_key fst facts')"
    using eq unfolding idempotency_payload_sorted by simp
  then have "map fact_key (sort_key fst facts) = map fact_key (sort_key fst facts')"
    using assms(3) by (intro snap) simp_all
  moreover have "uuid_str (a_org a) = uuid_str (a_org b)" "uuid_str (a_period a) = uuid_str (a_period b)"
    "opt_uuid cmp = opt_uuid cmp'" "a_formula_code a = a_formula_code b" "a_policy a = a_policy b"
    "spec = spec'" "impl = impl'"
    using eq unfolding idempotency_payload_sorted by simp_all
  ultimately show ?thesis
    using assms(4,5) opt_uuid_inject [of cmp cmp'] by (auto simp: uuid_str_inject uuid_ok_def)
qed






section \<open>A concrete run\<close>

definition sample_row :: "uuid \<Rightarrow> string \<Rightarrow> nat \<Rightarrow> financial_fact" where
  "sample_row i m v = \<lparr>ff_id = i, ff_org = 1, ff_institution = 2, ff_period = 3, ff_metric_definition = 4,
     ff_metric_code = m, ff_value = Dec False v (-6), ff_currency = ''GEL'', ff_unit = ''CURRENCY'',
     ff_scale = ''ONE'', ff_normalized = Dec False v (-6), ff_basis = ''SOLO'', ff_candidate = Some (100 + i),
     ff_document = 5, ff_page = None, ff_review = ''HUMAN_VERIFIED'', ff_verified_by = Some 6,
     ff_supersedes = None, ff_valid_to = None, ff_origin = ''SOURCE_REPORTED''\<rparr>"

definition sample_evidence :: "uuid \<Rightarrow> uuid \<Rightarrow> candidate_evidence" where
  "sample_evidence i c = \<lparr>ce_id = i, ce_org = 1, ce_candidate = c, ce_version = 7, ce_page = None, ce_sheet = None,
     ce_cell = None, ce_header = None, ce_row = Some 4, ce_column = Some 2, ce_bbox = [], ce_snippet = None\<rparr>"

definition sample_db :: calc_db where
  "sample_db = no_rows\<lparr>
     t_definitions := [\<lparr>fd_code = ''LOAN_TO_DEPOSIT_RATIO'', fd_status = ''ACTIVE'',
       fd_implementation_checksum = Some (compute_implementation_checksum sample_sha LoanToDepositRatioFormula),
       fd_spec_checksum = Some (compute_formula_spec_checksum sample_sha LoanToDepositRatioFormula),
       fd_tolerance_kind = ''ABSOLUTE'', fd_tolerance_value = Dec False 50000 (-6),
       fd_tolerance_unit = ''PERCENTAGE_POINTS'', fd_tolerance_policy_version = ''1.0.0''\<rparr>],
     t_periods := [\<lparr>rp_id = 3, rp_org = 1, rp_type = ''DATE_POINT'', rp_presentation = ''DATE_POINT'',
       rp_fiscal_year = 2024, rp_quarter = None, rp_start = Date 2024 12 31, rp_end = Date 2024 12 31, rp_label = ''D'', rp_comparison_key = ''D''\<rparr>],
     t_facts := [sample_row 10 ''TOTAL_LOANS'' 80000000, sample_row 11 ''TOTAL_DEPOSITS'' 64000000],
     t_candidate_evidence := [sample_evidence 20 110, sample_evidence 21 111],
     t_versions := [\<lparr>dv_id = 7, dv_org = 1, dv_document = 5, dv_object = 8, dv_number = 1,
       dv_ingestion = ''COMPLETED'', dv_extraction = ''COMPLETED'', dv_detected_mime = Some ''text/csv'', dv_declared_mime = None\<rparr>]\<rparr>"

definition sample_session :: calc_session where
  "sample_session = \<lparr>committed = sample_db, added = no_rows, lv_hash = None, lv_spec = None, lv_impl = None\<rparr>"

definition sample_args :: "string \<Rightarrow> calc_args" where
  "sample_args code = \<lparr>a_org = 1, a_user = 6, a_formula_code = code, a_institution = 2, a_period = 3,
     a_comparison = None, a_policy = ''PREVIOUS_PERIOD''\<rparr>"

definition sample_ids :: uuid_supply where
  "sample_ids purpose i j = 1000 + 100 * length purpose + 10 * i + j"

lemma sample_prepare:
  "prepare sample_db (sample_args ''LOAN_TO_DEPOSIT_RATIO'') LoanToDepositRatioFormula = Inr
     \<lparr>pr_resolved = None, pr_factor = dec_1_0, pr_facts = [(''NUMERATOR'', sample_row 10 ''TOTAL_LOANS'' 80000000),
       (''DENOMINATOR'', sample_row 11 ''TOTAL_DEPOSITS'' 64000000)], pr_currency = ''GEL''\<rparr>"
  by (simp add: prepare_def find_period_def sample_db_def sample_args_def no_rows_def resolve_comparison_def
      check_beginning_balance_def loan_to_deposit_attrs_def base_attrs_def compute_act_isda_annualization_factor_def
      select_facts_def eligible_facts_def sample_row_def check_consistency_def)

lemma ndigits_num: "n < 10 \<Longrightarrow> ndigits n = 1" "10 \<le> n \<Longrightarrow> ndigits n = Suc (ndigits (n div 10))"
  by (simp_all add: ndigits.simps [of n])

lemma strip_zeros_num:
  "strip_zeros (numeral k) c e =
     (if c mod 10 = 0 then strip_zeros (pred_numeral k) (c div 10) (e + 1) else (c, e))"
  by (subst numeral_eq_Suc) simp

lemmas decimal_eval = ddiv_def Let_def div_shift_def div_num_def div_den_def working_context_def ndigits_num
  dfix_def strip_zeros_num deq_def aligned_def dec_0_0_def signed_coeff_def sgn_int_def dec_100_0_def
  dmul_def percent_result_def dquantize_def drescale_def div_round_def dec_1_0_def

definition sample_result :: formula_result where
  "sample_result = \<lparr>result_value_unrounded = Dec False 125000 (-3), result_value_display = Dec False 12500 (-2),
     fr_unit = ''PERCENT'', fr_scale = ''ONE'', fr_representation = ''PERCENT_DISPLAY'',
     fr_rounding_policy = ''ROUND_HALF_UP'', fr_display_precision = 2\<rparr>"

definition sample_facts :: "(string \<times> financial_fact) list" where
  "sample_facts = [(''NUMERATOR'', sample_row 10 ''TOTAL_LOANS'' 80000000),
     (''DENOMINATOR'', sample_row 11 ''TOTAL_DEPOSITS'' 64000000)]"

lemma sample_calculate:
  "calculate LoanToDepositRatioFormula (inputs_by_role sample_facts) (Some dec_1_0) = Inr sample_result"
proof -
  have q: "ddiv working_context (Dec False 80000000 (-6)) (Dec False 64000000 (-6)) = Inr (Dec False 125 (-2))"
    by (simp add: decimal_eval)
  have m: "dmul working_context (Dec False 125 (-2)) dec_100_0 = Dec False 125000 (-3)"
    by (simp add: dmul_def dfix_def ndigits_num working_context_def dec_100_0_def)
  have p: "percent_result (Dec False 125000 (-3)) = Inr sample_result"
    by (simp add: percent_result_def dquantize_def working_context_def ndigits_num drescale_def div_round_def Let_def sample_result_def)
  have z: "\<not> deq (Dec False 64000000 (-6)) dec_0_0"
    by (simp add: deq_def aligned_def dec_0_0_def signed_coeff_def sgn_int_def Let_def)
  show ?thesis
    by (simp add: inputs_by_role_def sample_facts_def sample_row_def loan_to_deposit_calculate_def fact_snapshot_def
        to_working_fraction_def falsy_str_def q m p z)
qed

definition sample_prepared :: prepared where
  "sample_prepared = \<lparr>pr_resolved = None, pr_factor = dec_1_0, pr_facts = sample_facts, pr_currency = ''GEL''\<rparr>"

abbreviation "ldr_args \<equiv> sample_args ''LOAN_TO_DEPOSIT_RATIO''"

lemma sample_stored:
  "\<exists>row. stored_calculation (make_calculation sample_ids ldr_args sample_prepared req h sample_result n) = Inr row"
  by (simp add: stored_calculation_def make_calculation_def sample_result_def sample_prepared_def stored_as_def decimal_eval)

lemma sample_collect:
  assumes "t_candidate_evidence db = t_candidate_evidence sample_db" "t_versions db = t_versions sample_db"
  shows "\<exists>r. collect_evidence db sample_ids 1 c sample_facts = Inr r"
  by (simp add: collect_evidence_def sample_facts_def collect_role_def sample_row_def assms sample_db_def
      sample_evidence_def validate_evidence_def lineage_ok_def version_mime_def falsy_str_def spreadsheet_mimes_def
      positive_index_def Let_def)

lemma sample_store:
  assumes "t_calculations (visible s) = []" "t_attempts (visible s) = []" "t_facts (visible s) = t_facts sample_db"
  shows "\<exists>c s'. store_calculation quiet sample_ids sha ldr_args fd sample_prepared h spec impl req sample_result
     ins evs s = (Inr (c, ins, None), s') \<and> added s' = no_rows"
proof -
  obtain row where row: "stored_calculation (make_calculation sample_ids ldr_args sample_prepared req h sample_result 1) = Inr row"
    using sample_stored by blast
  show ?thesis using assms row
    by (simp add: store_calculation_def bindP_def readP_def insert_attempt_def attempts_of_def next_attempt_number_def
        insert_calculation_def liftP_def completed_with_def settle_insert_def finish_calculation_def add_rows_def
        modifyP_def reconcile_step_def queryP_def source_fact_def retP_def record_event_def del: One_nat_def)
     (simp add: visible_def merge_rows_def sample_args_def sample_row_def retP_def sample_db_def  del: One_nat_def)
qed

lemma sample_definition:
  "verify_checksum sample_sha ''LOAN_TO_DEPOSIT_RATIO'' ''1.0.0''
      (Some (compute_formula_spec_checksum sample_sha LoanToDepositRatioFormula))
      (Some (compute_implementation_checksum sample_sha LoanToDepositRatioFormula)) =
    Inr (compute_formula_spec_checksum sample_sha LoanToDepositRatioFormula,
      compute_implementation_checksum sample_sha LoanToDepositRatioFormula)"
proof -
  have "formula_code (attrs LoanToDepositRatioFormula) = ''LOAN_TO_DEPOSIT_RATIO''"
    by (simp add: loan_to_deposit_attrs_def)
  then show ?thesis
    using verify_checksum_Inr [of sample_sha LoanToDepositRatioFormula]
    by (simp add: compute_formula_spec_checksum_def compute_implementation_checksum_def sample_sha_valid)
qed

lemma sample_serve:
  assumes "t_requests (visible s) = []" "t_calculations (visible s) = []" "t_attempts (visible s) = []"
    "t_facts (visible s) = t_facts sample_db" "t_candidate_evidence (visible s) = t_candidate_evidence sample_db"
    "t_versions (visible s) = t_versions sample_db"
  shows "\<exists>c ins s'. serve_request quiet sample_ids sha ldr_args LoanToDepositRatioFormula fd sample_prepared h spec impl s =
     (Inr (c, ins, None), s') \<and> added s' = no_rows"
proof -
  define r where "r = new_request sample_ids sha ldr_args 0 (pr_resolved sample_prepared)"
  define u where "u = s\<lparr>added := (added s)\<lparr>t_requests := t_requests (added s) @ [r]\<rparr>\<rparr>"
  have e: "ensure_request quiet 1 r s = (Inr r, u)"
    using assms(1) by (simp add: ensure_request_def Let_def proc_simps requests_with_def insert_request_def add_rows_def u_def)
  have v: "t_calculations (visible u) = []" "t_attempts (visible u) = []" "t_facts (visible u) = t_facts sample_db"
    "t_candidate_evidence (visible u) = t_candidate_evidence sample_db" "t_versions (visible u) = t_versions sample_db"
    using assms by (simp_all add: u_def)
  obtain ins evs where ce: "collect_evidence (visible u) sample_ids 1 (sample_ids ''calculation'' 0 0) sample_facts = Inr (ins, evs)"
    using sample_collect [OF v(4,5)] by fastforce
  obtain c s' where st: "store_calculation quiet sample_ids sha ldr_args fd sample_prepared h spec impl r sample_result ins evs u =
      (Inr (c, ins, None), s')" "added s' = no_rows"
    using sample_store [OF v(1-3)] by blast
  have "execute_calculation quiet sample_ids sha ldr_args LoanToDepositRatioFormula fd sample_prepared h spec impl r u =
      (Inr (c, ins, None), s')"
    using ce st(1) sample_calculate
    by (simp add: execute_calculation_def bindP_def queryP_def liftP_def sample_prepared_def) (simp add: sample_args_def)
  then have "serve_request quiet sample_ids sha ldr_args LoanToDepositRatioFormula fd sample_prepared h spec impl s =
      (Inr (c, ins, None), s')"
    using v(1) by (simp add: serve_request_def r_def [symmetric] bindP_def e queryP_def completed_with_def del: One_nat_def)
  with st(2) show ?thesis by blast
qed


lemma sample_run:
  obtains c ins s' where
    "run_calculation quiet sample_ids sample_sha ldr_args sample_session = (Inr (c, ins, None), s')" "added s' = no_rows"
proof -
  define e where "e = audit_record sample_sha (a_org ldr_args) ''CALCULATION_REQUESTED'' ''CALCULATION_REQUEST''
         (sample_ids ''audit'' 0 0) (Some (a_user ldr_args))
         [(''formula_code'', JStr (a_formula_code ldr_args)), (''comparison_policy'', JStr (a_policy ldr_args))]"
  define t where "t = sample_session\<lparr>added := no_rows\<lparr>t_audit := [e]\<rparr>\<rparr>"
  have start: "run_calculation quiet sample_ids sample_sha ldr_args sample_session =
      tryP (run_body quiet sample_ids sample_sha ldr_args) (recover quiet sample_ids sample_sha ldr_args) t"
    by (simp add: run_calculation_def record_event_def add_rows_def bindP_def modifyP_def e_def [symmetric] t_def)
      (simp add: sample_session_def no_rows_def)
  define fd where "fd = hd (t_definitions sample_db)"
  have vt: "visible t = sample_db\<lparr>t_audit := [e]\<rparr>"
    by (simp add: t_def visible_def merge_rows_def sample_session_def no_rows_def sample_db_def)
  have defs: "scalar_one_or_none (filter (\<lambda>d. fd_code d = a_formula_code ldr_args \<and> fd_status d = ''ACTIVE'')
        (t_definitions (visible t))) = Inr (Some fd)"
    by (simp add: vt fd_def sample_db_def no_rows_def sample_args_def)
  have ver: "verify_checksum sample_sha (a_formula_code ldr_args) ''1.0.0'' (fd_spec_checksum fd) (fd_implementation_checksum fd) =
        Inr (compute_formula_spec_checksum sample_sha LoanToDepositRatioFormula,
          compute_implementation_checksum sample_sha LoanToDepositRatioFormula)"
    by (simp add: fd_def sample_db_def sample_definition sample_args_def)
  have prep: "prepare (visible t) ldr_args LoanToDepositRatioFormula = Inr sample_prepared"
    using prepare_cong [of "visible t" sample_db] sample_prepare
    by (simp add: vt sample_prepared_def sample_facts_def)
  have form: "get_formula (a_formula_code ldr_args) ''1.0.0'' = Inr LoanToDepositRatioFormula"
    by (simp add: get_formula_Inr sample_args_def loan_to_deposit_attrs_def)
  note fwd = run_body_forward [OF form defs ver prep, of quiet sample_ids]
  have "\<exists>c ins s'. run_body quiet sample_ids sample_sha ldr_args t = (Inr (c, ins, None), s') \<and> added s' = no_rows"
    unfolding fwd by (rule sample_serve) (simp_all add: vt sample_db_def no_rows_def)
  then show ?thesis using that unfolding start by (auto simp: tryP_def)
qed

lemma sample_failure:
  obtains s' where "run_calculation quiet sample_ids sample_sha (sample_args ''NOPE'') sample_session =
     (Inl (ValueError ''FORMULA_NOT_SUPPORTED''), s')"
proof -
  have "fst (run_calculation quiet sample_ids sample_sha (sample_args ''NOPE'') sample_session) =
     Inl (ValueError ''FORMULA_NOT_SUPPORTED'')"
    by (simp add: run_calculation_def run_body_def get_formula_def formula_registry_def sample_args_def
        proc_simps recover_def record_failure_def classify_def allowlist_error_codes_def
        ensure_request_def Let_def insert_request_def insert_attempt_def add_rows_def record_event_def rollback_def commit_def
        sample_session_def sample_db_def visible_def merge_rows_def requests_with_def no_rows_def new_request_def make_attempt_def
        attempts_of_def next_attempt_number_def)
  then show ?thesis using that by (metis prod.collapse)
qed

lemma run_raises_allowlisted_witness:
  "\<exists>e s' m. run_calculation quiet sample_ids sample_sha (sample_args ''NOPE'') sample_session = (Inl e, s') \<and>
     e = ValueError m \<and> (m \<in> set allowlist_error_codes \<or> m = ''CALCULATION_FAILURE_PERSISTENCE_FAILED'')"
proof (rule sample_failure)
  fix s'
  assume r: "run_calculation quiet sample_ids sample_sha (sample_args ''NOPE'') sample_session =
     (Inl (ValueError ''FORMULA_NOT_SUPPORTED''), s')"
  show ?thesis using run_raises_allowlisted [OF r] r by blast
qed

lemma failed_run_records_attempt_witness:
  "\<exists>s'. run_calculation quiet sample_ids sample_sha (sample_args ''NOPE'') sample_session =
      (Inl (ValueError ''FORMULA_NOT_SUPPORTED''), s') \<and>
    failure_rows sample_db (committed s') (sample_args ''NOPE'') ''FORMULA_NOT_SUPPORTED'' \<and> added s' = no_rows"
proof (rule sample_failure)
  fix s'
  assume r: "run_calculation quiet sample_ids sample_sha (sample_args ''NOPE'') sample_session =
     (Inl (ValueError ''FORMULA_NOT_SUPPORTED''), s')"
  have "committed sample_session = sample_db" by (simp add: sample_session_def)
  then show ?thesis using r failed_run_records_attempt [OF r] by auto
qed


lemma rerun_returns_same_calculation_witness:
  "\<exists>c ins s' c' ins' rec' s''. run_calculation quiet sample_ids sample_sha ldr_args sample_session = (Inr (c, ins, None), s') \<and>
    run_calculation quiet sample_ids sample_sha ldr_args s' = (Inr (c', ins', rec'), s'') \<and>
    cl_id c' = cl_id c \<and> committed s'' = committed s'"
proof (rule sample_run)
  fix c ins s'
  assume r: "run_calculation quiet sample_ids sample_sha ldr_args sample_session = (Inr (c, ins, None), s')"
    and a: "added s' = no_rows"
  have b: "added sample_session = no_rows"
    "\<forall>r \<in> set (t_reconciliations (committed sample_session)). rc_calculation r \<noteq> sample_ids ''calculation'' 0 0"
    by (simp_all add: sample_session_def sample_db_def no_rows_def)
  from r rerun_returns_same_calculation [OF b(1) r a b(2)] show ?thesis by blast
qed



lemma reconciliation_classifies_witness:
  "\<exists>r. reconcile sample_ids 1 2 ((hd (t_definitions sample_db))\<lparr>fd_tolerance_kind := ''RELATIVE''\<rparr>)
      (Dec False 135 (-2)) (sample_row 10 ''TOTAL_LOANS'' 1250000) = Inr r \<and> rc_status r = ''OUTSIDE_TOLERANCE''"
proof -
  let ?fd = "(hd (t_definitions sample_db))\<lparr>fd_tolerance_kind := ''RELATIVE''\<rparr>"
  have "fd_tolerance_kind ?fd = ''RELATIVE'' \<longrightarrow> 0 \<le> dval (fd_tolerance_value ?fd)"
    by (simp add: sample_db_def dval_Dec power_int_minus)
  from reconciliation_classifies [OF this, of sample_ids 1 2 "Dec False 135 (-2)" "sample_row 10 ''TOTAL_LOANS'' 1250000"]
  show ?thesis
    by (auto simp: sample_row_def dval_Dec power_int_minus exact_tolerance_def tolerance_error_def sample_db_def)
qed

text \<open>One unit of the last decimal place of one input is enough for another hash.\<close>

lemma idempotency_hash_identifies_inputs_witness:
  "compute_canonical_idempotency_hash (\<lambda>s. s) ldr_args ''s'' ''i'' sample_facts None \<noteq>
    compute_canonical_idempotency_hash (\<lambda>s. s) ldr_args ''s'' ''i''
      [(''NUMERATOR'', sample_row 10 ''TOTAL_LOANS'' 80000001), (''DENOMINATOR'', sample_row 11 ''TOTAL_DEPOSITS'' 64000000)] None"
proof
  assume "compute_canonical_idempotency_hash (\<lambda>s. s) ldr_args ''s'' ''i'' sample_facts None =
    compute_canonical_idempotency_hash (\<lambda>s. s) ldr_args ''s'' ''i''
      [(''NUMERATOR'', sample_row 10 ''TOTAL_LOANS'' 80000001), (''DENOMINATOR'', sample_row 11 ''TOTAL_DEPOSITS'' 64000000)] None"
  from idempotency_hash_identifies_inputs [OF this] show False
    by (simp add: sample_facts_def fact_ok_def uuid_ok_def is_numeric_def sample_row_def sample_args_def fact_key_def
        less_eq_list_code)
qed


end
