(* ===== verification/Lifecycle.thy ===== *)
theory Lifecycle
  imports Prelude
begin

text \<open>
  The contract of a status table, as the code keeps several: which statuses a status may change to,
  which are final, and which are pauses, from which the work may go back (a clarification, a retry).
  A rank that falls at every other change bounds how long the work can run. The tables of the
  analysis jobs, upload sessions, document versions and ingestion jobs are interpreted against it in
  their own theories.
\<close>

text \<open>A sequence of status changes allowed by a table.\<close>

fun status_path :: "('s \<Rightarrow> 's list) \<Rightarrow> 's \<Rightarrow> 's list \<Rightarrow> bool" where
  "status_path succs s [] = True"
| "status_path succs s (t # ts) = (t \<in> set (succs s) \<and> status_path succs t ts)"

lemma status_path_append:
  "status_path succs s (xs @ ys) \<longleftrightarrow> status_path succs s xs \<and> status_path succs (last (s # xs)) ys"
  by (induction xs arbitrary: s) auto

lemma status_path_nth: "status_path succs s ts \<longleftrightarrow> (\<forall>i < length ts. ts ! i \<in> set (succs ((s # ts) ! i)))"
  by (induction ts arbitrary: s) (auto simp: less_Suc_eq_0_disj)

locale lifecycle =
  fixes succs :: "'s \<Rightarrow> 's list"
    and final :: "'s \<Rightarrow> bool"
    and pause :: "'s \<Rightarrow> bool"
    and rank :: "'s \<Rightarrow> nat"
    and bound :: nat
  assumes final_stays: "final s \<Longrightarrow> succs s = []"
    and can_end: "\<not> final s \<Longrightarrow> succs s \<noteq> [] \<Longrightarrow> \<not> pause s \<Longrightarrow> \<exists>t \<in> set (succs s). final t \<or> pause t"
    and falls: "t \<in> set (succs s) \<Longrightarrow> \<not> pause s \<Longrightarrow> rank t < rank s"
    and rank_bound: "rank s \<le> bound"
begin

lemma path_from_final: "final s \<Longrightarrow> status_path succs s ts \<Longrightarrow> ts = []"
  by (cases ts) (simp_all add: final_stays)

lemma final_only_last: "status_path succs s ts \<Longrightarrow> ts = us @ t # vs \<Longrightarrow> final t \<Longrightarrow> vs = []"
  using path_from_final [of t vs] by (simp add: status_path_append)

lemma path_bounded:
  "status_path succs s ts \<Longrightarrow> length ts \<le> rank s + (bound + 1) * length (filter pause (s # ts))"
proof (induction ts arbitrary: s)
  case Nil
  then show ?case by simp
next
  case (Cons t ts)
  then have t: "t \<in> set (succs s)" and p: "status_path succs t ts" by simp_all
  note IH = Cons.IH [OF p]
  show ?case
  proof (cases "pause s")
    case True
    then show ?thesis using IH rank_bound [of t] by simp
  next
    case False
    then show ?thesis using IH falls [OF t] by simp
  qed
qed

lemma path_without_pause:
  assumes "status_path succs s ts" "\<forall>t \<in> set (s # ts). \<not> pause t"
  shows "length ts \<le> rank s"
proof -
  have "filter pause (s # ts) = []" using assms(2) by (simp add: filter_empty_conv)
  then show ?thesis using path_bounded [OF assms(1)] by simp
qed

lemma stops_in_one: "\<not> final s \<Longrightarrow> succs s \<noteq> [] \<Longrightarrow> \<not> pause s \<Longrightarrow> \<exists>t. status_path succs s [t] \<and> (final t \<or> pause t)"
  using can_end by auto

end

end
