(* ===== verification/AnalysisStateMachine.thy ===== *)
theory AnalysisStateMachine
  imports Lifecycle
begin

text \<open>
  \<open>orchestration/state_machine.py\<close>: the statuses of an analysis job, the table of allowed changes and
  the check every handler makes before it writes a status. \<open>orchestration/exceptions.py\<close> gives every
  exception a code and a message; \<open>orchestration_exception\<close> builds one.
\<close>

datatype job_status =
    RECEIVED
  | UNDERSTANDING_REQUEST
  | PLANNING
  | POLICY_CHECK
  | RETRIEVING_INTERNAL_SOURCES
  | VALIDATING_SOURCES
  | EXECUTING_TOOLS
  | RECONCILING_RESULTS
  | GENERATING_STRUCTURED_RESULT
  | QUALITY_GATE
  | COMPLETED
  | NEEDS_CLARIFICATION
  | REJECTED_BY_POLICY
  | FAILED
  | CANCELLED
  | EXPIRED
  | BUDGET_EXCEEDED
  | AWAITING_HUMAN_REVIEW

fun status_value :: "job_status \<Rightarrow> string" where
  "status_value RECEIVED = ''RECEIVED''"
| "status_value UNDERSTANDING_REQUEST = ''UNDERSTANDING_REQUEST''"
| "status_value PLANNING = ''PLANNING''"
| "status_value POLICY_CHECK = ''POLICY_CHECK''"
| "status_value RETRIEVING_INTERNAL_SOURCES = ''RETRIEVING_INTERNAL_SOURCES''"
| "status_value VALIDATING_SOURCES = ''VALIDATING_SOURCES''"
| "status_value EXECUTING_TOOLS = ''EXECUTING_TOOLS''"
| "status_value RECONCILING_RESULTS = ''RECONCILING_RESULTS''"
| "status_value GENERATING_STRUCTURED_RESULT = ''GENERATING_STRUCTURED_RESULT''"
| "status_value QUALITY_GATE = ''QUALITY_GATE''"
| "status_value COMPLETED = ''COMPLETED''"
| "status_value NEEDS_CLARIFICATION = ''NEEDS_CLARIFICATION''"
| "status_value REJECTED_BY_POLICY = ''REJECTED_BY_POLICY''"
| "status_value FAILED = ''FAILED''"
| "status_value CANCELLED = ''CANCELLED''"
| "status_value EXPIRED = ''EXPIRED''"
| "status_value BUDGET_EXCEEDED = ''BUDGET_EXCEEDED''"
| "status_value AWAITING_HUMAN_REVIEW = ''AWAITING_HUMAN_REVIEW''"

definition terminal_states :: "job_status list" where
  "terminal_states = [COMPLETED, REJECTED_BY_POLICY, FAILED, CANCELLED, EXPIRED, BUDGET_EXCEEDED]"

text \<open>\<open>VALID_TRANSITIONS.get(status, set())\<close>.\<close>

fun valid_transitions :: "job_status \<Rightarrow> job_status list" where
  "valid_transitions RECEIVED = [UNDERSTANDING_REQUEST, CANCELLED]"
| "valid_transitions UNDERSTANDING_REQUEST =
     [NEEDS_CLARIFICATION, PLANNING, REJECTED_BY_POLICY, FAILED, CANCELLED]"
| "valid_transitions NEEDS_CLARIFICATION = [UNDERSTANDING_REQUEST, EXPIRED, CANCELLED, FAILED]"
| "valid_transitions PLANNING = [POLICY_CHECK, FAILED, CANCELLED]"
| "valid_transitions POLICY_CHECK = [RETRIEVING_INTERNAL_SOURCES, REJECTED_BY_POLICY, FAILED, CANCELLED]"
| "valid_transitions RETRIEVING_INTERNAL_SOURCES = [VALIDATING_SOURCES, FAILED, BUDGET_EXCEEDED, CANCELLED]"
| "valid_transitions VALIDATING_SOURCES = [EXECUTING_TOOLS, NEEDS_CLARIFICATION, FAILED, CANCELLED]"
| "valid_transitions EXECUTING_TOOLS = [RECONCILING_RESULTS, FAILED, BUDGET_EXCEEDED, CANCELLED]"
| "valid_transitions RECONCILING_RESULTS = [GENERATING_STRUCTURED_RESULT, FAILED, CANCELLED]"
| "valid_transitions GENERATING_STRUCTURED_RESULT = [QUALITY_GATE, FAILED, CANCELLED]"
| "valid_transitions QUALITY_GATE = [COMPLETED, AWAITING_HUMAN_REVIEW, FAILED, CANCELLED]"
| "valid_transitions AWAITING_HUMAN_REVIEW = [COMPLETED, REJECTED_BY_POLICY, FAILED, CANCELLED]"
| "valid_transitions _ = []"

definition orchestration_exception :: "string \<Rightarrow> string \<Rightarrow> py_exc" where
  "orchestration_exception code message = AppError code message"

definition validate_transition :: "job_status \<Rightarrow> job_status \<Rightarrow> py_exc + unit" where
  "validate_transition current new =
     (if current \<in> set terminal_states
      then Inl (orchestration_exception ''TERMINAL_STATE_MUTATION_PROHIBITED''
        (''Cannot transition from terminal state '' @ status_value current @ '' to '' @ status_value new))
      else if new \<notin> set (valid_transitions current)
      then Inl (orchestration_exception ''INVALID_STATE_TRANSITION''
        (''Invalid transition from '' @ status_value current @ '' to '' @ status_value new))
      else Inr ())"

lemma validate_transition_ok [simp]:
  "validate_transition current new = Inr () \<longleftrightarrow> new \<in> set (valid_transitions current)"
  by (cases current) (auto simp: validate_transition_def terminal_states_def)

text \<open>The longest way to a final status that asks for no clarification.\<close>

fun status_rank :: "job_status \<Rightarrow> nat" where
  "status_rank RECEIVED = 11"
| "status_rank UNDERSTANDING_REQUEST = 10"
| "status_rank PLANNING = 9"
| "status_rank POLICY_CHECK = 8"
| "status_rank RETRIEVING_INTERNAL_SOURCES = 7"
| "status_rank VALIDATING_SOURCES = 6"
| "status_rank NEEDS_CLARIFICATION = 5"
| "status_rank EXECUTING_TOOLS = 5"
| "status_rank RECONCILING_RESULTS = 4"
| "status_rank GENERATING_STRUCTURED_RESULT = 3"
| "status_rank QUALITY_GATE = 2"
| "status_rank AWAITING_HUMAN_REVIEW = 1"
| "status_rank _ = 0"

interpretation analysis_lifecycle: lifecycle valid_transitions "\<lambda>s. s \<in> set terminal_states"
  "\<lambda>s. s = NEEDS_CLARIFICATION" status_rank 11
proof
  fix s t :: job_status
  show "s \<in> set terminal_states \<Longrightarrow> valid_transitions s = []"
    by (auto simp: terminal_states_def)
  show "s \<notin> set terminal_states \<Longrightarrow> valid_transitions s \<noteq> [] \<Longrightarrow> s \<noteq> NEEDS_CLARIFICATION \<Longrightarrow>
      \<exists>t \<in> set (valid_transitions s). t \<in> set terminal_states \<or> t = NEEDS_CLARIFICATION"
    by (cases s) (auto simp: terminal_states_def)
  show "t \<in> set (valid_transitions s) \<Longrightarrow> s \<noteq> NEEDS_CLARIFICATION \<Longrightarrow> status_rank t < status_rank s"
    by (cases s) auto
  show "status_rank s \<le> 11" by (cases s) simp_all
qed

lemma status_value_inject: "status_value s = status_value t \<longleftrightarrow> s = t"
  by (cases s; cases t) simp_all

text \<open>C25: a sequence of status changes that \<open>validate_transition\<close> admits is bounded: at most 11 changes
  from RECEIVED, and at most 12 more for every time the job waits for a clarification. A final status
  is the last one.\<close>

theorem analysis_status_changes_bounded:
  assumes "\<forall>i < length ts. validate_transition ((s # ts) ! i) (ts ! i) = Inr ()"
  shows "length ts \<le> status_rank s + 12 * length (filter (\<lambda>t. t = NEEDS_CLARIFICATION) (s # ts)) \<and>
    (\<forall>i < length ts. ts ! i \<in> set terminal_states \<longrightarrow> i = length ts - 1)"
proof -
  from assms have p: "status_path valid_transitions s ts" by (simp add: status_path_nth)
  have "i = length ts - 1" if "i < length ts" "ts ! i \<in> set terminal_states" for i
    using analysis_lifecycle.final_only_last [OF p id_take_nth_drop [OF that(1)] that(2)] that(1) by simp
  with analysis_lifecycle.path_bounded [OF p] show ?thesis by auto
qed

lemma analysis_status_changes_bounded_witness:
  "length [UNDERSTANDING_REQUEST, NEEDS_CLARIFICATION, CANCELLED] \<le> status_rank RECEIVED + 12"
  using analysis_status_changes_bounded [of "[UNDERSTANDING_REQUEST, NEEDS_CLARIFICATION, CANCELLED]" RECEIVED]
  by (simp add: less_Suc_eq_0_disj)

end
