(* ===== verification/AnalysisStore.thy ===== *)
theory AnalysisStore
  imports Tables AnalysisStateMachine
begin

text \<open>
  The rows of the analysis plane (\<open>models/orchestration.py\<close>), a session over them, and
  \<open>orchestration/event_engine.py\<close>. A session holds the committed tables and its own working copy; a
  rollback drops the working copy and a commit publishes it. What other sessions commit in between is
  the parameter \<open>env\<close> of the handlers that span several transactions. Times are natural numbers
  (microseconds), passed by the caller. The contract of the event log is the locale
  \<open>sequenced_log\<close>; the engine's log is an interpretation of it.
\<close>

section \<open>Rows\<close>

record analysis_job =
  aj_id :: uuid
  aj_org :: uuid
  aj_user :: uuid
  aj_status :: job_status
  aj_prompt :: string
  aj_normalized :: json
  aj_locked_by :: "string option"
  aj_lease :: "nat option"
  aj_idempotency_key :: "string option"
  aj_token :: "uuid option"
  aj_recovery_count :: nat
  aj_created :: nat

record analysis_attempt =
  aa_id :: uuid
  aa_job :: uuid
  aa_org :: uuid
  aa_number :: nat
  aa_status :: string

record analysis_plan =
  ap_job :: uuid
  ap_org :: uuid
  ap_version :: string
  ap_json :: json

record policy_decision_record =
  pd_job :: uuid
  pd_org :: uuid
  pd_decision :: string
  pd_classification :: string

record tool_invocation =
  ti_job :: uuid
  ti_org :: uuid
  ti_tool :: string
  ti_arguments :: json
  ti_result :: json

record gate_result =
  qg_job :: uuid
  qg_org :: uuid
  qg_code :: string
  qg_status :: string
  qg_reason :: string

record result_snapshot =
  rs_id :: uuid
  rs_job :: uuid
  rs_org :: uuid
  rs_json :: json

record clarification =
  ac_id :: uuid
  ac_job :: uuid
  ac_org :: uuid
  ac_code :: string
  ac_status :: string
  ac_expires :: "nat option"
  ac_answered :: "nat option"
  ac_cancelled :: "nat option"
  ac_response :: "json option"
  ac_fingerprint :: "string option"
  ac_attempt :: nat

record analysis_event =
  ev_org :: uuid
  ev_job :: uuid
  ev_attempt :: "uuid option"
  ev_sequence :: nat
  ev_type :: string
  ev_payload :: json

record analysis_db =
  d_jobs :: "analysis_job list"
  d_attempts :: "analysis_attempt list"
  d_plans :: "analysis_plan list"
  d_policies :: "policy_decision_record list"
  d_tools :: "tool_invocation list"
  d_gates :: "gate_result list"
  d_snapshots :: "result_snapshot list"
  d_clarifications :: "clarification list"
  d_events :: "analysis_event list"
  d_audit :: "audit_event list"
  d_institutions :: "(uuid \<times> uuid) list"
  d_periods :: "(uuid \<times> uuid) list"
  d_documents :: "(uuid \<times> uuid \<times> string) list"

text \<open>Institutions and periods are kept as id and organization, documents also with their status.\<close>

section \<open>Sessions\<close>

record analysis_session =
  an_committed :: analysis_db
  an_work :: analysis_db

type_synonym 'a handler = "(analysis_session, 'a) proc"

definition an_write :: "(analysis_db \<Rightarrow> analysis_db) \<Rightarrow> unit handler" where
  "an_write f = modifyP (\<lambda>s. s\<lparr>an_work := f (an_work s)\<rparr>)"

definition an_read :: "(analysis_db \<Rightarrow> py_exc + 'a) \<Rightarrow> 'a handler" where
  "an_read f = queryP (\<lambda>s. f (an_work s))"

definition an_commit :: "unit handler" where
  "an_commit = modifyP (\<lambda>s. s\<lparr>an_committed := an_work s\<rparr>)"

definition an_rollback :: "unit handler" where
  "an_rollback = modifyP (\<lambda>s. s\<lparr>an_work := an_committed s\<rparr>)"

text \<open>Between two transactions of a session the others commit; the next one starts from that.\<close>

definition an_others :: "(analysis_db \<Rightarrow> analysis_db) \<Rightarrow> unit handler" where
  "an_others f = modifyP (\<lambda>s. s\<lparr>an_committed := f (an_committed s), an_work := f (an_committed s)\<rparr>)"

lemmas an_simps = an_write_def an_read_def an_commit_def an_rollback_def an_others_def

definition put_job :: "(analysis_job \<Rightarrow> analysis_job) \<Rightarrow> uuid \<Rightarrow> analysis_db \<Rightarrow> analysis_db" where
  "put_job f i d = d\<lparr>d_jobs := map (\<lambda>j. if aj_id j = i then f j else j) (d_jobs d)\<rparr>"

definition put_clarification :: "(clarification \<Rightarrow> clarification) \<Rightarrow> uuid \<Rightarrow> analysis_db \<Rightarrow> analysis_db" where
  "put_clarification f i d = d\<lparr>d_clarifications := map (\<lambda>c. if ac_id c = i then f c else c) (d_clarifications d)\<rparr>"

definition put_attempt :: "(analysis_attempt \<Rightarrow> analysis_attempt) \<Rightarrow> uuid \<Rightarrow> analysis_db \<Rightarrow> analysis_db" where
  "put_attempt f i d = d\<lparr>d_attempts := map (\<lambda>c. if aa_id c = i then f c else c) (d_attempts d)\<rparr>"

definition find_job :: "analysis_db \<Rightarrow> uuid \<Rightarrow> py_exc + analysis_job option" where
  "find_job d i = scalar_one_or_none (filter (\<lambda>j. aj_id j = i) (d_jobs d))"

section \<open>The event engine\<close>

definition max_payload_bytes :: nat where
  "max_payload_bytes = 32768"

definition job_events :: "analysis_db \<Rightarrow> uuid \<Rightarrow> uuid \<Rightarrow> analysis_event list" where
  "job_events d org job = filter (\<lambda>e. ev_org e = org \<and> ev_job e = job) (d_events d)"

text \<open>\<open>order_by(sequence.desc()).limit(1)\<close>, 0 when there is none.\<close>

definition last_sequence :: "analysis_db \<Rightarrow> uuid \<Rightarrow> uuid \<Rightarrow> nat" where
  "last_sequence d org job = foldr (\<lambda>e n. max (ev_sequence e) n) (job_events d org job) 0"

definition emit_row ::
  "uuid \<Rightarrow> uuid \<Rightarrow> string \<Rightarrow> json \<Rightarrow> uuid option \<Rightarrow> analysis_db \<Rightarrow> py_exc + analysis_db" where
  "emit_row org job event_type payload attempt d =
     (if max_payload_bytes < length (jprint payload) then Inl (AppError ''EventPayloadTooLargeException'' [])
      else Inr (d\<lparr>d_events := d_events d @ [\<lparr>ev_org = org, ev_job = job, ev_attempt = attempt,
        ev_sequence = last_sequence d org job + 1, ev_type = event_type, ev_payload = payload\<rparr>]\<rparr>))"

definition emit_event :: "uuid \<Rightarrow> uuid \<Rightarrow> string \<Rightarrow> json \<Rightarrow> uuid option \<Rightarrow> unit handler" where
  "emit_event org job event_type payload attempt =
     bindP (an_read (emit_row org job event_type payload attempt)) (\<lambda>d. an_write (\<lambda>_. d))"

definition replay_events :: "uuid \<Rightarrow> uuid \<Rightarrow> nat \<Rightarrow> analysis_db \<Rightarrow> analysis_event list" where
  "replay_events org job after d =
     sort_key ev_sequence (filter (\<lambda>e. ev_org e = org \<and> ev_job e = job \<and> after < ev_sequence e) (d_events d))"

definition an_audit ::
  "(string \<Rightarrow> string) \<Rightarrow> uuid \<Rightarrow> string \<Rightarrow> uuid \<Rightarrow> uuid \<Rightarrow> (string \<times> json) list \<Rightarrow> unit handler" where
  "an_audit sha org event_type target actor payload =
     an_write (\<lambda>d. d\<lparr>d_audit := d_audit d @
       [audit_record sha org event_type ''ANALYSIS_JOB'' target (Some actor) payload]\<rparr>)"

section \<open>The contract of an event log\<close>

fun emit_all :: "('k \<Rightarrow> 'e \<Rightarrow> 's \<Rightarrow> 'x + 's) \<Rightarrow> ('k \<times> 'e) list \<Rightarrow> 's \<Rightarrow> 'x + 's" where
  "emit_all emit [] s = Inr s"
| "emit_all emit ((k, e) # es) s = bindE (emit k e s) (emit_all emit es)"

locale sequenced_log =
  fixes wf :: "'s \<Rightarrow> bool"
    and emit :: "'k \<Rightarrow> 'e \<Rightarrow> 's \<Rightarrow> 'x + 's"
    and replay :: "'k \<Rightarrow> nat \<Rightarrow> 's \<Rightarrow> (nat \<times> 'e) list"
  assumes emit_wf: "wf s \<Longrightarrow> emit k e s = Inr s' \<Longrightarrow> wf s'"
    and emit_last: "wf s \<Longrightarrow> emit k e s = Inr s' \<Longrightarrow> replay k 0 s' = replay k 0 s @ [(length (replay k 0 s) + 1, e)]"
    and emit_other: "wf s \<Longrightarrow> emit k e s = Inr s' \<Longrightarrow> k' \<noteq> k \<Longrightarrow> replay k' 0 s' = replay k' 0 s"
    and numbered: "wf s \<Longrightarrow> map fst (replay k 0 s) = [1..<length (replay k 0 s) + 1]"
    and replay_drop: "wf s \<Longrightarrow> replay k n s = drop n (replay k 0 s)"
begin

lemma emit_all_log:
  "wf s \<Longrightarrow> emit_all emit es s = Inr s' \<Longrightarrow> wf s' \<and>
    (\<exists>new. replay k 0 s' = replay k 0 s @ new \<and> map snd new = map snd (filter (\<lambda>(k', e). k' = k) es))"
proof (induction es arbitrary: s)
  case Nil
  then show ?case by simp
next
  case (Cons ke es)
  obtain k0 e where ke: "ke = (k0, e)" by fastforce
  from Cons.prems obtain t where t: "emit k0 e s = Inr t" "emit_all emit es t = Inr s'"
    by (auto simp: ke exc_simps)
  have "wf t" using emit_wf Cons.prems(1) t(1) by blast
  with Cons.IH t(2) obtain new where IH: "wf s'" "replay k 0 s' = replay k 0 t @ new"
      "map snd new = map snd (filter (\<lambda>(k', e). k' = k) es)" by blast
  show ?case
  proof (cases "k0 = k")
    case True
    with IH emit_last [OF Cons.prems(1) t(1)] show ?thesis by (auto simp: ke)
  next
    case False
    with IH emit_other [OF Cons.prems(1) t(1)] show ?thesis by (auto simp: ke)
  qed
qed

text \<open>A reader that comes back with the number of the last event it has seen misses nothing and
  reads nothing twice.\<close>

lemma resume:
  assumes "wf s" "emit_all emit es s = Inr s'"
  shows "replay k 0 s' = replay k 0 s @ replay k (length (replay k 0 s)) s' \<and>
    map snd (replay k (length (replay k 0 s)) s') = map snd (filter (\<lambda>(k', e). k' = k) es)"
proof -
  note log = emit_all_log [OF assms, of k]
  have drop: "replay k (length (replay k 0 s)) s' = drop (length (replay k 0 s)) (replay k 0 s')"
    using log by (intro replay_drop) (rule conjunct1)
  from conjunct2 [OF log] obtain new where n: "replay k 0 s' = replay k 0 s @ new \<and>
    map snd new = map snd (filter (\<lambda>(k', e). k' = k) es)" ..
  show ?thesis using n drop by (metis append_eq_conv_conj)
qed

end

section \<open>The engine's log\<close>

text \<open>The events of every job are numbered from 1 without gaps, in the order they were emitted.\<close>

definition events_numbered :: "analysis_db \<Rightarrow> bool" where
  "events_numbered d \<longleftrightarrow>
     (\<forall>org job. map ev_sequence (job_events d org job) = [1..<length (job_events d org job) + 1])"

definition event_content :: "analysis_event \<Rightarrow> string \<times> json \<times> uuid option" where
  "event_content e = (ev_type e, ev_payload e, ev_attempt e)"

lemma last_sequence_numbered:
  "events_numbered d \<Longrightarrow> last_sequence d org job = length (job_events d org job)"
proof -
  assume "events_numbered d"
  then have m: "map ev_sequence (job_events d org job) = [1..<length (job_events d org job) + 1]"
    unfolding events_numbered_def by blast
  have "foldr max [1..<n + 1] 0 = n" for n :: nat
  proof -
    have "foldr max [1..<n + 1] k = max n k" for k
      by (induction n arbitrary: k) auto
    then show ?thesis by simp
  qed
  moreover have "last_sequence d org job = foldr max (map ev_sequence (job_events d org job)) 0"
    by (simp add: last_sequence_def foldr_map comp_def)
  ultimately show ?thesis by (simp only: m)
qed

lemma emit_row_events:
  assumes "emit_row org job t p a d = Inr d'"
  shows "job_events d' org' job' = job_events d org' job' @
    (if org' = org \<and> job' = job then [\<lparr>ev_org = org, ev_job = job, ev_attempt = a,
        ev_sequence = last_sequence d org job + 1, ev_type = t, ev_payload = p\<rparr>] else [])"
  using assms by (auto simp: emit_row_def job_events_def split: if_splits)

lemma emit_row_numbered: "events_numbered d \<Longrightarrow> emit_row org job t p a d = Inr d' \<Longrightarrow> events_numbered d'"
  unfolding events_numbered_def
  using last_sequence_numbered [of d org job]
  by (auto simp: emit_row_events events_numbered_def)

lemma replay_job_events:
  "replay_events org job n d = sort_key ev_sequence (filter (\<lambda>e. n < ev_sequence e) (job_events d org job))"
  by (simp add: replay_events_def job_events_def conj_ac)

lemma replay_numbered:
  assumes "events_numbered d"
  shows "replay_events org job n d = drop n (job_events d org job)"
proof -
  let ?es = "job_events d org job"
  have m: "map ev_sequence ?es = [1..<length ?es + 1]" using assms unfolding events_numbered_def by blast
  have s: "sorted (map ev_sequence ?es)" by (simp only: m sorted_upt)
  have nth: "ev_sequence (?es ! i) = i + 1" if "i < length ?es" for i
    using that arg_cong [OF m, of "\<lambda>xs. xs ! i"] by (simp del: upt_Suc)
  have "filter (\<lambda>e. n < ev_sequence e) ?es = drop n ?es"
  proof -
    have "filter (\<lambda>e. n < ev_sequence e) (take n ?es) = []"
      using nth by (auto simp: filter_empty_conv in_set_conv_nth)
    moreover have "filter (\<lambda>e. n < ev_sequence e) (drop n ?es) = drop n ?es"
      using nth by (intro filter_True) (auto simp: in_set_conv_nth)
    ultimately show ?thesis using filter_append [of "\<lambda>e. n < ev_sequence e" "take n ?es" "drop n ?es"] by simp
  qed
  moreover have "sorted (map ev_sequence (drop n ?es))" using s by (metis drop_map sorted_wrt_drop)
  ultimately show ?thesis by (simp add: replay_job_events sort_key_id_if_sorted)
qed

interpretation job_log: sequenced_log events_numbered
  "\<lambda>(org, job) (t, p, a). emit_row org job t p a"
  "\<lambda>(org, job) n d. map (\<lambda>e. (ev_sequence e, event_content e)) (replay_events org job n d)"
proof
  fix d d' :: analysis_db and k k' :: "uuid \<times> uuid" and e :: "string \<times> json \<times> uuid option" and n :: nat
  obtain org job where k: "k = (org, job)" by fastforce
  obtain org' job' where k': "k' = (org', job')" by fastforce
  obtain t p a where e: "e = (t, p, a)" by (cases e) auto
  assume wf: "events_numbered d"
  show "map fst ((\<lambda>(org, job) n d. map (\<lambda>e. (ev_sequence e, event_content e)) (replay_events org job n d)) k 0 d) =
      [1..<length ((\<lambda>(org, job) n d. map (\<lambda>e. (ev_sequence e, event_content e)) (replay_events org job n d)) k 0 d) + 1]"
    using wf unfolding events_numbered_def k by (simp add: replay_numbered [OF wf] comp_def)
  show "(\<lambda>(org, job) n d. map (\<lambda>e. (ev_sequence e, event_content e)) (replay_events org job n d)) k n d =
      drop n ((\<lambda>(org, job) n d. map (\<lambda>e. (ev_sequence e, event_content e)) (replay_events org job n d)) k 0 d)"
    by (simp add: k replay_numbered [OF wf] drop_map)
  assume "(\<lambda>(org, job) (t, p, a). emit_row org job t p a) k e d = Inr d'"
  then have em: "emit_row org job t p a d = Inr d'" by (simp add: k e)
  note wf' = emit_row_numbered [OF wf em]
  show "events_numbered d'" by (fact wf')
  show "(\<lambda>(org, job) n d. map (\<lambda>e. (ev_sequence e, event_content e)) (replay_events org job n d)) k 0 d' =
      (\<lambda>(org, job) n d. map (\<lambda>e. (ev_sequence e, event_content e)) (replay_events org job n d)) k 0 d @
      [(length ((\<lambda>(org, job) n d. map (\<lambda>e. (ev_sequence e, event_content e)) (replay_events org job n d)) k 0 d) + 1, e)]"
    by (simp add: k e replay_numbered [OF wf] replay_numbered [OF wf'] emit_row_events [OF em]
        last_sequence_numbered [OF wf] event_content_def)
  assume "k' \<noteq> k"
  then show "(\<lambda>(org, job) n d. map (\<lambda>e. (ev_sequence e, event_content e)) (replay_events org job n d)) k' 0 d' =
      (\<lambda>(org, job) n d. map (\<lambda>e. (ev_sequence e, event_content e)) (replay_events org job n d)) k' 0 d"
    by (auto simp: k k' replay_numbered [OF wf] replay_numbered [OF wf'] emit_row_events [OF em])
qed

section \<open>Reading the log\<close>

text \<open>C27: the log of every job survives any sequence of emitted events: a reader that has read a
  job's events and later asks for those after the last one it saw gets exactly the events emitted for
  that job in between, in order, each once, whatever was emitted for other jobs and tenants.\<close>

theorem replay_resumes_exactly:
  assumes "events_numbered d"
    and "emit_all (\<lambda>(org, job) (t, p, a). emit_row org job t p a) es d = Inr d'"
  shows "replay_events org job 0 d' = replay_events org job 0 d @ replay_events org job (last_sequence d org job) d' \<and>
    map event_content (replay_events org job (last_sequence d org job) d') = map snd (filter (\<lambda>(k, e). k = (org, job)) es) \<and>
    events_numbered d'"
proof -
  have wf': "events_numbered d'" using job_log.emit_all_log [OF assms] by blast
  have l: "length (replay_events org job 0 d) = last_sequence d org job"
    by (simp add: replay_numbered [OF assms(1)] last_sequence_numbered [OF assms(1)])
  have c: "map event_content (replay_events org job (last_sequence d org job) d') = map snd (filter (\<lambda>(k, e). k = (org, job)) es)"
    using job_log.resume [OF assms, of "(org, job)"] by (simp add: l comp_def case_prod_beta)
  have "job_events d' org job = job_events d org job @ drop (length (job_events d org job)) (job_events d' org job)"
  proof -
    have "take (length (job_events d org job)) (job_events d' org job) = job_events d org job"
      using assms
    proof (induction es arbitrary: d)
      case (Cons ke es)
      obtain o' j' t p a where ke: "ke = ((o', j'), (t, p, a))" by (cases ke) auto
      with Cons.prems obtain d2 where d2: "emit_row o' j' t p a d = Inr d2"
        "emit_all (\<lambda>(org, job) (t, p, a). emit_row org job t p a) es d2 = Inr d'" by (auto simp: exc_simps)
      from Cons.IH [OF emit_row_numbered [OF Cons.prems(1) d2(1)] d2(2)]
      have "take (length (job_events d2 org job)) (job_events d' org job) = job_events d2 org job" .
      then have "take (length (job_events d org job)) (take (length (job_events d2 org job)) (job_events d' org job)) =
          job_events d org job"
        by (simp add: emit_row_events [OF d2(1)])
      then show ?case by (simp add: emit_row_events [OF d2(1)] min_def split: if_splits)
    qed simp
    then show ?thesis by (metis append_take_drop_id)
  qed
  with c wf' show ?thesis
    by (simp add: replay_numbered [OF assms(1)] replay_numbered [OF wf'] last_sequence_numbered [OF assms(1)])
qed

definition no_analysis_rows :: analysis_db where
  "no_analysis_rows = \<lparr>d_jobs = [], d_attempts = [], d_plans = [], d_policies = [], d_tools = [], d_gates = [],
     d_snapshots = [], d_clarifications = [], d_events = [], d_audit = [], d_institutions = [], d_periods = [],
     d_documents = []\<rparr>"

lemma replay_resumes_exactly_witness:
  "\<exists>d'. emit_all (\<lambda>(org, job) (t, p, a). emit_row org job t p a)
      [((5, 2), ''analysis.accepted'', JObj [], None), ((5, 3), ''analysis.accepted'', JObj [], None)] no_analysis_rows = Inr d' \<and>
    map event_content (replay_events 5 2 0 d') = [(''analysis.accepted'', JObj [], None)]"
proof -
  define es :: "((uuid \<times> uuid) \<times> string \<times> json \<times> uuid option) list"
    where "es = [((5, 2), ''analysis.accepted'', JObj [], None), ((5, 3), ''analysis.accepted'', JObj [], None)]"
  have n: "events_numbered no_analysis_rows" by (simp add: events_numbered_def job_events_def no_analysis_rows_def)
  have z: "last_sequence no_analysis_rows 5 2 = 0" by (simp add: last_sequence_def job_events_def no_analysis_rows_def)
  have "\<exists>d'. emit_all (\<lambda>(org, job) (t, p, a). emit_row org job t p a) es no_analysis_rows = Inr d'"
    by (simp add: es_def emit_row_def max_payload_bytes_def)
  then obtain d' where d': "emit_all (\<lambda>(org, job) (t, p, a). emit_row org job t p a) es no_analysis_rows = Inr d'" ..
  have "map event_content (replay_events 5 2 (last_sequence no_analysis_rows 5 2) d') = map snd (filter (\<lambda>(k, e). k = (5, 2)) es)"
    using replay_resumes_exactly [OF n d', of 5 2] by blast
  with d' show ?thesis by (simp add: z) (simp add: es_def)
qed

end
