(* ===== verification/Clarification.thy ===== *)
theory Clarification
  imports AnalysisStore
begin

text \<open>
  \<open>schemas/clarification.py\<close> and \<open>services/clarification_service.py\<close>: the questions an analysis asks
  its user, their answers, cancellation and expiry. The payload models are pydantic models that
  forbid extra fields; how pydantic reads a UUID and a bool from JSON is the parameter \<open>parsers\<close>.
  Row-level security shows a session the rows of its own tenant, so every query filters by it. The
  columns \<open>question\<close> and \<open>allowed_response_schema\<close> are left out.
\<close>

section \<open>Responses\<close>

record parsers =
  parse_uuid :: "json \<Rightarrow> uuid option"
  parse_bool :: "json \<Rightarrow> bool option"

definition forbidden_payload_keys :: "string list" where
  "forbidden_payload_keys = [''organization_id'', ''tenant_id'', ''user_id'', ''role'', ''permission'',
     ''provider'', ''model_id'', ''api_key'', ''prompt_template'', ''tool'', ''tool_plan'', ''sql'', ''shell'',
     ''python'', ''system_prompt'']"

definition sanitize_and_check_keys :: "json \<Rightarrow> py_exc + (string \<times> json) list" where
  "sanitize_and_check_keys payload = (case payload of
     JObj kvs \<Rightarrow>
       bindE (for_each (\<lambda>(k, v). raise_val (str_lower k \<in> set forbidden_payload_keys)
         (''Forbidden security parameter in clarification response: '' @ k)) kvs) (\<lambda>_. Inr kvs)
   | _ \<Rightarrow> Inl (AppError ''TypeError'' ''Response payload must be a JSON object.''))"

datatype payload_model =
    InstitutionSelectionPayload
  | PeriodSelectionPayload
  | BasisSelectionPayload
  | MeasureSelectionPayload
  | DocumentScopeSelectionPayload
  | ComparisonScopeSelectionPayload
  | AcknowledgeScopePayload

definition clarification_schemas :: "(string \<times> payload_model) list" where
  "clarification_schemas =
     [(''INSTITUTION_REQUIRED'', InstitutionSelectionPayload),
      (''REPORTING_PERIOD_REQUIRED'', PeriodSelectionPayload),
      (''REPORTING_BASIS_REQUIRED'', BasisSelectionPayload),
      (''MEASURE_REQUIRED'', MeasureSelectionPayload),
      (''DOCUMENT_SCOPE_REQUIRED'', DocumentScopeSelectionPayload),
      (''COMPARISON_SCOPE_AMBIGUOUS'', ComparisonScopeSelectionPayload),
      (''UNSUPPORTED_REQUEST_SCOPE'', AcknowledgeScopePayload)]"

fun payload_field :: "payload_model \<Rightarrow> string" where
  "payload_field InstitutionSelectionPayload = ''institution_id''"
| "payload_field PeriodSelectionPayload = ''period_id''"
| "payload_field BasisSelectionPayload = ''reporting_basis''"
| "payload_field MeasureSelectionPayload = ''metric_code''"
| "payload_field DocumentScopeSelectionPayload = ''document_id''"
| "payload_field ComparisonScopeSelectionPayload = ''institution_ids''"
| "payload_field AcknowledgeScopePayload = ''acknowledged''"

definition invalid_payload :: "string \<Rightarrow> py_exc" where
  "invalid_payload field = ValueError (''validation error: '' @ field)"

definition read_uuid :: "parsers \<Rightarrow> string \<Rightarrow> json \<Rightarrow> py_exc + json" where
  "read_uuid px field v = (case parse_uuid px v of None \<Rightarrow> Inl (invalid_payload field) | Some u \<Rightarrow> Inr (JStr (uuid_str u)))"

text \<open>The value of the one field, as \<open>model_dump(mode="json")\<close> gives it back.\<close>

fun read_field :: "parsers \<Rightarrow> payload_model \<Rightarrow> json \<Rightarrow> py_exc + json" where
  "read_field px BasisSelectionPayload v = (case v of
     JStr s \<Rightarrow> if s = ''SOLO'' \<or> s = ''CONSOLIDATED'' then Inr v else Inl (invalid_payload ''reporting_basis'')
   | _ \<Rightarrow> Inl (invalid_payload ''reporting_basis''))"
| "read_field px MeasureSelectionPayload v = (case v of
     JStr s \<Rightarrow> if 2 \<le> length s \<and> length s \<le> 100 then Inr v else Inl (invalid_payload ''metric_code'')
   | _ \<Rightarrow> Inl (invalid_payload ''metric_code''))"
| "read_field px ComparisonScopeSelectionPayload v = (case v of
     JList vs \<Rightarrow>
       if 2 \<le> length vs \<and> length vs \<le> 5
       then bindE (mapE (read_uuid px ''institution_ids'') vs) (\<lambda>us. Inr (JList us))
       else Inl (invalid_payload ''institution_ids'')
   | _ \<Rightarrow> Inl (invalid_payload ''institution_ids''))"
| "read_field px AcknowledgeScopePayload v =
     (case parse_bool px v of None \<Rightarrow> Inl (invalid_payload ''acknowledged'') | Some b \<Rightarrow> Inr (JBool b))"
| "read_field px m v = read_uuid px (payload_field m) v"

definition model_validate :: "parsers \<Rightarrow> payload_model \<Rightarrow> (string \<times> json) list \<Rightarrow> py_exc + (string \<times> json) list" where
  "model_validate px m kvs =
     (let f = payload_field m in
      bindE (raise_val (\<exists>k \<in> set (map fst kvs). k \<noteq> f) ''validation error: extra fields'') (\<lambda>_.
      case map_of kvs f of
        None \<Rightarrow> if m = AcknowledgeScopePayload then Inr [(f, JBool True)] else Inl (invalid_payload f)
      | Some v \<Rightarrow> bindE (read_field px m v) (\<lambda>w. Inr [(f, w)])))"

definition validate_clarification_response :: "parsers \<Rightarrow> string \<Rightarrow> json \<Rightarrow> py_exc + (string \<times> json) list" where
  "validate_clarification_response px code payload =
     bindE (sanitize_and_check_keys payload) (\<lambda>kvs.
     bindE (require_some (ValueError (''Invalid clarification code: '' @ code)) (map_of clarification_schemas code)) (\<lambda>m.
       model_validate px m kvs))"

section \<open>The service\<close>

definition find_own_job :: "uuid \<Rightarrow> uuid \<Rightarrow> analysis_db \<Rightarrow> py_exc + analysis_job option" where
  "find_own_job org i d = scalar_one_or_none (filter (\<lambda>j. aj_id j = i \<and> aj_org j = org) (d_jobs d))"

definition find_clarification :: "uuid \<Rightarrow> uuid \<Rightarrow> uuid \<Rightarrow> analysis_db \<Rightarrow> py_exc + clarification option" where
  "find_clarification org job i d =
     scalar_one_or_none (filter (\<lambda>c. ac_id c = i \<and> ac_job c = job \<and> ac_org c = org) (d_clarifications d))"

definition the_job :: "uuid \<Rightarrow> uuid \<Rightarrow> analysis_job handler" where
  "the_job org i = bindP (an_read (find_own_job org i)) (\<lambda>r. liftP (require_some (HTTPError 404 ''ANALYSIS_NOT_FOUND'') r))"

definition the_clarification :: "uuid \<Rightarrow> uuid \<Rightarrow> uuid \<Rightarrow> clarification handler" where
  "the_clarification org job i =
     bindP (an_read (find_clarification org job i)) (\<lambda>r. liftP (require_some (HTTPError 404 ''CLARIFICATION_NOT_FOUND'') r))"

definition write_status :: "uuid \<Rightarrow> job_status \<Rightarrow> unit handler" where
  "write_status i new = an_write (put_job (\<lambda>j. j\<lparr>aj_status := new\<rparr>) i)"

definition microseconds_per_minute :: nat where
  "microseconds_per_minute = 60000000"

definition require_clarification ::
  "(string \<Rightarrow> string) \<Rightarrow> uuid \<Rightarrow> uuid \<Rightarrow> uuid \<Rightarrow> nat \<Rightarrow> uuid \<Rightarrow> string \<Rightarrow> string \<Rightarrow> nat \<Rightarrow> nat \<Rightarrow> clarification handler" where
  "require_clarification sha org user new_id now job_id code prompt_key attempt_number ttl_minutes =
     bindP (the_job org job_id) (\<lambda>job.
     bindP (liftP (validate_transition (aj_status job) NEEDS_CLARIFICATION)) (\<lambda>_.
     bindP (write_status job_id NEEDS_CLARIFICATION) (\<lambda>_.
     let c = \<lparr>ac_id = new_id, ac_job = job_id, ac_org = org, ac_code = code, ac_status = ''AWAITING_CLARIFICATION'',
        ac_expires = Some (now + ttl_minutes * microseconds_per_minute), ac_answered = None, ac_cancelled = None,
        ac_response = None, ac_fingerprint = None, ac_attempt = attempt_number\<rparr> in
     bindP (an_write (\<lambda>d. d\<lparr>d_clarifications := d_clarifications d @ [c]\<rparr>)) (\<lambda>_.
     bindP (emit_event org job_id ''analysis.clarification_required'' (JObj
        [(''analysisId'', JStr (uuid_str job_id)), (''clarificationId'', JStr (uuid_str new_id)),
         (''clarificationCode'', JStr code), (''promptKey'', JStr prompt_key), (''contractVersion'', JStr ''3.0.0'')]) None) (\<lambda>_.
     bindP (an_audit sha org ''CLARIFICATION_REQUIRED'' job_id user [(''clarification_code'', JStr code)]) (\<lambda>_.
     bindP an_commit (\<lambda>_. retP c)))))))"

definition get_open_clarification :: "uuid \<Rightarrow> uuid \<Rightarrow> clarification option handler" where
  "get_open_clarification org job = an_read (\<lambda>d. scalar_one_or_none
     (filter (\<lambda>c. ac_job c = job \<and> ac_org c = org \<and> ac_status c = ''AWAITING_CLARIFICATION'') (d_clarifications d)))"

text \<open>The ids in a validated payload are canonical UUID texts, so \<open>UUID(str(x)) = i\<close> is equality of texts.\<close>

definition names_entity :: "(string \<times> json) list \<Rightarrow> string \<Rightarrow> uuid \<Rightarrow> bool" where
  "names_entity payload field i \<longleftrightarrow> map_of payload field = Some (JStr (uuid_str i))"

definition verify_referenced_entities :: "uuid \<Rightarrow> (string \<times> json) list \<Rightarrow> analysis_db \<Rightarrow> py_exc + unit" where
  "verify_referenced_entities org payload d =
     bindE (raise_val (map_of payload ''institution_id'' \<noteq> None \<and>
       (\<forall>(i, o') \<in> set (d_institutions d). \<not> (names_entity payload ''institution_id'' i \<and> o' = org)))
       ''Referenced institution not found in tenant context.'') (\<lambda>_.
     bindE (raise_val (map_of payload ''period_id'' \<noteq> None \<and>
       (\<forall>(i, o') \<in> set (d_periods d). \<not> (names_entity payload ''period_id'' i \<and> o' = org)))
       ''Referenced reporting period not found in tenant context.'') (\<lambda>_.
     raise_val (map_of payload ''document_id'' \<noteq> None \<and>
       (\<forall>(i, o', st) \<in> set (d_documents d). \<not> (names_entity payload ''document_id'' i \<and> o' = org)))
       ''Referenced document not found in tenant context.''))"

text \<open>The \<open>except (ValueError, TypeError)\<close> around the validation.\<close>

definition as_invalid_response :: "py_exc + 'a \<Rightarrow> py_exc + 'a" where
  "as_invalid_response r = (case r of
     Inl (ValueError _) \<Rightarrow> Inl (HTTPError 400 ''CLARIFICATION_RESPONSE_INVALID'')
   | Inl (AppError c _) \<Rightarrow> if c = ''TypeError'' then Inl (HTTPError 400 ''CLARIFICATION_RESPONSE_INVALID'') else r
   | _ \<Rightarrow> r)"

definition check_open :: "clarification \<Rightarrow> unit handler" where
  "check_open c =
     bindP (assertP (ac_status c \<noteq> ''CLARIFICATION_RECEIVED'') (HTTPError 409 ''CLARIFICATION_ALREADY_ANSWERED'')) (\<lambda>_.
       assertP (ac_status c = ''AWAITING_CLARIFICATION'') (HTTPError 409 ''CLARIFICATION_EXPIRED''))"

definition expired_at :: "clarification \<Rightarrow> nat \<Rightarrow> bool" where
  "expired_at c now = (case ac_expires c of None \<Rightarrow> False | Some t \<Rightarrow> t < now)"

definition close_expired :: "uuid \<Rightarrow> uuid \<Rightarrow> 'a handler" where
  "close_expired job_id clar_id =
     bindP (an_write (put_clarification (\<lambda>c. c\<lparr>ac_status := ''CLARIFICATION_EXPIRED''\<rparr>) clar_id)) (\<lambda>_.
     bindP (write_status job_id EXPIRED) (\<lambda>_.
     bindP an_commit (\<lambda>_. throwP (HTTPError 409 ''CLARIFICATION_EXPIRED''))))"

definition accept_response ::
  "(string \<Rightarrow> string) \<Rightarrow> uuid \<Rightarrow> uuid \<Rightarrow> uuid \<Rightarrow> nat \<Rightarrow> analysis_job \<Rightarrow> clarification \<Rightarrow> (string \<times> json) list \<Rightarrow> analysis_job handler" where
  "accept_response sha org user new_id now job c payload =
     (let n = ac_attempt c + 1;
          fp = sha (uuid_str (ac_id c) @ '':'' @ json_dumps (JObj payload)) in
     bindP (an_write (put_clarification (\<lambda>c. c\<lparr>ac_status := ''CLARIFICATION_RECEIVED'', ac_answered := Some now,
        ac_response := Some (JObj payload), ac_fingerprint := Some fp\<rparr>) (ac_id c))) (\<lambda>_.
     bindP (an_write (\<lambda>d. d\<lparr>d_attempts := d_attempts d @ [\<lparr>aa_id = new_id, aa_job = aj_id job, aa_org = org,
        aa_number = n, aa_status = ''IN_PROGRESS''\<rparr>]\<rparr>)) (\<lambda>_.
     bindP (an_write (\<lambda>d. d\<lparr>d_plans := d_plans d @ [\<lparr>ap_job = aj_id job, ap_org = org, ap_version = nat_str n @ ''.0.0'',
        ap_json = JObj [(''clarification_response'', JObj payload), (''code'', JStr (ac_code c))]\<rparr>]\<rparr>)) (\<lambda>_.
     bindP (liftP (validate_transition NEEDS_CLARIFICATION UNDERSTANDING_REQUEST)) (\<lambda>_.
     bindP (write_status (aj_id job) UNDERSTANDING_REQUEST) (\<lambda>_.
     bindP (emit_event org (aj_id job) ''analysis.clarification_received'' (JObj
        [(''analysisId'', JStr (uuid_str (aj_id job))), (''clarificationId'', JStr (uuid_str (ac_id c))),
         (''contractVersion'', JStr ''3.0.0'')]) None) (\<lambda>_.
     bindP (emit_event org (aj_id job) ''analysis.resumed'' (JObj
        [(''analysisId'', JStr (uuid_str (aj_id job))), (''attemptNumber'', JInt (int n)),
         (''contractVersion'', JStr ''3.0.0'')]) None) (\<lambda>_.
     bindP (an_audit sha org ''CLARIFICATION_RESPONDED'' (aj_id job) user [(''clarification_code'', JStr (ac_code c))]) (\<lambda>_.
     bindP (an_audit sha org ''ANALYSIS_RESUMED_AFTER_CLARIFICATION'' (aj_id job) user [(''attempt_number'', JInt (int n))]) (\<lambda>_.
     bindP an_commit (\<lambda>_. retP (job\<lparr>aj_status := UNDERSTANDING_REQUEST\<rparr>))))))))))))"

definition respond ::
  "parsers \<Rightarrow> (string \<Rightarrow> string) \<Rightarrow> uuid \<Rightarrow> uuid \<Rightarrow> uuid \<Rightarrow> nat \<Rightarrow> uuid \<Rightarrow> uuid \<Rightarrow> json \<Rightarrow> analysis_job handler" where
  "respond px sha org user new_id now job_id clar_id payload =
     bindP (the_job org job_id) (\<lambda>job.
     bindP (assertP (aj_user job = user) (HTTPError 403 ''FORBIDDEN_MUTATION'')) (\<lambda>_.
     bindP (assertP (aj_status job = NEEDS_CLARIFICATION) (HTTPError 400 ''CLARIFICATION_NOT_REQUIRED'')) (\<lambda>_.
     bindP (the_clarification org job_id clar_id) (\<lambda>c.
     bindP (check_open c) (\<lambda>_.
     if expired_at c now then close_expired job_id clar_id
     else
       bindP (liftP (as_invalid_response (validate_clarification_response px (ac_code c) payload))) (\<lambda>kvs.
       bindP (an_read (\<lambda>d. as_invalid_response (verify_referenced_entities org kvs d))) (\<lambda>_.
         accept_response sha org user new_id now job c kvs)))))))"

definition cancel_clarification ::
  "(string \<Rightarrow> string) \<Rightarrow> uuid \<Rightarrow> uuid \<Rightarrow> nat \<Rightarrow> uuid \<Rightarrow> uuid \<Rightarrow> string \<Rightarrow> analysis_job handler" where
  "cancel_clarification sha org user now job_id clar_id reason =
     bindP (the_job org job_id) (\<lambda>job.
     bindP (assertP (aj_user job = user) (HTTPError 403 ''FORBIDDEN_MUTATION'')) (\<lambda>_.
     bindP (the_clarification org job_id clar_id) (\<lambda>c.
     bindP (an_write (put_clarification (\<lambda>c. c\<lparr>ac_status := ''CLARIFICATION_CANCELLED'', ac_cancelled := Some now\<rparr>) clar_id)) (\<lambda>_.
     bindP (liftP (validate_transition (aj_status job) CANCELLED)) (\<lambda>_.
     bindP (write_status job_id CANCELLED) (\<lambda>_.
     bindP (an_audit sha org ''CLARIFICATION_CANCELLED'' job_id user [(''reason_code'', JStr reason)]) (\<lambda>_.
     bindP an_commit (\<lambda>_. retP (job\<lparr>aj_status := CANCELLED\<rparr>)))))))))"

text \<open>The body of the expiry loop, and the loop over at most \<open>batch\<close> unlocked due clarifications.\<close>

definition expire_job :: "analysis_job option \<Rightarrow> unit handler" where
  "expire_job r = (case r of
     None \<Rightarrow> retP ()
   | Some job \<Rightarrow>
       if aj_status job \<in> set terminal_states then retP ()
       else bindP (liftP (validate_transition (aj_status job) EXPIRED)) (\<lambda>_. write_status (aj_id job) EXPIRED))"

definition expire_one :: "(string \<Rightarrow> string) \<Rightarrow> uuid \<Rightarrow> uuid \<Rightarrow> clarification \<Rightarrow> unit handler" where
  "expire_one sha org user c =
     bindP (an_write (put_clarification (\<lambda>c. c\<lparr>ac_status := ''CLARIFICATION_EXPIRED''\<rparr>) (ac_id c))) (\<lambda>_.
     bindP (an_read (find_own_job org (ac_job c))) (\<lambda>r.
     bindP (expire_job r) (\<lambda>_.
     bindP (emit_event (ac_org c) (ac_job c) ''analysis.clarification_expired'' (JObj
        [(''analysisId'', JStr (uuid_str (ac_job c))), (''clarificationId'', JStr (uuid_str (ac_id c))),
         (''contractVersion'', JStr ''3.0.0'')]) None) (\<lambda>_.
       an_audit sha (ac_org c) ''CLARIFICATION_EXPIRED'' (ac_job c) user [(''clarification_code'', JStr (ac_code c))]))))"

definition due_clarifications :: "(uuid \<Rightarrow> bool) \<Rightarrow> uuid \<Rightarrow> nat \<Rightarrow> nat \<Rightarrow> analysis_db \<Rightarrow> clarification list" where
  "due_clarifications locked org now batch d = take batch (filter (\<lambda>c. ac_org c = org \<and>
     ac_status c = ''AWAITING_CLARIFICATION'' \<and> (case ac_expires c of None \<Rightarrow> False | Some t \<Rightarrow> t \<le> now) \<and>
     \<not> locked (ac_id c)) (d_clarifications d))"

definition expire_due_clarifications ::
  "(string \<Rightarrow> string) \<Rightarrow> (uuid \<Rightarrow> bool) \<Rightarrow> uuid \<Rightarrow> uuid \<Rightarrow> nat \<Rightarrow> nat \<Rightarrow> nat handler" where
  "expire_due_clarifications sha locked org user now batch =
     bindP (an_read (\<lambda>d. Inr (due_clarifications locked org now batch d))) (\<lambda>cs.
     bindP (forP (expire_one sha org user) cs) (\<lambda>_.
     bindP (whenP (cs \<noteq> []) an_commit) (\<lambda>_. retP (length cs))))"

end
