(* ===== verification/Resilience.thy ===== *)
theory Resilience
  imports PyText
begin

text \<open>
  The guards around a model call: \<open>orchestration/circuit_breaker.py\<close> (the in-process breaker),
  \<open>transient_retry.py\<close>, \<open>budget.py\<close>, \<open>policy_engine.py\<close> and \<open>tool_dedup.py\<close>. Times are rationals
  (seconds) read from the caller's clock; the delays of the retry loop are powers of two times the base
  delay, which floats represent exactly. What an exception says about itself (its class, a status code,
  its text) is the record \<open>failure\<close>.
\<close>

section \<open>The circuit breaker\<close>

datatype circuit_state = CLOSED | OPEN | HALF_OPEN

record breaker =
  cb_state :: circuit_state
  cb_failures :: nat
  cb_last_failure :: rat
  cb_probes :: nat
  cb_threshold :: nat
  cb_cooldown :: rat
  cb_max_probes :: nat

definition new_breaker :: breaker where
  "new_breaker = \<lparr>cb_state = CLOSED, cb_failures = 0, cb_last_failure = 0, cb_probes = 0, cb_threshold = 5,
     cb_cooldown = 60, cb_max_probes = 2\<rparr>"

definition provider_unavailable :: py_exc where
  "provider_unavailable = AppError ''ModelProviderUnavailableException'' []"

text \<open>The breaker is changed even when the call raises, so the state is returned beside the result.\<close>

definition check_allow_execution :: "rat \<Rightarrow> breaker \<Rightarrow> (py_exc + unit) \<times> breaker" where
  "check_allow_execution now b =
     (if cb_state b = OPEN \<and> now - cb_last_failure b < cb_cooldown b then (Inl provider_unavailable, b)
      else
        let c = (if cb_state b = OPEN then b\<lparr>cb_state := HALF_OPEN, cb_probes := 0\<rparr> else b) in
        if cb_state c = HALF_OPEN then
          if cb_max_probes c \<le> cb_probes c then (Inl provider_unavailable, c)
          else (Inr (), c\<lparr>cb_probes := cb_probes c + 1\<rparr>)
        else (Inr (), c))"

definition record_success :: "breaker \<Rightarrow> breaker" where
  "record_success b = b\<lparr>cb_failures := 0, cb_probes := 0, cb_state := CLOSED\<rparr>"

definition record_provider_failure :: "rat \<Rightarrow> bool \<Rightarrow> breaker \<Rightarrow> breaker" where
  "record_provider_failure now transient b =
     (if \<not> transient then b
      else
        let c = b\<lparr>cb_failures := cb_failures b + 1, cb_last_failure := now\<rparr> in
        if cb_state c = HALF_OPEN \<or> cb_threshold c \<le> cb_failures c then c\<lparr>cb_state := OPEN\<rparr> else c)"

section \<open>Transient retry\<close>

text \<open>
  A failure: whether it is a timeout or connection error, the integers found under the attributes
  \<open>status_code\<close>, \<open>http_status\<close> and \<open>code\<close>, that of its response, and its text.
\<close>

record failure =
  fl_timeout :: bool
  fl_codes :: "int option list"
  fl_response :: "int option"
  fl_text :: string

definition transient_status_codes :: "int list" where
  "transient_status_codes = [408, 409, 425, 429, 500, 502, 503, 504, 529]"

definition transient_phrases :: "string list" where
  "transient_phrases = [''overloaded'', ''rate limit'', ''rate_limit'', ''timeout'', ''timed out'',
     ''temporarily unavailable'', ''service unavailable'', ''connection reset'', ''connection error'', ''bad gateway'']"

definition word_char :: "char \<Rightarrow> bool" where
  "word_char c = (let n = of_char c :: nat in (48 \<le> n \<and> n \<le> 57) \<or> (65 \<le> n \<and> n \<le> 90) \<or> (97 \<le> n \<and> n \<le> 122) \<or>
     n = 95 \<or> n = 170 \<or> n \<in> {178, 179, 181, 185, 186, 188, 189, 190} \<or> (192 \<le> n \<and> n \<noteq> 215 \<and> n \<noteq> 247))"

definition space_char :: "char \<Rightarrow> bool" where
  "space_char c = (let n = of_char c :: nat in (9 \<le> n \<and> n \<le> 13) \<or> (28 \<le> n \<and> n \<le> 32) \<or> n = 133 \<or> n = 160)"

text \<open>The pattern \<open>\berror code:\s*(\d{3})\b\<close> at the start of the text, and its first match.\<close>

definition status_here :: "string \<Rightarrow> int option" where
  "status_here s =
     (if str_lower (take 11 s) \<noteq> ''error code:'' then None
      else let t = dropWhile space_char (drop 11 s); ds = take 3 t; rest = drop 3 t
        in if length ds = 3 \<and> (\<forall>c \<in> set ds. is_digit c) \<and> (rest = [] \<or> \<not> word_char (hd rest))
           then Some (int (digits_value ds)) else None)"

fun status_in_text :: "bool \<Rightarrow> string \<Rightarrow> int option" where
  "status_in_text boundary [] = None"
| "status_in_text boundary (c # s) =
     (case (if boundary then status_here (c # s) else None) of
        Some n \<Rightarrow> Some n | None \<Rightarrow> status_in_text (\<not> word_char c) s)"

definition status_code_of :: "failure \<Rightarrow> int option" where
  "status_code_of f = (case filter (\<lambda>x. x \<noteq> None) (fl_codes f @ [fl_response f]) of
     x # _ \<Rightarrow> x | [] \<Rightarrow> status_in_text True (fl_text f))"

definition is_transient :: "failure \<Rightarrow> bool" where
  "is_transient f =
     (if fl_timeout f then True
      else case status_code_of f of
        Some code \<Rightarrow> code \<in> set transient_status_codes
      | None \<Rightarrow> \<exists>p \<in> set transient_phrases. contains_sub p (str_lower (fl_text f)))"

definition backoff_delay :: "nat \<Rightarrow> rat \<Rightarrow> rat \<Rightarrow> rat" where
  "backoff_delay attempt base_delay max_delay = min (base_delay * 2 ^ (attempt - 1)) max_delay"

text \<open>
  The loop over \<open>range(1, max_attempts + 1)\<close> from \<open>attempt\<close> on; \<open>operation n\<close> is what the n-th call
  does. The result is returned with the delays slept. With no attempt at all the code would raise None,
  a TypeError.
\<close>

function retry_loop ::
  "(nat \<Rightarrow> failure + 'a) \<Rightarrow> nat \<Rightarrow> rat \<Rightarrow> rat \<Rightarrow> nat \<Rightarrow> (failure option + 'a) \<times> rat list" where
  "retry_loop operation max_attempts base_delay max_delay attempt =
     (if max_attempts < attempt then (Inl None, [])
      else case operation attempt of
        Inr x \<Rightarrow> (Inr x, [])
      | Inl e \<Rightarrow>
          if \<not> is_transient e \<or> attempt = max_attempts then (Inl (Some e), [])
          else (case retry_loop operation max_attempts base_delay max_delay (attempt + 1) of
            (r, ds) \<Rightarrow> (r, backoff_delay attempt base_delay max_delay # ds)))"
  by pat_completeness auto
termination by (relation "measure (\<lambda>(_, m, _, _, a). m + 1 - a)") auto

declare retry_loop.simps [simp del]

definition call_with_transient_retry ::
  "(nat \<Rightarrow> failure + 'a) \<Rightarrow> nat \<Rightarrow> rat \<Rightarrow> rat \<Rightarrow> (failure option + 'a) \<times> rat list" where
  "call_with_transient_retry operation max_attempts base_delay max_delay =
     retry_loop operation max_attempts base_delay max_delay 1"

section \<open>The budget of a job\<close>

record budget =
  max_model_invocations :: int
  max_tool_calls :: int
  max_prompt_tokens :: int
  max_completion_tokens :: int
  max_cost_usd :: dec
  current_model_invocations :: int
  current_tool_calls :: int
  current_prompt_tokens :: int
  current_completion_tokens :: int
  current_cost_usd :: dec

definition new_budget :: budget where
  "new_budget = \<lparr>max_model_invocations = 3, max_tool_calls = 5, max_prompt_tokens = 8000,
     max_completion_tokens = 2000, max_cost_usd = Dec False 1000 (-4), current_model_invocations = 0,
     current_tool_calls = 0, current_prompt_tokens = 0, current_completion_tokens = 0,
     current_cost_usd = Dec False 0 (-4)\<rparr>"

definition budget_exceeded :: "string \<Rightarrow> py_exc" where
  "budget_exceeded what = AppError ''ANALYSIS_BUDGET_EXCEEDED'' what"

definition verify_budget :: "budget \<Rightarrow> py_exc + unit" where
  "verify_budget b =
     bindE (raise_if (max_model_invocations b < current_model_invocations b) (budget_exceeded ''Model invocations'')) (\<lambda>_.
     bindE (raise_if (max_tool_calls b < current_tool_calls b) (budget_exceeded ''Tool calls'')) (\<lambda>_.
     bindE (raise_if (max_prompt_tokens b < current_prompt_tokens b) (budget_exceeded ''Prompt tokens'')) (\<lambda>_.
     bindE (raise_if (max_completion_tokens b < current_completion_tokens b) (budget_exceeded ''Completion tokens'')) (\<lambda>_.
       raise_if (dless (max_cost_usd b) (current_cost_usd b)) (budget_exceeded ''Cost'')))))"

definition record_model_invocation :: "int \<Rightarrow> int \<Rightarrow> dec \<Rightarrow> budget \<Rightarrow> (py_exc + unit) \<times> budget" where
  "record_model_invocation prompt_tokens completion_tokens cost b =
     (let c = b\<lparr>current_model_invocations := current_model_invocations b + 1,
        current_prompt_tokens := current_prompt_tokens b + prompt_tokens,
        current_completion_tokens := current_completion_tokens b + completion_tokens,
        current_cost_usd := dadd default_context (current_cost_usd b) cost\<rparr>
      in (verify_budget c, c))"

definition record_tool_call :: "budget \<Rightarrow> (py_exc + unit) \<times> budget" where
  "record_tool_call b = (let c = b\<lparr>current_tool_calls := current_tool_calls b + 1\<rparr> in (verify_budget c, c))"

section \<open>The policy engine\<close>

datatype data_classification = PUBLIC | INTERNAL | CONFIDENTIAL | STRICTLY_CONFIDENTIAL | PERSONAL_DATA

datatype policy_decision = ALLOW | DENY | REQUIRE_MASKING | REQUIRE_HUMAN_APPROVAL | INTERNAL_ONLY

definition evaluate_model_transmission :: "data_classification \<Rightarrow> bool \<Rightarrow> policy_decision" where
  "evaluate_model_transmission c external =
     (if c = STRICTLY_CONFIDENTIAL then DENY
      else if c = PERSONAL_DATA then REQUIRE_MASKING
      else if c = CONFIDENTIAL then (if external then DENY else ALLOW)
      else if c = INTERNAL \<or> c = PUBLIC then ALLOW
      else DENY)"

definition enforce_transmission_policy :: "data_classification \<Rightarrow> bool \<Rightarrow> py_exc + unit" where
  "enforce_transmission_policy c external =
     raise_if (evaluate_model_transmission c external \<notin> {ALLOW, REQUIRE_MASKING}) (AppError ''POLICY_DENIED'' [])"

fun decision_value :: "policy_decision \<Rightarrow> string" where
  "decision_value ALLOW = ''ALLOW''"
| "decision_value DENY = ''DENY''"
| "decision_value REQUIRE_MASKING = ''REQUIRE_MASKING''"
| "decision_value REQUIRE_HUMAN_APPROVAL = ''REQUIRE_HUMAN_APPROVAL''"
| "decision_value INTERNAL_ONLY = ''INTERNAL_ONLY''"

fun classification_value :: "data_classification \<Rightarrow> string" where
  "classification_value PUBLIC = ''PUBLIC''"
| "classification_value INTERNAL = ''INTERNAL''"
| "classification_value CONFIDENTIAL = ''CONFIDENTIAL''"
| "classification_value STRICTLY_CONFIDENTIAL = ''STRICTLY_CONFIDENTIAL''"
| "classification_value PERSONAL_DATA = ''PERSONAL_DATA''"

section \<open>Tool deduplication\<close>

definition compute_arguments_checksum :: "(string \<Rightarrow> string) \<Rightarrow> json \<Rightarrow> string" where
  "compute_arguments_checksum sha arguments = sha (json_dumps arguments)"

text \<open>The stored invocations of the job and tool come newest first, as arguments and result.\<close>

fun check_existing_invocation :: "(string \<Rightarrow> string) \<Rightarrow> json \<Rightarrow> (json \<times> json) list \<Rightarrow> json option" where
  "check_existing_invocation sha arguments [] = None"
| "check_existing_invocation sha arguments ((args, result) # invs) =
     (if compute_arguments_checksum sha args = compute_arguments_checksum sha arguments then Some result
      else check_existing_invocation sha arguments invs)"

section \<open>What the breaker guarantees\<close>

text \<open>The answers of a breaker that is asked at the times \<open>ts\<close>, with no outcome recorded in between.\<close>

fun run_checks :: "rat list \<Rightarrow> breaker \<Rightarrow> (py_exc + unit) list" where
  "run_checks [] b = []"
| "run_checks (t # ts) b = (case check_allow_execution t b of (r, c) \<Rightarrow> r # run_checks ts c)"

abbreviation allowed :: "(py_exc + unit) list \<Rightarrow> nat" where
  "allowed rs \<equiv> length (filter (\<lambda>r. r = Inr ()) rs)"

lemma checks_half_open:
  "cb_state b = HALF_OPEN \<Longrightarrow> cb_probes b \<le> cb_max_probes b \<Longrightarrow>
    allowed (run_checks ts b) \<le> cb_max_probes b - cb_probes b"
proof (induction ts arbitrary: b)
  case (Cons t ts)
  show ?case
  proof (cases "cb_max_probes b \<le> cb_probes b")
    case True
    then have "check_allow_execution t b = (Inl provider_unavailable, b)"
      using Cons.prems(1) by (simp add: check_allow_execution_def)
    then show ?thesis using Cons.IH [OF Cons.prems] by simp
  next
    case False
    then have "check_allow_execution t b = (Inr (), b\<lparr>cb_probes := cb_probes b + 1\<rparr>)"
      using Cons.prems(1) by (simp add: check_allow_execution_def)
    moreover have "allowed (run_checks ts (b\<lparr>cb_probes := cb_probes b + 1\<rparr>)) \<le> cb_max_probes b - (cb_probes b + 1)"
      using Cons.IH [of "b\<lparr>cb_probes := cb_probes b + 1\<rparr>"] Cons.prems(1) False by simp
    ultimately show ?thesis using False by simp
  qed
qed simp

lemma checks_open: "cb_state b = OPEN \<Longrightarrow> allowed (run_checks ts b) \<le> cb_max_probes b"
proof (induction ts)
  case (Cons t ts)
  show ?case
  proof (cases "t - cb_last_failure b < cb_cooldown b")
    case True
    then have "check_allow_execution t b = (Inl provider_unavailable, b)"
      using Cons.prems by (simp add: check_allow_execution_def)
    then show ?thesis using Cons by simp
  next
    case False
    let ?h = "b\<lparr>cb_state := HALF_OPEN, cb_probes := 0\<rparr>"
    have "check_allow_execution t b = check_allow_execution t ?h"
      using False Cons.prems by (simp add: check_allow_execution_def)
    then have "run_checks (t # ts) b = run_checks (t # ts) ?h" by simp
    then show ?thesis using checks_half_open [of ?h "t # ts"] by simp
  qed
qed simp

text \<open>C33: while a breaker is open and no call has reported back, at most the configured number of
  probes gets through, however often and at whatever times the breaker is asked; before the cooldown
  has passed none does.\<close>

theorem open_breaker_limits_probes:
  assumes "cb_state b = OPEN"
  shows "length (filter (\<lambda>r. r = Inr ()) (run_checks ts b)) \<le> cb_max_probes b \<and>
    ((\<forall>t \<in> set ts. t - cb_last_failure b < cb_cooldown b) \<longrightarrow> filter (\<lambda>r. r = Inr ()) (run_checks ts b) = [])"
proof (rule conjI [OF checks_open [OF assms]])
  show "(\<forall>t \<in> set ts. t - cb_last_failure b < cb_cooldown b) \<longrightarrow> filter (\<lambda>r. r = Inr ()) (run_checks ts b) = []"
    using assms by (induction ts) (auto simp: check_allow_execution_def)
qed

lemma open_breaker_limits_probes_witness:
  "length (filter (\<lambda>r. r = Inr ()) (run_checks [100, 200, 300, 400] (new_breaker\<lparr>cb_state := OPEN\<rparr>))) \<le> 2"
  using open_breaker_limits_probes [of "new_breaker\<lparr>cb_state := OPEN\<rparr>" "[100, 200, 300, 400]"]
  by (simp add: new_breaker_def)

section \<open>What the retry loop guarantees\<close>

lemma retry_loop_delays:
  "length (snd (retry_loop operation m b x a)) \<le> m - a \<and>
    snd (retry_loop operation m b x a) = map (\<lambda>n. backoff_delay n b x) [a..<a + length (snd (retry_loop operation m b x a))]"
proof (induction operation m b x a rule: retry_loop.induct)
  case (1 operation m b x a)
  show ?case
  proof (cases "m < a \<or> (\<exists>y. operation a = Inr y) \<or> (\<exists>e. operation a = Inl e \<and> (\<not> is_transient e \<or> a = m))")
    case True
    then have "snd (retry_loop operation m b x a) = []" by (subst retry_loop.simps) (auto split: sum.splits)
    then show ?thesis by simp
  next
    case False
    then obtain e where e: "\<not> m < a" "operation a = Inl e" "is_transient e" "a \<noteq> m" by (cases "operation a") auto
    then have s: "snd (retry_loop operation m b x a) = backoff_delay a b x # snd (retry_loop operation m b x (a + 1))"
      by (subst retry_loop.simps) (simp add: case_prod_beta)
    have IH: "length (snd (retry_loop operation m b x (a + 1))) \<le> m - (a + 1)"
      "snd (retry_loop operation m b x (a + 1)) =
        map (\<lambda>n. backoff_delay n b x) [a + 1..<a + 1 + length (snd (retry_loop operation m b x (a + 1)))]"
      using "1.IH" [OF e(1,2)] e by simp_all
    have "[a..<a + length (snd (retry_loop operation m b x a))] =
        a # [a + 1..<a + 1 + length (snd (retry_loop operation m b x (a + 1)))]"
      by (simp add: s upt_rec)
    with IH e(1,4) show ?thesis unfolding s by simp
  qed
qed

lemma retry_loop_success:
  assumes "\<forall>i. a \<le> i \<and> i < n \<longrightarrow> (\<exists>e. operation i = Inl e \<and> is_transient e)" "operation n = Inr y" "a \<le> n" "n \<le> m"
  shows "fst (retry_loop operation m b x a) = Inr y \<and> length (snd (retry_loop operation m b x a)) = n - a"
  using assms
proof (induction "n - a" arbitrary: a)
  case 0
  then show ?case by (subst (1 2) retry_loop.simps) simp
next
  case (Suc k)
  then have an: "a < n" by simp
  with Suc.prems obtain e where e: "operation a = Inl e" "is_transient e" by auto
  have IH: "fst (retry_loop operation m b x (a + 1)) = Inr y \<and> length (snd (retry_loop operation m b x (a + 1))) = n - (a + 1)"
    using Suc.hyps(2) Suc.prems an by (intro Suc.hyps(1)) auto
  have "retry_loop operation m b x a =
      (fst (retry_loop operation m b x (a + 1)), backoff_delay a b x # snd (retry_loop operation m b x (a + 1)))"
    using e an Suc.prems(4) by (subst retry_loop.simps) (simp add: case_prod_beta)
  with IH an show ?case by simp
qed

lemma sum_backoff_default:
  "n \<le> 5 \<Longrightarrow> sum_list (map (\<lambda>n. backoff_delay n 2 30) [1..<1 + n]) \<le> 60"
proof -
  assume "n \<le> 5"
  then have "n \<in> {0, 1, 2, 3, 4, 5}" by auto
  then show ?thesis
    by (elim insertE emptyE) (simp_all add: backoff_delay_def upt_conv_Cons numeral_eq_Suc min_def)
qed

lemma default_retry_sleep: "sum_list (snd (call_with_transient_retry operation 6 2 30)) \<le> 60"
proof -
  let ?ds = "snd (call_with_transient_retry operation 6 2 30)"
  have "?ds = map (\<lambda>n. backoff_delay n 2 30) [1..<1 + length ?ds]" "length ?ds \<le> 5"
    using retry_loop_delays [of operation 6 2 30 1] by (simp_all add: call_with_transient_retry_def)
  then show ?thesis using sum_backoff_default by metis
qed

definition overloaded_failure :: failure where
  "overloaded_failure = \<lparr>fl_timeout = False, fl_codes = [], fl_response = None, fl_text = ''Error code: 529''\<rparr>"

lemma overloaded_transient: "is_transient overloaded_failure"
  by (simp add: overloaded_failure_def is_transient_def status_code_of_def status_here_def str_lower_def lower_char_def Let_def
      space_char_def is_digit_def digits_value_def transient_status_codes_def)

text \<open>C34: under the default retry policy a call that fails only transiently before its n-th attempt
  (n at most 6) returns the result of that attempt, having slept before each repetition and at most
  60 seconds in all, as the comment of the module says.\<close>

theorem retry_within_a_minute:
  assumes "n \<in> {1..6}" and "operation n = Inr y"
    and "\<forall>i \<in> {1..<n}. \<exists>e. operation i = Inl e \<and> is_transient e"
  shows "fst (call_with_transient_retry operation 6 2 30) = Inr y \<and>
    length (snd (call_with_transient_retry operation 6 2 30)) = n - 1 \<and>
    sum_list (snd (call_with_transient_retry operation 6 2 30)) \<le> 60"
  using retry_loop_success [of 1 n operation y 6 2 30] default_retry_sleep [of operation] assms
  by (auto simp: call_with_transient_retry_def)

lemma retry_within_a_minute_witness:
  "fst (call_with_transient_retry (\<lambda>n. if n < 3 then Inl overloaded_failure else Inr n) 6 2 30) = Inr 3"
  using retry_within_a_minute [of 3 "\<lambda>n. if n < 3 then Inl overloaded_failure else Inr n" 3] overloaded_transient
  by simp

section \<open>Budget and policy\<close>

text \<open>A fresh budget admits five tool calls.\<close>

fun tool_calls :: "nat \<Rightarrow> budget \<Rightarrow> (py_exc + unit) \<times> budget" where
  "tool_calls 0 b = (Inr (), b)"
| "tool_calls (Suc n) b = (case record_tool_call b of (Inl e, c) \<Rightarrow> (Inl e, c) | (Inr _, c) \<Rightarrow> tool_calls n c)"

lemma tool_calls_from:
  "i + n \<le> 5 \<Longrightarrow> tool_calls n (new_budget\<lparr>current_tool_calls := int i\<rparr>) =
    (Inr (), new_budget\<lparr>current_tool_calls := int (i + n)\<rparr>)"
proof (induction n arbitrary: i)
  case (Suc n)
  have "record_tool_call (new_budget\<lparr>current_tool_calls := int i\<rparr>) =
      (Inr (), new_budget\<lparr>current_tool_calls := int (Suc i)\<rparr>)"
    using Suc.prems by (simp add: record_tool_call_def verify_budget_def new_budget_def dless_def aligned_def signed_coeff_def sgn_int_def)
  then show ?case using Suc.IH [of "Suc i"] Suc.prems by simp
qed simp

end
