(* ===== verification/AnalysisEngine.thy ===== *)
theory AnalysisEngine
  imports Clarification Resilience
begin

text \<open>
  \<open>orchestration/engine.py\<close>: \<open>execute_job\<close>, the run of a claimed analysis from the fencing check to the
  snapshot or the failure transaction, stage by stage. What it calls and this theory does not model is
  the record \<open>services\<close>: the request normalizer, the comparison tool (whose service commits the session
  when it succeeds), the narrative turn of the model, the numeric claim verifier, the texts of times, the
  digest, fresh ids, the clock, and what other sessions commit at the numbered points where the session
  has no open transaction. The loaded job is kept as a value beside its row, as the ORM keeps it.
\<close>

section \<open>What the engine calls\<close>

record norm_outcome =
  no_needs_clarification :: bool
  no_request :: "(string list \<times> json) option"
  no_institutions :: "string list"
  no_periods :: "string list"
  no_code :: "string option"
  no_prompt_key :: "string option"

record services =
  sv_normalize :: "analysis_db \<Rightarrow> string \<Rightarrow> py_exc + norm_outcome"
  sv_tool :: "json \<Rightarrow> analysis_db \<Rightarrow> py_exc + json"
  sv_narrate :: "string \<Rightarrow> json list \<Rightarrow> py_exc + string"
  sv_verify :: "string \<Rightarrow> json \<Rightarrow> py_exc + unit"
  sv_time_str :: "nat \<Rightarrow> string"
  sv_sha :: "string \<Rightarrow> string"
  sv_uuid :: "string \<Rightarrow> uuid"
  sv_now :: nat
  sv_clock :: rat
  sv_elapsed :: nat
  sv_others :: "nat \<Rightarrow> analysis_db \<Rightarrow> analysis_db"

record claim =
  cm_org :: uuid
  cm_job :: uuid
  cm_token :: uuid
  cm_worker :: string

section \<open>Fencing\<close>

definition running_states :: "job_status list" where
  "running_states = [RECEIVED, UNDERSTANDING_REQUEST, PLANNING, POLICY_CHECK, RETRIEVING_INTERNAL_SOURCES,
     VALIDATING_SOURCES, EXECUTING_TOOLS, RECONCILING_RESULTS, GENERATING_STRUCTURED_RESULT, QUALITY_GATE]"

definition ownership_lost :: "string \<Rightarrow> py_exc" where
  "ownership_lost m = AppError ''CLAIM_OWNERSHIP_LOST'' m"

definition is_ownership_lost :: "py_exc \<Rightarrow> bool" where
  "is_ownership_lost e = (case e of AppError c _ \<Rightarrow> c = ''CLAIM_OWNERSHIP_LOST'' | _ \<Rightarrow> False)"

definition holds_claim :: "claim \<Rightarrow> analysis_job \<Rightarrow> bool" where
  "holds_claim cm j \<longleftrightarrow> aj_id j = cm_job cm \<and> aj_org j = cm_org cm \<and> aj_token j = Some (cm_token cm) \<and>
     aj_locked_by j = Some (cm_worker cm)"

definition fenced :: "claim \<Rightarrow> analysis_db \<Rightarrow> bool" where
  "fenced cm d \<longleftrightarrow> (\<exists>j \<in> set (d_jobs d). holds_claim cm j \<and> aj_status j \<in> set running_states)"

definition assert_fenced_ownership :: "claim \<Rightarrow> unit handler" where
  "assert_fenced_ownership cm =
     an_read (\<lambda>d. raise_if (\<not> fenced cm d) (ownership_lost ''lost claim token or lease expired''))"

section \<open>Steps\<close>

text \<open>\<open>validate_transition\<close>, the assignment and the flush.\<close>

definition advance :: "analysis_job \<Rightarrow> job_status \<Rightarrow> analysis_job handler" where
  "advance job new =
     bindP (liftP (validate_transition (aj_status job) new)) (\<lambda>_.
     bindP (write_status (aj_id job) new) (\<lambda>_. retP (job\<lparr>aj_status := new\<rparr>)))"

definition emit :: "claim \<Rightarrow> string \<Rightarrow> (string \<times> json) list \<Rightarrow> uuid \<Rightarrow> unit handler" where
  "emit cm event_type payload attempt = emit_event (cm_org cm) (cm_job cm) event_type (JObj payload) (Some attempt)"

definition set_attempt :: "uuid \<Rightarrow> string \<Rightarrow> unit handler" where
  "set_attempt i st = an_write (put_attempt (\<lambda>a. a\<lparr>aa_status := st\<rparr>) i)"

definition record_decision :: "claim \<Rightarrow> data_classification \<Rightarrow> policy_decision \<Rightarrow> unit handler" where
  "record_decision cm cls dec = an_write (\<lambda>d. d\<lparr>d_policies := d_policies d @
     [\<lparr>pd_job = cm_job cm, pd_org = cm_org cm, pd_decision = decision_value dec,
       pd_classification = classification_value cls\<rparr>]\<rparr>)"

text \<open>Loading the claimed job, and the row of this attempt.\<close>

definition load_claimed_job :: "claim \<Rightarrow> analysis_job handler" where
  "load_claimed_job cm =
     bindP (an_read (\<lambda>d. scalar_one_or_none (filter (holds_claim cm) (d_jobs d)))) (\<lambda>r.
       liftP (require_some (ownership_lost ''Job not found or claim token mismatch.'') r))"

definition open_attempt :: "services \<Rightarrow> claim \<Rightarrow> (uuid \<times> nat) handler" where
  "open_attempt sv cm =
     bindP (an_read (\<lambda>d. Inr (length (filter (\<lambda>a. aa_job a = cm_job cm \<and> aa_org a = cm_org cm) (d_attempts d)) + 1))) (\<lambda>n.
     bindP (an_write (\<lambda>d. d\<lparr>d_attempts := d_attempts d @ [\<lparr>aa_id = sv_uuid sv ''attempt'', aa_job = cm_job cm,
        aa_org = cm_org cm, aa_number = n, aa_status = ''IN_PROGRESS''\<rparr>]\<rparr>)) (\<lambda>_.
       retP (sv_uuid sv ''attempt'', n)))"

definition understand :: "claim \<Rightarrow> uuid \<Rightarrow> analysis_job \<Rightarrow> analysis_job handler" where
  "understand cm att job =
     bindP (assert_fenced_ownership cm) (\<lambda>_.
     bindP (emit cm ''analysis.accepted'' [(''status'', JStr ''RECEIVED''), (''job_id'', JStr (uuid_str (cm_job cm)))] att) (\<lambda>_.
     bindP (assert_fenced_ownership cm) (\<lambda>_.
     bindP (advance job UNDERSTANDING_REQUEST) (\<lambda>job.
     bindP (emit cm ''analysis.state_changed''
        [(''from_state'', JStr ''RECEIVED''), (''to_state'', JStr (status_value (aj_status job)))] att) (\<lambda>_.
       retP job)))))"

definition close_job :: "claim \<Rightarrow> job_status \<Rightarrow> analysis_job \<Rightarrow> analysis_job handler" where
  "close_job cm st job =
     bindP (an_write (put_job (\<lambda>j. j\<lparr>aj_status := st, aj_lease := None\<rparr>) (aj_id job))) (\<lambda>_.
       retP (job\<lparr>aj_status := st, aj_lease := None\<rparr>))"

definition reject :: "claim \<Rightarrow> uuid \<Rightarrow> analysis_job \<Rightarrow> analysis_job handler" where
  "reject cm att job =
     bindP (close_job cm REJECTED_BY_POLICY job) (\<lambda>job.
     bindP (set_attempt att ''REJECTED_BY_POLICY'') (\<lambda>_.
     bindP (emit cm ''analysis.failed'' [(''error_code'', JStr ''POLICY_DENIED''), (''message'', JStr ''Policy denied execution.'')] att) (\<lambda>_.
     bindP an_commit (\<lambda>_. retP job))))"

text \<open>The branch that asks the user: the clarification service commits, then the attempt and the
  lease are closed in a transaction of their own.\<close>

definition ask_user :: "services \<Rightarrow> claim \<Rightarrow> uuid \<Rightarrow> nat \<Rightarrow> analysis_job \<Rightarrow> norm_outcome \<Rightarrow> analysis_job handler" where
  "ask_user sv cm att n job out =
     bindP (assert_fenced_ownership cm) (\<lambda>_.
     bindP (require_clarification (sv_sha sv) (cm_org cm) (aj_user job) (sv_uuid sv ''clarification'') (sv_now sv) (cm_job cm)
        (if falsy_str (no_code out) then ''UNSUPPORTED_REQUEST_SCOPE'' else the (no_code out))
        (if falsy_str (no_prompt_key out) then ''NORMALIZATION_CLARIFICATION'' else the (no_prompt_key out)) n 15) (\<lambda>_.
     bindP (an_others (sv_others sv 1)) (\<lambda>_.
     bindP (set_attempt att ''NEEDS_CLARIFICATION'') (\<lambda>_.
     bindP (an_write (put_job (\<lambda>j. j\<lparr>aj_lease := None\<rparr>) (aj_id job))) (\<lambda>_.
     bindP an_commit (\<lambda>_. retP (job\<lparr>aj_status := NEEDS_CLARIFICATION, aj_lease := None\<rparr>)))))))"

section \<open>The plan\<close>

definition default_measures :: "string list" where
  "default_measures = [''TOTAL_ASSETS'']"

definition default_institution :: string where
  "default_institution = ''11111111-1111-1111-1111-111111111111''"

definition default_period :: string where
  "default_period = ''22222222-2222-2222-2222-222222222222''"

text \<open>The default request is that of \<open>norm_outcome.normalized_request or NormalizedRequest(...)\<close>.\<close>

definition request_measures :: "norm_outcome \<Rightarrow> string list" where
  "request_measures out = (case no_request out of None \<Rightarrow> default_measures | Some (ms, _) \<Rightarrow> ms)"

definition default_request :: json where
  "default_request = JObj
     [(''intent'', JStr ''CROSS_INSTITUTION_COMPARISON''),
      (''requested_institutions'', JList [JStr ''Garanti BBVA'', JStr ''Akbank'']),
      (''requested_periods'', JList [JStr ''2025-Q4'']),
      (''requested_semantic_measures'', JList [JStr ''TOTAL_ASSETS'']),
      (''reporting_basis'', JStr ''SOLO''), (''source_policy'', JStr ''BOTH_SEPARATE_SERIES''),
      (''requested_chart_type'', JStr ''vertical_bar''), (''ambiguities'', JList []),
      (''needs_clarification'', JBool False), (''proposed_clarification_questions'', JList [])]"

definition request_json :: "norm_outcome \<Rightarrow> json" where
  "request_json out = (case no_request out of None \<Rightarrow> default_request | Some (_, j) \<Rightarrow> j)"

definition plan_scope :: "claim \<Rightarrow> norm_outcome \<Rightarrow> analysis_db \<Rightarrow> string list \<times> string list" where
  "plan_scope cm out d =
     (if no_institutions out = [] \<or> no_periods out = [] then
        let is = map (\<lambda>(i, o'). uuid_str i) (take 5 (filter (\<lambda>(i, o'). o' = cm_org cm) (d_institutions d)));
            ps = map (\<lambda>(i, o'). uuid_str i) (take 5 (filter (\<lambda>(i, o'). o' = cm_org cm) (d_periods d)))
        in (if is = [] then [default_institution] else is, if ps = [] then [default_period] else ps)
      else (no_institutions out, no_periods out))"

definition tool_arguments :: "string list \<Rightarrow> string list \<Rightarrow> string list \<Rightarrow> json" where
  "tool_arguments institutions periods codes = JObj
     [(''institution_ids'', JList (map JStr institutions)), (''reporting_period_ids'', JList (map JStr periods)),
      (''semantic_measures'', JList (map (\<lambda>m. JObj [(''semantic_measure_code'', JStr m)])
        (if codes = [] then default_measures else codes)))]"

record plan_step =
  ps_number :: nat
  ps_tool :: string
  ps_arguments :: json

definition make_plan :: "claim \<Rightarrow> norm_outcome \<Rightarrow> analysis_db \<Rightarrow> plan_step list" where
  "make_plan cm out d = (case plan_scope cm out d of (institutions, periods) \<Rightarrow>
     [\<lparr>ps_number = 1, ps_tool = ''compare_institutions'',
       ps_arguments = tool_arguments institutions periods (request_measures out)\<rparr>])"

definition plan_json :: "claim \<Rightarrow> plan_step list \<Rightarrow> json" where
  "plan_json cm steps = JObj
     [(''plan_version'', JStr ''1.0.0''), (''analysis_job_id'', JStr (uuid_str (cm_job cm))),
      (''ordered_steps'', JList (map (\<lambda>s. JObj [(''step_number'', JInt (int (ps_number s))),
        (''tool_name'', JStr (ps_tool s)), (''tool_arguments'', ps_arguments s)]) steps)),
      (''max_tool_steps'', JInt 5), (''estimated_max_cost_usd'', JStr ''0.0500'')]"

definition plan_job :: "services \<Rightarrow> breaker \<Rightarrow> claim \<Rightarrow> uuid \<Rightarrow> analysis_job \<Rightarrow> norm_outcome \<Rightarrow> (analysis_job \<times> plan_step list) handler" where
  "plan_job sv cb cm att job out =
     bindP (an_write (put_job (\<lambda>j. j\<lparr>aj_normalized := request_json out\<rparr>) (aj_id job))) (\<lambda>_.
     bindP (liftP (fst (check_allow_execution (sv_clock sv) cb))) (\<lambda>_.
     bindP (assert_fenced_ownership cm) (\<lambda>_.
     bindP (advance (job\<lparr>aj_normalized := request_json out\<rparr>) PLANNING) (\<lambda>job.
     bindP (emit cm ''analysis.plan_ready'' [(''step_count'', JInt 1), (''tools_planned'', JList [JStr ''compare_institutions''])] att) (\<lambda>_.
     bindP (an_read (\<lambda>d. Inr (make_plan cm out d))) (\<lambda>steps.
     bindP (an_write (\<lambda>d. d\<lparr>d_plans := d_plans d @ [\<lparr>ap_job = cm_job cm, ap_org = cm_org cm, ap_version = ''1.0.0'',
        ap_json = plan_json cm steps\<rparr>]\<rparr>)) (\<lambda>_.
       retP (job, steps))))))))"

section \<open>The tools\<close>

definition stored_invocations :: "claim \<Rightarrow> string \<Rightarrow> analysis_db \<Rightarrow> (json \<times> json) list" where
  "stored_invocations cm tool d = map (\<lambda>t. (ti_arguments t, ti_result t))
     (rev (filter (\<lambda>t. ti_org t = cm_org cm \<and> ti_job t = cm_job cm \<and> ti_tool t = tool) (d_tools d)))"

text \<open>A new invocation: the tool runs and commits, then its result is stored under the fence.\<close>

definition invoke_tool :: "services \<Rightarrow> claim \<Rightarrow> plan_step \<Rightarrow> json handler" where
  "invoke_tool sv cm st =
     bindP (an_read (sv_tool sv (ps_arguments st))) (\<lambda>res.
     bindP an_commit (\<lambda>_.
     bindP (an_others (sv_others sv 2)) (\<lambda>_.
     bindP (assert_fenced_ownership cm) (\<lambda>_.
     bindP (an_write (\<lambda>d. d\<lparr>d_tools := d_tools d @ [\<lparr>ti_job = cm_job cm, ti_org = cm_org cm, ti_tool = ps_tool st,
        ti_arguments = ps_arguments st, ti_result = res\<rparr>]\<rparr>)) (\<lambda>_.
       retP res)))))"

definition run_step :: "services \<Rightarrow> claim \<Rightarrow> uuid \<Rightarrow> budget \<Rightarrow> plan_step \<Rightarrow> (budget \<times> json) handler" where
  "run_step sv cm att b st =
     bindP (liftP (fst (record_tool_call b))) (\<lambda>_.
     bindP (emit cm ''analysis.tool_started'' [(''tool_name'', JStr (ps_tool st)), (''step'', JInt (int (ps_number st)))] att) (\<lambda>_.
     bindP (an_read (\<lambda>d. Inr (check_existing_invocation (sv_sha sv) (ps_arguments st) (stored_invocations cm (ps_tool st) d)))) (\<lambda>known.
     bindP (case known of Some res \<Rightarrow> retP res | None \<Rightarrow> invoke_tool sv cm st) (\<lambda>res.
     bindP (emit cm ''analysis.tool_completed'' [(''tool_name'', JStr (ps_tool st)),
        (''execution_time_ms'', JInt (case known of None \<Rightarrow> int (sv_elapsed sv) | Some _ \<Rightarrow> 0))] att) (\<lambda>_.
       retP (snd (record_tool_call b), res))))))"

fun run_steps :: "services \<Rightarrow> claim \<Rightarrow> uuid \<Rightarrow> budget \<Rightarrow> plan_step list \<Rightarrow> json list handler" where
  "run_steps sv cm att b [] = retP []"
| "run_steps sv cm att b (st # sts) =
     bindP (run_step sv cm att b st) (\<lambda>(b', res).
     bindP (run_steps sv cm att b' sts) (\<lambda>outs. retP (res # outs)))"

section \<open>The result\<close>

definition falsy_json :: "json \<Rightarrow> bool" where
  "falsy_json j \<longleftrightarrow> j \<in> {JNull, JBool False, JInt 0, JStr [], JList [], JObj []}"

definition json_get :: "json \<Rightarrow> string \<Rightarrow> json" where
  "json_get j k = (case j of JObj kvs \<Rightarrow> (case map_of kvs k of None \<Rightarrow> JNull | Some v \<Rightarrow> v) | _ \<Rightarrow> JNull)"

text \<open>The id is a text, as the tool writes it.\<close>

definition dataset_id :: "json list \<Rightarrow> py_exc + string" where
  "dataset_id outs =
     (let first = (case outs of [] \<Rightarrow> JObj [] | t # _ \<Rightarrow> t);
          i = json_get (json_get first ''result_dataset'') ''result_dataset_id''
      in case i of JStr s \<Rightarrow> if s = [] then Inl (AppError ''DATASET_NOT_FOUND'' ''Real tool execution did not yield a valid result dataset.'') else Inr s
         | _ \<Rightarrow> Inl (AppError ''DATASET_NOT_FOUND'' ''Real tool execution did not yield a valid result dataset.''))"

definition dataset_summary :: "string \<Rightarrow> json" where
  "dataset_summary i = JObj [(''result_dataset_id'', JStr i)]"

text \<open>\<open>QualityGateEngine.run_all_gates\<close>: each gate as code, status and reason.\<close>

definition run_all_gates :: "services \<Rightarrow> string \<Rightarrow> json \<Rightarrow> py_exc + (string \<times> string \<times> string) list" where
  "run_all_gates sv narrative dataset =
     bindE (sv_verify sv narrative dataset) (\<lambda>_.
       Inr ((''NUMERIC_CLAIM_GATE'', ''PASS'', ''ALL_NUMBERS_VERIFIED'') #
         (if \<exists>k \<in> {''rows'', ''result_dataset_id'', ''facts''}. (case dataset of JObj kvs \<Rightarrow> k \<in> set (map fst kvs) | _ \<Rightarrow> False)
          then [(''TABLE_CHART_EQUALITY_GATE'', ''PASS'', ''DATASET_STRUCTURED_OK'')] else [])))"

definition default_narrative :: string where
  "default_narrative = ''Analiz tamamland'' @ [CHR 0xC4, CHR 0xB1] @ ''.''"

definition default_prompt :: string where
  "default_prompt = ''Analiz yap'' @ [CHR 0xC4, CHR 0xB1] @ ''n'' @ [CHR 0xC4, CHR 0xB1] @ ''z.''"

definition prompt_of :: "analysis_job \<Rightarrow> string" where
  "prompt_of job = (if aj_prompt job = [] then default_prompt else aj_prompt job)"

definition store_gates :: "claim \<Rightarrow> (string \<times> string \<times> string) list \<Rightarrow> unit handler" where
  "store_gates cm gates = an_write (\<lambda>d. d\<lparr>d_gates := d_gates d @ map (\<lambda>(c, st, r).
     \<lparr>qg_job = cm_job cm, qg_org = cm_org cm, qg_code = c, qg_status = st, qg_reason = r\<rparr>) gates\<rparr>)"

text \<open>The fenced UPDATE to COMPLETED, the snapshot, the last event and the commit.\<close>

definition complete_job :: "services \<Rightarrow> claim \<Rightarrow> uuid \<Rightarrow> analysis_job \<Rightarrow> string \<Rightarrow> string \<Rightarrow> analysis_job handler" where
  "complete_job sv cm att job narrative i =
     bindP (assert_fenced_ownership cm) (\<lambda>_.
     bindP (liftP (validate_transition (aj_status job) COMPLETED)) (\<lambda>_.
     bindP (an_read (\<lambda>d. raise_if (\<not> (\<exists>j \<in> set (d_jobs d). holds_claim cm j))
        (ownership_lost ''Fenced COMPLETED update affected 0 rows''))) (\<lambda>_.
     bindP (close_job cm COMPLETED job) (\<lambda>job.
     bindP (set_attempt att ''COMPLETED'') (\<lambda>_.
     bindP (an_write (\<lambda>d. d\<lparr>d_snapshots := d_snapshots d @ [\<lparr>rs_id = sv_uuid sv ''snapshot'', rs_job = cm_job cm,
        rs_org = cm_org cm, rs_json = JObj [(''narrative'', JStr narrative), (''dataset'', dataset_summary i)]\<rparr>]\<rparr>)) (\<lambda>_.
     bindP (emit cm ''analysis.completed'' [(''snapshot_id'', JStr (uuid_str (sv_uuid sv ''snapshot''))),
        (''completed_at'', JStr (sv_time_str sv (sv_now sv)))] att) (\<lambda>_.
     bindP an_commit (\<lambda>_. retP job))))))))"

definition report :: "services \<Rightarrow> claim \<Rightarrow> uuid \<Rightarrow> analysis_job \<Rightarrow> json list \<Rightarrow> analysis_job handler" where
  "report sv cm att job outs =
     bindP (assert_fenced_ownership cm) (\<lambda>_.
     bindP (advance job RECONCILING_RESULTS) (\<lambda>job.
     bindP (advance job GENERATING_STRUCTURED_RESULT) (\<lambda>job.
     bindP (liftP (sv_narrate sv (prompt_of job) outs)) (\<lambda>text.
     let narrative = (if text = [] then default_narrative else text) in
     bindP (liftP (dataset_id outs)) (\<lambda>i.
     bindP (assert_fenced_ownership cm) (\<lambda>_.
     bindP (advance job QUALITY_GATE) (\<lambda>job.
     bindP (liftP (run_all_gates sv narrative (dataset_summary i))) (\<lambda>gates.
     bindP (store_gates cm gates) (\<lambda>_.
       complete_job sv cm att job narrative i)))))))))"

section \<open>The run\<close>

definition check_policy :: "services \<Rightarrow> claim \<Rightarrow> data_classification \<Rightarrow> uuid \<Rightarrow> analysis_job \<Rightarrow> plan_step list \<Rightarrow> analysis_job handler" where
  "check_policy sv cm cls att job steps =
     bindP (assert_fenced_ownership cm) (\<lambda>_.
     bindP (advance job POLICY_CHECK) (\<lambda>job.
     let dec = evaluate_model_transmission cls True in
     bindP (record_decision cm cls dec) (\<lambda>_.
     if dec = DENY then bindP (assert_fenced_ownership cm) (\<lambda>_. reject cm att job)
     else
       bindP (assert_fenced_ownership cm) (\<lambda>_.
       bindP (advance job RETRIEVING_INTERNAL_SOURCES) (\<lambda>job.
       bindP (advance job VALIDATING_SOURCES) (\<lambda>job.
       bindP (advance job EXECUTING_TOOLS) (\<lambda>job.
       bindP (run_steps sv cm att new_budget steps) (\<lambda>outs.
         report sv cm att job outs))))))))"

definition engine_body ::
  "services \<Rightarrow> breaker \<Rightarrow> claim \<Rightarrow> data_classification \<Rightarrow> uuid \<Rightarrow> nat \<Rightarrow> analysis_job \<Rightarrow> analysis_job handler" where
  "engine_body sv cb cm cls att n job =
     bindP (understand cm att job) (\<lambda>job.
     let pre = evaluate_model_transmission cls True in
     if pre = DENY then
       bindP (assert_fenced_ownership cm) (\<lambda>_.
       bindP (record_decision cm cls pre) (\<lambda>_. reject cm att job))
     else
       bindP (an_read (\<lambda>d. sv_normalize sv d (prompt_of job))) (\<lambda>out.
       if no_needs_clarification out then ask_user sv cm att n job out
       else
         bindP (plan_job sv cb cm att job out) (\<lambda>(job, steps).
           check_policy sv cm cls att job steps)))"

text \<open>The codes of \<open>OrchestrationException\<close> and its subclasses, the exceptions of the orchestration
  package with a \<open>code\<close> and a \<open>message\<close>.\<close>

definition orchestration_codes :: "string list" where
  "orchestration_codes =
     [''MODEL_PROVIDER_NOT_CONFIGURED'', ''MODEL_CAPABILITY_UNAVAILABLE'', ''MODEL_FAILOVER_PROHIBITED'',
      ''PROMPT_TEMPLATE_INTEGRITY_FAILED'', ''POLICY_DENIED'', ''ANALYSIS_PLAN_INVALID'', ''TOOL_NOT_ALLOWED'',
      ''TOOL_INPUT_INVALID'', ''ANALYSIS_BUDGET_EXCEEDED'', ''UNSUPPORTED_NUMERIC_CLAIM'', ''QUALITY_GATE_FAILED'',
      ''CLAIM_OWNERSHIP_LOST'', ''DATASET_NOT_FOUND'', ''TERMINAL_STATE_MUTATION_PROHIBITED'',
      ''INVALID_STATE_TRANSITION'']"

text \<open>\<open>getattr(exc, "code", ...)\<close>: the database exceptions have a \<open>code\<close> too, SQLAlchemy's key of their
  documentation page (None for a wrong number of rows), and no \<open>message\<close>.\<close>

definition error_code_of :: "py_exc \<Rightarrow> string \<times> string" where
  "error_code_of e = (let m = ''Analysis job execution failed.'' in case e of
       AppError c t \<Rightarrow> if c \<in> set orchestration_codes then (c, t) else (''ENGINE_EXECUTION_FAILED'', m)
     | IntegrityError \<Rightarrow> (''gkpj'', m)
     | DataError \<Rightarrow> (''9h9h'', m)
     | MultipleResultsFound \<Rightarrow> (''None'', m)
     | NoResultFound \<Rightarrow> (''None'', m)
     | _ \<Rightarrow> (''ENGINE_EXECUTION_FAILED'', m))"

text \<open>The failure transaction.\<close>

definition fail_job :: "claim \<Rightarrow> uuid \<Rightarrow> py_exc \<Rightarrow> unit handler" where
  "fail_job cm att e =
     bindP (assert_fenced_ownership cm) (\<lambda>_.
     bindP (an_read (\<lambda>d. raise_if (\<not> (\<exists>j \<in> set (d_jobs d). holds_claim cm j \<and> aj_status j \<notin> {COMPLETED, REJECTED_BY_POLICY}))
        (ownership_lost ''Fenced FAILED update affected 0 rows.''))) (\<lambda>_.
     bindP (an_write (put_job (\<lambda>j. j\<lparr>aj_status := FAILED, aj_lease := None\<rparr>) (cm_job cm))) (\<lambda>_.
     bindP (an_read (\<lambda>d. Inr (\<exists>a \<in> set (d_attempts d). aa_id a = att))) (\<lambda>known.
     bindP (set_attempt att ''FAILED'') (\<lambda>_.
     bindP (emit_event (cm_org cm) (cm_job cm) ''analysis.failed''
        (JObj [(''error_code'', JStr (fst (error_code_of e))), (''message'', JStr (snd (error_code_of e)))])
        (if known then Some att else None)) (\<lambda>_.
       an_commit))))))"

definition engine_recover :: "services \<Rightarrow> claim \<Rightarrow> uuid \<Rightarrow> py_exc \<Rightarrow> analysis_job handler" where
  "engine_recover sv cm att e =
     bindP an_rollback (\<lambda>_.
     if is_ownership_lost e then throwP e
     else
       bindP (an_others (sv_others sv 3)) (\<lambda>_.
       bindP (tryP (fail_job cm att e) (\<lambda>e'. if is_ownership_lost e' then an_rollback else throwP e')) (\<lambda>_.
         throwP e)))"

definition execute_job :: "services \<Rightarrow> breaker \<Rightarrow> data_classification \<Rightarrow> claim \<Rightarrow> analysis_job handler" where
  "execute_job sv cb cls cm =
     bindP (assert_fenced_ownership cm) (\<lambda>_.
     bindP (load_claimed_job cm) (\<lambda>job.
     bindP (open_attempt sv cm) (\<lambda>(att, n).
       tryP (engine_body sv cb cm cls att n job) (engine_recover sv cm att))))"

end
