(* ===== verification/AnalysisWorker.thy ===== *)
theory AnalysisWorker
  imports AnalysisEngine
begin

text \<open>
  The life of an analysis around the engine: creation and cancellation by the API
  (\<open>routers/analyses.py\<close>), the claim, recovery and lease functions the workers call (the SQL functions
  of migration 031), and \<open>analysis_worker.py\<close>. \<open>locked\<close> are the rows other transactions hold, which
  SKIP LOCKED passes over; a cancellation reads its row without a lock, so other sessions commit between
  its read and its update. The heartbeat's cancellation of a running engine is left out: a cancelled
  engine leaves what its last commit published.
\<close>

section \<open>Claims\<close>

definition worker_id_ok :: "string \<Rightarrow> bool" where
  "worker_id_ok w \<longleftrightarrow> \<not> (\<forall>c \<in> set w. c = CHR '' '') \<and> length w \<le> 100 \<and>
     (\<forall>c \<in> set w. 32 \<le> (of_char c :: nat) \<and> (of_char c :: nat) \<noteq> 127)"

definition lease_interval :: nat where
  "lease_interval = 15 * microseconds_per_minute"

definition unsafe_worker :: py_exc where
  "unsafe_worker = AppError ''CRITICAL_SECURITY_VIOLATION'' ''Invalid or unsafe worker ID''"

definition fresh_jobs :: "(uuid \<Rightarrow> bool) \<Rightarrow> analysis_db \<Rightarrow> analysis_job list" where
  "fresh_jobs locked d = filter (\<lambda>j. aj_status j = RECEIVED \<and> aj_token j = None \<and> aj_locked_by j = None \<and>
     aj_lease j = None \<and> \<not> locked (aj_id j)) (d_jobs d)"

definition stale_states :: "job_status list" where
  "stale_states = [RECEIVED, UNDERSTANDING_REQUEST, PLANNING, POLICY_CHECK, RETRIEVING_INTERNAL_SOURCES, VALIDATING_SOURCES]"

definition stale_jobs :: "(uuid \<Rightarrow> bool) \<Rightarrow> nat \<Rightarrow> analysis_db \<Rightarrow> analysis_job list" where
  "stale_jobs locked now d = filter (\<lambda>j. aj_status j \<in> set stale_states \<and> aj_token j \<noteq> None \<and>
     (case aj_lease j of None \<Rightarrow> False | Some t \<Rightarrow> t < now) \<and> aj_recovery_count j = 0 \<and> \<not> locked (aj_id j)) (d_jobs d)"

definition first_of :: "'a list \<Rightarrow> 'a option" where
  "first_of xs = (case xs of [] \<Rightarrow> None | x # _ \<Rightarrow> Some x)"

definition make_claim :: "analysis_job \<Rightarrow> uuid \<Rightarrow> string \<Rightarrow> claim" where
  "make_claim j token w = \<lparr>cm_org = aj_org j, cm_job = aj_id j, cm_token = token, cm_worker = w\<rparr>"

definition claim_next_analysis_job ::
  "(uuid \<Rightarrow> bool) \<Rightarrow> nat \<Rightarrow> uuid \<Rightarrow> string \<Rightarrow> claim option handler" where
  "claim_next_analysis_job locked now token w =
     bindP (assertP (worker_id_ok w) unsafe_worker) (\<lambda>_.
     bindP (an_read (\<lambda>d. Inr (first_of (sort_key aj_created (sort_key aj_id (fresh_jobs locked d)))))) (\<lambda>r. case r of
       None \<Rightarrow> retP None
     | Some j \<Rightarrow>
         bindP (an_write (put_job (\<lambda>j. j\<lparr>aj_status := RECEIVED, aj_locked_by := Some w, aj_token := Some token,
            aj_lease := Some (now + lease_interval)\<rparr>) (aj_id j))) (\<lambda>_.
           retP (Some (make_claim j token w)))))"

definition job_lease :: "analysis_job \<Rightarrow> nat" where
  "job_lease j = (case aj_lease j of None \<Rightarrow> 0 | Some t \<Rightarrow> t)"

definition abandon_attempts :: "uuid \<Rightarrow> analysis_db \<Rightarrow> analysis_db" where
  "abandon_attempts i d = d\<lparr>d_attempts := map (\<lambda>a. if aa_job a = i \<and> aa_status a = ''RUNNING''
     then a\<lparr>aa_status := ''ABANDONED''\<rparr> else a) (d_attempts d)\<rparr>"

definition recover_next_stale_analysis_job ::
  "(uuid \<Rightarrow> bool) \<Rightarrow> nat \<Rightarrow> uuid \<Rightarrow> string \<Rightarrow> claim option handler" where
  "recover_next_stale_analysis_job locked now token w =
     bindP (assertP (worker_id_ok w) unsafe_worker) (\<lambda>_.
     bindP (an_read (\<lambda>d. Inr (first_of (sort_key job_lease (sort_key aj_created (sort_key aj_id (stale_jobs locked now d))))))) (\<lambda>r. case r of
       None \<Rightarrow> retP None
     | Some j \<Rightarrow>
         bindP (an_write (abandon_attempts (aj_id j))) (\<lambda>_.
         bindP (an_write (put_job (\<lambda>j. j\<lparr>aj_status := RECEIVED, aj_locked_by := Some w, aj_token := Some token,
            aj_lease := Some (now + lease_interval), aj_recovery_count := aj_recovery_count j + 1\<rparr>) (aj_id j))) (\<lambda>_.
           retP (Some (make_claim j token w))))))"

definition holds_lease :: "uuid \<Rightarrow> uuid \<Rightarrow> string \<Rightarrow> analysis_job \<Rightarrow> bool" where
  "holds_lease i token w j \<longleftrightarrow> aj_id j = i \<and> aj_token j = Some token \<and> aj_locked_by j = Some w \<and>
     aj_status j \<in> set running_states"

definition renew_analysis_job_lease :: "nat \<Rightarrow> uuid \<Rightarrow> uuid \<Rightarrow> string \<Rightarrow> bool handler" where
  "renew_analysis_job_lease now i token w =
     (if \<not> worker_id_ok w then retP False
      else
        bindP (an_read (\<lambda>d. Inr (\<exists>j \<in> set (d_jobs d). holds_lease i token w j))) (\<lambda>found.
        bindP (an_write (\<lambda>d. d\<lparr>d_jobs := map (\<lambda>j. if holds_lease i token w j
           then j\<lparr>aj_lease := Some (now + lease_interval)\<rparr> else j) (d_jobs d)\<rparr>)) (\<lambda>_.
          retP found)))"

section \<open>The API\<close>

record analysis_create_request =
  cq_prompt :: string
  cq_idempotency_key :: "string option"
  cq_documents :: "uuid list option"

definition analysis_create_ok :: "analysis_create_request \<Rightarrow> bool" where
  "analysis_create_ok q \<longleftrightarrow> 3 \<le> length (cq_prompt q) \<and> length (cq_prompt q) \<le> 2000 \<and>
     (case cq_idempotency_key q of None \<Rightarrow> True | Some k \<Rightarrow> length k \<le> 128)"

text \<open>\<open>list(dict.fromkeys(ids))\<close>.\<close>

definition dedup :: "'a list \<Rightarrow> 'a list" where
  "dedup xs = rev (remdups (rev xs))"

definition document_scope :: "uuid \<Rightarrow> uuid list option \<Rightarrow> analysis_db \<Rightarrow> py_exc + json" where
  "document_scope org docs d = (case docs of
     None \<Rightarrow> Inr (JObj [])
   | Some ids \<Rightarrow>
       if ids = [] then Inr (JObj [])
       else if length (filter (\<lambda>(i, o', st). o' = org \<and> i \<in> set ids \<and> st = ''ACTIVE'') (d_documents d)) \<noteq> length (dedup ids)
       then Inl (HTTPError 404 ''One or more selected documents are invalid, unauthorized, or deleted.'')
       else Inr (JObj [(''DOCUMENT_SCOPE'', JList (map (JStr \<circ> uuid_str) (dedup ids)))]))"

definition insert_job :: "analysis_job \<Rightarrow> unit handler" where
  "insert_job j =
     bindP (an_read (\<lambda>d. raise_if (aj_id j \<in> aj_id ` set (d_jobs d) \<or>
        (aj_idempotency_key j \<noteq> None \<and> (\<exists>k \<in> set (d_jobs d). aj_org k = aj_org j \<and> aj_idempotency_key k = aj_idempotency_key j)))
        IntegrityError)) (\<lambda>_.
       an_write (\<lambda>d. d\<lparr>d_jobs := d_jobs d @ [j]\<rparr>))"

definition effective_key :: "analysis_create_request \<Rightarrow> string option \<Rightarrow> string option" where
  "effective_key q header = (if falsy_str (cq_idempotency_key q) then header else cq_idempotency_key q)"

definition create_analysis ::
  "uuid \<Rightarrow> uuid \<Rightarrow> nat \<Rightarrow> uuid \<Rightarrow> analysis_create_request \<Rightarrow> string option \<Rightarrow> analysis_job handler" where
  "create_analysis org user now new_id q header =
     bindP (assertP (analysis_create_ok q) (HTTPError 422 ''VALIDATION_ERROR'')) (\<lambda>_.
     let key = effective_key q header in
     bindP (if falsy_str key then retP None
            else an_read (\<lambda>d. scalar_one_or_none (filter (\<lambda>j. aj_org j = org \<and> aj_idempotency_key j = key) (d_jobs d)))) (\<lambda>known.
     case known of
       Some j \<Rightarrow> retP j
     | None \<Rightarrow>
         bindP (an_read (document_scope org (cq_documents q))) (\<lambda>scope.
         let j = \<lparr>aj_id = new_id, aj_org = org, aj_user = user, aj_status = RECEIVED, aj_prompt = cq_prompt q,
            aj_normalized = scope, aj_locked_by = None, aj_lease = None, aj_idempotency_key = key, aj_token = None,
            aj_recovery_count = 0, aj_created = now\<rparr> in
         bindP (insert_job j) (\<lambda>_. bindP an_commit (\<lambda>_. retP j)))))"

text \<open>The row is read without a lock: between the check of its status and the update of the row by its
  id, \<open>f\<close> is what other sessions commit.\<close>

definition cancel_analysis :: "(analysis_db \<Rightarrow> analysis_db) \<Rightarrow> uuid \<Rightarrow> uuid \<Rightarrow> uuid \<Rightarrow> analysis_job handler" where
  "cancel_analysis f org user i =
     bindP (the_job org i) (\<lambda>job.
     bindP (assertP (aj_user job = user) (HTTPError 403 ''FORBIDDEN_MUTATION'')) (\<lambda>_.
     bindP (liftP (validate_transition (aj_status job) CANCELLED)) (\<lambda>_.
     bindP (an_others f) (\<lambda>_.
     bindP (write_status (aj_id job) CANCELLED) (\<lambda>_.
     bindP an_commit (\<lambda>_. retP (job\<lparr>aj_status := CANCELLED\<rparr>)))))))"

text \<open>\<open>stream_analysis_events\<close>: the events after \<open>Last-Event-ID\<close>, framed for the client.\<close>

text \<open>\<open>str.isdigit\<close> also accepts the superscript digits of Latin-1, which \<open>int\<close> refuses.\<close>

definition str_isdigit :: "string \<Rightarrow> bool" where
  "str_isdigit s \<longleftrightarrow> s \<noteq> [] \<and> (\<forall>c \<in> set s. is_digit c \<or> c \<in> {CHR 0xB2, CHR 0xB3, CHR 0xB9})"

definition last_event_sequence :: "string option \<Rightarrow> py_exc + nat" where
  "last_event_sequence header = (case header of None \<Rightarrow> Inr 0
   | Some s \<Rightarrow> if \<not> str_isdigit s then Inr 0
       else if \<forall>c \<in> set s. is_digit c then Inr (digits_value s)
       else Inl (ValueError ''invalid literal for int()''))"

definition newline :: string where
  "newline = [CHR 0x0A]"

definition event_frame :: "analysis_event \<Rightarrow> string" where
  "event_frame e = ''event: '' @ ev_type e @ newline @ ''id: '' @ nat_str (ev_sequence e) @ newline @
     ''data: '' @ jprint (ev_payload e) @ newline @ newline"

definition stream_analysis_events :: "uuid \<Rightarrow> uuid \<Rightarrow> string option \<Rightarrow> string list handler" where
  "stream_analysis_events org i header =
     bindP (the_job org i) (\<lambda>_.
     bindP (liftP (last_event_sequence header)) (\<lambda>n.
       an_read (\<lambda>d. Inr (map event_frame (replay_events org i n d)))))"

section \<open>The worker\<close>

text \<open>A new session: nothing uncommitted, and what the others have committed meanwhile.\<close>

definition new_session :: "services \<Rightarrow> nat \<Rightarrow> unit handler" where
  "new_session sv i = an_others (sv_others sv i)"

definition process_analysis_job :: "services \<Rightarrow> breaker \<Rightarrow> claim \<Rightarrow> bool handler" where
  "process_analysis_job sv cb cm =
     bindP (new_session sv 6) (\<lambda>_.
     tryP (bindP (execute_job sv cb PUBLIC cm) (\<lambda>_. retP True)) (\<lambda>_. retP False))"

definition run_once :: "services \<Rightarrow> breaker \<Rightarrow> (uuid \<Rightarrow> bool) \<Rightarrow> string \<Rightarrow> bool handler" where
  "run_once sv cb locked w =
     bindP (new_session sv 4) (\<lambda>_.
     bindP (claim_next_analysis_job locked (sv_now sv) (sv_uuid sv ''token'') w) (\<lambda>claimed.
     bindP an_commit (\<lambda>_.
     bindP (case claimed of Some _ \<Rightarrow> retP claimed
       | None \<Rightarrow>
           bindP (new_session sv 5) (\<lambda>_.
           bindP (recover_next_stale_analysis_job locked (sv_now sv) (sv_uuid sv ''token'') w) (\<lambda>r.
           bindP an_commit (\<lambda>_. retP r)))) (\<lambda>claimed.
     case claimed of None \<Rightarrow> retP False | Some cm \<Rightarrow> process_analysis_job sv cb cm))))"

end
