(* ===== verification/AnalysisSteps.thy ===== *)
theory AnalysisSteps
  imports AnalysisWorker
begin

text \<open>
  The analysis tables as a transition system: \<open>an_change\<close> lists the atomic changes any handler makes,
  \<open>analysis_ok\<close> is the invariant they keep, and \<open>runs\<close> specifies a handler as a sequence of such
  changes, with what holds of the working tables before and after it. With \<open>rc\<close> (cancellations race with
  other sessions) a late cancellation may also overwrite a final status. The engine, the worker, the
  clarification service and the API are then shown to make no other changes.
\<close>

section \<open>Changes\<close>

definition job_in :: "analysis_db \<Rightarrow> uuid \<Rightarrow> (analysis_job \<Rightarrow> bool) \<Rightarrow> bool" where
  "job_in d i p \<longleftrightarrow> (\<exists>j \<in> set (d_jobs d). aj_id j = i \<and> p j)"

abbreviation running :: "analysis_job \<Rightarrow> bool" where
  "running j \<equiv> aj_status j \<in> set running_states"

abbreviation active :: "analysis_job \<Rightarrow> bool" where
  "active j \<equiv> aj_status j \<notin> set terminal_states \<and> aj_status j \<noteq> NEEDS_CLARIFICATION"

abbreviation claimed :: "analysis_job \<Rightarrow> bool" where
  "claimed j \<equiv> aj_token j \<noteq> None"

definition open_for :: "analysis_db \<Rightarrow> uuid \<Rightarrow> clarification list" where
  "open_for d i = filter (\<lambda>c. ac_job c = i \<and> ac_status c = ''AWAITING_CLARIFICATION'') (d_clarifications d)"

text \<open>
  The atomic changes of the tables that any handler makes: a transaction is a sequence of them. The
  parameter \<open>rc\<close> says whether cancellations may race with other sessions: the cancel endpoint
  checks the status it has read without a lock and then updates the row by its id, so in a race it
  overwrites whatever status the row has by then.
\<close>

inductive an_change :: "bool \<Rightarrow> analysis_db \<Rightarrow> analysis_db \<Rightarrow> bool" for rc :: bool where
  rows: "d_jobs d' = d_jobs d \<Longrightarrow> d_clarifications d' = d_clarifications d \<Longrightarrow> d_events d' = d_events d \<Longrightarrow>
    d_snapshots d' = d_snapshots d \<Longrightarrow> an_change rc d d'"
| emit: "emit_row org job t p a d = Inr d' \<Longrightarrow> an_change rc d d'"
| create: "aj_id j \<notin> aj_id ` set (d_jobs d) \<Longrightarrow> aj_status j = RECEIVED \<Longrightarrow> aj_token j = None \<Longrightarrow>
    aj_recovery_count j = 0 \<Longrightarrow> an_change rc d (d\<lparr>d_jobs := d_jobs d @ [j]\<rparr>)"
| advance: "job_in d i (\<lambda>j. active j \<and> (claimed j \<or> st = CANCELLED)) \<Longrightarrow>
    an_change rc d (put_job (\<lambda>j. j\<lparr>aj_status := st\<rparr>) i d)"
| close: "job_in d i (\<lambda>j. active j \<and> claimed j) \<Longrightarrow>
    an_change rc d (put_job (\<lambda>j. j\<lparr>aj_status := st, aj_lease := None\<rparr>) i d)"
| details: "(\<And>j. aj_id (f j) = aj_id j \<and> aj_status (f j) = aj_status j \<and> aj_token (f j) = aj_token j \<and>
      aj_recovery_count (f j) = aj_recovery_count j) \<Longrightarrow> an_change rc d (d\<lparr>d_jobs := map f (d_jobs d)\<rparr>)"
| ask: "job_in d (ac_job c) (\<lambda>j. aj_status j = NEEDS_CLARIFICATION) \<Longrightarrow> open_for d (ac_job c) = [] \<Longrightarrow>
    an_change rc d (d\<lparr>d_clarifications := d_clarifications d @ [c]\<rparr>)"
| resume: "job_in d i (\<lambda>j. aj_status j = NEEDS_CLARIFICATION) \<Longrightarrow> open_for d i = [] \<Longrightarrow>
    an_change rc d (put_job (\<lambda>j. j\<lparr>aj_status := UNDERSTANDING_REQUEST\<rparr>) i d)"
| end_pause: "job_in d i (\<lambda>j. aj_status j = NEEDS_CLARIFICATION) \<Longrightarrow> st \<in> set terminal_states \<Longrightarrow>
    an_change rc d (put_job (\<lambda>j. j\<lparr>aj_status := st\<rparr>) i d)"
| close_clarification: "(\<And>c. ac_id (f c) = ac_id c \<and> ac_job (f c) = ac_job c \<and> ac_status (f c) \<noteq> ''AWAITING_CLARIFICATION'') \<Longrightarrow>
    an_change rc d (put_clarification f i d)"
| claim: "job_in d i (\<lambda>j. aj_status j = RECEIVED \<and> \<not> claimed j) \<Longrightarrow>
    an_change rc d (put_job (\<lambda>j. j\<lparr>aj_status := RECEIVED, aj_locked_by := Some w, aj_token := Some token,
      aj_lease := Some l\<rparr>) i d)"
| recover: "job_in d i (\<lambda>j. aj_status j \<in> set stale_states \<and> claimed j \<and> aj_recovery_count j = 0) \<Longrightarrow>
    an_change rc d (put_job (\<lambda>j. j\<lparr>aj_status := RECEIVED, aj_locked_by := Some w, aj_token := Some token,
      aj_lease := Some l, aj_recovery_count := aj_recovery_count j + 1\<rparr>) i d)"
| snapshot: "job_in d (rs_job row) (\<lambda>j. aj_status j = COMPLETED) \<Longrightarrow>
    an_change rc d (d\<lparr>d_snapshots := d_snapshots d @ [row]\<rparr>)"
| overwrite: "rc \<Longrightarrow> an_change rc d (put_job (\<lambda>j. j\<lparr>aj_status := CANCELLED\<rparr>) i d)"

abbreviation an_changes :: "bool \<Rightarrow> analysis_db \<Rightarrow> analysis_db \<Rightarrow> bool" where
  "an_changes rc \<equiv> rtranclp (an_change rc)"

section \<open>The invariant\<close>

definition job_ok :: "bool \<Rightarrow> analysis_db \<Rightarrow> analysis_job \<Rightarrow> bool" where
  "job_ok rc d j \<longleftrightarrow> aj_recovery_count j \<le> 1 \<and> (aj_status j \<in> {RECEIVED, CANCELLED} \<or> claimed j) \<and>
     length (open_for d (aj_id j)) \<le> 1 \<and>
     (open_for d (aj_id j) \<noteq> [] \<longrightarrow> aj_status j = NEEDS_CLARIFICATION \<or> aj_status j \<in> set terminal_states) \<and>
     ((\<exists>q \<in> set (d_snapshots d). rs_job q = aj_id j) \<longrightarrow> aj_status j = COMPLETED \<or> rc \<and> aj_status j = CANCELLED)"

definition analysis_ok :: "bool \<Rightarrow> analysis_db \<Rightarrow> bool" where
  "analysis_ok rc d \<longleftrightarrow> events_numbered d \<and> distinct (map aj_id (d_jobs d)) \<and> (\<forall>j \<in> set (d_jobs d). job_ok rc d j) \<and>
     (\<forall>c \<in> set (d_clarifications d). ac_job c \<in> aj_id ` set (d_jobs d)) \<and>
     (\<forall>q \<in> set (d_snapshots d). rs_job q \<in> aj_id ` set (d_jobs d))"

lemma put_job_simps [simp]:
  "d_clarifications (put_job f i d) = d_clarifications d" "d_events (put_job f i d) = d_events d"
  "d_snapshots (put_job f i d) = d_snapshots d" "open_for (put_job f i d) k = open_for d k"
  "job_events (put_job f i d) org job = job_events d org job"
  by (simp_all add: put_job_def open_for_def job_events_def)

lemma put_clarification_simps [simp]:
  "d_jobs (put_clarification g i d) = d_jobs d" "d_events (put_clarification g i d) = d_events d"
  "d_snapshots (put_clarification g i d) = d_snapshots d"
  "job_events (put_clarification g i d) org job = job_events d org job"
  by (simp_all add: put_clarification_def job_events_def)

lemma ids_put_job: "(\<And>j. aj_id (f j) = aj_id j) \<Longrightarrow> map aj_id (d_jobs (put_job f i d)) = map aj_id (d_jobs d)"
  by (simp add: put_job_def)

lemma job_unique: "distinct (map aj_id (d_jobs d)) \<Longrightarrow> j \<in> set (d_jobs d) \<Longrightarrow> k \<in> set (d_jobs d) \<Longrightarrow> aj_id j = aj_id k \<Longrightarrow> j = k"
  by (metis distinct_map inj_onD)

lemma events_numbered_cong: "d_events d = d_events d' \<Longrightarrow> events_numbered d = events_numbered d'"
  by (simp add: events_numbered_def job_events_def)

text \<open>Changing one job keeps the invariant when the changed job keeps its own part.\<close>

lemma put_job_ok:
  assumes ok: "analysis_ok rc d" and id: "\<And>j. aj_id (f j) = aj_id j"
    and step: "\<And>j. j \<in> set (d_jobs d) \<Longrightarrow> aj_id j = i \<Longrightarrow> job_ok rc d j \<Longrightarrow> job_ok rc d (f j)"
  shows "analysis_ok rc (put_job f i d)"
proof -
  have jk: "job_ok rc (put_job f i d) k = job_ok rc d k" for k by (simp add: job_ok_def)
  have "\<forall>k \<in> set (d_jobs (put_job f i d)). job_ok rc d k"
    using ok step by (auto simp: put_job_def analysis_ok_def)
  moreover have "aj_id ` set (d_jobs (put_job f i d)) = aj_id ` set (d_jobs d)"
    by (metis id ids_put_job set_map)
  ultimately show ?thesis using ok
    by (simp add: analysis_ok_def jk ids_put_job [OF id] events_numbered_def)
qed

lemma job_inE:
  assumes "job_in d i p" "analysis_ok rc d" "j \<in> set (d_jobs d)" "aj_id j = i"
  shows "p j"
  using assms job_unique unfolding job_in_def analysis_ok_def by blast

lemma running_active: "running j \<Longrightarrow> active j"
  by (auto simp: running_states_def terminal_states_def)

lemma stale_active: "aj_status j \<in> set stale_states \<Longrightarrow> active j"
  by (auto simp: stale_states_def terminal_states_def)

lemma active_free: "job_ok rc d j \<Longrightarrow> active j \<Longrightarrow> open_for d (aj_id j) = [] \<and> (\<forall>q \<in> set (d_snapshots d). rs_job q \<noteq> aj_id j)"
  by (auto simp: job_ok_def terminal_states_def)

lemma put_job_step:
  assumes "analysis_ok rc d" "job_in d i p" "\<And>j. aj_id (f j) = aj_id j"
    and "\<And>j. p j \<Longrightarrow> job_ok rc d j \<Longrightarrow> job_ok rc d (f j)"
  shows "analysis_ok rc (put_job f i d)"
  using assms by (intro put_job_ok) (auto dest: job_inE)

lemma open_for_close:
  "(\<And>c. ac_id (g c) = ac_id c \<and> ac_job (g c) = ac_job c \<and> ac_status (g c) \<noteq> ''AWAITING_CLARIFICATION'') \<Longrightarrow>
    set (open_for (put_clarification g i d) k) \<subseteq> set (open_for d k) \<and>
    length (open_for (put_clarification g i d) k) \<le> length (open_for d k)"
proof -
  assume g: "\<And>c. ac_id (g c) = ac_id c \<and> ac_job (g c) = ac_job c \<and> ac_status (g c) \<noteq> ''AWAITING_CLARIFICATION''"
  have "filter (\<lambda>c. ac_job c = k \<and> ac_status c = ''AWAITING_CLARIFICATION'') (map (\<lambda>c. if ac_id c = i then g c else c) cs) =
      filter (\<lambda>c. ac_job c = k \<and> ac_status c = ''AWAITING_CLARIFICATION'' \<and> ac_id c \<noteq> i) cs" for cs
    using g by (induction cs) auto
  then have e: "open_for (put_clarification g i d) k = filter (\<lambda>c. ac_id c \<noteq> i) (open_for d k)"
    by (simp add: open_for_def put_clarification_def conj_ac)
  show ?thesis unfolding e by (simp add: length_filter_le)
qed

lemma close_clarification_ok:
  assumes ok: "analysis_ok rc d"
    and g: "\<And>c. ac_id (g c) = ac_id c \<and> ac_job (g c) = ac_job c \<and> ac_status (g c) \<noteq> ''AWAITING_CLARIFICATION''"
  shows "analysis_ok rc (put_clarification g i d)"
proof -
  have "job_ok rc (put_clarification g i d) j" if "job_ok rc d j" for j
    using that open_for_close [OF g, of i d "aj_id j"] by (auto simp: job_ok_def)
  moreover have "\<forall>c \<in> set (d_clarifications (put_clarification g i d)). ac_job c \<in> aj_id ` set (d_jobs d)"
    using ok g by (auto simp: put_clarification_def analysis_ok_def)
  ultimately show ?thesis using ok by (simp add: analysis_ok_def events_numbered_def)
qed

lemma create_ok:
  assumes ok: "analysis_ok rc d" and j: "aj_id j \<notin> aj_id ` set (d_jobs d)" "aj_status j = RECEIVED" "aj_token j = None" "aj_recovery_count j = 0"
  shows "analysis_ok rc (d\<lparr>d_jobs := d_jobs d @ [j]\<rparr>)"
proof -
  have jk: "job_ok rc (d\<lparr>d_jobs := d_jobs d @ [j]\<rparr>) k = job_ok rc d k" for k by (simp add: job_ok_def open_for_def)
  have "\<forall>c \<in> set (d_clarifications d). ac_job c \<noteq> aj_id j" using ok j(1) by (metis analysis_ok_def)
  then have "open_for d (aj_id j) = []" by (auto simp: open_for_def filter_empty_conv)
  moreover have "\<forall>q \<in> set (d_snapshots d). rs_job q \<noteq> aj_id j" using ok j(1) by (metis analysis_ok_def)
  ultimately have "job_ok rc d j" using j by (auto simp: job_ok_def)
  then show ?thesis using ok j(1) by (auto simp: analysis_ok_def jk events_numbered_def job_events_def)
qed

lemma ask_ok:
  assumes ok: "analysis_ok rc d" and i: "job_in d (ac_job c) (\<lambda>j. aj_status j = NEEDS_CLARIFICATION)" and free: "open_for d (ac_job c) = []"
  shows "analysis_ok rc (d\<lparr>d_clarifications := d_clarifications d @ [c]\<rparr>)"
proof -
  let ?d = "d\<lparr>d_clarifications := d_clarifications d @ [c]\<rparr>"
  have open_: "open_for ?d k = open_for d k @ (if k = ac_job c \<and> ac_status c = ''AWAITING_CLARIFICATION'' then [c] else [])" for k
    by (simp add: open_for_def)
  have "job_ok rc ?d j" if "j \<in> set (d_jobs d)" for j
  proof (cases "aj_id j = ac_job c")
    case True
    with job_inE [OF i ok that True] ok that free show ?thesis
      by (auto simp: job_ok_def open_ analysis_ok_def)
  next
    case False
    with ok that show ?thesis by (auto simp: job_ok_def open_ analysis_ok_def)
  qed
  moreover have "ac_job c \<in> aj_id ` set (d_jobs d)" using i unfolding job_in_def by (metis image_eqI)
  moreover have "events_numbered ?d = events_numbered d" by (rule events_numbered_cong) simp
  ultimately show ?thesis using ok by (simp add: analysis_ok_def)
qed

text \<open>Every atomic change keeps the invariant.\<close>

lemma put_job_terminal:
  "job_ok rc d j \<Longrightarrow> st \<in> set terminal_states \<Longrightarrow> claimed j \<or> st = CANCELLED \<Longrightarrow>
    \<forall>q \<in> set (d_snapshots d). rs_job q \<noteq> aj_id j \<Longrightarrow> job_ok rc d (j\<lparr>aj_status := st\<rparr>)"
  by (auto simp: job_ok_def)

lemma advance_ok:
  assumes "analysis_ok rc d" "job_in d i (\<lambda>j. active j \<and> (claimed j \<or> st = CANCELLED))"
    and "\<And>j. aj_id (f j) = aj_id j \<and> aj_status (f j) = st \<and> aj_token (f j) = aj_token j \<and> aj_recovery_count (f j) = aj_recovery_count j"
  shows "analysis_ok rc (put_job f i d)"
proof (rule put_job_step [OF assms(1,2)])
  fix j
  assume a: "active j \<and> (claimed j \<or> st = CANCELLED)" and k: "job_ok rc d j"
  from active_free [OF k] a have "open_for d (aj_id j) = []" "\<forall>q \<in> set (d_snapshots d). rs_job q \<noteq> aj_id j" by blast+
  with a k assms(3) [of j] show "job_ok rc d (f j)" by (auto simp: job_ok_def)
qed (simp add: assms(3))

lemma unpause_ok:
  assumes "analysis_ok rc d" "job_in d i (\<lambda>j. aj_status j = NEEDS_CLARIFICATION)" "st \<in> set terminal_states \<or> open_for d i = []"
  shows "analysis_ok rc (put_job (\<lambda>j. j\<lparr>aj_status := st\<rparr>) i d)"
proof (rule put_job_step [OF assms(1)])
  show "job_in d i (\<lambda>j. aj_status j = NEEDS_CLARIFICATION \<and> aj_id j = i)"
    using assms(2) by (auto simp: job_in_def)
  fix j
  assume "aj_status j = NEEDS_CLARIFICATION \<and> aj_id j = i" "job_ok rc d j"
  with assms(3) show "job_ok rc d (j\<lparr>aj_status := st\<rparr>)" by (auto simp: job_ok_def)
qed simp

lemma claim_ok:
  assumes "analysis_ok rc d" "job_in d i p" "\<And>j. p j \<Longrightarrow> active j"
    and id: "\<And>j. aj_id (f j) = aj_id j"
    and f: "\<And>j. p j \<Longrightarrow> aj_status (f j) = RECEIVED \<and> (aj_recovery_count (f j) = aj_recovery_count j \<or> aj_recovery_count (f j) = 1)"
  shows "analysis_ok rc (put_job f i d)"
proof (rule put_job_step [OF assms(1,2)])
  fix j
  assume p: "p j" and k: "job_ok rc d j"
  from active_free [OF k assms(3) [OF p]] have "open_for d (aj_id j) = []" "\<forall>q \<in> set (d_snapshots d). rs_job q \<noteq> aj_id j" by blast+
  with k f [OF p] show "job_ok rc d (f j)" by (auto simp: job_ok_def id)
qed (simp add: id)

lemma snapshot_ok:
  assumes ok: "analysis_ok rc d" and i: "job_in d (rs_job q) (\<lambda>j. aj_status j = COMPLETED)"
  shows "analysis_ok rc (d\<lparr>d_snapshots := d_snapshots d @ [q]\<rparr>)"
proof -
  let ?d = "d\<lparr>d_snapshots := d_snapshots d @ [q]\<rparr>"
  have "job_ok rc ?d j" if "j \<in> set (d_jobs d)" for j
    using ok that job_inE [OF i ok that] by (auto simp: job_ok_def open_for_def analysis_ok_def)
  moreover have "rs_job q \<in> aj_id ` set (d_jobs d)" using i unfolding job_in_def by (metis image_eqI)
  moreover have "events_numbered ?d = events_numbered d" by (rule events_numbered_cong) simp
  ultimately show ?thesis using ok by (simp add: analysis_ok_def)
qed

lemma details_ok:
  assumes ok: "analysis_ok rc d" and f: "\<And>j. aj_id (f j) = aj_id j \<and> aj_status (f j) = aj_status j \<and> aj_token (f j) = aj_token j \<and>
      aj_recovery_count (f j) = aj_recovery_count j"
  shows "analysis_ok rc (d\<lparr>d_jobs := map f (d_jobs d)\<rparr>)"
proof -
  let ?d = "d\<lparr>d_jobs := map f (d_jobs d)\<rparr>"
  have "job_ok rc ?d (f j) = job_ok rc d j" for j using f [of j] by (simp add: job_ok_def open_for_def)
  moreover have "aj_id ` f ` X = aj_id ` X" for X using f by (auto simp: image_image)
  moreover have "aj_id \<circ> f = aj_id" using f by auto
  moreover have "events_numbered ?d = events_numbered d" by (rule events_numbered_cong) simp
  ultimately show ?thesis using ok by (simp add: analysis_ok_def)
qed

lemma rows_ok:
  assumes "analysis_ok rc d" "d_jobs d' = d_jobs d" "d_clarifications d' = d_clarifications d" "d_snapshots d' = d_snapshots d"
    and "events_numbered d \<Longrightarrow> events_numbered d'"
  shows "analysis_ok rc d'"
proof -
  have "job_ok rc d' = job_ok rc d" using assms(2-4) by (intro ext) (simp add: job_ok_def open_for_def)
  with assms show ?thesis by (simp add: analysis_ok_def)
qed

lemma emit_row_rows:
  "emit_row org job t p a d = Inr d' \<Longrightarrow>
    d_jobs d' = d_jobs d \<and> d_clarifications d' = d_clarifications d \<and> d_snapshots d' = d_snapshots d"
  by (auto simp: emit_row_def split: if_splits)

lemma an_change_ok: "an_change rc d d' \<Longrightarrow> analysis_ok rc d \<Longrightarrow> analysis_ok rc d'"
proof (induction rule: an_change.induct)
  case (rows d' d)
  then show ?case using events_numbered_cong [of d' d] by (auto intro: rows_ok [of rc d d'])
next
  case (emit org job t p a d d')
  then show ?case using emit_row_rows [OF emit(1)] emit_row_numbered [OF _ emit(1)] by (auto intro: rows_ok [of rc d d'])
next
  case (create j d)
  then show ?case by (intro create_ok)
next
  case (advance d i st)
  then show ?case by (intro advance_ok) auto
next
  case (close d i st)
  then show ?case by (intro advance_ok [where st = st]) (auto simp: job_in_def)
next
  case (details f d)
  then show ?case by (intro details_ok)
next
  case (ask d c)
  then show ?case by (intro ask_ok)
next
  case (resume d i)
  then show ?case by (intro unpause_ok) auto
next
  case (end_pause d i st)
  then show ?case by (intro unpause_ok) auto
next
  case (close_clarification f i d)
  then show ?case by (intro close_clarification_ok)
next
  case (claim d i w token l)
  then show ?case by (intro claim_ok [OF _ claim(1)]) (auto simp: terminal_states_def)
next
  case (recover d i w token l)
  then show ?case by (intro claim_ok [OF _ recover(1)]) (auto simp: stale_states_def terminal_states_def)
next
  case (snapshot d row)
  then show ?case by (intro snapshot_ok)
next
  case (overwrite d i)
  then show ?case by (intro put_job_ok) (auto simp: job_ok_def terminal_states_def)
qed

lemma an_changes_ok: "an_changes rc d d' \<Longrightarrow> analysis_ok rc d \<Longrightarrow> analysis_ok rc d'"
  by (induction rule: rtranclp_induct) (auto intro: an_change_ok)

text \<open>A final status stays (or is overwritten by a racing cancellation), no job is lost, and a job is
  recovered at most once.\<close>

definition final_kept :: "bool \<Rightarrow> analysis_db \<Rightarrow> analysis_db \<Rightarrow> bool" where
  "final_kept rc d d' \<longleftrightarrow> (\<forall>j \<in> set (d_jobs d). \<exists>j' \<in> set (d_jobs d'). aj_id j' = aj_id j \<and>
     aj_recovery_count j \<le> aj_recovery_count j' \<and>
     (aj_status j \<in> set terminal_states \<longrightarrow> aj_status j' = aj_status j \<or> rc \<and> aj_status j' = CANCELLED))"

lemma final_kept_same: "d_jobs d' = d_jobs d \<Longrightarrow> final_kept rc d d'"
  by (auto simp: final_kept_def)

lemma final_kept_put:
  assumes "analysis_ok rc d" "job_in d i p" "\<And>j. aj_id (f j) = aj_id j" "\<And>j. aj_recovery_count j \<le> aj_recovery_count (f j)"
    and "\<And>j. p j \<Longrightarrow> aj_status j \<notin> set terminal_states"
  shows "final_kept rc d (put_job f i d)"
  unfolding final_kept_def
proof
  fix j
  assume j: "j \<in> set (d_jobs d)"
  show "\<exists>j' \<in> set (d_jobs (put_job f i d)). aj_id j' = aj_id j \<and> aj_recovery_count j \<le> aj_recovery_count j' \<and>
     (aj_status j \<in> set terminal_states \<longrightarrow> aj_status j' = aj_status j \<or> rc \<and> aj_status j' = CANCELLED)"
  proof (cases "aj_id j = i")
    case True
    have "f j \<in> set (d_jobs (put_job f i d))" using j True by (auto simp: put_job_def)
    with True assms(3,4,5) job_inE [OF assms(2,1) j True] show ?thesis by blast
  next
    case False
    then have "j \<in> set (d_jobs (put_job f i d))" using j by (force simp: put_job_def)
    then show ?thesis by blast
  qed
qed

lemma final_kept_overwrite: "rc \<Longrightarrow> final_kept rc d (put_job (\<lambda>j. j\<lparr>aj_status := CANCELLED\<rparr>) i d)"
proof -
  assume rc
  have "\<exists>j' \<in> set (d_jobs (put_job (\<lambda>j. j\<lparr>aj_status := CANCELLED\<rparr>) i d)). aj_id j' = aj_id j \<and>
      aj_recovery_count j \<le> aj_recovery_count j' \<and>
      (aj_status j \<in> set terminal_states \<longrightarrow> aj_status j' = aj_status j \<or> rc \<and> aj_status j' = CANCELLED)"
    if "j \<in> set (d_jobs d)" for j
    using that \<open>rc\<close>
    by (intro bexI [of _ "if aj_id j = i then j\<lparr>aj_status := CANCELLED\<rparr> else j"]) (auto simp: put_job_def)
  then show "final_kept rc d (put_job (\<lambda>j. j\<lparr>aj_status := CANCELLED\<rparr>) i d)" by (simp add: final_kept_def)
qed

lemma an_change_final: "an_change rc d d' \<Longrightarrow> analysis_ok rc d \<Longrightarrow> final_kept rc d d'"
proof (induction rule: an_change.induct)
  case (emit org job t p a d d')
  then show ?case using emit_row_rows [OF emit(1)] by (simp add: final_kept_same)
next
  case (create j d)
  then show ?case by (auto simp: final_kept_def)
next
  case (advance d i st)
  then show ?case by (intro final_kept_put [OF _ advance(1)]) auto
next
  case (close d i st)
  then show ?case by (intro final_kept_put [OF _ close(1)]) auto
next
  case (details f d)
  then show ?case by (auto simp: final_kept_def)
next
  case (resume d i)
  then show ?case by (intro final_kept_put [OF _ resume(1)]) (auto simp: terminal_states_def)
next
  case (end_pause d i st)
  then show ?case by (intro final_kept_put [OF _ end_pause(1)]) (auto simp: terminal_states_def)
next
  case (claim d i w token l)
  then show ?case by (intro final_kept_put [OF _ claim(1)]) (auto simp: terminal_states_def)
next
  case (recover d i w token l)
  then show ?case by (intro final_kept_put [OF _ recover(1)]) (auto simp: stale_states_def terminal_states_def)
next
  case (overwrite d i)
  then show ?case by (intro final_kept_overwrite)
qed (simp_all add: final_kept_same)

lemma final_kept_trans: "final_kept rc d d' \<Longrightarrow> final_kept rc d' d'' \<Longrightarrow> final_kept rc d d''"
  unfolding final_kept_def by (fastforce simp: terminal_states_def dest: bspec intro: le_trans)

lemma an_changes_final: "an_changes rc d d' \<Longrightarrow> analysis_ok rc d \<Longrightarrow> final_kept rc d d'"
  by (induction rule: rtranclp_induct) (auto simp: final_kept_same intro: final_kept_trans an_change_final an_changes_ok)

section \<open>Handlers as changes\<close>

text \<open>Committed and working tables both come from \<open>d0\<close> by changes, and the working tables satisfy \<open>A\<close>.\<close>

definition evo :: "bool \<Rightarrow> analysis_db \<Rightarrow> (analysis_db \<Rightarrow> bool) \<Rightarrow> analysis_session \<Rightarrow> bool" where
  "evo rc d0 A s \<longleftrightarrow> analysis_ok rc d0 \<and> an_changes rc d0 (an_committed s) \<and> an_changes rc d0 (an_work s) \<and> A (an_work s)"

abbreviation runs :: "bool \<Rightarrow> analysis_db \<Rightarrow> (analysis_db \<Rightarrow> bool) \<Rightarrow> 'a handler \<Rightarrow> ('a \<Rightarrow> analysis_db \<Rightarrow> bool) \<Rightarrow> bool" where
  "runs rc d0 A m B \<equiv> triple (evo rc d0 A) m (\<lambda>x. evo rc d0 (B x)) (\<lambda>_. evo rc d0 (\<lambda>_. True))"

named_theorems run_intros "introduction rules of runs"

lemma evo_ok: "evo rc d0 A s \<Longrightarrow> analysis_ok rc (an_work s)"
  by (auto simp: evo_def intro: an_changes_ok)

lemma runs_bind: "runs rc d0 A m R \<Longrightarrow> (\<And>x. runs rc d0 (R x) (f x) B) \<Longrightarrow> runs rc d0 A (bindP m f) B"
  by (rule triple_bind)

lemma runs_weaken: "runs rc d0 A m B \<Longrightarrow> (\<And>d. A' d \<Longrightarrow> A d) \<Longrightarrow> (\<And>x d. B x d \<Longrightarrow> B' x d) \<Longrightarrow> runs rc d0 A' m B'"
  by (erule triple_conseq) (auto simp: evo_def)

lemma runs_ret [run_intros]: "(\<And>d. A d \<Longrightarrow> B x d) \<Longrightarrow> runs rc d0 A (retP x) B"
  by (intro triple_ret) (auto simp: evo_def)

lemma runs_throw [run_intros]: "runs rc d0 A (throwP e) B"
  by (intro triple_throw) (auto simp: evo_def)

lemma runs_lift [run_intros]: "(\<And>d x. A d \<Longrightarrow> r = Inr x \<Longrightarrow> B x d) \<Longrightarrow> runs rc d0 A (liftP r) B"
  by (intro triple_lift) (auto simp: evo_def)

lemma runs_assert [run_intros]: "(\<And>d. A d \<Longrightarrow> b \<Longrightarrow> B () d) \<Longrightarrow> runs rc d0 A (assertP b e) B"
  by (intro triple_assert) (auto simp: evo_def)

lemma runs_read [run_intros]: "(\<And>d x. A d \<Longrightarrow> analysis_ok rc d \<Longrightarrow> f d = Inr x \<Longrightarrow> B x d) \<Longrightarrow> runs rc d0 A (an_read f) B"
  unfolding an_read_def by (intro triple_query) (auto simp: evo_def intro: an_changes_ok)

lemma runs_write:
  "(\<And>d. A d \<Longrightarrow> analysis_ok rc d \<Longrightarrow> an_change rc d (f d) \<and> B () (f d)) \<Longrightarrow> runs rc d0 A (an_write f) B"
  unfolding an_write_def
  by (intro triple_modify) (auto simp: evo_def intro: an_changes_ok rtranclp.rtrancl_into_rtrancl)

lemma runs_rows [run_intros]:
  "(\<And>d. d_jobs (f d) = d_jobs d \<and> d_clarifications (f d) = d_clarifications d \<and> d_events (f d) = d_events d \<and>
      d_snapshots (f d) = d_snapshots d) \<Longrightarrow> (\<And>d. A d \<Longrightarrow> B () (f d)) \<Longrightarrow> runs rc d0 A (an_write f) B"
  by (intro runs_write) (auto intro: an_change.rows)

lemma runs_commit [run_intros]: "(\<And>d. A d \<Longrightarrow> B () d) \<Longrightarrow> runs rc d0 A an_commit B"
  unfolding an_commit_def by (intro triple_modify) (auto simp: evo_def)

lemma runs_rollback [run_intros]: "(\<And>d. B () d) \<Longrightarrow> runs rc d0 A an_rollback B"
  unfolding an_rollback_def by (intro triple_modify) (auto simp: evo_def)

lemma runs_others [run_intros]: "(\<And>d. an_changes rc d (f d)) \<Longrightarrow> (\<And>d. B () d) \<Longrightarrow> runs rc d0 A (an_others f) B"
  unfolding an_others_def by (intro triple_modify) (auto simp: evo_def intro: rtranclp_trans)

lemma runs_emit [run_intros]:
  "(\<And>d d'. A d \<Longrightarrow> d_jobs d' = d_jobs d \<Longrightarrow> d_clarifications d' = d_clarifications d \<Longrightarrow> B () d') \<Longrightarrow>
    runs rc d0 A (emit_event org job t p a) B"
  unfolding emit_event_def
  by (rule runs_bind [where R = "\<lambda>x d. A d \<and> emit_row org job t p a d = Inr x"])
    (auto intro!: runs_read runs_write an_change.emit dest: emit_row_rows)

lemma runs_try: "runs rc d0 A m B \<Longrightarrow> (\<And>e. runs rc d0 (\<lambda>_. True) (h e) B) \<Longrightarrow> runs rc d0 A (tryP m h) B"
  by (rule triple_try)

end
