(* ===== verification/AnalysisSafety.thy ===== *)
theory AnalysisSafety
  imports AnalysisSteps
begin

text \<open>
  Every handler of the analysis plane (engine, workers, clarification service, API) is a sequence of the
  atomic changes of \<open>AnalysisSteps\<close>, given that the other sessions are. So any sequence of
  operations keeps the invariant and the final statuses; the last section states this for the operations
  themselves, together with what claims and answers lead to.
\<close>

section \<open>The engine\<close>

definition mine :: "uuid \<Rightarrow> analysis_db \<Rightarrow> bool" where
  "mine i d \<longleftrightarrow> job_in d i (\<lambda>j. active j \<and> claimed j)"

lemma job_in_jobs: "d_jobs d' = d_jobs d \<Longrightarrow> job_in d' i p = job_in d i p"
  by (simp add: job_in_def)

lemma mine_jobs: "mine i d \<Longrightarrow> d_jobs d' = d_jobs d \<Longrightarrow> mine i d'"
  by (simp add: mine_def job_in_def)

lemma job_in_weaken: "job_in d i p \<Longrightarrow> (\<And>j. p j \<Longrightarrow> q j) \<Longrightarrow> job_in d i q"
  by (auto simp: job_in_def)

lemma job_in_put:
  "job_in d i p \<Longrightarrow> (\<And>j. aj_id (f j) = aj_id j) \<Longrightarrow> (\<And>j. p j \<Longrightarrow> q (f j)) \<Longrightarrow> job_in (put_job f i d) i q"
  unfolding job_in_def put_job_def by force

lemma fenced_mine: "fenced cm d \<Longrightarrow> mine (cm_job cm) d"
  unfolding fenced_def mine_def job_in_def holds_claim_def using running_active by fastforce

lemma runs_fence [run_intros]:
  "(\<And>d. A d \<Longrightarrow> mine (cm_job cm) d \<Longrightarrow> B () d) \<Longrightarrow> runs rc d0 A (assert_fenced_ownership cm) B"
  unfolding assert_fenced_ownership_def
  by (intro runs_read) (auto simp: raise_if_def intro: fenced_mine split: if_splits)

lemma runs_emit_mine [run_intros]:
  "(\<And>d d'. A d \<Longrightarrow> d_jobs d' = d_jobs d \<Longrightarrow> d_clarifications d' = d_clarifications d \<Longrightarrow> B () d') \<Longrightarrow> runs rc d0 A (emit cm t p att) B"
  unfolding emit_def by (rule runs_emit)

lemma runs_set_attempt [run_intros]:
  "(\<And>d d'. A d \<Longrightarrow> d_jobs d' = d_jobs d \<Longrightarrow> d_clarifications d' = d_clarifications d \<Longrightarrow> B () d') \<Longrightarrow> runs rc d0 A (set_attempt i st) B"
  unfolding set_attempt_def by (intro runs_rows) (auto simp: put_attempt_def)

lemma runs_decision [run_intros]:
  "(\<And>d d'. A d \<Longrightarrow> d_jobs d' = d_jobs d \<Longrightarrow> d_clarifications d' = d_clarifications d \<Longrightarrow> B () d') \<Longrightarrow> runs rc d0 A (record_decision cm c dec) B"
  unfolding record_decision_def by (intro runs_rows) auto

lemma mine_change:
  assumes "mine i d" "st \<notin> set terminal_states" "st \<noteq> NEEDS_CLARIFICATION"
  shows "mine i (put_job (\<lambda>j. j\<lparr>aj_status := st\<rparr>) i d)"
  unfolding mine_def by (rule job_in_put [OF assms(1) [unfolded mine_def]]) (use assms in auto)

lemma mine_advance: "mine i d \<Longrightarrow> an_change rc d (put_job (\<lambda>j. j\<lparr>aj_status := st\<rparr>) i d)"
  unfolding mine_def by (rule an_change.advance) (auto intro: job_in_weaken)

lemma mine_close: "mine i d \<Longrightarrow> an_change rc d (put_job (\<lambda>j. j\<lparr>aj_status := st, aj_lease := None\<rparr>) i d)"
  unfolding mine_def by (rule an_change.close)

lemma runs_advance:
  assumes "aj_id job = i" "new \<notin> set terminal_states" "new \<noteq> NEEDS_CLARIFICATION"
  shows "runs rc d0 (mine i) (advance job new) (\<lambda>job' d. mine i d \<and> aj_id job' = i)"
  unfolding advance_def write_status_def assms(1)
  by (rule runs_bind [where R = "\<lambda>_. mine i"], intro run_intros, assumption,
      rule runs_bind [where R = "\<lambda>_. mine i"])
    (use assms in \<open>auto intro!: run_intros runs_write intro: mine_advance mine_change\<close>)

lemma runs_pure: "(b \<Longrightarrow> runs rc d0 A m B) \<Longrightarrow> runs rc d0 (\<lambda>d. A d \<and> b) m B"
  by (cases b) (simp_all add: triple_def evo_def)

lemma runs_frame: "runs rc d0 A m B \<Longrightarrow> runs rc d0 (\<lambda>d. A d \<and> b) m (\<lambda>x d. B x d \<and> b)"
  by (rule runs_pure) simp

lemma runs_bind_inv: "runs rc d0 A m (\<lambda>_. A) \<Longrightarrow> (\<And>x. runs rc d0 A (f x) B) \<Longrightarrow> runs rc d0 A (bindP m f) B"
  by (rule runs_bind)

abbreviation own :: "uuid \<Rightarrow> analysis_job \<Rightarrow> analysis_db \<Rightarrow> bool" where
  "own i job d \<equiv> mine i d \<and> aj_id job = i"

lemma runs_own_advance:
  "new \<notin> set terminal_states \<Longrightarrow> new \<noteq> NEEDS_CLARIFICATION \<Longrightarrow> runs rc d0 (own i job) (advance job new) (\<lambda>job'. own i job')"
  by (rule runs_pure) (rule runs_advance)

lemmas own_steps = runs_bind [OF runs_own_advance] runs_bind_inv run_intros

lemma runs_understand:
  "runs rc d0 (\<lambda>_. aj_id job = cm_job cm) (understand cm att job) (\<lambda>job'. own (cm_job cm) job')"
  unfolding understand_def
  by (rule runs_bind [where R = "\<lambda>_. own (cm_job cm) job"], fastforce intro: run_intros)
    (intro own_steps, auto simp: terminal_states_def dest: mine_jobs)

lemma runs_close_job:
  "runs rc d0 (own i job) (close_job cm st job) (\<lambda>_ d. job_in d i (\<lambda>j. aj_status j = st))"
  unfolding close_job_def
  by (rule runs_pure, rule runs_bind [where R = "\<lambda>_ d. job_in d i (\<lambda>j. aj_status j = st)"])
    (auto intro!: run_intros runs_write mine_close simp: mine_def intro: job_in_put)

lemma runs_reject: "runs rc d0 (own i job) (reject cm att job) (\<lambda>_ _. True)"
  unfolding reject_def
  by (rule runs_bind [OF runs_close_job], rule runs_bind [where R = "\<lambda>_ _. True"])
    (intro runs_bind_inv run_intros | simp)+

lemma mine_free: "analysis_ok rc d \<Longrightarrow> mine i d \<Longrightarrow> open_for d i = []"
  unfolding mine_def job_in_def analysis_ok_def by (metis active_free)

lemma filter_eq_single: "filter p xs = [x] \<Longrightarrow> x \<in> set xs \<and> p x"
  by (auto simp: filter_eq_Cons_iff)

lemma runs_the_job [run_intros]:
  "(\<And>d j. A d \<Longrightarrow> j \<in> set (d_jobs d) \<Longrightarrow> aj_id j = i \<Longrightarrow> aj_org j = org \<Longrightarrow> B j d) \<Longrightarrow> runs rc d0 A (the_job org i) B"
  unfolding the_job_def
  by (rule runs_bind [where R = "\<lambda>r d. A d \<and> (\<forall>j. r = Some j \<longrightarrow> j \<in> set (d_jobs d) \<and> aj_id j = i \<and> aj_org j = org)"])
    (auto intro!: run_intros simp: find_own_job_def require_some_def scalar_one_or_none_Some dest!: filter_eq_single split: option.splits)

lemma runs_audit [run_intros]:
  "(\<And>d d'. A d \<Longrightarrow> d_jobs d' = d_jobs d \<Longrightarrow> d_clarifications d' = d_clarifications d \<Longrightarrow> B () d') \<Longrightarrow>
    runs rc d0 A (an_audit sha org t i u p) B"
  unfolding an_audit_def by (intro runs_rows) auto

lemma runs_require:
  "runs rc d0 (mine i) (require_clarification sha org user new_id now i code key n ttl) (\<lambda>_ _. True)"
  unfolding require_clarification_def write_status_def Let_def
  by (rule runs_bind_inv, fastforce intro: run_intros, rule runs_bind_inv, fastforce intro: run_intros,
      rule runs_bind [where R = "\<lambda>_ d. job_in d i (\<lambda>j. aj_status j = NEEDS_CLARIFICATION) \<and> open_for d i = []"],
      rule runs_write, fastforce intro: mine_advance mine_free job_in_put simp: mine_def,
      rule runs_bind [where R = "\<lambda>_ _. True"], rule runs_write, simp add: an_change.ask)
    (intro runs_bind_inv run_intros | simp)+

lemma runs_put_lease [run_intros]:
  "(\<And>d. B () d) \<Longrightarrow> runs rc d0 A (an_write (put_job (\<lambda>j. j\<lparr>aj_lease := l\<rparr>) i)) B"
  unfolding put_job_def by (rule runs_write) (auto intro!: an_change.details)

lemma runs_ask_user:
  assumes "\<And>i d. an_changes rc d (sv_others sv i d)"
  shows "runs rc d0 (own (cm_job cm) job) (ask_user sv cm att n job out) (\<lambda>_ _. True)"
  unfolding ask_user_def
  by (rule runs_bind_inv, fastforce intro: run_intros, rule runs_bind [OF runs_pure [OF runs_require]])
    (intro runs_bind_inv run_intros | simp add: assms)+

lemma details_put:
  assumes "\<And>j. aj_id (f j) = aj_id j \<and> aj_status (f j) = aj_status j \<and> aj_token (f j) = aj_token j \<and>
      aj_recovery_count (f j) = aj_recovery_count j"
  shows "an_change rc d (put_job f k d)" "mine i d \<Longrightarrow> mine i (put_job f k d)"
proof -
  show "an_change rc d (put_job f k d)" unfolding put_job_def using assms by (auto intro!: an_change.details)
  show "mine i (put_job f k d)" if "mine i d"
  proof -
    from that obtain j where "j \<in> set (d_jobs d)" "aj_id j = i" "active j" "claimed j" by (auto simp: mine_def job_in_def)
    moreover from this have "(if aj_id j = k then f j else j) \<in> set (d_jobs (put_job f k d))" by (auto simp: put_job_def)
    ultimately show ?thesis using assms [of j] unfolding mine_def job_in_def
      by (intro bexI [of _ "if aj_id j = k then f j else j"]) auto
  qed
qed

lemma runs_put_normalized:
  "runs rc d0 (mine i) (an_write (put_job (\<lambda>j. j\<lparr>aj_normalized := n\<rparr>) k)) (\<lambda>_. mine i)"
  by (rule runs_write) (auto intro: details_put)

lemma runs_plan_job:
  "runs rc d0 (own (cm_job cm) job) (plan_job sv cb cm att job out) (\<lambda>(job', _). own (cm_job cm) job')"
proof -
  let ?job = "job\<lparr>aj_normalized := request_json out\<rparr>"
  have a: "runs rc d0 (own (cm_job cm) job) (advance ?job PLANNING) (\<lambda>job'. own (cm_job cm) job')"
    using runs_own_advance [of PLANNING rc d0 "cm_job cm" ?job] by (simp add: terminal_states_def)
  show ?thesis unfolding plan_job_def
    by (rule runs_bind [OF runs_frame [OF runs_put_normalized]], rule runs_bind_inv, fastforce intro: run_intros,
        rule runs_bind_inv, fastforce intro: run_intros, rule runs_bind [OF a])
      (intro runs_bind_inv run_intros | auto intro: mine_jobs)+
qed

lemma runs_invoke_tool:
  assumes rely: "\<And>i d. an_changes rc d (sv_others sv i d)"
  shows "runs rc d0 (mine (cm_job cm)) (invoke_tool sv cm st) (\<lambda>_. mine (cm_job cm))"
  unfolding invoke_tool_def
  by (rule runs_bind_inv, fastforce intro: run_intros, rule runs_bind_inv, fastforce intro: run_intros,
      rule runs_bind [where R = "\<lambda>_ _. True"], fastforce intro: run_intros rely,
      rule runs_bind [where R = "\<lambda>_. mine (cm_job cm)"], fastforce intro: run_intros)
    (intro runs_bind_inv run_intros | auto intro: mine_jobs)+

lemma runs_option [run_intros]:
  "(x = None \<Longrightarrow> runs rc d0 A m B) \<Longrightarrow> (\<And>y. x = Some y \<Longrightarrow> runs rc d0 A (n y) B) \<Longrightarrow>
    runs rc d0 A (case x of None \<Rightarrow> m | Some y \<Rightarrow> n y) B"
  by (cases x) simp_all

lemma runs_run_step:
  assumes rely: "\<And>i d. an_changes rc d (sv_others sv i d)"
  shows "runs rc d0 (mine (cm_job cm)) (run_step sv cm att b st) (\<lambda>_. mine (cm_job cm))"
  unfolding run_step_def
  by (intro runs_bind_inv run_intros runs_invoke_tool [OF rely] | auto intro: mine_jobs)+

lemma runs_run_steps:
  assumes rely: "\<And>i d. an_changes rc d (sv_others sv i d)"
  shows "runs rc d0 (mine (cm_job cm)) (run_steps sv cm att b sts) (\<lambda>_. mine (cm_job cm))"
proof (induction sts arbitrary: b)
  case Nil
  then show ?case by (auto intro: run_intros)
next
  case (Cons st sts)
  show ?case unfolding run_steps.simps
    by (rule runs_bind [OF runs_run_step [OF rely]], rule triple_prod, rule runs_bind [OF Cons.IH]) (auto intro: run_intros)
qed

lemma runs_complete_job: "runs rc d0 (own (cm_job cm) job) (complete_job sv cm att job narrative i) (\<lambda>_ _. True)"
  unfolding complete_job_def
  by (rule runs_bind_inv, fastforce intro: run_intros, rule runs_bind_inv, fastforce intro: run_intros,
      rule runs_bind_inv, fastforce intro: run_intros, rule runs_bind [OF runs_close_job],
      rule runs_bind_inv, fastforce intro: run_intros simp: job_in_def,
      rule runs_bind [where R = "\<lambda>_ _. True"], rule runs_write, fastforce intro: an_change.snapshot)
    (intro runs_bind_inv run_intros | simp)+

lemma runs_store_gates [run_intros]:
  "(\<And>d d'. A d \<Longrightarrow> d_jobs d' = d_jobs d \<Longrightarrow> B () d') \<Longrightarrow> runs rc d0 A (store_gates cm gates) B"
  unfolding store_gates_def by (intro runs_rows) auto

lemma runs_report: "runs rc d0 (own (cm_job cm) job) (report sv cm att job outs) (\<lambda>_ _. True)"
  unfolding report_def Let_def
  by (intro runs_complete_job runs_store_gates own_steps | auto simp: terminal_states_def intro: mine_jobs)+

lemma runs_check_policy:
  assumes rely: "\<And>i d. an_changes rc d (sv_others sv i d)"
  shows "runs rc d0 (own (cm_job cm) job) (check_policy sv cm cls att job steps) (\<lambda>_ _. True)"
  unfolding check_policy_def Let_def
  by (intro triple_if runs_reject runs_report runs_bind [OF runs_frame [OF runs_run_steps [OF rely]]] own_steps
     | auto simp: terminal_states_def intro: mine_jobs)+

lemma runs_engine_body:
  assumes rely: "\<And>i d. an_changes rc d (sv_others sv i d)"
  shows "runs rc d0 (\<lambda>_. aj_id job = cm_job cm) (engine_body sv cb cm cls att n job) (\<lambda>_ _. True)"
  unfolding engine_body_def Let_def
  by (rule runs_bind [OF runs_understand], rule triple_if,
      (rule runs_bind_inv, fastforce intro: run_intros mine_jobs)+, rule runs_reject, rule runs_bind_inv, fastforce intro: run_intros, rule triple_if, rule runs_ask_user [OF rely],
      rule runs_bind [OF runs_plan_job], rule triple_prod) (simp add: runs_check_policy [OF rely])

lemma runs_fail_job: "runs rc d0 (\<lambda>_. True) (fail_job cm att e) (\<lambda>_ _. True)"
  unfolding fail_job_def
  by (rule runs_bind [where R = "\<lambda>_. mine (cm_job cm)"], fastforce intro: run_intros,
      rule runs_bind_inv, fastforce intro: run_intros,
      rule runs_bind [where R = "\<lambda>_ _. True"], rule runs_write, fastforce intro: mine_close)
    (intro runs_bind_inv run_intros | simp)+

lemma runs_recover:
  assumes rely: "\<And>i d. an_changes rc d (sv_others sv i d)"
  shows "runs rc d0 (\<lambda>_. True) (engine_recover sv cm att e) (\<lambda>_ _. True)"
  unfolding engine_recover_def
  by (intro runs_bind_inv triple_if runs_try runs_fail_job run_intros rely | simp)+

lemma runs_execute_job:
  assumes rely: "\<And>i d. an_changes rc d (sv_others sv i d)"
  shows "runs rc d0 (\<lambda>_. True) (execute_job sv cb cls cm) (\<lambda>_ _. True)"
proof -
  have load: "runs rc d0 A (load_claimed_job cm) (\<lambda>job _. aj_id job = cm_job cm)" for A
    unfolding load_claimed_job_def
    by (rule runs_bind [where R = "\<lambda>r _. \<forall>job. r = Some job \<longrightarrow> aj_id job = cm_job cm"])
      (auto intro!: run_intros simp: require_some_def scalar_one_or_none_Some holds_claim_def
        dest!: filter_eq_single split: option.splits)
  have "runs rc d0 (\<lambda>_. b) (open_attempt sv cm) (\<lambda>_ _. b)" for b
    unfolding open_attempt_def by (intro runs_bind_inv run_intros | simp)+
  note open_ = this
  show ?thesis unfolding execute_job_def
    by (rule runs_bind_inv, fastforce intro: run_intros, rule runs_bind [OF load], rule runs_bind [OF open_],
        rule triple_prod, rule runs_try, rule runs_engine_body [OF rely], rule runs_recover [OF rely])
qed

section \<open>The workers\<close>

lemma first_of_mem: "first_of xs = Some x \<Longrightarrow> x \<in> set xs"
  by (cases xs) (simp_all add: first_of_def)

lemma runs_claim: "runs rc d0 (\<lambda>_. True) (claim_next_analysis_job locked now token w) (\<lambda>_ _. True)"
  unfolding claim_next_analysis_job_def
  by (rule runs_bind_inv, fastforce intro: run_intros,
      rule runs_bind [where R = "\<lambda>r d. \<forall>j. r = Some j \<longrightarrow> job_in d (aj_id j) (\<lambda>j. aj_status j = RECEIVED \<and> \<not> claimed j)"],
      rule runs_read, fastforce simp: fresh_jobs_def job_in_def dest: first_of_mem,
      rule triple_option, fastforce intro: run_intros, rule runs_bind [where R = "\<lambda>_ _. True"], rule runs_write)
    (auto intro: run_intros an_change.claim)

lemma runs_recover_stale: "runs rc d0 (\<lambda>_. True) (recover_next_stale_analysis_job locked now token w) (\<lambda>_ _. True)"
proof -
  let ?stale = "\<lambda>j d. job_in d (aj_id j) (\<lambda>j. aj_status j \<in> set stale_states \<and> claimed j \<and> aj_recovery_count j = 0)"
  show ?thesis unfolding recover_next_stale_analysis_job_def
    by (rule runs_bind_inv, fastforce intro: run_intros,
      rule runs_bind [where R = "\<lambda>r d. \<forall>j. r = Some j \<longrightarrow> ?stale j d"],
      rule runs_read, fastforce simp: stale_jobs_def job_in_def dest: first_of_mem,
      rule triple_option, fastforce intro: run_intros,
      rule runs_bind_inv, rule runs_rows, simp add: abandon_attempts_def, simp add: abandon_attempts_def job_in_def,
      rule runs_bind [where R = "\<lambda>_ _. True"], rule runs_write)
    (blast intro: an_change.recover, fastforce intro: run_intros)
qed

lemma runs_renew: "runs rc d0 (\<lambda>_. True) (renew_analysis_job_lease now i token w) (\<lambda>_ _. True)"
  unfolding renew_analysis_job_lease_def
  by (rule triple_if, fastforce intro: run_intros, rule runs_bind_inv, fastforce intro: run_intros,
      rule runs_bind_inv, rule runs_write) (auto intro!: run_intros an_change.details)

lemma runs_new_session:
  "(\<And>i d. an_changes rc d (sv_others sv i d)) \<Longrightarrow> runs rc d0 A (new_session sv i) (\<lambda>_ _. True)"
  unfolding new_session_def by (intro runs_others) simp_all

lemma runs_process:
  assumes rely: "\<And>i d. an_changes rc d (sv_others sv i d)"
  shows "runs rc d0 (\<lambda>_. True) (process_analysis_job sv cb cm) (\<lambda>_ _. True)"
  unfolding process_analysis_job_def
  by (rule runs_bind [OF runs_new_session [OF rely]], rule runs_try, rule runs_bind [OF runs_execute_job [OF rely]])
    (auto intro: run_intros)

lemma runs_once:
  assumes rely: "\<And>i d. an_changes rc d (sv_others sv i d)"
  shows "runs rc d0 (\<lambda>_. True) (run_once sv cb locked w) (\<lambda>_ _. True)"
  unfolding run_once_def
  by (intro runs_bind [OF runs_new_session [OF rely]] runs_bind [OF runs_claim] runs_bind [OF runs_recover_stale]
      runs_bind_inv run_intros runs_process [OF rely] | simp)+

section \<open>The API\<close>

lemma runs_create: "runs rc d0 (\<lambda>_. True) (create_analysis org user now new_id q header) (\<lambda>_ _. True)"
proof -
  have ins: "runs rc d0 (\<lambda>_. True) (insert_job j) (\<lambda>_ _. True)"
    if "aj_status j = RECEIVED" "aj_token j = None" "aj_recovery_count j = 0" for j
    unfolding insert_job_def
    by (rule runs_bind [where R = "\<lambda>_ d. aj_id j \<notin> aj_id ` set (d_jobs d)"], rule runs_read,
        simp add: raise_if_def split: if_splits, rule runs_write) (use that in \<open>auto intro: an_change.create\<close>)
  show ?thesis unfolding create_analysis_def Let_def
    by (intro runs_bind_inv run_intros triple_if runs_bind [OF ins] | simp)+
qed

lemma user_change:
  assumes "st \<in> {CANCELLED, EXPIRED}"
    and "job_in d i (\<lambda>j. aj_status j \<notin> set terminal_states \<and> (st = EXPIRED \<longrightarrow> aj_status j = NEEDS_CLARIFICATION))"
  shows "an_change rc d (put_job (\<lambda>j. j\<lparr>aj_status := st\<rparr>) i d)"
proof (cases "job_in d i (\<lambda>j. aj_status j = NEEDS_CLARIFICATION)")
  case True
  then show ?thesis using assms(1) by (auto intro!: an_change.end_pause simp: terminal_states_def)
next
  case False
  with assms have "st = CANCELLED \<and> job_in d i (\<lambda>j. active j \<and> (claimed j \<or> st = CANCELLED))"
    by (auto simp: job_in_def)
  then show ?thesis by (blast intro: an_change.advance)
qed

lemma runs_user_change:
  "st \<in> {CANCELLED, EXPIRED} \<Longrightarrow>
    runs rc d0 (\<lambda>d. job_in d i (\<lambda>j. aj_status j \<notin> set terminal_states \<and> (st = EXPIRED \<longrightarrow> aj_status j = NEEDS_CLARIFICATION)))
      (write_status i st) (\<lambda>_ _. True)"
  unfolding write_status_def by (rule runs_write) (blast intro: user_change)

lemma runs_user_cancel:
  "runs rc d0 (\<lambda>d. job_in d i (\<lambda>j. aj_status j \<notin> set terminal_states)) (write_status i CANCELLED) (\<lambda>_ _. True)"
  using runs_user_change [of CANCELLED rc d0 i] by simp

lemma runs_user_expire:
  "runs rc d0 (\<lambda>d. job_in d i (\<lambda>j. aj_status j = NEEDS_CLARIFICATION)) (write_status i EXPIRED) (\<lambda>_ _. True)"
  by (rule runs_weaken [OF runs_user_change [of EXPIRED]]) (auto simp: terminal_states_def intro: job_in_weaken)

abbreviation paused :: "uuid \<Rightarrow> analysis_db \<Rightarrow> bool" where
  "paused i d \<equiv> job_in d i (\<lambda>j. aj_status j = NEEDS_CLARIFICATION)"

lemma paused_jobs: "d_jobs d' = d_jobs d \<Longrightarrow> job_in d i p \<Longrightarrow> job_in d' i p"
  by (simp add: job_in_def)

lemma runs_the_clarification [run_intros]:
  "(\<And>d c. A d \<Longrightarrow> c \<in> set (d_clarifications d) \<Longrightarrow> ac_id c = i \<Longrightarrow> ac_job c = job \<Longrightarrow> B c d) \<Longrightarrow>
    runs rc d0 A (the_clarification org job i) B"
  unfolding the_clarification_def
  by (rule runs_bind [where R = "\<lambda>r d. A d \<and> (\<forall>c. r = Some c \<longrightarrow> c \<in> set (d_clarifications d) \<and> ac_id c = i \<and> ac_job c = job)"])
    (auto intro!: run_intros simp: find_clarification_def require_some_def scalar_one_or_none_Some
      dest!: filter_eq_single split: option.splits)

lemma runs_close_clarification:
  assumes "\<And>c. ac_id (f c) = ac_id c \<and> ac_job (f c) = ac_job c \<and> ac_status (f c) \<noteq> ''AWAITING_CLARIFICATION''"
    and "\<And>d. A d \<Longrightarrow> analysis_ok rc d \<Longrightarrow> B () (put_clarification f i d)"
  shows "runs rc d0 A (an_write (put_clarification f i)) B"
  using assms by (intro runs_write) (auto intro: an_change.close_clarification)

lemma answered_free:
  assumes ok: "analysis_ok rc d" and c: "c \<in> set (d_clarifications d)" "ac_status c = ''AWAITING_CLARIFICATION''"
    and n: "paused (ac_job c) d"
    and g: "\<And>c. ac_id (g c) = ac_id c \<and> ac_job (g c) = ac_job c \<and> ac_status (g c) \<noteq> ''AWAITING_CLARIFICATION''"
  shows "open_for (put_clarification g (ac_id c) d) (ac_job c) = []"
proof -
  obtain j where j: "j \<in> set (d_jobs d)" "aj_id j = ac_job c" using n by (auto simp: job_in_def)
  have "c \<in> set (open_for d (ac_job c))" using c by (simp add: open_for_def)
  moreover have "length (open_for d (ac_job c)) \<le> 1" using ok j by (auto simp: analysis_ok_def job_ok_def)
  ultimately have one: "open_for d (ac_job c) = [c]" by (cases "open_for d (ac_job c)") auto
  have "c \<notin> set (open_for (put_clarification g (ac_id c) d) (ac_job c))"
    using g by (auto simp: open_for_def put_clarification_def)
  moreover have "set (open_for (put_clarification g (ac_id c) d) (ac_job c)) \<subseteq> {c}"
    using open_for_close [OF g, of "ac_id c" d "ac_job c"] one by auto
  ultimately show ?thesis by (metis empty_iff insertE set_empty subset_eq equals0I)
qed

lemma runs_close_expired: "runs rc d0 (paused i) (close_expired i k) B"
  unfolding close_expired_def
  by (rule runs_bind [where R = "\<lambda>_. paused i"], rule runs_close_clarification, simp, fastforce intro: paused_jobs,
      rule runs_bind [OF runs_user_expire]) (intro runs_bind_inv run_intros | simp)+

lemma runs_accept:
  "runs rc d0 (\<lambda>d. paused i d \<and> c \<in> set (d_clarifications d) \<and> ac_status c = ''AWAITING_CLARIFICATION'' \<and> ac_job c = i \<and> aj_id job = i)
    (accept_response sha org user new_id now job c payload) (\<lambda>_ _. True)"
  unfolding accept_response_def Let_def write_status_def
  by (rule runs_bind [where R = "\<lambda>_ d. paused i d \<and> open_for d i = [] \<and> aj_id job = i"],
      rule runs_close_clarification, simp, use answered_free in \<open>force intro: paused_jobs\<close>,
      (rule runs_bind_inv, rule runs_rows, simp, simp add: job_in_def open_for_def)+,
      rule runs_bind_inv, fastforce intro: run_intros,
      rule runs_bind [where R = "\<lambda>_ _. True"], rule runs_write, fastforce intro: an_change.resume)
    (intro runs_bind_inv run_intros | simp)+

lemma runs_check_open: "runs rc d0 A (check_open c) (\<lambda>_ d. A d \<and> ac_status c = ''AWAITING_CLARIFICATION'')"
  unfolding check_open_def by (rule runs_bind_inv) (fastforce intro: run_intros)+

lemma runs_respond: "runs rc d0 (\<lambda>_. True) (respond px sha org user new_id now i k payload) (\<lambda>_ _. True)"
  unfolding respond_def
  apply (rule runs_bind [where R = "\<lambda>j d. j \<in> set (d_jobs d) \<and> aj_id j = i"], fastforce intro: run_intros)
  subgoal for job
    by (rule runs_bind_inv, fastforce intro: run_intros,
      rule runs_bind [where R = "\<lambda>_ d. paused i d \<and> aj_id job = i"], rule runs_assert, force simp: job_in_def,
      rule runs_bind [where R = "\<lambda>c d. paused i d \<and> c \<in> set (d_clarifications d) \<and> ac_job c = i \<and> aj_id job = i"],
      fastforce intro: run_intros, rule runs_bind [OF runs_check_open], rule triple_if,
      rule runs_weaken [OF runs_close_expired], simp, simp,
      (rule runs_bind_inv, fastforce intro: run_intros)+, rule runs_weaken [OF runs_accept [where i = i]]) simp_all
  done

lemma runs_cancel_clarification:
  "runs rc d0 (\<lambda>_. True) (cancel_clarification sha org user now i k reason) (\<lambda>_ _. True)"
  unfolding cancel_clarification_def
  apply (rule runs_bind [where R = "\<lambda>j d. j \<in> set (d_jobs d) \<and> aj_id j = i"], fastforce intro: run_intros)
  subgoal for job
    by (rule runs_bind_inv, fastforce intro: run_intros, rule runs_bind_inv, fastforce intro: run_intros,
        rule runs_bind_inv, rule runs_close_clarification, simp, simp,
        rule runs_bind [where R = "\<lambda>_ d. job_in d i (\<lambda>j. aj_status j \<notin> set terminal_states)"],
        rule runs_lift, force simp: job_in_def validate_transition_def split: if_splits,
        rule runs_bind [OF runs_user_cancel]) (intro runs_bind_inv run_intros | simp)+
  done

text \<open>The only change to EXPIRED is the one of a waiting analysis.\<close>

lemma expires_from_pause: "EXPIRED \<in> set (valid_transitions s) \<longleftrightarrow> s = NEEDS_CLARIFICATION"
  by (cases s) simp_all

lemma runs_expire_job:
  "runs rc d0 (\<lambda>d. \<forall>j. r = Some j \<longrightarrow> j \<in> set (d_jobs d)) (expire_job r) (\<lambda>_ _. True)"
  unfolding expire_job_def
  apply (rule triple_option, fastforce intro: run_intros, rule triple_if, fastforce intro: run_intros)
  subgoal for j
    by (rule runs_bind [where R = "\<lambda>_. paused (aj_id j)"], rule runs_lift, force simp: job_in_def expires_from_pause,
        rule runs_user_expire)
  done

lemma runs_expire_one: "runs rc d0 (\<lambda>_. True) (expire_one sha org user c) (\<lambda>_ _. True)"
  unfolding expire_one_def
  by (rule runs_bind_inv, rule runs_close_clarification, simp, simp,
      rule runs_bind [where R = "\<lambda>r d. \<forall>j. r = Some j \<longrightarrow> j \<in> set (d_jobs d)"], rule runs_read,
      force simp: find_own_job_def scalar_one_or_none_Some dest!: filter_eq_single, rule runs_bind [OF runs_expire_job])
    (intro runs_bind_inv run_intros | simp)+

lemma runs_expire_due:
  "runs rc d0 (\<lambda>_. True) (expire_due_clarifications sha locked org user now batch) (\<lambda>_ _. True)"
  unfolding expire_due_clarifications_def whenP_def
  by (rule runs_bind_inv, fastforce intro: run_intros, rule runs_bind_inv, rule triple_for, rule runs_expire_one)
    (intro runs_bind_inv run_intros triple_if | simp)+

section \<open>Any sequence of operations\<close>

text \<open>One call from outside, with what it needs; \<open>perform\<close> is what it leaves committed.\<close>

datatype analysis_op =
    Create uuid uuid nat uuid analysis_create_request "string option"
  | Cancel "analysis_db \<Rightarrow> analysis_db" uuid uuid uuid
  | Respond parsers "string \<Rightarrow> string" uuid uuid uuid nat uuid uuid json
  | CancelClarification "string \<Rightarrow> string" uuid uuid nat uuid uuid string
  | ExpireDue "string \<Rightarrow> string" "uuid \<Rightarrow> bool" uuid uuid nat nat
  | Renew nat uuid uuid string
  | Poll services breaker "uuid \<Rightarrow> bool" string

definition committed_by :: "'a handler \<Rightarrow> analysis_db \<Rightarrow> analysis_db" where
  "committed_by m d = an_committed (snd (m \<lparr>an_committed = d, an_work = d\<rparr>))"

fun perform :: "analysis_op \<Rightarrow> analysis_db \<Rightarrow> analysis_db" where
  "perform (Create org user now new_id q header) = committed_by (create_analysis org user now new_id q header)"
| "perform (Cancel f org user i) = committed_by (cancel_analysis f org user i)"
| "perform (Respond px sha org user new_id now i k payload) =
     committed_by (respond px sha org user new_id now i k payload)"
| "perform (CancelClarification sha org user now i k reason) =
     committed_by (cancel_clarification sha org user now i k reason)"
| "perform (ExpireDue sha locked org user now batch) =
     committed_by (expire_due_clarifications sha locked org user now batch)"
| "perform (Renew now i token w) =
     committed_by (bindP (renew_analysis_job_lease now i token w) (\<lambda>_. an_commit))"
| "perform (Poll sv cb locked w) = committed_by (run_once sv cb locked w)"

text \<open>What the operations need of the other sessions: they change the tables by the same atomic changes
  and, when cancellations do not race, no other session makes an analysis final between the check and the
  update of its cancellation.\<close>

definition live :: "analysis_db \<Rightarrow> uuid \<Rightarrow> bool" where
  "live d i \<longleftrightarrow> job_in d i (\<lambda>j. aj_status j \<notin> set terminal_states)"

fun op_ok :: "bool \<Rightarrow> analysis_op \<Rightarrow> bool" where
  "op_ok rc (Poll sv cb locked w) = (\<forall>i d. an_changes rc d (sv_others sv i d))"
| "op_ok rc (Cancel f org user i) = ((\<forall>d. an_changes rc d (f d)) \<and> (rc \<or> (\<forall>d. live d i \<longrightarrow> live (f d) i)))"
| "op_ok rc _ = True"

lemma cancel_committed:
  "committed_by (cancel_analysis f org user i) d = d \<or>
   committed_by (cancel_analysis f org user i) d = put_job (\<lambda>j. j\<lparr>aj_status := CANCELLED\<rparr>) i (f d) \<and> live d i"
proof (cases "find_own_job org i d")
  case (Inr row)
  show ?thesis
  proof (cases row)
    case (Some job)
    have "job \<in> set (d_jobs d)" "aj_id job = i"
      using Inr Some by (auto simp: find_own_job_def scalar_one_or_none_Some dest!: filter_eq_single)
    then show ?thesis using Inr Some
      by (auto simp: committed_by_def cancel_analysis_def the_job_def an_simps proc_simps require_some_def write_status_def
          validate_transition_def live_def job_in_def split: if_splits)
  qed (use Inr in \<open>simp add: committed_by_def cancel_analysis_def the_job_def an_simps proc_simps require_some_def\<close>)
qed (simp add: committed_by_def cancel_analysis_def the_job_def an_simps proc_simps)

lemma user_cancel_change: "live d i \<Longrightarrow> an_change rc d (put_job (\<lambda>j. j\<lparr>aj_status := CANCELLED\<rparr>) i d)"
  unfolding live_def by (rule user_change) simp_all

lemma cancel_changes:
  assumes "op_ok rc (Cancel f org user i)"
  shows "an_changes rc d (committed_by (cancel_analysis f org user i) d)"
proof -
  have f: "an_changes rc d (f d)" "rc \<or> (live d i \<longrightarrow> live (f d) i)" using assms by auto
  have "an_change rc (f d) (put_job (\<lambda>j. j\<lparr>aj_status := CANCELLED\<rparr>) i (f d))" if "live d i"
    using f(2) that by (blast intro: an_change.overwrite user_cancel_change)
  with f(1) show ?thesis using cancel_committed [of f org user i d] by (auto intro: rtranclp.rtrancl_into_rtrancl)
qed

lemma runs_committed_by:
  assumes "runs rc d (\<lambda>_. True) m B" "analysis_ok rc d"
  shows "an_changes rc d (committed_by m d)"
proof -
  let ?s = "\<lparr>an_committed = d, an_work = d\<rparr>"
  obtain r s' where m: "m ?s = (r, s')" by fastforce
  have e: "evo rc d (\<lambda>_. True) ?s" using assms(2) by (simp add: evo_def)
  show ?thesis unfolding committed_by_def m
    using tripleD [OF assms(1) e, of _ s'] m by (cases r) (auto simp: evo_def)
qed

lemma perform_changes: "op_ok rc x \<Longrightarrow> analysis_ok rc d \<Longrightarrow> an_changes rc d (perform x d)"
proof (cases x)
  case (Renew now i token w)
  have "runs rc d (\<lambda>_. True) (bindP (renew_analysis_job_lease now i token w) (\<lambda>_. an_commit)) (\<lambda>_ _. True)"
    by (rule runs_bind [OF runs_renew]) (fastforce intro: run_intros)
  then show "analysis_ok rc d \<Longrightarrow> ?thesis" by (simp add: Renew runs_committed_by)
next
  case (Poll sv cb locked w)
  then show "op_ok rc x \<Longrightarrow> analysis_ok rc d \<Longrightarrow> ?thesis"
    by simp (rule runs_committed_by [OF runs_once], auto)
qed (auto intro: runs_committed_by runs_create cancel_changes runs_respond runs_cancel_clarification runs_expire_due)

lemma ops_changes: "\<forall>x \<in> set ops. op_ok rc x \<Longrightarrow> analysis_ok rc d \<Longrightarrow> an_changes rc d (fold perform ops d)"
proof (induction ops arbitrary: d)
  case (Cons x ops)
  have c: "an_changes rc d (perform x d)" using Cons.prems by (intro perform_changes) auto
  with Cons show ?case by (auto intro: rtranclp_trans an_changes_ok)
qed simp

lemma no_rows_ok: "analysis_ok rc no_analysis_rows"
  by (simp add: analysis_ok_def no_analysis_rows_def events_numbered_def job_events_def)

lemmas from_empty = an_changes_ok [OF ops_changes [OF _ no_rows_ok] no_rows_ok]

text \<open>C8: whatever operations have been performed on an empty plane, by users and by workers whose sessions
  interleave with changes of other sessions: job ids are unique and the events of a job are numbered
  1, 2, and so on; a job has been recovered at most once; it is unclaimed only before its run or after a
  cancellation; at most one clarification of it is open, and then it waits for that answer or is final;
  and a job with a result snapshot is COMPLETED or, only when cancellations race (\<open>rc\<close>), CANCELLED by a
  cancellation that had read the status before.\<close>

theorem analysis_tables_sound:
  assumes "\<forall>x \<in> set ops. op_ok rc x" and "d = fold perform ops no_analysis_rows"
  shows "events_numbered d \<and> distinct (map aj_id (d_jobs d)) \<and>
    (\<forall>j \<in> set (d_jobs d).
       aj_recovery_count j \<le> 1 \<and> (aj_token j = None \<longrightarrow> aj_status j \<in> {RECEIVED, CANCELLED}) \<and>
       length (open_for d (aj_id j)) \<le> 1 \<and>
       (open_for d (aj_id j) \<noteq> [] \<longrightarrow> aj_status j = NEEDS_CLARIFICATION \<or> aj_status j \<in> set terminal_states) \<and>
       (\<forall>row \<in> set (d_snapshots d). rs_job row = aj_id j \<longrightarrow> aj_status j = COMPLETED \<or> rc \<and> aj_status j = CANCELLED))"
  using from_empty [OF assms(1)] assms(2) unfolding analysis_ok_def job_ok_def by blast

definition quiet_services :: services where
  "quiet_services = \<lparr>sv_normalize = \<lambda>_ _. Inl (ValueError ''model unavailable''), sv_tool = \<lambda>_ _. Inr JNull, sv_narrate = \<lambda>_ _. Inr [],
     sv_verify = \<lambda>_ _. Inr (), sv_time_str = nat_str, sv_sha = \<lambda>s. s, sv_uuid = \<lambda>_. 9, sv_now = 100, sv_clock = 0,
     sv_elapsed = 0, sv_others = \<lambda>_ d. d\<rparr>"

definition sample_request :: analysis_create_request where
  "sample_request = \<lparr>cq_prompt = ''Compare total assets'', cq_idempotency_key = None, cq_documents = None\<rparr>"

abbreviation sample_ops :: "analysis_op list" where
  "sample_ops \<equiv> [Create 1 2 50 3 sample_request None, Poll quiet_services new_breaker (\<lambda>_. False) ''worker'', Cancel (\<lambda>d. d) 1 2 3]"

text \<open>A session that completes analysis 3 if it is under way.\<close>

definition finishing :: "analysis_db \<Rightarrow> analysis_db" where
  "finishing d = (if job_in d 3 (\<lambda>j. active j \<and> claimed j) then put_job (\<lambda>j. j\<lparr>aj_status := COMPLETED\<rparr>) 3 d else d)"

lemma finishing_changes: "an_changes rc d (finishing d)"
  by (auto simp: finishing_def intro!: r_into_rtranclp an_change.advance intro: job_in_weaken)

lemma analysis_tables_sound_witness:
  "events_numbered (fold perform (sample_ops @ [Cancel finishing 1 2 3]) no_analysis_rows)"
  using analysis_tables_sound [of "sample_ops @ [Cancel finishing 1 2 3]" True, OF _ refl]
  by (simp add: quiet_services_def finishing_changes)

text \<open>C9: an analysis that has reached a final status keeps it, whatever operations follow, as long as no
  other session makes an analysis final while its cancellation is under way; when cancellations race
  (\<open>rc\<close>) it keeps it or becomes CANCELLED.\<close>

theorem final_status_stays:
  assumes "\<forall>x \<in> set (ops @ later). op_ok rc x" and "j \<in> set (d_jobs (fold perform ops no_analysis_rows))"
    and "aj_status j \<in> set terminal_states"
  shows "\<exists>j' \<in> set (d_jobs (fold perform (ops @ later) no_analysis_rows)). aj_id j' = aj_id j \<and>
    (aj_status j' = aj_status j \<or> rc \<and> aj_status j' = CANCELLED)"
proof -
  have ok: "analysis_ok rc (fold perform ops no_analysis_rows)" using assms(1) by (intro from_empty) auto
  have "final_kept rc (fold perform ops no_analysis_rows) (fold perform later (fold perform ops no_analysis_rows))"
    using assms(1) by (intro an_changes_final ops_changes ok) auto
  with assms(2,3) show ?thesis by (auto simp: final_kept_def)
qed

text \<open>The race happens: a cancellation that has found an analysis running overwrites the COMPLETED the
  engine commits before its update.\<close>

lemma late_cancellation_overwrites:
  assumes "find_own_job org i d = Inr (Some job)" "aj_user job = user" "CANCELLED \<in> set (valid_transitions (aj_status job))"
    and "k \<in> set (d_jobs (f d))" "aj_id k = i" "aj_status k = COMPLETED"
  shows "k\<lparr>aj_status := CANCELLED\<rparr> \<in> set (d_jobs (perform (Cancel f org user i) d))"
proof -
  have "aj_id job = i" using assms(1) by (auto simp: find_own_job_def scalar_one_or_none_Some dest!: filter_eq_single)
  then show ?thesis using assms
    by (force simp: committed_by_def cancel_analysis_def the_job_def an_simps proc_simps require_some_def write_status_def
        validate_transition_def terminal_states_def put_job_def)
qed

abbreviation sample_start :: "analysis_op list" where
  "sample_start \<equiv> [Create 1 2 50 3 sample_request None, Cancel (\<lambda>d. d) 1 2 3]"

lemmas run_simps = committed_by_def an_simps proc_simps the_job_def find_own_job_def require_some_def raise_if_def
  put_job_def no_analysis_rows_def Let_def

lemma sample_start_rows:
  "d_jobs (fold perform sample_start no_analysis_rows) =
    [\<lparr>aj_id = 3, aj_org = 1, aj_user = 2, aj_status = CANCELLED, aj_prompt = ''Compare total assets'', aj_normalized = JObj [],
      aj_locked_by = None, aj_lease = None, aj_idempotency_key = None, aj_token = None, aj_recovery_count = 0, aj_created = 50\<rparr>]"
  by (simp add: run_simps create_analysis_def analysis_create_ok_def sample_request_def effective_key_def falsy_str_def
      document_scope_def insert_job_def cancel_analysis_def advance_def write_status_def validate_transition_def terminal_states_def)

lemma final_status_stays_witness:
  "\<exists>j' \<in> set (d_jobs (fold perform (sample_start @ sample_ops) no_analysis_rows)). aj_id j' = 3 \<and> aj_status j' = CANCELLED"
  using final_status_stays [of sample_start sample_ops False "hd (d_jobs (fold perform sample_start no_analysis_rows))"]
  unfolding sample_start_rows by (simp add: quiet_services_def terminal_states_def)

section \<open>Small payloads\<close>

fun jweight :: "json \<Rightarrow> nat" and jweight_list :: "json list \<Rightarrow> nat" and jweight_obj :: "(string \<times> json) list \<Rightarrow> nat" where
  "jweight JNull = 4"
| "jweight (JBool b) = 5"
| "jweight (JInt i) = length (int_str i)"
| "jweight (JStr s) = 6 * length s + 2"
| "jweight (JList xs) = jweight_list xs + 2"
| "jweight (JObj kvs) = jweight_obj kvs + 2"
| "jweight_list [] = 0"
| "jweight_list (x # xs) = jweight x + 2 + jweight_list xs"
| "jweight_obj [] = 0"
| "jweight_obj ((k, v) # kvs) = 6 * length k + jweight v + 6 + jweight_obj kvs"

lemma length_json_escape: "length (json_escape c) \<le> 6"
  by (simp add: json_escape_def Let_def)

lemma length_json_string: "length (json_string s) \<le> 6 * length s + 2"
proof -
  have "length (concat (map json_escape s)) \<le> 6 * length s"
  proof (induction s)
    case (Cons c s)
    with length_json_escape [of c] show ?case by simp
  qed simp
  then show ?thesis by (simp add: json_string_def)
qed

lemma nat_str_bound: "n < 10 ^ k \<Longrightarrow> 0 < k \<Longrightarrow> length (nat_str n) \<le> k"
proof (induction k arbitrary: n)
  case (Suc k)
  show ?case
  proof (cases "n < 10")
    case True
    then show ?thesis by (subst nat_str.simps) simp
  next
    case False
    with Suc.prems have "n div 10 < 10 ^ k" "0 < k" by (auto intro: gr0I simp: less_mult_imp_div_less mult.commute)
    then have "length (nat_str (n div 10)) \<le> k" by (rule Suc.IH)
    with False show ?thesis by (subst nat_str.simps) simp
  qed
qed simp

lemma length_uuid_str [simp]: "length (uuid_str u) = 36"
  by (simp add: uuid_str_def Let_def length_hex_str)

lemma length_jprint:
  "length (jprint j) \<le> jweight j" "length (jprint_list xs) \<le> jweight_list xs" "length (jprint_obj kvs) \<le> jweight_obj kvs"
proof (induction j and xs and kvs rule: jprint_jprint_list_jprint_obj.induct)
  case (10 k v kvs)
  with length_json_string [of k] show ?case by (cases "kvs = []") auto
qed (use length_json_string in auto)

lemma emit_small:
  "jweight p \<le> 32768 \<Longrightarrow> emit_event org job t p a s = (Inr (), s\<lparr>an_work := an_work s\<lparr>d_events := d_events (an_work s) @
    [\<lparr>ev_org = org, ev_job = job, ev_attempt = a, ev_sequence = last_sequence (an_work s) org job + 1, ev_type = t, ev_payload = p\<rparr>]\<rparr>\<rparr>)"
  using length_jprint(1) [of p]
  by (simp add: emit_event_def emit_row_def max_payload_bytes_def an_simps proc_simps)

section \<open>Claims\<close>

lemma hd_sort_key: "xs \<noteq> [] \<Longrightarrow> y \<in> set xs \<Longrightarrow> f (hd (sort_key f xs)) \<le> f y"
proof -
  assume "xs \<noteq> []" "y \<in> set xs"
  then obtain z zs where s: "sort_key f xs = z # zs" by (metis length_0_conv length_sort neq_Nil_conv)
  have "sorted (map f (z # zs))" by (metis s sorted_sort_key)
  moreover have "y \<in> set (z # zs)" using \<open>y \<in> set xs\<close> by (metis s set_sort)
  ultimately show ?thesis by (auto simp: s)
qed

definition claimable :: "(uuid \<Rightarrow> bool) \<Rightarrow> analysis_job \<Rightarrow> bool" where
  "claimable locked j \<longleftrightarrow> aj_status j = RECEIVED \<and> aj_token j = None \<and> aj_locked_by j = None \<and> aj_lease j = None \<and> \<not> locked (aj_id j)"

lemma claim_next_picks:
  assumes "claim_next_analysis_job locked now token w s = (Inr (Some c), s')"
  shows "\<exists>j \<in> set (d_jobs (an_work s)). claimable locked j \<and> c = make_claim j token w \<and>
    an_work s' = put_job (\<lambda>j. j\<lparr>aj_status := RECEIVED, aj_locked_by := Some w, aj_token := Some token,
      aj_lease := Some (now + lease_interval)\<rparr>) (aj_id j) (an_work s) \<and> an_committed s' = an_committed s \<and>
    (\<forall>k \<in> set (d_jobs (an_work s)). claimable locked k \<longrightarrow> aj_created j \<le> aj_created k)"
proof -
  let ?fresh = "fresh_jobs locked (an_work s)"
  obtain j where j: "first_of (sort_key aj_created (sort_key aj_id ?fresh)) = Some j" and c: "c = make_claim j token w"
    and s': "s' = s\<lparr>an_work := put_job (\<lambda>j. j\<lparr>aj_status := RECEIVED, aj_locked_by := Some w, aj_token := Some token,
      aj_lease := Some (now + lease_interval)\<rparr>) (aj_id j) (an_work s)\<rparr>"
    using assms unfolding claim_next_analysis_job_def
    by (auto simp: an_simps proc_simps split: option.splits sum.splits prod.splits if_splits)
  have "j \<in> set ?fresh" using first_of_mem [OF j] by simp
  moreover have "aj_created j \<le> aj_created k" if "k \<in> set ?fresh" for k
  proof -
    have "j = hd (sort_key aj_created (sort_key aj_id ?fresh))"
      using j by (cases "sort_key aj_created (sort_key aj_id ?fresh)") (auto simp: first_of_def)
    moreover have "sort_key aj_id ?fresh \<noteq> []" using that by (metis empty_iff list.set(1) set_sort)
    ultimately show ?thesis using hd_sort_key [of "sort_key aj_id ?fresh" k aj_created] that by simp
  qed
  ultimately show ?thesis using c s' by (intro bexI [of _ j]) (auto simp: fresh_jobs_def claimable_def)
qed

lemma recover_picks:
  assumes "recover_next_stale_analysis_job locked now token w s = (Inr (Some c), s')"
  shows "\<exists>j \<in> set (stale_jobs locked now (an_work s)). c = make_claim j token w"
proof -
  obtain j where j: "first_of (sort_key job_lease (sort_key aj_created (sort_key aj_id (stale_jobs locked now (an_work s))))) = Some j"
    and c: "c = make_claim j token w"
    using assms unfolding recover_next_stale_analysis_job_def
    by (auto simp: an_simps proc_simps split: option.splits sum.splits prod.splits if_splits)
  with first_of_mem [OF j] show ?thesis by auto
qed

lemma put_job_mem: "k \<in> set (d_jobs (put_job f i d)) \<Longrightarrow> aj_id k = i \<Longrightarrow> (\<And>j. aj_id (f j) = aj_id j) \<Longrightarrow> \<exists>j. k = f j"
  by (auto simp: put_job_def split: if_splits)

text \<open>C11: a worker's claim takes the oldest claimable analysis of all tenants, and until its lease of 15
  minutes has run out no worker claims or recovers the same analysis again.\<close>

theorem claim_oldest_and_exclusive:
  assumes "claim_next_analysis_job locked now token w s = (Inr (Some c), s')"
    and "an_work t = an_work s'"
  shows "(\<exists>j \<in> set (d_jobs (an_work s)). claimable locked j \<and> cm_job c = aj_id j \<and> cm_org c = aj_org j \<and>
      (\<forall>k \<in> set (d_jobs (an_work s)). claimable locked k \<longrightarrow> aj_created j \<le> aj_created k)) \<and>
    (\<forall>locked' later token' w' c'. later \<le> now + lease_interval \<longrightarrow>
      fst (claim_next_analysis_job locked' later token' w' t) = Inr (Some c') \<or>
      fst (recover_next_stale_analysis_job locked' later token' w' t) = Inr (Some c') \<longrightarrow> cm_job c' \<noteq> cm_job c)"
proof -
  obtain j where j: "j \<in> set (d_jobs (an_work s))" "claimable locked j" "c = make_claim j token w"
    "an_work s' = put_job (\<lambda>j. j\<lparr>aj_status := RECEIVED, aj_locked_by := Some w, aj_token := Some token,
      aj_lease := Some (now + lease_interval)\<rparr>) (aj_id j) (an_work s)"
    "\<forall>k \<in> set (d_jobs (an_work s)). claimable locked k \<longrightarrow> aj_created j \<le> aj_created k"
    using claim_next_picks [OF assms(1)] by blast
  have taken: "aj_token k \<noteq> None \<and> aj_lease k = Some (now + lease_interval)"
    if "k \<in> set (d_jobs (an_work t))" "aj_id k = aj_id j" for k
    using put_job_mem [of k _ "aj_id j" "an_work s"] that assms(2) j(4) by fastforce
  have "cm_job c' \<noteq> aj_id j" if l: "later \<le> now + lease_interval"
    and r: "fst (claim_next_analysis_job locked' later token' w' t) = Inr (Some c') \<or>
      fst (recover_next_stale_analysis_job locked' later token' w' t) = Inr (Some c')" for locked' later token' w' c'
  proof
    assume i: "cm_job c' = aj_id j"
    from r consider k where "k \<in> set (d_jobs (an_work t))" "claimable locked' k" "c' = make_claim k token' w'"
      | k where "k \<in> set (stale_jobs locked' later (an_work t))" "c' = make_claim k token' w'"
      using claim_next_picks recover_picks by (metis prod.collapse)
    then show False
      using taken i l by cases (force simp: claimable_def make_claim_def stale_jobs_def)+
  qed
  with j show ?thesis by (auto simp: make_claim_def)
qed

section \<open>Answers\<close>

text \<open>Steps that leave the job rows alone.\<close>

definition jobs_are :: "analysis_job list \<Rightarrow> analysis_session \<Rightarrow> bool" where
  "jobs_are js s \<longleftrightarrow> d_jobs (an_work s) = js"

lemma keeps_jobs_write: "(\<And>d. d_jobs (f d) = d_jobs d) \<Longrightarrow> triple (jobs_are js) (an_write f) (\<lambda>_. jobs_are js) (\<lambda>_ _. True)"
  by (auto simp: triple_def an_write_def modifyP_def jobs_are_def)

lemma keeps_jobs_read: "triple P (an_read f) (\<lambda>_. P) (\<lambda>_ _. True)"
  by (auto simp: triple_def an_read_def queryP_def split: sum.splits)

lemma keeps_jobs_emit: "triple (jobs_are js) (emit_event org job t p a) (\<lambda>_. jobs_are js) (\<lambda>_ _. True)"
  unfolding emit_event_def
  by (rule triple_bind [where R = "\<lambda>d' s. jobs_are js s \<and> d_jobs d' = js"])
    (auto simp: triple_def an_read_def queryP_def an_write_def modifyP_def jobs_are_def dest: emit_row_rows split: sum.splits)

lemma keeps_jobs_audit: "triple (jobs_are js) (an_audit sha org t i u p) (\<lambda>_. jobs_are js) (\<lambda>_ _. True)"
  unfolding an_audit_def by (rule keeps_jobs_write) simp

lemma keeps_lift: "triple P (liftP r) (\<lambda>_. P) (\<lambda>_ _. True)"
  by (auto simp: triple_def liftP_def split: sum.splits)

lemma keeps_assert: "triple P (assertP b e) (\<lambda>_. P) (\<lambda>_ _. True)"
  by (auto simp: triple_def assertP_def retP_def throwP_def)

lemmas keeps_jobs = keeps_jobs_write keeps_jobs_read keeps_jobs_emit keeps_jobs_audit keeps_lift keeps_assert

abbreviation resumed :: "uuid \<Rightarrow> analysis_job list \<Rightarrow> analysis_job list" where
  "resumed i \<equiv> map (\<lambda>j. if aj_id j = i then j\<lparr>aj_status := UNDERSTANDING_REQUEST\<rparr> else j)"

lemma accept_jobs:
  "triple (jobs_are js) (accept_response sha org user new_id now job c payload)
    (\<lambda>_ s. an_work s = an_committed s \<and> jobs_are (resumed (aj_id job) js) s) (\<lambda>_ _. True)"
  unfolding accept_response_def Let_def write_status_def
  by ((rule triple_bind_inv, rule keeps_jobs_write, simp)+, rule triple_bind_inv, rule keeps_lift,
      rule triple_bind [where R = "\<lambda>_. jobs_are (resumed (aj_id job) js)"],
      force simp: triple_def an_write_def modifyP_def jobs_are_def put_job_def,
      (rule triple_bind_inv, rule keeps_jobs)+)
    (auto simp: triple_def bindP_def an_commit_def modifyP_def retP_def jobs_are_def)

lemma keeps_the_job:
  "triple (jobs_are js) (the_job org i) (\<lambda>job s. jobs_are js s \<and> aj_id job = i \<and> job \<in> set js) (\<lambda>_ _. True)"
  unfolding the_job_def
  by (auto simp: triple_def an_read_def bindP_def queryP_def liftP_def jobs_are_def find_own_job_def require_some_def
      scalar_one_or_none_Some dest!: filter_eq_single split: sum.splits option.splits)

lemma keeps_the_clarification: "triple P (the_clarification org job i) (\<lambda>_. P) (\<lambda>_ _. True)"
  unfolding the_clarification_def by (intro triple_bind_inv keeps_jobs)

lemma keeps_check_open: "triple P (check_open c) (\<lambda>_. P) (\<lambda>_ _. True)"
  unfolding check_open_def by (intro triple_bind_inv keeps_jobs)

lemma close_expired_raises: "triple P (close_expired i k) Q (\<lambda>_ _. True)"
  by (simp add: triple_def close_expired_def write_status_def an_write_def an_commit_def modifyP_def bindP_def throwP_def)

lemma respond_jobs:
  "triple (jobs_are js) (respond px sha org user new_id now i k payload)
    (\<lambda>_ s. an_work s = an_committed s \<and> jobs_are (resumed i js) s) (\<lambda>_ _. True)"
proof -
  have acc: "triple (\<lambda>s. jobs_are js s \<and> aj_id job = i \<and> job \<in> set js) (accept_response sha org user new_id now job c kvs)
    (\<lambda>_ s. an_work s = an_committed s \<and> jobs_are (resumed i js) s) (\<lambda>_ _. True)" for job c kvs
    using accept_jobs [of js sha org user new_id now job c kvs] by (auto simp: triple_def)
  show ?thesis unfolding respond_def
    by (rule triple_bind [OF keeps_the_job], (rule triple_bind_inv, rule keeps_assert)+, rule triple_bind_inv,
        rule keeps_the_clarification, rule triple_bind_inv, rule keeps_check_open, rule triple_if, rule close_expired_raises,
        rule triple_bind_inv, rule keeps_lift, rule triple_bind_inv, rule keeps_jobs_read, rule acc)
qed

text \<open>The claim and the lease of a job are the same in both tables.\<close>

definition claim_kept :: "uuid \<Rightarrow> analysis_db \<Rightarrow> analysis_db \<Rightarrow> bool" where
  "claim_kept i d d' \<longleftrightarrow> (\<forall>j \<in> set (d_jobs d'). aj_id j = i \<longrightarrow>
     (\<exists>k \<in> set (d_jobs d). aj_id k = i \<and> aj_token k = aj_token j \<and> aj_lease k = aj_lease j))"

text \<open>C35: an answered clarification does not bring the analysis back by itself. When the answered analysis
  has kept the claim of its suspended run and has no lease (\<open>execute_job\<close> clears the lease when it
  suspends an analysis), a successful answer commits the status UNDERSTANDING_REQUEST, and from then on, at
  any time and in any state of the tables in which that claim and the missing lease are unchanged, neither
  the claim nor the recovery of any worker returns the analysis. (Only a renewal by the worker of the
  suspended run, which has returned, could give it a lease again.)\<close>

theorem answered_analysis_is_stranded:
  assumes "respond px sha org user new_id now i k payload s = (Inr job, s')"
    and "\<forall>j \<in> set (d_jobs (an_work s)). aj_id j = i \<longrightarrow> aj_token j \<noteq> None \<and> aj_lease j = None"
  shows "(\<forall>j \<in> set (d_jobs (an_committed s')). aj_id j = i \<longrightarrow> aj_status j = UNDERSTANDING_REQUEST) \<and>
    (\<forall>t locked later token w c. claim_kept i (an_committed s') (an_work t) \<and>
       (fst (claim_next_analysis_job locked later token w t) = Inr (Some c) \<or>
        fst (recover_next_stale_analysis_job locked later token w t) = Inr (Some c)) \<longrightarrow> cm_job c \<noteq> i)"
proof -
  have "jobs_are (d_jobs (an_work s)) s" by (simp add: jobs_are_def)
  note q = tripleD(1) [OF respond_jobs this assms(1)]
  have js: "d_jobs (an_committed s') = resumed i (d_jobs (an_work s))"
    using q unfolding jobs_are_def by metis
  have stuck: "aj_token j \<noteq> None \<and> aj_lease j = None \<and> aj_status j = UNDERSTANDING_REQUEST"
    if "j \<in> set (d_jobs (an_committed s'))" "aj_id j = i" for j
  proof -
    from that(1) obtain j0 where j0: "j0 \<in> set (d_jobs (an_work s))" "j = (if aj_id j0 = i then j0\<lparr>aj_status := UNDERSTANDING_REQUEST\<rparr> else j0)"
      unfolding js by fastforce
    then show ?thesis using bspec [OF assms(2) j0(1)] that(2) by (simp split: if_splits)
  qed
  have "cm_job c \<noteq> i" if t: "claim_kept i (an_committed s') (an_work t)"
    and r: "fst (claim_next_analysis_job locked later token w t) = Inr (Some c) \<or>
      fst (recover_next_stale_analysis_job locked later token w t) = Inr (Some c)" for t locked later token w c
  proof
    assume i: "cm_job c = i"
    have st: "aj_token j \<noteq> None \<and> aj_lease j = None" if "j \<in> set (d_jobs (an_work t))" "aj_id j = i" for j
      using t that stuck unfolding claim_kept_def by metis
    from r consider m where "m \<in> set (d_jobs (an_work t))" "claimable locked m" "c = make_claim m token w"
      | m where "m \<in> set (stale_jobs locked later (an_work t))" "c = make_claim m token w"
      using claim_next_picks recover_picks by (metis prod.collapse)
    then show False
      using st i by cases (force simp: claimable_def make_claim_def stale_jobs_def)+
  qed
  with stuck show ?thesis by blast
qed

section \<open>Samples\<close>

definition fresh_job :: "uuid \<Rightarrow> nat \<Rightarrow> analysis_job" where
  "fresh_job i t = \<lparr>aj_id = i, aj_org = 1, aj_user = 2, aj_status = RECEIVED, aj_prompt = [], aj_normalized = JObj [],
      aj_locked_by = None, aj_lease = None, aj_idempotency_key = None, aj_token = None, aj_recovery_count = 0, aj_created = t\<rparr>"

definition two_jobs :: analysis_session where
  "two_jobs = (let d = no_analysis_rows\<lparr>d_jobs := [fresh_job 3 60, fresh_job 4 50]\<rparr> in \<lparr>an_committed = d, an_work = d\<rparr>)"

lemma worker_ok: "worker_id_ok ''w''" by (simp add: worker_id_ok_def)

lemma claim_oldest_and_exclusive_witness:
  "\<exists>c s'. claim_next_analysis_job (\<lambda>_. False) 1000 9 ''w'' two_jobs = (Inr (Some c), s') \<and>
    (\<exists>j \<in> set (d_jobs (an_work two_jobs)). cm_job c = aj_id j \<and> aj_created j = 50)"
proof -
  let ?r = "claim_next_analysis_job (\<lambda>_. False) 1000 9 ''w'' two_jobs"
  have "fst ?r = Inr (Some (make_claim (fresh_job 4 50) 9 ''w''))"
    by (simp add: claim_next_analysis_job_def worker_ok an_simps proc_simps two_jobs_def fresh_jobs_def fresh_job_def first_of_def Let_def)
  then obtain s' where r: "?r = (Inr (Some (make_claim (fresh_job 4 50) 9 ''w'')), s')" by (metis prod.collapse)
  from claim_oldest_and_exclusive [OF r refl] show ?thesis using r
    by (auto simp: two_jobs_def fresh_job_def claimable_def make_claim_def Let_def)
qed

definition waiting :: analysis_session where
  "waiting = (let d = no_analysis_rows\<lparr>d_jobs := [(fresh_job 3 60)\<lparr>aj_status := NEEDS_CLARIFICATION, aj_token := Some 9,
       aj_locked_by := Some ''w''\<rparr>, fresh_job 4 50],
     d_clarifications := [\<lparr>ac_id = 7, ac_job = 3, ac_org = 1, ac_code = ''UNSUPPORTED_REQUEST_SCOPE'',
       ac_status = ''AWAITING_CLARIFICATION'', ac_expires = None, ac_answered = None, ac_cancelled = None,
       ac_response = None, ac_fingerprint = None, ac_attempt = 2\<rparr>]\<rparr> in \<lparr>an_committed = d, an_work = d\<rparr>)"

definition plain_parsers :: parsers where
  "plain_parsers = \<lparr>parse_uuid = \<lambda>_. None, parse_bool = \<lambda>_. None\<rparr>"

lemma length_int_str_3: "length (int_str 3) = 1"
  unfolding int_str_def by (subst nat_str.simps) simp

lemma waiting_respond: "\<exists>job s'. respond plain_parsers (\<lambda>s. s) 1 2 11 100 3 7 (JObj []) waiting = (Inr job, s')"
  by (simp add: respond_def an_simps proc_simps the_job_def the_clarification_def find_own_job_def find_clarification_def
      waiting_def fresh_job_def require_some_def check_open_def expired_at_def validate_clarification_response_def
      sanitize_and_check_keys_def clarification_schemas_def model_validate_def as_invalid_response_def raise_val_def bindE_def
      verify_referenced_entities_def accept_response_def Let_def put_clarification_def write_status_def emit_small
      an_audit_def no_analysis_rows_def raise_if_def validate_transition_def terminal_states_def length_int_str_3)

lemma answered_analysis_is_stranded_witness:
  "\<exists>job s' c. respond plain_parsers (\<lambda>s. s) 1 2 11 100 3 7 (JObj []) waiting = (Inr job, s') \<and>
    fst (claim_next_analysis_job (\<lambda>_. False) 2000 13 ''w'' s') = Inr (Some c) \<and> cm_job c \<noteq> 3"
proof -
  obtain job s' where r: "respond plain_parsers (\<lambda>s. s) 1 2 11 100 3 7 (JObj []) waiting = (Inr job, s')"
    using waiting_respond by blast
  have l: "\<forall>j \<in> set (d_jobs (an_work waiting)). aj_id j = 3 \<longrightarrow> aj_token j \<noteq> None \<and> aj_lease j = None"
    by (simp add: waiting_def fresh_job_def Let_def)
  have "jobs_are (d_jobs (an_work waiting)) waiting" by (simp add: jobs_are_def)
  note s' = tripleD(1) [OF respond_jobs this r]
  have js: "d_jobs (an_work s') = resumed 3 (d_jobs (an_work waiting))" using conjunct2 [OF s'] by (simp add: jobs_are_def)
  have c: "fst (claim_next_analysis_job (\<lambda>_. False) 2000 13 ''w'' s') = Inr (Some (make_claim (fresh_job 4 50) 13 ''w''))"
    by (simp add: claim_next_analysis_job_def worker_ok an_simps proc_simps fresh_jobs_def js waiting_def fresh_job_def first_of_def Let_def)
  have "claim_kept 3 (an_committed s') (an_work s')" using conjunct1 [OF s'] by (auto simp: claim_kept_def)
  then have "cm_job (make_claim (fresh_job 4 50) 13 ''w'') \<noteq> 3"
    using answered_analysis_is_stranded [OF r l] c by blast
  with r c show ?thesis by blast
qed

section \<open>The engine's outcomes\<close>

text \<open>C12: when the policy denies the classification of a request, nothing that would transmit its data is
  used: the run is the same, whatever the normalizer, the tools and the model would have done.\<close>

theorem denied_run_calls_nothing:
  assumes "evaluate_model_transmission cls True = DENY"
  shows "execute_job (sv\<lparr>sv_normalize := f, sv_tool := g, sv_narrate := h, sv_verify := v\<rparr>) cb cls cm = execute_job sv cb cls cm"
proof -
  let ?sv = "sv\<lparr>sv_normalize := f, sv_tool := g, sv_narrate := h, sv_verify := v\<rparr>"
  have "engine_body ?sv cb cm cls att n job = engine_body sv cb cm cls att n job" for att n job
    by (simp add: engine_body_def assms)
  moreover have "engine_recover ?sv = engine_recover sv"
    by (intro ext) (simp add: engine_recover_def)
  moreover have "open_attempt ?sv cm = open_attempt sv cm" by (simp add: open_attempt_def)
  ultimately show ?thesis by (simp add: execute_job_def)
qed

lemma denied_run_calls_nothing_witness:
  "\<forall>f g h v cb cm. execute_job (quiet_services\<lparr>sv_normalize := f, sv_tool := g, sv_narrate := h, sv_verify := v\<rparr>) cb STRICTLY_CONFIDENTIAL cm =
    execute_job quiet_services cb STRICTLY_CONFIDENTIAL cm"
  using denied_run_calls_nothing [where cls = STRICTLY_CONFIDENTIAL and sv = quiet_services] by (simp add: evaluate_model_transmission_def)

end
