(* ===== verification/AnalysisOutcomes.thy ===== *)
theory AnalysisOutcomes
  imports AnalysisSafety
begin

text \<open>
  What a run of the engine ends in: what is stored when it returns, and that it does complete the analysis
  when the services answer and nobody disturbs it. Outcome specifications with an impossible exception
  case (\<open>noE\<close>) are total: every step of the run succeeds.
\<close>

section \<open>Results\<close>

text \<open>A result that has been stored: the job is COMPLETED and its snapshot has passed the numeric check.\<close>

definition delivered :: "services \<Rightarrow> claim \<Rightarrow> analysis_session \<Rightarrow> bool" where
  "delivered sv cm s \<longleftrightarrow> (\<forall>j \<in> set (d_jobs (an_committed s)). aj_id j = cm_job cm \<longrightarrow> aj_status j = COMPLETED \<and> aj_lease j = None) \<and>
     (\<exists>r \<in> set (d_snapshots (an_committed s)). \<exists>narrative i. rs_job r = cm_job cm \<and>
        rs_json r = JObj [(''narrative'', JStr narrative), (''dataset'', dataset_summary i)] \<and>
        sv_verify sv narrative (dataset_summary i) = Inr ())"

abbreviation anyE :: "py_exc \<Rightarrow> analysis_session \<Rightarrow> bool" where
  "anyE \<equiv> \<lambda>_ _. True"

lemma triple_const: "triple (\<lambda>_. b) m (\<lambda>_ _. b) anyE"
  by (auto simp: triple_def split: prod.splits sum.splits)

lemma triple_advance_id: "triple (\<lambda>_. aj_id job = i) (advance job st) (\<lambda>job' _. aj_id job' = i \<and> aj_status job' = st) anyE"
  by (auto simp: triple_def advance_def write_status_def an_simps proc_simps split: prod.splits sum.splits)

lemma triple_write: "(\<And>s. P s \<Longrightarrow> Q () (s\<lparr>an_work := f (an_work s)\<rparr>)) \<Longrightarrow> triple P (an_write f) Q E"
  by (simp add: triple_def an_write_def modifyP_def)

lemma triple_emit:
  "(\<And>s es. P s \<Longrightarrow> Q () (s\<lparr>an_work := (an_work s)\<lparr>d_events := es\<rparr>\<rparr>)) \<Longrightarrow> triple P (emit_event org job t p a) Q anyE"
  by (auto simp: triple_def emit_event_def emit_row_def an_simps proc_simps split: prod.splits sum.splits)

definition closed :: "uuid \<Rightarrow> analysis_session \<Rightarrow> bool" where
  "closed i s \<longleftrightarrow> (\<forall>j \<in> set (d_jobs (an_work s)). aj_id j = i \<longrightarrow> aj_status j = COMPLETED \<and> aj_lease j = None)"

lemma complete_job_delivers:
  assumes v: "sv_verify sv narrative (dataset_summary i) = Inr ()"
  shows "triple (\<lambda>_. aj_id job = cm_job cm) (complete_job sv cm att job narrative i)
    (\<lambda>job' s. aj_status job' = COMPLETED \<and> an_work s = an_committed s \<and> delivered sv cm s) anyE"
proof -
  let ?snap = "\<lambda>s. \<exists>r \<in> set (d_snapshots (an_work s)). rs_job r = cm_job cm \<and>
      rs_json r = JObj [(''narrative'', JStr narrative), (''dataset'', dataset_summary i)]"
  have close: "triple (\<lambda>_. aj_id job = cm_job cm) (close_job cm COMPLETED job)
      (\<lambda>job' s. closed (cm_job cm) s \<and> aj_status job' = COMPLETED) anyE"
    by (auto simp: triple_def close_job_def an_simps proc_simps closed_def put_job_def)
  have attempt: "triple (\<lambda>s. closed (cm_job cm) s \<and> b) (set_attempt att st) (\<lambda>_ s. closed (cm_job cm) s \<and> b) anyE" for b st
    by (auto simp: triple_def set_attempt_def an_simps proc_simps closed_def put_attempt_def)
  have snap: "triple (\<lambda>s. closed (cm_job cm) s \<and> b) (an_write (\<lambda>d. d\<lparr>d_snapshots := d_snapshots d @ [\<lparr>rs_id = n, rs_job = cm_job cm,
        rs_org = cm_org cm, rs_json = JObj [(''narrative'', JStr narrative), (''dataset'', dataset_summary i)]\<rparr>]\<rparr>))
      (\<lambda>_ s. closed (cm_job cm) s \<and> ?snap s \<and> b) anyE" for b n
    by (auto simp: triple_def an_simps proc_simps closed_def)
  have event: "triple (\<lambda>s. closed (cm_job cm) s \<and> ?snap s \<and> b) (emit cm t p a) (\<lambda>_ s. closed (cm_job cm) s \<and> ?snap s \<and> b) anyE" for t p a b
    unfolding emit_def by (rule triple_emit) (auto simp: closed_def)
  have finish: "triple (\<lambda>s. closed (cm_job cm) s \<and> ?snap s \<and> aj_status job' = COMPLETED) (bindP an_commit (\<lambda>_. retP job'))
    (\<lambda>job' s. aj_status job' = COMPLETED \<and> an_work s = an_committed s \<and> delivered sv cm s) anyE" for job'
    using v by (auto simp: triple_def an_simps proc_simps closed_def delivered_def)
  show ?thesis unfolding complete_job_def
    by (rule triple_bind [OF triple_const], rule triple_bind [OF triple_const], rule triple_bind [OF triple_const],
      rule triple_bind [OF close], rule triple_bind [OF attempt], rule triple_bind [OF snap],
      rule triple_bind [OF event], rule finish)
qed

abbreviation outcome :: "services \<Rightarrow> claim \<Rightarrow> analysis_job \<Rightarrow> analysis_session \<Rightarrow> bool" where
  "outcome sv cm job s \<equiv> an_work s = an_committed s \<and> aj_status job \<in> {COMPLETED, REJECTED_BY_POLICY, NEEDS_CLARIFICATION} \<and>
     (aj_status job = COMPLETED \<longrightarrow> delivered sv cm s)"

lemma commit_outcome:
  "aj_status job \<in> {REJECTED_BY_POLICY, NEEDS_CLARIFICATION} \<Longrightarrow> triple P (bindP an_commit (\<lambda>_. retP job)) (outcome sv cm) anyE"
  by (auto simp: triple_def an_simps proc_simps)

lemma triple_pure: "(b \<Longrightarrow> triple (\<lambda>_. True) m Q E) \<Longrightarrow> triple (\<lambda>_. b) m Q E"
  by (auto simp: triple_def)

lemma reject_outcome: "triple (\<lambda>_. True) (reject cm att job) (outcome sv cm) anyE"
proof -
  have "triple (\<lambda>_. True) (close_job cm REJECTED_BY_POLICY job) (\<lambda>job' _. aj_status job' = REJECTED_BY_POLICY) anyE"
    by (simp add: triple_def close_job_def an_simps proc_simps)
  then show ?thesis unfolding reject_def
    by (rule triple_bind) (rule triple_bind [OF triple_const], rule triple_bind [OF triple_const], rule triple_pure, rule commit_outcome, simp)
qed

lemma ask_outcome: "triple (\<lambda>_. True) (ask_user sv cm att n job out) (outcome sv cm) anyE"
  unfolding ask_user_def
  by (rule triple_bind [OF triple_const], rule triple_bind [OF triple_const], rule triple_bind [OF triple_const],
      rule triple_bind [OF triple_const], rule triple_bind [OF triple_const], rule commit_outcome, simp)

lemma gates_verify: "run_all_gates sv narrative ds = Inr gates \<Longrightarrow> sv_verify sv narrative ds = Inr ()"
  by (cases "sv_verify sv narrative ds") (auto simp: run_all_gates_def bindE_def)

lemma report_outcome: "triple (\<lambda>_. aj_id job = cm_job cm) (report sv cm att job outs) (outcome sv cm) anyE"
proof -
  have adv: "triple (\<lambda>_. aj_id job = i) (advance job st) (\<lambda>job' _. aj_id job' = i) anyE" for job i st
    by (rule triple_conseq [OF triple_advance_id]) auto
  have gates: "triple (\<lambda>_. b) (liftP (run_all_gates sv n ds)) (\<lambda>_ _. sv_verify sv n ds = Inr () \<and> b) anyE" for n ds b
    by (auto simp: triple_def liftP_def dest: gates_verify split: sum.splits)
  have fin: "triple (\<lambda>_. sv_verify sv n (dataset_summary i) = Inr () \<and> aj_id job = cm_job cm) (complete_job sv cm att job n i)
      (outcome sv cm) anyE" for n i job
    using complete_job_delivers [of sv n i job cm att] by (auto simp: triple_def split: prod.splits sum.splits)
  show ?thesis unfolding report_def Let_def
    by (rule triple_bind [OF triple_const], rule triple_bind [OF adv], rule triple_bind [OF adv], rule triple_bind [OF triple_const],
        rule triple_bind [OF triple_const], rule triple_bind [OF triple_const], rule triple_bind [OF adv], rule triple_bind [OF gates],
        rule triple_bind [OF triple_const], rule fin)
qed

lemma policy_outcome: "triple (\<lambda>_. aj_id job = cm_job cm) (check_policy sv cm cls att job steps) (outcome sv cm) anyE"
proof -
  have adv: "triple (\<lambda>_. aj_id job = i) (advance job st) (\<lambda>job' _. aj_id job' = i) anyE" for job i st
    by (rule triple_conseq [OF triple_advance_id]) auto
  have rej: "triple (\<lambda>_. b) (reject cm att job) (outcome sv cm) anyE" for b job
    by (rule triple_conseq [OF reject_outcome]) auto
  show ?thesis unfolding check_policy_def Let_def
    by (rule triple_bind [OF triple_const], rule triple_bind [OF adv], rule triple_bind [OF triple_const], rule triple_if,
        rule triple_bind [OF triple_const], rule rej, rule triple_bind [OF triple_const], rule triple_bind [OF adv],
        rule triple_bind [OF adv], rule triple_bind [OF adv], rule triple_bind [OF triple_const], rule report_outcome)
qed

lemma body_outcome:
  "triple (\<lambda>_. aj_id job = cm_job cm) (engine_body sv cb cm cls att n job) (outcome sv cm) anyE"
proof -
  have adv: "triple (\<lambda>_. aj_id job = i) (advance job st) (\<lambda>job' _. aj_id job' = i) anyE" for job i st
    by (rule triple_conseq [OF triple_advance_id]) auto
  have und: "triple (\<lambda>_. aj_id job = i) (understand cm att job) (\<lambda>job' _. aj_id job' = i) anyE" for i
    unfolding understand_def
    by (rule triple_bind [OF triple_const], rule triple_bind [OF triple_const], rule triple_bind [OF triple_const],
        rule triple_bind [OF adv], rule triple_bind [OF triple_const], rule triple_ret)
  have plan: "triple (\<lambda>_. aj_id job = i) (plan_job sv cb cm att job out) (\<lambda>(job', _) _. aj_id job' = i) anyE" for job i out
    unfolding plan_job_def
    by (rule triple_bind [OF triple_const], rule triple_bind [OF triple_const], rule triple_bind [OF triple_const],
        rule triple_bind [where R = "\<lambda>job' _. aj_id job' = i"], use triple_advance_id [of "job\<lparr>aj_normalized := request_json out\<rparr>" i PLANNING]
          in \<open>force simp: triple_def split: prod.splits sum.splits\<close>, rule triple_bind [OF triple_const],
        rule triple_bind [OF triple_const], rule triple_bind [OF triple_const], rule triple_ret, simp)
  have weak: "triple (\<lambda>_. b) m (outcome sv cm) anyE" if "triple (\<lambda>_. True) m (outcome sv cm) anyE" for b m
    by (rule triple_conseq [OF that]) auto
  show ?thesis unfolding engine_body_def Let_def
    by (rule triple_bind [OF und], rule triple_if, rule triple_bind [OF triple_const], rule triple_bind [OF triple_const],
        rule weak [OF reject_outcome], rule triple_bind [OF triple_const], rule triple_if, rule weak [OF ask_outcome],
        rule triple_bind [OF plan], rule triple_prod) (simp only: prod.case, rule policy_outcome)
qed

lemma engine_outcome: "triple (\<lambda>_. True) (execute_job sv cb cls cm) (outcome sv cm) anyE"
proof -
  have load: "triple (\<lambda>_. True) (load_claimed_job cm) (\<lambda>job _. aj_id job = cm_job cm) anyE"
    by (auto simp: triple_def load_claimed_job_def an_simps proc_simps require_some_def scalar_one_or_none_Some holds_claim_def
        dest!: filter_eq_single split: sum.splits option.splits)
  have "fst (engine_recover sv cm att e s) \<noteq> Inr job" for att e s job
    by (auto simp: engine_recover_def an_simps proc_simps split: sum.splits prod.splits if_splits)
  then have rec: "triple (\<lambda>_. True) (engine_recover sv cm att e) Q anyE" for att e Q
    by (auto simp: triple_def split: sum.splits prod.splits) (metis fst_conv)
  show ?thesis unfolding execute_job_def
    by (rule triple_bind [OF triple_const], rule triple_bind [OF load], rule triple_bind [OF triple_const], rule triple_prod,
        rule triple_try, rule body_outcome, rule rec)
qed

text \<open>C10: a run of the engine that returns has committed all its work and ended the analysis as COMPLETED,
  REJECTED_BY_POLICY or NEEDS_CLARIFICATION; if COMPLETED, the committed analysis has that status and no
  lease, and a committed snapshot of it holds a narrative whose numbers the verifier accepted.\<close>

theorem returned_run_delivers:
  assumes "execute_job sv cb cls cm s = (Inr job, s')"
  shows "an_work s' = an_committed s' \<and> aj_status job \<in> {COMPLETED, REJECTED_BY_POLICY, NEEDS_CLARIFICATION} \<and>
    (aj_status job = COMPLETED \<longrightarrow>
      (\<forall>j \<in> set (d_jobs (an_committed s')). aj_id j = cm_job cm \<longrightarrow> aj_status j = COMPLETED \<and> aj_lease j = None) \<and>
      (\<exists>r \<in> set (d_snapshots (an_committed s')). \<exists>narrative i. rs_job r = cm_job cm \<and>
        rs_json r = JObj [(''narrative'', JStr narrative), (''dataset'', dataset_summary i)] \<and>
        sv_verify sv narrative (dataset_summary i) = Inr ()))"
  using tripleD(1) [OF engine_outcome TrueI assms] by (simp add: delivered_def)

definition good_services :: services where
  "good_services = \<lparr>sv_normalize = \<lambda>_ _. Inr \<lparr>no_needs_clarification = False, no_request = None, no_institutions = [''a'', ''b''],
       no_periods = [''p''], no_code = None, no_prompt_key = None\<rparr>,
     sv_tool = \<lambda>_ _. Inr (JObj [(''result_dataset'', JObj [(''result_dataset_id'', JStr ''d'')])]), sv_narrate = \<lambda>_ _. Inr ''ok'',
     sv_verify = \<lambda>_ _. Inr (), sv_time_str = \<lambda>_. ''now'', sv_sha = \<lambda>s. s, sv_uuid = \<lambda>_. 9, sv_now = 100, sv_clock = 0,
     sv_elapsed = 2, sv_others = \<lambda>_ d. d\<rparr>"

definition sample_claim :: claim where
  "sample_claim = \<lparr>cm_org = 1, cm_job = 3, cm_token = 9, cm_worker = ''w''\<rparr>"

definition claimed_session :: analysis_session where
  "claimed_session = (let d = no_analysis_rows\<lparr>d_jobs := [(fresh_job 3 60)\<lparr>aj_token := Some 9, aj_locked_by := Some ''w'',
     aj_lease := Some 900\<rparr>]\<rparr> in \<lparr>an_committed = d, an_work = d\<rparr>)"

section \<open>A run that is not disturbed\<close>

abbreviation noE :: "py_exc \<Rightarrow> analysis_session \<Rightarrow> bool" where
  "noE \<equiv> \<lambda>_ _. False"

text \<open>The claim holds the only row of its analysis, in status \<open>st\<close>; when \<open>b\<close>, no tool has run for it.\<close>

definition held :: "claim \<Rightarrow> bool \<Rightarrow> job_status \<Rightarrow> analysis_db \<Rightarrow> bool" where
  "held cm b st d \<longleftrightarrow> (\<exists>j. filter (\<lambda>j. aj_id j = cm_job cm) (d_jobs d) = [j] \<and> holds_claim cm j \<and> aj_status j = st) \<and>
     (b \<longrightarrow> (\<forall>t \<in> set (d_tools d). ti_job t \<noteq> cm_job cm))"

abbreviation holding :: "claim \<Rightarrow> bool \<Rightarrow> job_status \<Rightarrow> analysis_session \<Rightarrow> bool" where
  "holding cm b st s \<equiv> held cm b st (an_work s)"

lemma held_rows: "d_jobs d' = d_jobs d \<Longrightarrow> d_tools d' = d_tools d \<Longrightarrow> held cm b st d' = held cm b st d"
  by (simp add: held_def)

lemma held_claim: "held cm b st d \<Longrightarrow> \<exists>j \<in> set (d_jobs d). holds_claim cm j \<and> aj_status j = st"
  unfolding held_def by (auto dest: filter_eq_single)

lemma live_fence: "st \<in> set running_states \<Longrightarrow> triple (holding cm b st) (assert_fenced_ownership cm) (\<lambda>_. holding cm b st) noE"
  by (auto simp: triple_def assert_fenced_ownership_def an_simps proc_simps raise_if_def fenced_def dest: held_claim)

lemma live_write:
  "(\<And>d. d_jobs (f d) = d_jobs d \<and> d_tools (f d) = d_tools d) \<Longrightarrow> triple (holding cm b st) (an_write f) (\<lambda>_. holding cm b st) noE"
  by (simp add: triple_def an_simps proc_simps held_def)

lemma live_emit: "jweight (JObj p) \<le> 32768 \<Longrightarrow> triple (holding cm b st) (emit cm t p a) (\<lambda>_. holding cm b st) noE"
  by (simp add: triple_def emit_def emit_small held_def)

lemma live_read: "(\<And>s. holding cm b st s \<Longrightarrow> f (an_work s) = Inr x) \<Longrightarrow> triple (holding cm b st) (an_read f) (\<lambda>y s. holding cm b st s \<and> y = x) noE"
  by (simp add: triple_def an_simps proc_simps)

lemma live_lift: "r = Inr x \<Longrightarrow> triple P (liftP r) (\<lambda>y s. P s \<and> y = x) noE"
  by (simp add: triple_def liftP_def)

lemma live_put:
  assumes "\<And>j. aj_id (f j) = aj_id j \<and> aj_org (f j) = aj_org j \<and> aj_token (f j) = aj_token j \<and> aj_locked_by (f j) = aj_locked_by j"
    and "\<And>j. aj_status j = st \<Longrightarrow> aj_status (f j) = st'"
  shows "triple (holding cm b st) (an_write (put_job f (cm_job cm))) (\<lambda>_. holding cm b st') noE"
proof -
  have "filter (\<lambda>j. aj_id j = i) (map (\<lambda>j. if aj_id j = i then f j else j) js) = map f (filter (\<lambda>j. aj_id j = i) js)" for i js
    using assms(1) by (induction js) auto
  then show ?thesis
    using assms by (auto simp: triple_def an_simps proc_simps held_def put_job_def holds_claim_def)
qed

lemma live_advance:
  assumes "aj_id job = cm_job cm" "aj_status job = st" "new \<in> set (valid_transitions st)"
  shows "triple (holding cm b st) (advance job new) (\<lambda>job' s. holding cm b new s \<and> job' = job\<lparr>aj_status := new\<rparr>) noE"
proof -
  have v: "validate_transition (aj_status job) new = Inr ()" using assms by simp
  have w: "triple (holding cm b st) (write_status (aj_id job) new) (\<lambda>_. holding cm b new) noE"
    unfolding write_status_def assms(1) by (rule live_put) simp_all
  show ?thesis unfolding advance_def v
    by (rule triple_bind [where R = "\<lambda>_. holding cm b st"], simp add: triple_def liftP_def, rule triple_bind [OF w])
      (simp add: triple_def retP_def)
qed

lemma triple_eq: "(\<And>x. x = y \<Longrightarrow> triple P (f x) Q E) \<Longrightarrow> triple (\<lambda>s. P s \<and> x = y) (f x) Q E"
  by (cases "x = y") (simp_all add: triple_def)

lemma live_bind_eq:
  "triple P m (\<lambda>x s. R s \<and> x = y) E \<Longrightarrow> triple R (f y) Q E \<Longrightarrow> triple P (bindP m f) Q E"
  by (erule triple_bind) (auto simp: triple_def)

lemmas live_fences = live_fence [unfolded running_states_def]

lemma length_int_str_1 [simp]: "length (int_str 1) = 1"
  unfolding int_str_def by (subst nat_str.simps) simp

lemma live_understand:
  assumes "aj_id job = cm_job cm" "aj_status job = RECEIVED"
  shows "triple (holding cm b RECEIVED) (understand cm att job)
    (\<lambda>job' s. holding cm b UNDERSTANDING_REQUEST s \<and> job' = job\<lparr>aj_status := UNDERSTANDING_REQUEST\<rparr>) noE"
  unfolding understand_def
  by (rule triple_bind [OF live_fences], simp, rule triple_bind [OF live_emit], simp, rule triple_bind [OF live_fences], simp,
      rule live_bind_eq [OF live_advance [OF assms]], simp, rule triple_bind [OF live_emit], simp, rule triple_ret, simp)

lemma live_plan:
  assumes "aj_id job = cm_job cm" "aj_status job = UNDERSTANDING_REQUEST" "fst (check_allow_execution (sv_clock sv) cb) = Inr ()"
  shows "triple (holding cm b UNDERSTANDING_REQUEST) (plan_job sv cb cm att job out)
    (\<lambda>(job', steps) s. holding cm b PLANNING s \<and> aj_id job' = cm_job cm \<and> aj_status job' = PLANNING \<and> aj_prompt job' = aj_prompt job \<and>
      (\<exists>st. steps = [st] \<and> ps_tool st = ''compare_institutions'' \<and> ps_number st = 1)) noE"
proof -
  have put: "triple (holding cm b st) (an_write (put_job (\<lambda>j. j\<lparr>aj_normalized := n\<rparr>) (aj_id job))) (\<lambda>_. holding cm b st) noE" for n st
    unfolding assms(1) by (rule live_put) simp_all
  have steps: "triple (holding cm b st) (an_read (\<lambda>d. Inr (make_plan cm out d)))
     (\<lambda>steps s. holding cm b st s \<and> (\<exists>x. steps = [x] \<and> ps_tool x = ''compare_institutions'' \<and> ps_number x = 1)) noE" for st
    by (auto simp: triple_def an_simps proc_simps make_plan_def split: prod.splits)
  have store: "triple (\<lambda>s. holding cm b st s \<and> c) (an_write (\<lambda>d. d\<lparr>d_plans := d_plans d @ p\<rparr>)) (\<lambda>_ s. holding cm b st s \<and> c) noE" for st c p
    by (auto simp: triple_def an_simps proc_simps held_def)
  show ?thesis unfolding plan_job_def
    by (rule triple_bind [OF put], rule live_bind_eq [OF live_lift [OF assms(3)]], rule triple_bind [OF live_fences], simp,
        rule live_bind_eq [OF live_advance], simp add: assms, simp add: assms, simp,
        rule triple_bind [OF live_emit], simp, rule triple_bind [OF steps], rule triple_bind [OF store], rule triple_ret)
      (simp add: assms)
qed

lemma live_commit_others:
  assumes quiet: "\<And>i d. d_jobs (sv_others sv i d) = d_jobs d \<and> d_tools (sv_others sv i d) = d_tools d"
    and k: "triple (holding cm b st) (k ()) Q E"
  shows "triple (holding cm b st) (bindP an_commit (\<lambda>_. bindP (an_others (sv_others sv i)) k)) Q E"
  using k unfolding triple_def by (simp add: an_simps proc_simps held_rows [OF conjunct1 [OF quiet] conjunct2 [OF quiet]])

lemma held_none_stored: "held cm True st d \<Longrightarrow> check_existing_invocation sha args (stored_invocations cm tool d) = None"
proof -
  assume "held cm True st d"
  then have "stored_invocations cm tool d = []" by (auto simp: held_def stored_invocations_def filter_empty_conv)
  then show ?thesis by simp
qed

text \<open>What an undisturbed run relies on: services that answer, and other sessions that leave the claimed
  analysis alone.\<close>

definition undisturbed :: "services \<Rightarrow> breaker \<Rightarrow> bool" where
  "undisturbed sv cb \<longleftrightarrow> fst (check_allow_execution (sv_clock sv) cb) = Inr () \<and>
     (\<forall>d p. \<exists>out. sv_normalize sv d p = Inr out \<and> \<not> no_needs_clarification out) \<and>
     (\<forall>args d. \<exists>res i. sv_tool sv args d = Inr res \<and> dataset_id [res] = Inr i) \<and>
     (\<forall>p outs. \<exists>t. sv_narrate sv p outs = Inr t) \<and> (\<forall>t ds. sv_verify sv t ds = Inr ()) \<and>
     (\<forall>i d. d_jobs (sv_others sv i d) = d_jobs d \<and> d_tools (sv_others sv i d) = d_tools d) \<and>
     sv_elapsed sv < 10 ^ 30 \<and> (\<forall>t. length (sv_time_str sv t) \<le> 100)"

lemma live_invoke:
  assumes u: "undisturbed sv cb" and st: "st \<in> set running_states"
  shows "triple (holding cm b st) (invoke_tool sv cm x) (\<lambda>res s. holding cm False st s \<and> (\<exists>i. dataset_id [res] = Inr i)) noE"
proof -
  have quiet: "d_jobs (sv_others sv i d) = d_jobs d \<and> d_tools (sv_others sv i d) = d_tools d" for i d
    using u by (simp add: undisturbed_def)
  have tool: "triple (holding cm b st) (an_read (sv_tool sv (ps_arguments x))) (\<lambda>res s. holding cm b st s \<and> (\<exists>i. dataset_id [res] = Inr i)) noE"
    using u unfolding undisturbed_def triple_def by (auto simp: an_simps proc_simps split: sum.splits) (metis sum.distinct(1) sum.inject(2))+
  have store: "triple (holding cm b st) (an_write (\<lambda>d. d\<lparr>d_tools := d_tools d @ ts\<rparr>)) (\<lambda>_. holding cm False st) noE" for ts
    by (auto simp: triple_def an_simps proc_simps held_def)
  have rest: "triple (holding cm b st) (bindP (assert_fenced_ownership cm) (\<lambda>_. bindP (an_write (\<lambda>d. d\<lparr>d_tools := d_tools d @ ts\<rparr>)) (\<lambda>_. retP res)))
      (\<lambda>r s. holding cm False st s \<and> r = res) noE" for ts res
    by (rule triple_bind [OF live_fence [OF st]], rule triple_bind [OF store]) (simp add: triple_ret)
  have "triple (\<lambda>s. holding cm b st s \<and> (\<exists>i. dataset_id [res] = Inr i)) (bindP an_commit (\<lambda>_. bindP (an_others (sv_others sv 2)) (\<lambda>_.
      bindP (assert_fenced_ownership cm) (\<lambda>_. bindP (an_write (\<lambda>d. d\<lparr>d_tools := d_tools d @ ts\<rparr>)) (\<lambda>_. retP res)))))
      (\<lambda>r s. holding cm False st s \<and> (\<exists>i. dataset_id [r] = Inr i)) noE" for ts res
    using live_commit_others [where k = "\<lambda>_. bindP (assert_fenced_ownership cm) (\<lambda>_. bindP (an_write (\<lambda>d. d\<lparr>d_tools := d_tools d @ ts\<rparr>)) (\<lambda>_. retP res))"
      and i = 2, OF quiet rest]
    unfolding triple_def by (fastforce split: sum.splits prod.splits)
  then show ?thesis unfolding invoke_tool_def by (intro triple_bind [OF tool])
qed

lemma first_tool_call: "fst (record_tool_call new_budget) = Inr ()"
  by (simp add: record_tool_call_def verify_budget_def new_budget_def raise_if_def dless_def aligned_def signed_coeff_def sgn_int_def)

lemma live_steps:
  assumes u: "undisturbed sv cb" and st: "st \<in> set running_states"
    and x: "ps_tool x = ''compare_institutions''" "ps_number x = 1"
  shows "triple (holding cm True st) (run_steps sv cm att new_budget [x])
    (\<lambda>outs s. holding cm False st s \<and> (\<exists>i. dataset_id outs = Inr i)) noE"
proof -
  have el: "length (int_str (int (sv_elapsed sv))) \<le> 30"
    using u nat_str_bound [of "sv_elapsed sv" 30] by (simp add: undisturbed_def int_str_def)
  have stored: "triple (holding cm True st) (an_read (\<lambda>d. Inr (check_existing_invocation (sv_sha sv) (ps_arguments x) (stored_invocations cm (ps_tool x) d))))
      (\<lambda>known s. holding cm True st s \<and> known = None) noE"
    by (simp add: triple_def an_simps proc_simps held_none_stored)
  have done_: "triple (\<lambda>s. holding cm False st s \<and> c) (emit cm t p att) (\<lambda>_ s. holding cm False st s \<and> c) noE"
    if "jweight (JObj p) \<le> 32768" for c t p
    using live_emit [OF that, of cm False st t att] by (simp add: triple_def split: sum.splits prod.splits)
  have ret: "triple (\<lambda>s. holding cm False st s \<and> (\<exists>i. dataset_id [res] = Inr i)) (retP (k, res))
      (\<lambda>(_, res) s. holding cm False st s \<and> (\<exists>i. dataset_id [res] = Inr i)) noE" for k :: budget and res
    by (simp add: triple_def retP_def)
  have step: "triple (holding cm True st) (run_step sv cm att new_budget x)
      (\<lambda>(_, res) s. holding cm False st s \<and> (\<exists>i. dataset_id [res] = Inr i)) noE"
    unfolding run_step_def
    by (rule live_bind_eq [OF live_lift [OF first_tool_call]], rule triple_bind [OF live_emit], simp add: x,
        rule live_bind_eq [OF stored], simp only: option.case, rule triple_bind [OF live_invoke [OF u st]],
        rule triple_bind [OF done_], use el in \<open>simp add: x\<close>, rule ret)
  have ret2: "triple (\<lambda>s. holding cm False st s \<and> (\<exists>i. dataset_id [res] = Inr i)) (bindP (retP []) (\<lambda>outs. retP (res # outs)))
      (\<lambda>outs s. holding cm False st s \<and> (\<exists>i. dataset_id outs = Inr i)) noE" for res
    by (simp add: triple_def retP_def bindP_def)
  show ?thesis unfolding run_steps.simps
    by (rule triple_bind [OF step], rule triple_prod) (simp only: prod.case ret2)
qed

lemma live_complete:
  assumes u: "undisturbed sv cb" and job: "aj_id job = cm_job cm" "aj_status job = QUALITY_GATE"
  shows "triple (holding cm b QUALITY_GATE) (complete_job sv cm att job narrative i) (\<lambda>job' _. aj_status job' = COMPLETED) noE"
proof -
  have len: "length (sv_time_str sv (sv_now sv)) \<le> 100" using u by (simp add: undisturbed_def)
  have own: "triple (holding cm b st) (an_read (\<lambda>d. raise_if (\<not> (\<exists>j \<in> set (d_jobs d). holds_claim cm j)) e)) (\<lambda>_ _. True) noE" for st e
    by (auto simp: triple_def an_simps proc_simps raise_if_def dest: held_claim)
  have close_: "triple (\<lambda>_. True) (close_job cm COMPLETED job) (\<lambda>job' _. aj_status job' = COMPLETED) noE"
    by (simp add: triple_def close_job_def an_simps proc_simps)
  have write_: "triple (\<lambda>_. c) (an_write f) (\<lambda>_ _. c) noE" for c f by (simp add: triple_def an_simps proc_simps)
  have att_: "triple (\<lambda>_. c) (set_attempt a st) (\<lambda>_ _. c) noE" for c a st by (simp add: triple_def set_attempt_def an_simps proc_simps)
  have last: "triple (\<lambda>_. c) (emit cm t p att) (\<lambda>_ _. c) noE" if "jweight (JObj p) \<le> 32768" for c t p
    using that by (simp add: triple_def emit_def emit_small)
  have finish: "triple (\<lambda>_. aj_status job' = COMPLETED) (bindP an_commit (\<lambda>_. retP job')) (\<lambda>job' _. aj_status job' = COMPLETED) noE" for job'
    by (simp add: triple_def an_simps proc_simps)
  show ?thesis unfolding complete_job_def
    by (rule triple_bind [OF live_fences], simp, rule live_bind_eq [OF live_lift], simp add: job, rule triple_bind [OF own],
        rule triple_bind [OF close_], rule triple_bind [OF att_], rule triple_bind [OF write_], rule triple_bind [OF last],
        use len in simp, rule finish)
qed

lemma triple_conj_pure: "(c \<Longrightarrow> triple P m Q E) \<Longrightarrow> triple (\<lambda>s. P s \<and> c) m Q E"
  by (auto simp: triple_def)

lemma live_report:
  assumes u: "undisturbed sv cb" and job: "aj_id job = cm_job cm" "aj_status job = EXECUTING_TOOLS" and ds: "dataset_id outs = Inr i"
  shows "triple (holding cm b EXECUTING_TOOLS) (report sv cm att job outs) (\<lambda>job' _. aj_status job' = COMPLETED) noE"
proof -
  obtain t where t: "sv_narrate sv (prompt_of (job\<lparr>aj_status := GENERATING_STRUCTURED_RESULT\<rparr>)) outs = Inr t"
    using u unfolding undisturbed_def by blast
  have "\<exists>gs. run_all_gates sv n d = Inr gs" for n d
    using u by (simp add: undisturbed_def run_all_gates_def bindE_def)
  then obtain gs where gates: "run_all_gates sv (if t = [] then default_narrative else t) (dataset_summary i) = Inr gs" by blast
  have store: "triple (holding cm b st) (store_gates cm gs) (\<lambda>_. holding cm b st) noE" for st gs
    unfolding store_gates_def by (rule live_write) simp
  show ?thesis unfolding report_def Let_def
    by (rule triple_bind [OF live_fences], simp, rule live_bind_eq [OF live_advance [OF job]], simp,
        rule live_bind_eq [OF live_advance], simp add: job, simp, simp,
        rule live_bind_eq [OF live_lift], use t in \<open>simp\<close>, rule live_bind_eq [OF live_lift [OF ds]],
        rule triple_bind [OF live_fences], simp, rule live_bind_eq [OF live_advance], simp add: job, simp, simp,
        rule live_bind_eq [OF live_lift [OF gates]], rule triple_bind [OF store], rule live_complete [OF u])
      (simp_all add: job)
qed

lemma live_policy:
  assumes u: "undisturbed sv cb" and job: "aj_id job = cm_job cm" "aj_status job = PLANNING"
    and cls: "evaluate_model_transmission cls True \<noteq> DENY" and x: "ps_tool x = ''compare_institutions''" "ps_number x = 1"
  shows "triple (holding cm True PLANNING) (check_policy sv cm cls att job [x]) (\<lambda>job' _. aj_status job' = COMPLETED) noE"
proof -
  have record_: "triple (holding cm b st) (record_decision cm cls dec) (\<lambda>_. holding cm b st) noE" for b st dec
    unfolding record_decision_def by (rule live_write) simp
  have rep: "triple (\<lambda>s. holding cm False EXECUTING_TOOLS s \<and> (\<exists>i. dataset_id outs = Inr i)) (report sv cm att j outs)
      (\<lambda>job' _. aj_status job' = COMPLETED) noE" if "aj_id j = cm_job cm" "aj_status j = EXECUTING_TOOLS" for outs j
    by (rule triple_conj_pure) (use live_report [OF u that] in blast)
  show ?thesis unfolding check_policy_def Let_def if_not_P [OF cls]
    by (rule triple_bind [OF live_fences], simp, rule live_bind_eq [OF live_advance [OF job]], simp, rule triple_bind [OF record_],
        rule triple_bind [OF live_fences], simp, rule live_bind_eq [OF live_advance], simp add: job, simp, simp,
        rule live_bind_eq [OF live_advance], simp add: job, simp, simp, rule live_bind_eq [OF live_advance], simp add: job, simp, simp,
        rule triple_bind [OF live_steps [OF u _ x]], simp add: running_states_def, rule rep) (simp_all add: job)
qed

lemma live_body:
  assumes u: "undisturbed sv cb" and job: "aj_id job = cm_job cm" "aj_status job = RECEIVED"
    and cls: "evaluate_model_transmission cls True \<noteq> DENY"
  shows "triple (holding cm True RECEIVED) (engine_body sv cb cm cls att n job) (\<lambda>job' _. aj_status job' = COMPLETED) noE"
proof -
  let ?job = "job\<lparr>aj_status := UNDERSTANDING_REQUEST\<rparr>"
  have cb: "fst (check_allow_execution (sv_clock sv) cb) = Inr ()" using u by (simp add: undisturbed_def)
  have norm: "triple (holding cm b st) (an_read (\<lambda>d. sv_normalize sv d p)) (\<lambda>out s. holding cm b st s \<and> \<not> no_needs_clarification out) noE"
    for b st p using u unfolding undisturbed_def triple_def
    by (auto simp: an_simps proc_simps split: sum.splits) (metis sum.distinct(1) sum.inject(2))+
  have pol: "triple (\<lambda>s. holding cm True PLANNING s \<and> aj_id j = cm_job cm \<and> aj_status j = PLANNING \<and>
      aj_prompt j = q \<and> (\<exists>st. steps = [st] \<and> ps_tool st = ''compare_institutions'' \<and> ps_number st = 1))
      (check_policy sv cm cls att j steps) (\<lambda>job' _. aj_status job' = COMPLETED) noE" for j steps q
    by (rule triple_conj_pure, elim conjE exE) (simp add: live_policy [OF u _ _ cls])
  have plan: "triple (\<lambda>s. holding cm True UNDERSTANDING_REQUEST s \<and> \<not> no_needs_clarification out)
      (if no_needs_clarification out then ask_user sv cm att n ?job out
       else bindP (plan_job sv cb cm att ?job out) (\<lambda>(job, steps). check_policy sv cm cls att job steps))
      (\<lambda>job' _. aj_status job' = COMPLETED) noE" for out
  proof (cases "no_needs_clarification out")
    case False
    have "triple (holding cm True UNDERSTANDING_REQUEST) (bindP (plan_job sv cb cm att ?job out) (\<lambda>(job, steps). check_policy sv cm cls att job steps))
      (\<lambda>job' _. aj_status job' = COMPLETED) noE"
      by (rule triple_bind [OF live_plan [OF _ _ cb]], simp add: job, simp, rule triple_prod) (simp only: prod.case, rule pol)
    with False show ?thesis by simp
  qed (simp add: triple_def)
  show ?thesis unfolding engine_body_def Let_def if_not_P [OF cls]
    by (rule live_bind_eq [OF live_understand [OF job]], rule triple_bind [OF norm], rule plan)
qed

lemma held_loads:
  assumes "held cm b st d"
  shows "\<exists>j. filter (holds_claim cm) (d_jobs d) = [j] \<and> aj_id j = cm_job cm \<and> aj_status j = st"
proof -
  obtain j where j: "filter (\<lambda>j. aj_id j = cm_job cm) (d_jobs d) = [j]" "holds_claim cm j" "aj_status j = st"
    using assms by (auto simp: held_def)
  have "filter (holds_claim cm) (d_jobs d) = filter (holds_claim cm) (filter (\<lambda>j. aj_id j = cm_job cm) (d_jobs d))"
    by (auto simp: holds_claim_def intro: filter_cong)
  with j show ?thesis by (auto simp: holds_claim_def)
qed

lemma live_execute:
  assumes u: "undisturbed sv cb" and cls: "evaluate_model_transmission cls True \<noteq> DENY"
  shows "triple (holding cm True RECEIVED) (execute_job sv cb cls cm) (\<lambda>job' _. aj_status job' = COMPLETED) noE"
proof -
  have load: "triple (holding cm True RECEIVED) (load_claimed_job cm)
      (\<lambda>job s. holding cm True RECEIVED s \<and> aj_id job = cm_job cm \<and> aj_status job = RECEIVED) noE"
  proof -
    have "\<exists>j. load_claimed_job cm s = (Inr j, s) \<and> aj_id j = cm_job cm \<and> aj_status j = RECEIVED" if "holding cm True RECEIVED s" for s
      using held_loads [OF that] by (auto simp: load_claimed_job_def an_simps proc_simps require_some_def)
    then show ?thesis by (fastforce simp: triple_def)
  qed
  have open_: "triple (\<lambda>s. holding cm True RECEIVED s \<and> c) (open_attempt sv cm) (\<lambda>_ s. holding cm True RECEIVED s \<and> c) noE" for c
    by (simp add: triple_def open_attempt_def an_simps proc_simps held_def)
  have body: "triple (\<lambda>s. holding cm True RECEIVED s \<and> aj_id job = cm_job cm \<and> aj_status job = RECEIVED)
      (tryP (engine_body sv cb cm cls att n job) h) (\<lambda>job' _. aj_status job' = COMPLETED) noE" for att n job h
    by (rule triple_conj_pure, elim conjE, rule triple_try [OF live_body [OF u _ _ cls]]) (simp_all add: triple_def)
  show ?thesis unfolding execute_job_def
    by (rule triple_bind [OF live_fences], simp, rule triple_bind [OF load], rule triple_bind [OF open_], rule triple_prod, rule body)
qed

text \<open>C7: a claimed RECEIVED analysis is completed. When the policy admits the request, the services answer
  (a request that needs no clarification, a tool result with a dataset, a narrative the verifier accepts)
  and other sessions leave the analysis alone, the run of the engine returns the COMPLETED analysis.\<close>

theorem undisturbed_run_completes:
  assumes "undisturbed sv cb" and "evaluate_model_transmission cls True \<noteq> DENY"
    and "filter (\<lambda>j. aj_id j = cm_job cm) (d_jobs (an_work s)) = [j]" and "holds_claim cm j" and "aj_status j = RECEIVED"
    and "\<forall>t \<in> set (d_tools (an_work s)). ti_job t \<noteq> cm_job cm"
  shows "\<exists>job s'. execute_job sv cb cls cm s = (Inr job, s') \<and> aj_status job = COMPLETED"
proof -
  have h: "holding cm True RECEIVED s" using assms(3-6) by (simp add: held_def)
  obtain r s' where r: "execute_job sv cb cls cm s = (r, s')" by fastforce
  show ?thesis
    using tripleD [OF live_execute [OF assms(1,2)] h] r by (cases r) auto
qed

lemma good_undisturbed: "undisturbed good_services new_breaker"
  by (simp add: undisturbed_def good_services_def new_breaker_def check_allow_execution_def dataset_id_def json_get_def)

lemma undisturbed_run_completes_witness:
  "\<exists>job s'. execute_job good_services new_breaker PUBLIC sample_claim claimed_session = (Inr job, s') \<and> aj_status job = COMPLETED"
  by (rule undisturbed_run_completes [OF good_undisturbed, where j = "hd (d_jobs (an_work claimed_session))"])
    (simp_all add: evaluate_model_transmission_def claimed_session_def sample_claim_def fresh_job_def holds_claim_def
      no_analysis_rows_def Let_def)

lemma sample_holding: "holding sample_claim True RECEIVED claimed_session"
  by (simp add: held_def claimed_session_def sample_claim_def fresh_job_def holds_claim_def no_analysis_rows_def Let_def)

lemma sample_engine_run:
  "\<exists>job s'. execute_job good_services new_breaker PUBLIC sample_claim claimed_session = (Inr job, s') \<and> aj_status job = COMPLETED"
proof -
  obtain r s' where r: "execute_job good_services new_breaker PUBLIC sample_claim claimed_session = (r, s')" by fastforce
  have p: "evaluate_model_transmission PUBLIC True \<noteq> DENY" by (simp add: evaluate_model_transmission_def)
  show ?thesis using tripleD [OF live_execute [OF good_undisturbed p] sample_holding] r by (cases r) auto
qed

lemma returned_run_delivers_witness:
  "\<exists>s'. (\<exists>job. execute_job good_services new_breaker PUBLIC sample_claim claimed_session = (Inr job, s')) \<and>
    (\<exists>r \<in> set (d_snapshots (an_committed s')). rs_job r = 3)"
proof -
  obtain job s' where r: "execute_job good_services new_breaker PUBLIC sample_claim claimed_session = (Inr job, s')"
    "aj_status job = COMPLETED" using sample_engine_run by blast
  have "\<exists>r \<in> set (d_snapshots (an_committed s')). rs_job r = cm_job sample_claim"
    using returned_run_delivers [OF r(1)] r(2) by blast
  with r show ?thesis by (auto simp: sample_claim_def)
qed

end
