(* ===== verification/Session.thy ===== *)
theory Session
  imports Prelude
begin

text \<open>
  A database session at READ COMMITTED: the rows all sessions see (\<open>published\<close>) and the writes of this
  transaction (\<open>pending\<close>), which its own statements see on top of them. A write is a function on the
  tables, so what other sessions commit in between (\<open>s_others\<close>) stays visible underneath. A commit
  publishes the writes, a rollback drops them, and a savepoint (\<open>begin_nested\<close>) drops those of a block
  that raises. The lemmas are the outcome rules of these statements.
\<close>

record 'd session =
  published :: 'd
  pending :: "'d \<Rightarrow> 'd"

type_synonym ('d, 'a) dbproc = "('d session, 'a) proc"

definition view :: "'d session \<Rightarrow> 'd" where
  "view s = pending s (published s)"

definition fresh_session :: "'d \<Rightarrow> 'd session" where
  "fresh_session d = \<lparr>published = d, pending = (\<lambda>x. x)\<rparr>"

definition s_read :: "('d \<Rightarrow> py_exc + 'a) \<Rightarrow> ('d, 'a) dbproc" where
  "s_read f = queryP (\<lambda>s. f (view s))"

definition s_write :: "('d \<Rightarrow> 'd) \<Rightarrow> ('d, unit) dbproc" where
  "s_write f = modifyP (\<lambda>s. s\<lparr>pending := (\<lambda>d. f (pending s d))\<rparr>)"

definition s_commit :: "('d, unit) dbproc" where
  "s_commit = modifyP (\<lambda>s. fresh_session (view s))"

definition s_rollback :: "('d, unit) dbproc" where
  "s_rollback = modifyP (\<lambda>s. fresh_session (published s))"

definition s_others :: "('d \<Rightarrow> 'd) \<Rightarrow> ('d, unit) dbproc" where
  "s_others f = modifyP (\<lambda>s. s\<lparr>published := f (published s)\<rparr>)"

definition savepoint :: "('d, 'a) dbproc \<Rightarrow> ('d, 'a) dbproc" where
  "savepoint m = (\<lambda>s. case m s of
     (Inl e, t) \<Rightarrow> (Inl e, t\<lparr>pending := pending s\<rparr>) | (Inr x, t) \<Rightarrow> (Inr x, t))"

text \<open>An INSERT under constraints that the visible rows decide.\<close>

definition s_insert :: "('d \<Rightarrow> py_exc + unit) \<Rightarrow> ('d \<Rightarrow> 'd) \<Rightarrow> ('d, unit) dbproc" where
  "s_insert check f = bindP (s_read check) (\<lambda>_. s_write f)"

lemma view_simps [simp]:
  "view (fresh_session d) = d" "published (fresh_session d) = d" "pending (fresh_session d) = (\<lambda>x. x)"
  "view (s\<lparr>pending := (\<lambda>d. f (pending s d))\<rparr>) = f (view s)"
  by (simp_all add: view_def fresh_session_def)

lemmas s_simps = s_read_def s_write_def s_commit_def s_rollback_def s_others_def savepoint_def s_insert_def

text \<open>Specifications that only speak of the visible and the published rows.\<close>

definition on_rows :: "('d \<Rightarrow> 'd \<Rightarrow> bool) \<Rightarrow> 'd session \<Rightarrow> bool" where
  "on_rows P s \<longleftrightarrow> P (published s) (view s)"

lemma triple_s_read:
  "(\<And>s x. P s \<Longrightarrow> f (view s) = Inr x \<Longrightarrow> Q x s) \<Longrightarrow> (\<And>s e. P s \<Longrightarrow> f (view s) = Inl e \<Longrightarrow> E e s) \<Longrightarrow>
    triple P (s_read f) Q E"
  by (simp add: s_read_def triple_query)

lemma triple_s_write:
  "(\<And>s. P s \<Longrightarrow> Q () (s\<lparr>pending := (\<lambda>d. f (pending s d))\<rparr>)) \<Longrightarrow> triple P (s_write f) Q E"
  by (simp add: s_write_def triple_modify)

end
