(* ===== verification/DocumentStore.thy ===== *)
theory DocumentStore
  imports Tables Session
begin

text \<open>
  The rows of documents, ingestion and financial facts (\<open>app/models\<close>), and the statements that
  insert and update them with the constraints of the schema: column widths, the unique idempotency
  hash of a candidate, the one active fact per natural key, the unique keys of jobs, commands and
  attempts. Timestamps nothing reads are left out. NUMERIC columns hold finite decimals: a NaN,
  which the server would store, is refused like an infinity.
\<close>

section \<open>Source locations\<close>

text \<open>The dictionaries parsers attach to a chunk.\<close>

datatype loc_value =
    LNone
  | LBool bool
  | LInt int
  | LFloat rat
  | LStr string
  | LNums "rat list"
  | LBox "(string \<times> rat) list"

type_synonym location = "(string \<times> loc_value) list"

definition loc_get :: "location \<Rightarrow> string \<Rightarrow> loc_value" where
  "loc_get loc k = (case map_of loc k of None \<Rightarrow> LNone | Some v \<Rightarrow> v)"

fun loc_truthy :: "loc_value \<Rightarrow> bool" where
  "loc_truthy LNone = False"
| "loc_truthy (LBool b) = b"
| "loc_truthy (LInt n) = (n \<noteq> 0)"
| "loc_truthy (LFloat r) = (r \<noteq> 0)"
| "loc_truthy (LStr s) = (s \<noteq> [])"
| "loc_truthy (LNums xs) = (xs \<noteq> [])"
| "loc_truthy (LBox kvs) = (kvs \<noteq> [])"

text \<open>\<open>json.dumps(..., sort_keys=True)\<close>; the text of a float is the parameter \<open>fr\<close>.\<close>

fun joined :: "string \<Rightarrow> string list \<Rightarrow> string" where
  "joined sep [] = []"
| "joined sep [x] = x"
| "joined sep (x # y # ys) = x @ sep @ joined sep (y # ys)"

definition dump_items :: "(string \<times> string) list \<Rightarrow> string" where
  "dump_items kvs = ''{'' @ joined '', '' (map (\<lambda>(k, v). json_string k @ '': '' @ v) (sort_key fst kvs)) @ ''}''"

fun loc_text :: "(rat \<Rightarrow> string) \<Rightarrow> loc_value \<Rightarrow> string" where
  "loc_text fr LNone = ''null''"
| "loc_text fr (LBool b) = (if b then ''true'' else ''false'')"
| "loc_text fr (LInt n) = int_str n"
| "loc_text fr (LFloat r) = fr r"
| "loc_text fr (LStr s) = json_string s"
| "loc_text fr (LNums xs) = ''['' @ joined '', '' (map fr xs) @ '']''"
| "loc_text fr (LBox kvs) = dump_items (map (\<lambda>(k, r). (k, fr r)) kvs)"

definition loc_dumps :: "(rat \<Rightarrow> string) \<Rightarrow> location \<Rightarrow> string" where
  "loc_dumps fr loc = dump_items (map (\<lambda>(k, v). (k, loc_text fr v)) loc)"

section \<open>Rows\<close>

record institution =
  inst_id :: uuid
  inst_org :: uuid
  inst_canonical :: string
  inst_display :: string
  inst_type :: string
  inst_country :: string
  inst_regulatory :: "string option"
  inst_status :: string

record metric_definition =
  md_id :: uuid
  md_code :: string
  md_name :: string
  md_status :: string

record metric_alias =
  al_org :: uuid
  al_metric :: uuid
  al_pattern :: string

record fact_candidate =
  fc_id :: uuid
  fc_org :: uuid
  fc_institution :: uuid
  fc_period :: uuid
  fc_metric :: "uuid option"
  fc_suggested :: "string option"
  fc_label :: string
  fc_raw :: string
  fc_parsed :: "dec option"
  fc_raw_currency :: string
  fc_raw_unit :: string
  fc_raw_scale :: string
  fc_currency :: string
  fc_unit :: string
  fc_scale :: string
  fc_normalized :: "dec option"
  fc_basis :: string
  fc_document :: uuid
  fc_version :: uuid
  fc_location :: location
  fc_method :: string
  fc_confidence :: dec
  fc_validation :: string
  fc_review :: string
  fc_warnings :: "string list"
  fc_hash :: "string option"
  fc_origin :: string
  fc_conflict :: "uuid option"
  fc_conflict_at :: "nat option"
  fc_conflict_reason :: "string option"
  fc_value_hash :: "string option"

record review_decision =
  rd_org :: uuid
  rd_candidate :: uuid
  rd_reviewer :: uuid
  rd_decision :: string
  rd_reason :: "string option"
  rd_notes :: "string option"
  rd_fact :: "uuid option"

record document =
  doc_id :: uuid
  doc_org :: uuid
  doc_name :: string
  doc_status :: string

record stored_object =
  so_id :: uuid
  so_org :: uuid
  so_key :: string
  so_mime :: string

record upload_session =
  us_id :: uuid
  us_org :: uuid
  us_status :: string
  us_finalized :: "nat option"

record ingestion_job =
  ij_id :: uuid
  ij_org :: uuid
  ij_version :: uuid
  ij_status :: string
  ij_attempt :: nat
  ij_max :: nat
  ij_started :: "nat option"
  ij_completed :: "nat option"
  ij_locked_by :: "string option"
  ij_locked_at :: "nat option"
  ij_token :: "uuid option"

record ingestion_attempt =
  ia_id :: uuid
  ia_org :: uuid
  ia_job :: uuid
  ia_number :: nat
  ia_status :: string
  ia_error :: "string option"

record command_log =
  cmd_id :: uuid
  cmd_job :: uuid
  cmd_org :: uuid
  cmd_type :: string
  cmd_key :: string
  cmd_schema :: string

record document_page =
  pg_id :: uuid
  pg_org :: uuid
  pg_version :: uuid
  pg_number :: int
  pg_text :: string

record document_chunk =
  ck_org :: uuid
  ck_version :: uuid
  ck_page :: "uuid option"
  ck_index :: int
  ck_type :: string
  ck_content :: string
  ck_lineage :: location

record extraction_result =
  er_id :: uuid
  er_org :: uuid
  er_version :: uuid
  er_parser :: string
  er_status :: string

record extraction_warning =
  ew_org :: uuid
  ew_result :: uuid
  ew_code :: string

record doc_db =
  b_institutions :: "institution list"
  b_periods :: "reporting_period list"
  b_metrics :: "metric_definition list"
  b_aliases :: "metric_alias list"
  b_documents :: "document list"
  b_versions :: "document_version list"
  b_objects :: "stored_object list"
  b_candidates :: "fact_candidate list"
  b_evidence :: "candidate_evidence list"
  b_facts :: "financial_fact list"
  b_decisions :: "review_decision list"
  b_sessions :: "upload_session list"
  b_jobs :: "ingestion_job list"
  b_attempts :: "ingestion_attempt list"
  b_commands :: "command_log list"
  b_pages :: "document_page list"
  b_chunks :: "document_chunk list"
  b_results :: "extraction_result list"
  b_warnings :: "extraction_warning list"
  b_audit :: "audit_event list"

definition no_docs :: doc_db where
  "no_docs = \<lparr>b_institutions = [], b_periods = [], b_metrics = [], b_aliases = [], b_documents = [], b_versions = [],
     b_objects = [], b_candidates = [], b_evidence = [], b_facts = [], b_decisions = [], b_sessions = [], b_jobs = [],
     b_attempts = [], b_commands = [], b_pages = [], b_chunks = [], b_results = [], b_warnings = [], b_audit = []\<rparr>"

type_synonym 'a dochandler = "(doc_db, 'a) dbproc"

definition doc_audit ::
  "(string \<Rightarrow> string) \<Rightarrow> uuid \<Rightarrow> string \<Rightarrow> string \<Rightarrow> uuid \<Rightarrow> uuid option \<Rightarrow> (string \<times> json) list \<Rightarrow> unit dochandler" where
  "doc_audit sha org event_type target_type target actor payload =
     s_write (\<lambda>d. d\<lparr>b_audit := b_audit d @ [audit_record sha org event_type target_type target actor payload]\<rparr>)"

section \<open>Updates by key\<close>

definition put_candidate :: "(fact_candidate \<Rightarrow> fact_candidate) \<Rightarrow> uuid \<Rightarrow> doc_db \<Rightarrow> doc_db" where
  "put_candidate f i d = d\<lparr>b_candidates := map (\<lambda>c. if fc_id c = i then f c else c) (b_candidates d)\<rparr>"

definition put_fact :: "(financial_fact \<Rightarrow> financial_fact) \<Rightarrow> uuid \<Rightarrow> doc_db \<Rightarrow> doc_db" where
  "put_fact f i d = d\<lparr>b_facts := map (\<lambda>x. if ff_id x = i then f x else x) (b_facts d)\<rparr>"

definition put_version :: "(document_version \<Rightarrow> document_version) \<Rightarrow> uuid \<Rightarrow> doc_db \<Rightarrow> doc_db" where
  "put_version f i d = d\<lparr>b_versions := map (\<lambda>v. if dv_id v = i then f v else v) (b_versions d)\<rparr>"

definition put_ingestion_job :: "(ingestion_job \<Rightarrow> ingestion_job) \<Rightarrow> uuid \<Rightarrow> doc_db \<Rightarrow> doc_db" where
  "put_ingestion_job f i d = d\<lparr>b_jobs := map (\<lambda>j. if ij_id j = i then f j else j) (b_jobs d)\<rparr>"

definition put_session :: "(upload_session \<Rightarrow> upload_session) \<Rightarrow> uuid \<Rightarrow> doc_db \<Rightarrow> doc_db" where
  "put_session f i d = d\<lparr>b_sessions := map (\<lambda>u. if us_id u = i then f u else u) (b_sessions d)\<rparr>"

definition put_ingestion_attempt :: "(ingestion_attempt \<Rightarrow> ingestion_attempt) \<Rightarrow> uuid \<Rightarrow> doc_db \<Rightarrow> doc_db" where
  "put_ingestion_attempt f i d = d\<lparr>b_attempts := map (\<lambda>x. if ia_id x = i then f x else x) (b_attempts d)\<rparr>"

section \<open>Constraints\<close>

definition too_long :: "nat \<Rightarrow> string \<Rightarrow> bool" where
  "too_long n s \<longleftrightarrow> n < length s"

text \<open>The natural key of a fact: the columns of the partial unique index.\<close>

type_synonym natural_key = "uuid \<times> uuid \<times> uuid \<times> uuid \<times> string \<times> string \<times> string"

definition natural_key_of :: "financial_fact \<Rightarrow> natural_key" where
  "natural_key_of f = (ff_org f, ff_institution f, ff_period f, ff_metric_definition f, ff_basis f, ff_currency f, ff_unit f)"

definition active_facts :: "natural_key \<Rightarrow> doc_db \<Rightarrow> financial_fact list" where
  "active_facts k d = filter (\<lambda>f. natural_key_of f = k \<and> ff_valid_to f = None) (b_facts d)"

definition fact_constraints :: "financial_fact \<Rightarrow> doc_db \<Rightarrow> py_exc + unit" where
  "fact_constraints f d =
     bindE (raise_if (ff_id f \<in> ff_id ` set (b_facts d)) IntegrityError) (\<lambda>_.
       raise_if (ff_valid_to f = None \<and> active_facts (natural_key_of f) d \<noteq> []) IntegrityError)"

definition insert_fact :: "financial_fact \<Rightarrow> unit dochandler" where
  "insert_fact f = s_insert (fact_constraints f) (\<lambda>d. d\<lparr>b_facts := b_facts d @ [f]\<rparr>)"

definition candidates_with :: "uuid \<Rightarrow> string \<Rightarrow> doc_db \<Rightarrow> fact_candidate list" where
  "candidates_with org h d = filter (\<lambda>c. fc_org c = org \<and> fc_hash c = Some h) (b_candidates d)"

definition candidate_fits :: "fact_candidate \<Rightarrow> bool" where
  "candidate_fits c \<longleftrightarrow> \<not> too_long 255 (fc_label c) \<and> \<not> too_long 255 (fc_raw c) \<and> \<not> too_long 10 (fc_raw_currency c) \<and>
     \<not> too_long 50 (fc_raw_unit c) \<and> \<not> too_long 50 (fc_raw_scale c) \<and> \<not> too_long 50 (fc_basis c) \<and>
     \<not> too_long 50 (fc_method c)"

definition candidate_constraints :: "fact_candidate \<Rightarrow> doc_db \<Rightarrow> py_exc + unit" where
  "candidate_constraints c d =
     bindE (raise_if (\<not> candidate_fits c) DataError) (\<lambda>_.
       raise_if (fc_id c \<in> fc_id ` set (b_candidates d) \<or>
         (case fc_hash c of None \<Rightarrow> False | Some h \<Rightarrow> candidates_with (fc_org c) h d \<noteq> [])) IntegrityError)"

definition insert_candidate :: "fact_candidate \<Rightarrow> unit dochandler" where
  "insert_candidate c = s_insert (candidate_constraints c) (\<lambda>d. d\<lparr>b_candidates := b_candidates d @ [c]\<rparr>)"

definition evidence_fits :: "candidate_evidence \<Rightarrow> bool" where
  "evidence_fits e \<longleftrightarrow> (\<forall>s \<in> set_option (ce_sheet e). \<not> too_long 100 s) \<and> (\<forall>s \<in> set_option (ce_cell e). \<not> too_long 20 s) \<and>
     (\<forall>s \<in> set_option (ce_header e). \<not> too_long 100 s)"

definition insert_candidate_evidence :: "candidate_evidence \<Rightarrow> unit dochandler" where
  "insert_candidate_evidence e = s_insert
     (\<lambda>d. bindE (raise_if (\<not> evidence_fits e) DataError) (\<lambda>_.
        raise_if (ce_id e \<in> ce_id ` set (b_evidence d)) IntegrityError))
     (\<lambda>d. d\<lparr>b_evidence := b_evidence d @ [e]\<rparr>)"

definition insert_decision :: "review_decision \<Rightarrow> unit dochandler" where
  "insert_decision r = s_write (\<lambda>d. d\<lparr>b_decisions := b_decisions d @ [r]\<rparr>)"

text \<open>The trigger \<open>prevent_financial_fact_mutation\<close>: which columns of a fact an UPDATE may change.\<close>

definition same_core :: "financial_fact \<Rightarrow> financial_fact \<Rightarrow> bool" where
  "same_core a b \<longleftrightarrow> ff_institution a = ff_institution b \<and> ff_period a = ff_period b \<and>
     ff_metric_definition a = ff_metric_definition b \<and> ff_metric_code a = ff_metric_code b \<and> ff_value a = ff_value b \<and>
     ff_normalized a = ff_normalized b \<and> ff_currency a = ff_currency b \<and> ff_unit a = ff_unit b \<and> ff_scale a = ff_scale b \<and>
     ff_basis a = ff_basis b \<and> ff_candidate a = ff_candidate b \<and> ff_document a = ff_document b \<and> ff_origin a = ff_origin b \<and>
     ff_org a = ff_org b"

definition update_fact :: "uuid \<Rightarrow> (financial_fact \<Rightarrow> financial_fact) \<Rightarrow> unit dochandler" where
  "update_fact i f = s_insert
     (\<lambda>d. for_each (\<lambda>x. raise_if (\<not> same_core x (f x)) DataError) (filter (\<lambda>x. ff_id x = i) (b_facts d)))
     (put_fact f i)"

end
