(* ===== verification/Normalization.thy ===== *)
theory Normalization
  imports Tables
begin

text \<open>
  \<open>services/normalization_service.py\<close>: amounts as filings print them (Turkish and English
  separators, parentheses for negatives, percentages), and the canonical currency, unit, scale,
  basis and period key.

  Strings are Latin-1, so the literals of the source that are no Latin-1 characters (an em dash in the
  list of missing values, the lira and euro signs among the currency aliases) are left out.
  \<open>Decimal(text)\<close> is CPython's constructor with the exponent limits of libmpdec; a decimal is
  finite, an infinity or a NaN (whose sign and payload are left out). The arithmetic that follows
  is exact in its exponents: the context's limit of 999999 on them is not modelled.

  Main result: an amount printed with thousands separators and two decimals, in either
  convention, is read back exactly, whatever the locale hint.
\<close>

section \<open>Text operations of Python\<close>

definition str_char :: "char \<Rightarrow> char \<Rightarrow> string \<Rightarrow> string" where
  "str_char a b s = map (\<lambda>c. if c = a then b else c) s"

definition str_remove :: "char \<Rightarrow> string \<Rightarrow> string" where
  "str_remove a s = filter (\<lambda>c. c \<noteq> a) s"

text \<open>\<open>s.rfind(c)\<close> and \<open>s.split(c)\<close> of a single character.\<close>

definition str_rfind :: "char \<Rightarrow> string \<Rightarrow> int" where
  "str_rfind c s = (if c \<in> set s then int (length s) - 1 - int (length (takeWhile (\<lambda>x. x \<noteq> c) (rev s))) else -1)"

fun str_split :: "char \<Rightarrow> string \<Rightarrow> string list" where
  "str_split c [] = [[]]"
| "str_split c (x # xs) = (if x = c then [] # str_split c xs
     else (case str_split c xs of [] \<Rightarrow> [[x]] | p # ps \<Rightarrow> (x # p) # ps))"

text \<open>\<open>re.search(r"\d+e[+-]?\d+", s)\<close>: a digit, an e, an optional sign and a digit.\<close>

fun exponent_tail :: "string \<Rightarrow> bool" where
  "exponent_tail [] = False"
| "exponent_tail (c # cs) = (is_digit c \<or> (c = CHR ''+'' \<or> c = CHR ''-'') \<and> cs \<noteq> [] \<and> is_digit (hd cs))"

fun has_exponent :: "string \<Rightarrow> bool" where
  "has_exponent [] = False"
| "has_exponent (c # cs) =
     (is_digit c \<and> cs \<noteq> [] \<and> hd cs = CHR ''e'' \<and> exponent_tail (tl cs) \<or> has_exponent cs)"

text \<open>\<open>re.sub\<close> of a word by nothing, ignoring case.\<close>

fun remove_word :: "string \<Rightarrow> string \<Rightarrow> string" where
  "remove_word w [] = []"
| "remove_word w (c # cs) =
     (if w \<noteq> [] \<and> is_prefix_of w (str_lower (c # cs)) then remove_word w (drop (length w - 1) cs)
      else c # remove_word w cs)"

section \<open>The constructor of Decimal\<close>

datatype number = Finite_Num dec | Infinite bool | Quiet_NaN | Signaling_NaN

definition take_sign :: "string \<Rightarrow> bool \<times> string" where
  "take_sign s = (case s of [] \<Rightarrow> (False, []) | c # cs \<Rightarrow>
     if c = CHR ''-'' then (True, cs) else if c = CHR ''+'' then (False, cs) else (False, s))"

definition take_exponent :: "string \<Rightarrow> int option" where
  "take_exponent s = (case s of [] \<Rightarrow> Some 0 | c # cs \<Rightarrow>
     if c = CHR ''e'' \<or> c = CHR ''E'' then
       (case take_sign cs of (neg, ds) \<Rightarrow>
          if ds \<noteq> [] \<and> list_all is_digit ds then Some (if neg then - int (digits_value ds) else int (digits_value ds))
          else None)
     else None)"

text \<open>Conversion is exact: a number outside the largest context is refused.\<close>

definition exact_decimal :: "dec \<Rightarrow> number option" where
  "exact_decimal d =
     (if dexp d + int (ndigits (dcoeff d)) - 1 \<le> 999999999999999999 \<and> -1999999999999999997 \<le> dexp d
      then Some (Finite_Num d) else None)"

definition special_number :: "bool \<Rightarrow> string \<Rightarrow> number option" where
  "special_number neg s =
     (if s = ''inf'' \<or> s = ''infinity'' then Some (Infinite neg)
      else if is_prefix_of ''nan'' s \<and> list_all is_digit (drop 3 s) then Some Quiet_NaN
      else if is_prefix_of ''snan'' s \<and> list_all is_digit (drop 4 s) then Some Signaling_NaN
      else None)"

definition decimal_of_text :: "string \<Rightarrow> number option" where
  "decimal_of_text text =
     (case take_sign (str_remove CHR ''_'' (str_strip text)) of (neg, u) \<Rightarrow>
        let ip = takeWhile is_digit u; r = dropWhile is_digit u;
            dotted = r \<noteq> [] \<and> hd r = CHR ''.'';
            fp = (if dotted then takeWhile is_digit (tl r) else []);
            x = (if dotted then dropWhile is_digit (tl r) else r)
        in if ip @ fp = [] then special_number neg (str_lower u)
           else (case take_exponent x of None \<Rightarrow> None
                 | Some e \<Rightarrow> exact_decimal (Dec neg (digits_value (ip @ fp)) (e - int (length fp)))))"

text \<open>Unary minus and multiplication in the default context; a signalling NaN raises.\<close>

definition num_neg :: "number \<Rightarrow> py_exc + number" where
  "num_neg n = (case n of
      Finite_Num d \<Rightarrow> Inr (Finite_Num (dneg default_context d))
    | Infinite s \<Rightarrow> Inr (Infinite (\<not> s))
    | Quiet_NaN \<Rightarrow> Inr Quiet_NaN
    | Signaling_NaN \<Rightarrow> Inl InvalidOperation)"

definition num_scale :: "number \<Rightarrow> nat \<Rightarrow> py_exc + number" where
  "num_scale n f = (case n of
      Finite_Num d \<Rightarrow> Inr (Finite_Num (dmul default_context d (Dec False f 0)))
    | Infinite s \<Rightarrow> Inr (Infinite s)
    | Quiet_NaN \<Rightarrow> Inr Quiet_NaN
    | Signaling_NaN \<Rightarrow> Inl InvalidOperation)"

section \<open>Amounts\<close>

record number_parse_result =
  pr_value :: "number option"
  pr_percentage :: bool
  pr_warnings :: "string list"

definition no_number :: "string \<Rightarrow> number_parse_result" where
  "no_number w = \<lparr>pr_value = None, pr_percentage = False, pr_warnings = [w]\<rparr>"

definition null_words :: "string list" where
  "null_words = [''-'', ''N/A'', ''n/a'', ''null'', ''NULL'', ''None'', '''']"

definition percent_word :: string where
  "percent_word = [CHR ''y'', CHR 0xFC, CHR ''z'', CHR ''d'', CHR ''e'']"

text \<open>The text with its sign taken off: a pair of parentheses, or a leading minus.\<close>

definition take_negative :: "string \<Rightarrow> bool \<times> string" where
  "take_negative s =
     (if s \<noteq> [] \<and> hd s = CHR ''('' \<and> last s = CHR '')'' then (True, str_strip (butlast (tl s)))
      else if s \<noteq> [] \<and> hd s = CHR ''-'' then (True, str_strip (tl s))
      else (False, s))"

definition few_decimals :: "string list \<Rightarrow> bool" where
  "few_decimals parts \<longleftrightarrow> length parts = 2 \<and> length (parts ! 1) \<in> {1, 2}"

text \<open>Which separator is the decimal one; the second component is the list of warnings.\<close>

definition resolve_separators :: "string option \<Rightarrow> string \<Rightarrow> string \<times> string list" where
  "resolve_separators hint s =
     (let dot = CHR ''.''; comma = CHR '','';
          has_dot = dot \<in> set s; has_comma = comma \<in> set s
      in if has_dot \<and> has_comma then
           (if str_rfind comma s < str_rfind dot s then (str_remove comma s, [])
            else (str_char comma dot (str_remove dot s), []))
         else if has_comma then
           (let parts = str_split comma s
            in if few_decimals parts then (str_char comma dot s, [])
               else if 2 < length parts then (str_remove comma s, [])
               else if hint = Some ''tr_TR'' \<or> hint = Some ''TR'' then (str_remove comma s, [])
               else (str_remove comma s, [''AMBIGUOUS_NUMBER_FORMAT'']))
         else if has_dot then
           (let parts = str_split dot s
            in if few_decimals parts then (s, [])
               else if 2 < length parts then (str_remove dot s, [])
               else if hint = Some ''en_US'' \<or> hint = Some ''EN'' then (s, [])
               else (str_remove dot s, [''AMBIGUOUS_NUMBER_FORMAT'']))
         else (s, []))"

definition parse_financial_decimal :: "string \<Rightarrow> string option \<Rightarrow> number_parse_result" where
  "parse_financial_decimal raw hint =
     (let cleaned = str_strip raw; low = str_lower cleaned
      in if cleaned = [] then no_number ''EMPTY_VALUE''
         else if cleaned \<in> set null_words then no_number ''MISSING_VALUE''
         else if has_exponent low \<or> contains_sub ''nan'' low \<or> contains_sub ''inf'' low
           then no_number ''FORBIDDEN_EXPONENT_OR_SPECIAL_FLOAT''
         else
           let percent = CHR ''%'' \<in> set cleaned \<or> contains_sub percent_word low;
               bare = remove_word percent_word (filter (\<lambda>c. c \<noteq> CHR ''%'' \<and> \<not> is_space c) cleaned)
           in (case take_negative bare of (neg, body) \<Rightarrow>
                (case resolve_separators hint body of (plain, warnings) \<Rightarrow>
                  (case decimal_of_text plain of
                     None \<Rightarrow> no_number ''UNPARSABLE_NUMBER''
                   | Some v \<Rightarrow>
                       (case (if neg then num_neg v else Inr v) of
                          Inl e \<Rightarrow> no_number ''UNPARSABLE_NUMBER''
                        | Inr w \<Rightarrow> \<lparr>pr_value = Some w, pr_percentage = percent, pr_warnings = warnings\<rparr>)))))"

section \<open>Scale, currency, unit, basis and period\<close>

definition scale_factors :: "(string \<times> nat) list" where
  "scale_factors = [(''ONE'', 1), (''THOUSAND'', 1000), (''MILLION'', 1000000), (''BILLION'', 1000000000)]"

definition valid_scales :: "string list" where
  "valid_scales = [''ONE'', ''THOUSAND'', ''MILLION'', ''BILLION'']"

definition valid_currencies :: "string list" where
  "valid_currencies = [''TRY'', ''USD'', ''EUR'', ''GBP'', ''CHF'', ''JPY'']"

definition valid_units :: "string list" where
  "valid_units = [''CURRENCY'', ''PERCENT'', ''RATIO'', ''COUNT'']"

definition currency_aliases :: "(string \<times> string) list" where
  "currency_aliases = [(''TL'', ''TRY''), (''TRL'', ''TRY''), (''$'', ''USD''), (''US$'', ''USD''), (''USD$'', ''USD''),
     ([CHR 0xA3], ''GBP'')]"

definition quoted :: "string \<Rightarrow> string" where
  "quoted s = CHR 0x27 # s @ [CHR 0x27]"

definition normalize_scale :: "number \<Rightarrow> string \<Rightarrow> py_exc + number" where
  "normalize_scale v scale =
     (let sc = str_strip (str_upper scale)
      in bindE (raise_val (sc \<notin> set valid_scales) (''UNSUPPORTED_SCALE: Invalid or unknown scale '' @ quoted scale))
           (\<lambda>_. num_scale v (the (map_of scale_factors sc))))"

definition normalize_currency :: "string \<Rightarrow> py_exc + string" where
  "normalize_currency currency =
     (let up = str_strip (str_upper currency);
          cur = (case map_of currency_aliases up of None \<Rightarrow> up | Some c \<Rightarrow> c)
      in bindE (raise_val (cur \<notin> set valid_currencies)
            (''UNSUPPORTED_CURRENCY: Invalid or unknown currency '' @ quoted currency))
           (\<lambda>_. Inr cur))"

definition normalize_unit :: "string \<Rightarrow> py_exc + string" where
  "normalize_unit unit =
     (let u = str_strip (str_upper unit)
      in bindE (raise_val (u \<notin> set valid_units) (''UNSUPPORTED_UNIT: Invalid or unknown unit '' @ quoted unit))
           (\<lambda>_. Inr u))"

definition validate_reporting_basis :: "string \<Rightarrow> py_exc + string" where
  "validate_reporting_basis basis =
     (let b = str_strip (str_upper basis)
      in bindE (raise_val (b \<notin> {''SOLO'', ''CONSOLIDATED''})
            (''UNSUPPORTED_REPORTING_BASIS: Invalid reporting basis '' @ quoted basis))
           (\<lambda>_. Inr b))"

definition detect_reporting_basis :: "string \<Rightarrow> string" where
  "detect_reporting_basis raw =
     (let low = str_lower raw
      in if raw = [] then ''UNKNOWN''
         else if contains_sub ''konsolide olmayan'' low \<or> contains_sub ''solo'' low \<or> contains_sub ''unconsolidated'' low
           then ''SOLO''
         else if contains_sub ''konsolide'' low \<or> contains_sub ''consolidated'' low then ''CONSOLIDATED''
         else ''UNKNOWN'')"

definition validate_period_dates :: "date \<Rightarrow> date \<Rightarrow> bool" where
  "validate_period_dates start_date end_date = (start_date \<le> end_date)"

definition generate_comparison_key :: "string \<Rightarrow> int \<Rightarrow> int option \<Rightarrow> string" where
  "generate_comparison_key period_type fiscal_year quarter =
     (case quarter of
        Some q \<Rightarrow> if period_type = ''QUARTER'' \<and> q \<noteq> 0 then int_str fiscal_year @ ''-Q'' @ int_str q
                  else int_str fiscal_year @ ''-FY''
      | None \<Rightarrow> int_str fiscal_year @ ''-FY'')"

section \<open>Amounts are read back\<close>

text \<open>An amount as a filing prints it: digits in groups of three, a decimal sign and two decimals.\<close>

fun group_rev :: "char \<Rightarrow> string \<Rightarrow> string" where
  "group_rev sep (a # b # c # d # s) = a # b # c # sep # group_rev sep (d # s)"
| "group_rev sep s = s"

definition amount_text :: "char \<Rightarrow> char \<Rightarrow> nat \<Rightarrow> string" where
  "amount_text sep point n = rev (group_rev sep (rev (nat_str (n div 100)))) @
     [point, digit_char (n mod 100 div 10), digit_char (n mod 10)]"

definition amount_read :: "dec \<Rightarrow> number_parse_result" where
  "amount_read d = \<lparr>pr_value = Some (Finite_Num d), pr_percentage = False, pr_warnings = []\<rparr>"

lemma set_group_rev: "set (group_rev sep s) \<subseteq> insert sep (set s)"
  by (induction sep s rule: group_rev.induct) auto

lemma remove_group_rev: "sep \<notin> set s \<Longrightarrow> filter (\<lambda>c. c \<noteq> sep) (group_rev sep s) = s"
  by (induction sep s rule: group_rev.induct) auto

lemma group_rev_id: "sep \<notin> set (group_rev sep s) \<Longrightarrow> group_rev sep s = s"
  by (induction sep s rule: group_rev.induct) auto

text \<open>Texts of digits and separators pass every check before the separators are resolved.\<close>

definition amount_char :: "char \<Rightarrow> bool" where
  "amount_char c \<longleftrightarrow> is_digit c \<or> c = CHR ''.'' \<or> c = CHR '',''"

lemma amount_charD:
  assumes "amount_char c"
  shows "\<not> is_space c" "c \<noteq> CHR ''%''" "c \<noteq> CHR ''-''" "c \<noteq> CHR ''+''" "c \<noteq> CHR ''_''" "c \<noteq> CHR ''(''" "c \<noteq> CHR '')''"
    "lower_char c = c" "c \<noteq> CHR ''e''" "c \<noteq> CHR ''n''" "c \<noteq> CHR ''y''" "c \<noteq> CHR ''N''"
  using assms by (auto simp: amount_char_def is_digit_def is_space_def lower_char_def Let_def)

lemma paren_char: "\<not> is_space CHR ''(''" "\<not> is_space CHR '')''" "lower_char CHR ''('' = CHR ''(''" "lower_char CHR '')'' = CHR '')''"
  by (simp_all add: is_space_def lower_char_def)

lemma str_strip_id: "\<forall>c \<in> set s. \<not> is_space c \<Longrightarrow> str_strip s = s"
proof -
  assume a: "\<forall>c \<in> set s. \<not> is_space c"
  have d: "dropWhile is_space t = t" if "set t \<subseteq> set s" for t using that a by (cases t) auto
  show ?thesis unfolding str_strip_def by (simp add: d)
qed

lemma no_exponent: "CHR ''e'' \<notin> set s \<Longrightarrow> \<not> has_exponent s"
proof (induction s)
  case (Cons c cs)
  then show ?case by (cases cs) auto
qed simp

lemma no_sub: "c \<in> set w \<Longrightarrow> c \<notin> set s \<Longrightarrow> \<not> contains_sub w s"
  by (auto simp: contains_sub_iff)

lemma remove_word_id: "hd w \<notin> set (str_lower s) \<Longrightarrow> w \<noteq> [] \<Longrightarrow> remove_word w s = s"
proof (induction w s rule: remove_word.induct)
  case (2 w c cs)
  then have "\<not> is_prefix_of w (str_lower (c # cs))" by (cases w) (auto simp: str_lower_def)
  with 2 show ?case by (simp add: str_lower_def)
qed simp

definition mark :: "char \<Rightarrow> bool" where
  "mark c \<longleftrightarrow> amount_char c \<or> c = CHR ''('' \<or> c = CHR '')''"

lemma markD:
  assumes "mark c"
  shows "\<not> is_space c" "lower_char c = c"
    "c \<noteq> CHR ''%'' \<and> c \<noteq> CHR ''-'' \<and> c \<noteq> CHR ''e'' \<and> c \<noteq> CHR ''n'' \<and> c \<noteq> CHR ''y'' \<and> c \<noteq> CHR ''N''"
  using assms unfolding mark_def by (elim disjE; simp add: amount_charD paren_char)+

lemma null_word: "w \<in> set null_words \<Longrightarrow> w = [] \<or> CHR ''-'' \<in> set w \<or> CHR ''N'' \<in> set w \<or> CHR ''n'' \<in> set w"
  by (simp add: null_words_def, elim disjE; simp)

lemma parse_amount:
  assumes t: "t \<noteq> []" "\<forall>c \<in> set t. mark c"
    and neg: "take_negative t = (neg, body)" and sep: "resolve_separators hint body = (plain, [])"
    and dec: "decimal_of_text plain = Some v" "(if neg then num_neg v else Inr v) = Inr w"
  shows "parse_financial_decimal t hint = \<lparr>pr_value = Some w, pr_percentage = False, pr_warnings = []\<rparr>"
proof -
  have sp: "\<forall>c \<in> set t. \<not> is_space c" and low: "str_lower t = t"
    and no: "\<forall>c \<in> set t. c \<noteq> CHR ''%'' \<and> c \<noteq> CHR ''-'' \<and> c \<noteq> CHR ''e'' \<and> c \<noteq> CHR ''n'' \<and> c \<noteq> CHR ''y'' \<and> c \<noteq> CHR ''N''"
    using t(2) markD by (blast, simp add: str_lower_def map_idI, blast)
  have strip: "str_strip t = t" using sp by (rule str_strip_id)
  have notin: "CHR ''%'' \<notin> set t" "CHR ''e'' \<notin> set t" "CHR ''n'' \<notin> set t" "CHR ''y'' \<notin> set t" using no by blast+
  have words: "\<not> contains_sub ''nan'' t" "\<not> contains_sub ''inf'' t" "\<not> contains_sub percent_word t"
    by (rule no_sub [OF _ notin(3)], simp)+ (rule no_sub [OF _ notin(4)], simp add: percent_word_def)
  have null: "t \<notin> set null_words" using no t(1) null_word by blast
  have fil: "filter (\<lambda>c. c \<noteq> CHR ''%'' \<and> \<not> is_space c) t = t" using sp no by (intro filter_True) blast
  have rem: "remove_word percent_word t = t"
    using low notin(4) by (intro remove_word_id) (simp_all add: percent_word_def)
  show ?thesis
    unfolding parse_financial_decimal_def Let_def strip low fil rem neg
    using t(1) null no_exponent [OF notin(2)] words notin(1) sep dec by simp
qed

lemma take_negative_plain: "t \<noteq> [] \<Longrightarrow> \<forall>c \<in> set t. amount_char c \<Longrightarrow> take_negative t = (False, t)"
  using amount_charD [of "hd t"] by (auto simp: take_negative_def)

lemma take_negative_paren:
  "\<forall>c \<in> set t. amount_char c \<Longrightarrow> take_negative (''('' @ t @ '')'') = (True, t)"
  using amount_charD(1) by (simp add: take_negative_def butlast_append str_strip_id)

text \<open>The constructor on digits with one decimal point.\<close>

lemma take_drop_digits:
  "\<forall>c \<in> set s. is_digit c \<Longrightarrow> \<not> is_digit c' \<Longrightarrow> takeWhile is_digit (s @ c' # r) = s \<and> dropWhile is_digit (s @ c' # r) = c' # r"
  "\<forall>c \<in> set s. is_digit c \<Longrightarrow> takeWhile is_digit s = s \<and> dropWhile is_digit s = []"
  by (simp_all add: takeWhile_tail)

lemma decimal_of_digits:
  assumes "\<forall>c \<in> set (ip @ fp). is_digit c" "ip \<noteq> []"
  shows "decimal_of_text (ip @ CHR ''.'' # fp) = exact_decimal (Dec False (digits_value (ip @ fp)) (- int (length fp)))"
proof -
  let ?t = "ip @ CHR ''.'' # fp"
  have ac: "\<forall>c \<in> set ?t. amount_char c" using assms(1) by (auto simp: amount_char_def)
  have str: "str_remove CHR ''_'' (str_strip ?t) = ?t"
    using ac amount_charD(1,5) by (subst str_strip_id) (auto simp: str_remove_def filter_id_conv)
  have sgn: "take_sign ?t = (False, ?t)"
    using ac assms(2) amount_charD(3,4) by (cases ip) (auto simp: take_sign_def)
  have "\<not> is_digit CHR ''.''" by (simp add: is_digit_def)
  then have dot: "takeWhile is_digit ?t = ip" "dropWhile is_digit ?t = CHR ''.'' # fp"
    using assms(1) take_drop_digits(1) [of ip "CHR ''.''" fp] by auto
  have frac: "takeWhile is_digit fp = fp" "dropWhile is_digit fp = []"
    using assms(1) take_drop_digits(2) [of fp] by auto
  show ?thesis
    unfolding decimal_of_text_def str sgn Let_def prod.case dot list.sel frac
    using assms(2) by (simp add: take_exponent_def)
qed

lemma two_decimals:
  "digits_value (nat_str (n div 100) @ [digit_char (n mod 100 div 10), digit_char (n mod 10)]) = n"
proof -
  have "digits_value (nat_str (n div 100) @ [digit_char (n mod 100 div 10), digit_char (n mod 10)]) =
      10 * (10 * (n div 100) + n mod 100 div 10) + n mod 10"
    using digits_value_snoc [of "nat_str (n div 100) @ [digit_char (n mod 100 div 10)]"]
      digits_value_snoc [of "nat_str (n div 100)"] by (simp add: of_digit_char less_mult_imp_div_less)
  moreover have "n mod 100 = 10 * (n div 10 mod 10) + n mod 10" using mod_mult2_eq [of n 10 10] by simp
  moreover have "n div 100 = n div 10 div 10" by (simp add: div_mult2_eq [of n 10 10, simplified])
  ultimately show ?thesis by simp
qed

text \<open>Either convention resolves to the same plain digits.\<close>

lemma str_rfind_less:
  assumes "c \<notin> set r" "d \<notin> set r" "c \<noteq> d"
  shows "str_rfind c (s @ d # r) < str_rfind d (s @ d # r)"
proof -
  have "takeWhile (\<lambda>x. x \<noteq> d) (rev r @ d # rev s) = rev r" using assms by (subst takeWhile_append2) auto
  moreover have "takeWhile (\<lambda>x. x \<noteq> c) (rev r @ d # rev s) = rev r @ d # takeWhile (\<lambda>x. x \<noteq> c) (rev s)"
    using assms by (subst takeWhile_append2) auto
  ultimately show ?thesis by (simp add: str_rfind_def)
qed

lemma str_split_two: "c \<notin> set a \<Longrightarrow> c \<notin> set b \<Longrightarrow> str_split c (a @ c # b) = [a, b]"
proof (induction a)
  case Nil
  have "str_split c b = [b]" if "c \<notin> set b" for b using that by (induction b) auto
  with Nil show ?case by simp
qed auto


lemma amount_parts:
  assumes "sep \<in> {CHR ''.'', CHR '',''}"
  defines "g \<equiv> \<lambda>n. rev (group_rev sep (rev (nat_str (n div 100))))"
  shows "filter (\<lambda>c. c \<noteq> sep) (g n) = nat_str (n div 100)" "set (g n) \<subseteq> insert sep (set (nat_str (n div 100)))" "g n \<noteq> []"
    "sep \<notin> set (g n) \<Longrightarrow> g n = nat_str (n div 100)"
proof -
  have nd: "c \<in> set (nat_str m) \<Longrightarrow> c \<noteq> CHR ''.'' \<and> c \<noteq> CHR '',''" for c m
    using nat_str_digits [of c m] by (auto simp: is_digit_def)
  then have s: "sep \<notin> set (rev (nat_str (n div 100)))" using assms(1) by auto
  show "filter (\<lambda>c. c \<noteq> sep) (g n) = nat_str (n div 100)"
    using remove_group_rev [OF s] unfolding g_def by (simp flip: rev_filter)
  then show "g n \<noteq> []" using nat_str_not_Nil [of "n div 100"] by (metis filter.simps(1))
  show "set (g n) \<subseteq> insert sep (set (nat_str (n div 100)))"
    using set_group_rev [of sep "rev (nat_str (n div 100))"] unfolding g_def by simp
  show "sep \<notin> set (g n) \<Longrightarrow> g n = nat_str (n div 100)"
    using group_rev_id [of sep "rev (nat_str (n div 100))"] unfolding g_def by simp
qed

definition decimals :: "nat \<Rightarrow> string" where
  "decimals n = [digit_char (n mod 100 div 10), digit_char (n mod 10)]"

lemma decimals_digits: "c \<in> set (decimals n) \<Longrightarrow> is_digit c"
  by (auto simp: decimals_def less_mult_imp_div_less)

lemma amount_text_alt: "amount_text sep point n = rev (group_rev sep (rev (nat_str (n div 100)))) @ point # decimals n"
  by (simp add: amount_text_def decimals_def)

lemma plain_digits:
  "CHR ''.'' \<notin> set (nat_str m)" "CHR '','' \<notin> set (nat_str m)" "CHR ''.'' \<notin> set (decimals n)" "CHR '','' \<notin> set (decimals n)"
  using nat_str_digits decimals_digits by (fastforce simp: is_digit_def)+

lemma str_char_id: "a \<notin> set s \<Longrightarrow> str_char a b s = s"
  by (auto simp: str_char_def intro: map_idI)

lemma str_ops_append:
  "str_char a b (s @ c # t) = str_char a b s @ (if c = a then b else c) # str_char a b t"
  "str_remove a (s @ c # t) = str_remove a s @ (if c = a then [] else [c]) @ str_remove a t"
  by (simp_all add: str_char_def str_remove_def)

lemma str_remove_id: "a \<notin> set s \<Longrightarrow> str_remove a s = s"
  by (auto simp: str_remove_def filter_id_conv)

lemma resolve_turkish:
  "resolve_separators hint (amount_text CHR ''.'' CHR '','' n) = (nat_str (n div 100) @ CHR ''.'' # decimals n, [])"
proof -
  define g where "g = rev (group_rev CHR ''.'' (rev (nat_str (n div 100))))"
  note parts = amount_parts [of "CHR ''.''" n, folded g_def, simplified]
  have few: "few_decimals [a, decimals n]" for a by (simp add: few_decimals_def decimals_def)
  have rem: "str_remove CHR ''.'' g = nat_str (n div 100)" using parts(1) by (simp add: str_remove_def)
  have less: "\<not> str_rfind CHR '','' (g @ CHR '','' # decimals n) < str_rfind CHR ''.'' (g @ CHR '','' # decimals n)"
    using str_rfind_less [of "CHR ''.''" "decimals n" "CHR '',''" g] plain_digits by simp
  show ?thesis
    unfolding amount_text_alt g_def [symmetric]
    by (cases "CHR ''.'' \<in> set g")
      (use less few parts(4) in \<open>simp_all add: resolve_separators_def Let_def rem plain_digits str_ops_append str_char_id
        str_remove_id str_split_two\<close>)
qed

lemma resolve_english:
  "resolve_separators hint (amount_text CHR '','' CHR ''.'' n) = (nat_str (n div 100) @ CHR ''.'' # decimals n, [])"
proof -
  define g where "g = rev (group_rev CHR '','' (rev (nat_str (n div 100))))"
  note parts = amount_parts [of "CHR '',''" n, folded g_def, simplified]
  have few: "few_decimals [a, decimals n]" for a by (simp add: few_decimals_def decimals_def)
  have rem: "str_remove CHR '','' g = nat_str (n div 100)" using parts(1) by (simp add: str_remove_def)
  have less: "str_rfind CHR '','' (g @ CHR ''.'' # decimals n) < str_rfind CHR ''.'' (g @ CHR ''.'' # decimals n)"
    using str_rfind_less [of "CHR '',''" "decimals n" "CHR ''.''" g] plain_digits by simp
  show ?thesis
    unfolding amount_text_alt g_def [symmetric]
    by (cases "CHR '','' \<in> set g")
      (use less few parts(4) in \<open>simp_all add: resolve_separators_def Let_def rem plain_digits str_ops_append str_char_id
        str_remove_id str_split_two\<close>)
qed

lemma amount_text_chars:
  assumes "sep \<in> {CHR ''.'', CHR '',''}" "point \<in> {CHR ''.'', CHR '',''}"
  shows "\<forall>c \<in> set (amount_text sep point n). amount_char c" "amount_text sep point n \<noteq> []"
proof -
  have "amount_char c" if "c \<in> set (rev (group_rev sep (rev (nat_str (n div 100)))))" for c
    using that amount_parts(2) [OF assms(1), of n] nat_str_digits [of c] assms(1) by (auto simp: amount_char_def)
  then show "\<forall>c \<in> set (amount_text sep point n). amount_char c"
    using decimals_digits assms(2) unfolding amount_text_alt by (auto simp: amount_char_def)
qed (simp add: amount_text_def)

lemma small_amount_exact: "n < 10 ^ 28 \<Longrightarrow>
  decimal_of_text (nat_str (n div 100) @ CHR ''.'' # decimals n) = Some (Finite_Num (Dec False n (-2)))"
proof -
  assume "n < 10 ^ 28"
  then have "ndigits n \<le> 28" by (simp add: ndigits_le_iff)
  moreover have "decimal_of_text (nat_str (n div 100) @ CHR ''.'' # decimals n) =
      exact_decimal (Dec False (digits_value (nat_str (n div 100) @ decimals n)) (- int (length (decimals n))))"
    using nat_str_digits decimals_digits by (intro decimal_of_digits) auto
  ultimately show ?thesis
    using two_decimals [of n] by (simp add: exact_decimal_def decimals_def)
qed

lemma mark_pair:
  assumes "(sep, point) = (CHR ''.'', CHR '','') \<or> (sep, point) = (CHR '','', CHR ''.'')"
  shows "sep \<in> {CHR ''.'', CHR '',''}" "point \<in> {CHR ''.'', CHR '',''}"
  using assms by auto

text \<open>C36: an amount with thousands separators and two decimals, printed in the Turkish or in the English
  convention, is read back exactly and without a warning, whatever the locale hint; in parentheses it is
  read as its negative. So the two conventions are told apart without a hint.\<close>

theorem amount_text_read_back:
  assumes "n < 10 ^ 28" "(sep, point) = (CHR ''.'', CHR '','') \<or> (sep, point) = (CHR '','', CHR ''.'')"
  shows "parse_financial_decimal (amount_text sep point n) hint = amount_read (Dec False n (-2)) \<and>
    parse_financial_decimal (''('' @ amount_text sep point n @ '')'') hint = amount_read (Dec (0 < n) n (-2))"
proof -
  note chars = amount_text_chars [of sep point n, OF mark_pair(1) [OF assms(2)] mark_pair(2) [OF assms(2)]]
  have res: "resolve_separators hint (amount_text sep point n) = (nat_str (n div 100) @ CHR ''.'' # decimals n, [])"
    using assms(2) resolve_turkish resolve_english by auto
  have neg: "num_neg (Finite_Num (Dec False n (-2))) = Inr (Finite_Num (Dec (0 < n) n (-2)))"
    using assms(1) by (simp add: num_neg_def dneg_def dfix_def default_context_def ndigits_le_iff)
  have "parse_financial_decimal (amount_text sep point n) hint = amount_read (Dec False n (-2))"
    unfolding amount_read_def
    by (rule parse_amount [OF chars(2) _ take_negative_plain [OF chars(2) chars(1)] res small_amount_exact [OF assms(1)]])
      (use chars(1) in \<open>simp_all add: mark_def\<close>)
  moreover have "parse_financial_decimal (''('' @ amount_text sep point n @ '')'') hint = amount_read (Dec (0 < n) n (-2))"
    unfolding amount_read_def
    by (rule parse_amount [OF _ _ take_negative_paren [OF chars(1)] res small_amount_exact [OF assms(1)]])
      (use chars(1) neg in \<open>auto simp: mark_def\<close>)
  ultimately show ?thesis ..
qed

theorem amount_text_read_back_witness:
  "parse_financial_decimal ''1.234.567,89'' None = amount_read (Dec False 123456789 (-2))"
proof -
  have "nat_str 1234567 = ''1234567''"
    by (simp add: nat_str.simps digit_char_def char_of_def bit_0)
  then have "amount_text CHR ''.'' CHR '','' 123456789 = ''1.234.567,89''"
    by (simp add: amount_text_def digit_char_def char_of_def bit_0)
  with amount_text_read_back [of 123456789 "CHR ''.''" "CHR '',''" None] show ?thesis by simp
qed

end
