(* ===== verification/FactCandidates.thy ===== *)
theory FactCandidates
  imports DocumentStore Normalization
begin

text \<open>
  \<open>services/fact_candidate_service.py\<close>: matching a label against the metric dictionary and recording
  a figure of a document as a candidate with its evidence. The digest of \<open>hashlib\<close> is the parameter
  \<open>sha\<close>, the text of a float \<open>fr\<close>; other sessions act at the parameter \<open>env\<close> between the search for
  an equal candidate and the insertion. New identifiers are arguments.

  Main results: the first candidate of a figure is recorded once, a repeated call returns it and writes
  nothing, whether the earlier one was seen before or only at the insertion.
\<close>

section \<open>Matching labels\<close>

text \<open>SQL's LIKE; a pattern that ends in the escape character, an error of the server, matches nothing.\<close>

fun sql_like :: "string \<Rightarrow> string \<Rightarrow> bool" where
  "sql_like [] s = (s = [])"
| "sql_like (p # ps) [] = (p = CHR ''%'' \<and> sql_like ps [])"
| "sql_like (p # ps) (c # cs) =
     (if p = CHR ''%'' then sql_like ps (c # cs) \<or> sql_like (p # ps) cs
      else if p = CHR ''_'' then sql_like ps cs
      else if p = CHR 0x5C then (case ps of [] \<Rightarrow> False | q # qs \<Rightarrow> q = c \<and> sql_like qs cs)
      else p = c \<and> sql_like ps cs)"

definition ilike :: "string \<Rightarrow> string \<Rightarrow> bool" where
  "ilike text pattern = sql_like (str_lower pattern) (str_lower text)"

definition metric_by_id :: "uuid \<Rightarrow> doc_db \<Rightarrow> py_exc + metric_definition option" where
  "metric_by_id i d = scalar_one_or_none (filter (\<lambda>m. md_id m = i) (b_metrics d))"

definition metric_by_code :: "string \<Rightarrow> doc_db \<Rightarrow> py_exc + metric_definition option" where
  "metric_by_code code d = scalar_one_or_none (filter (\<lambda>m. md_code m = code) (b_metrics d))"

definition match_metric_alias :: "uuid \<Rightarrow> string \<Rightarrow> doc_db \<Rightarrow> py_exc + metric_definition option" where
  "match_metric_alias org raw_label d =
     (let label = str_lower (str_strip raw_label) in
      bindE (scalar_one_or_none (filter (\<lambda>a. al_org a = org \<and> ilike (al_pattern a) label) (b_aliases d))) (\<lambda>alias.
      case alias of
        Some a \<Rightarrow> metric_by_id (al_metric a) d
      | None \<Rightarrow> scalar_one_or_none (filter (\<lambda>m. ilike (md_code m) label \<or> ilike (md_name m) label) (b_metrics d))))"

section \<open>Creating a candidate\<close>

record candidate_args =
  ca_id :: uuid
  ca_evidence_id :: uuid
  ca_org :: uuid
  ca_institution :: uuid
  ca_period :: uuid
  ca_label :: string
  ca_value :: string
  ca_document :: uuid
  ca_version :: uuid
  ca_currency :: string
  ca_unit :: string
  ca_scale :: string
  ca_basis :: string
  ca_location :: location
  ca_method :: string
  ca_snippet :: "string option"
  ca_metric_code :: "string option"

definition idempotency_text :: "(rat \<Rightarrow> string) \<Rightarrow> candidate_args \<Rightarrow> string" where
  "idempotency_text fr a = uuid_str (ca_org a) @ '':'' @ uuid_str (ca_version a) @ '':'' @ str_strip (ca_label a) @ '':'' @
     str_strip (ca_value a) @ '':'' @ loc_dumps fr (ca_location a)"

definition resolve_metric :: "candidate_args \<Rightarrow> doc_db \<Rightarrow> py_exc + metric_definition option" where
  "resolve_metric a d =
     bindE (if falsy_str (ca_metric_code a) then Inr None else metric_by_code (the (ca_metric_code a)) d) (\<lambda>m.
     case m of Some x \<Rightarrow> Inr (Some x) | None \<Rightarrow> match_metric_alias (ca_org a) (ca_label a) d)"

text \<open>A number as the column \<open>NUMERIC(28, 6)\<close> keeps it.\<close>

definition stored_number :: "number \<Rightarrow> py_exc + dec" where
  "stored_number n = (case n of Finite_Num d \<Rightarrow> stored_as 28 6 d | _ \<Rightarrow> Inl DataError)"

definition stored_option :: "number option \<Rightarrow> py_exc + dec option" where
  "stored_option n = (case n of None \<Rightarrow> Inr None | Some x \<Rightarrow> bindE (stored_number x) (\<lambda>d. Inr (Some d)))"

text \<open>Warnings and confidence of a figure.\<close>

definition candidate_warnings :: "number_parse_result \<Rightarrow> metric_definition option \<Rightarrow> string \<Rightarrow> string list" where
  "candidate_warnings pr m basis = pr_warnings pr @ (if m = None then [''UNMATCHED_METRIC_ALIAS''] else []) @
     (if basis = ''UNKNOWN'' then [''UNKNOWN_REPORTING_BASIS''] else [])"

definition confidence_of :: "number_parse_result \<Rightarrow> metric_definition option \<Rightarrow> dec" where
  "confidence_of pr m = (if m \<noteq> None \<and> pr_value pr \<noteq> None
     then (if pr_warnings pr = [] then Dec False 850 (-3) else Dec False 650 (-3)) else Dec False 500 (-3))"

definition new_candidate ::
  "string \<Rightarrow> candidate_args \<Rightarrow> metric_definition option \<Rightarrow> number_parse_result \<Rightarrow> dec option \<Rightarrow> dec option \<Rightarrow> fact_candidate" where
  "new_candidate h a m pr parsed normalized =
     (let unit = (if pr_value pr \<noteq> None \<and> pr_percentage pr then ''PERCENT'' else ca_unit a);
          warnings = candidate_warnings pr m (ca_basis a)
      in \<lparr>fc_id = ca_id a, fc_org = ca_org a, fc_institution = ca_institution a, fc_period = ca_period a,
          fc_metric = map_option md_id m, fc_suggested = map_option md_code m, fc_label = ca_label a, fc_raw = ca_value a,
          fc_parsed = parsed, fc_raw_currency = ca_currency a, fc_raw_unit = unit, fc_raw_scale = ca_scale a,
          fc_currency = ca_currency a, fc_unit = unit, fc_scale = ca_scale a, fc_normalized = normalized,
          fc_basis = ca_basis a, fc_document = ca_document a, fc_version = ca_version a, fc_location = ca_location a,
          fc_method = ca_method a, fc_confidence = confidence_of pr m,
          fc_validation = (if warnings = [] \<and> pr_value pr \<noteq> None \<and> m \<noteq> None then ''NORMALIZED'' else ''NEEDS_REVIEW''),
          fc_review = ''PENDING'', fc_warnings = warnings, fc_hash = Some h, fc_origin = ''SOURCE_REPORTED'',
          fc_conflict = None, fc_conflict_at = None, fc_conflict_reason = None, fc_value_hash = None\<rparr>)"

subsection \<open>Evidence\<close>

text \<open>A value on its way into an INTEGER or a TEXT column.\<close>

definition int_column :: "loc_value \<Rightarrow> py_exc + int option" where
  "int_column v = (case v of LNone \<Rightarrow> Inr None | LInt n \<Rightarrow> Inr (Some n) | _ \<Rightarrow> Inl DataError)"

definition text_column :: "loc_value \<Rightarrow> py_exc + string option" where
  "text_column v = (case v of LNone \<Rightarrow> Inr None | LStr s \<Rightarrow> Inr (Some s) | _ \<Rightarrow> Inl DataError)"

definition box_corners :: "string list" where
  "box_corners = [''x0'', ''y0'', ''x1'', ''y1'']"

fun float_of :: "loc_value \<Rightarrow> float_arg" where
  "float_of (LInt n) = Finite (of_int n)"
| "float_of (LFloat r) = Finite r"
| "float_of (LBool b) = Finite (if b then 1 else 0)"
| "float_of _ = NotAFloat"

text \<open>The bounding box: the dictionary of that name, or the location itself when it has the four corners.\<close>

definition evidence_box :: "location \<Rightarrow> (string \<times> float_arg) list" where
  "evidence_box loc =
     (case loc_get loc ''bounding_box'' of
        LBox (kv # kvs) \<Rightarrow> map (\<lambda>(k, r). (k, Finite r)) (kv # kvs)
      | _ \<Rightarrow> if \<forall>k \<in> set box_corners. map_of loc k \<noteq> None then map (\<lambda>(k, v). (k, float_of v)) loc else [])"

definition evidence_page :: "location \<Rightarrow> loc_value" where
  "evidence_page loc = (if loc_truthy (loc_get loc ''page_number'') then loc_get loc ''page_number''
     else if loc_truthy (loc_get loc ''page'') then loc_get loc ''page'' else LInt 1)"

definition make_evidence_row :: "candidate_args \<Rightarrow> py_exc + candidate_evidence" where
  "make_evidence_row a =
     (let loc = ca_location a;
          snip = (if falsy_str (ca_snippet a) then ''Table Cell: '' @ ca_label a @ '' = '' @ ca_value a else the (ca_snippet a))
      in bindE (raise_val (map_of loc ''col_index'' \<noteq> None \<or> map_of loc ''columnIndex'' \<noteq> None) ''LEGACY_LINEAGE_FIELD_REJECTED'') (\<lambda>_.
         bindE (int_column (evidence_page loc)) (\<lambda>page.
         bindE (text_column (loc_get loc ''sheet_name'')) (\<lambda>sheet.
         bindE (text_column (loc_get loc ''cell_coordinate'')) (\<lambda>cell.
         bindE (text_column (loc_get loc ''header_name'')) (\<lambda>header.
         bindE (int_column (loc_get loc ''row_index'')) (\<lambda>row.
         bindE (int_column (loc_get loc ''column_index'')) (\<lambda>column.
           Inr \<lparr>ce_id = ca_evidence_id a, ce_org = ca_org a, ce_candidate = ca_id a, ce_version = ca_version a, ce_page = page,
                ce_sheet = sheet, ce_cell = cell, ce_header = header, ce_row = row, ce_column = column,
                ce_bbox = evidence_box loc, ce_snippet = Some snip\<rparr>))))))))"

definition add_evidence :: "candidate_args \<Rightarrow> unit dochandler" where
  "add_evidence a = (if ca_location a = [] then retP ()
     else bindP (liftP (make_evidence_row a)) insert_candidate_evidence)"

subsection \<open>The operation\<close>

definition find_equal :: "candidate_args \<Rightarrow> string \<Rightarrow> fact_candidate option dochandler" where
  "find_equal a h = s_read (\<lambda>d. scalar_one_or_none (candidates_with (ca_org a) h d))"

definition prepare_candidate :: "string \<Rightarrow> candidate_args \<Rightarrow> doc_db \<Rightarrow> py_exc + fact_candidate" where
  "prepare_candidate h a d =
     bindE (resolve_metric a d) (\<lambda>m.
     let pr = parse_financial_decimal (ca_value a) None in
     bindE (case pr_value pr of None \<Rightarrow> Inr None
            | Some v \<Rightarrow> bindE (normalize_scale v (ca_scale a)) (\<lambda>w. Inr (Some w))) (\<lambda>normalized.
     bindE (stored_option (pr_value pr)) (\<lambda>p. bindE (stored_option normalized) (\<lambda>n.
       Inr (new_candidate h a m pr p n)))))"

definition create_candidate ::
  "(string \<Rightarrow> string) \<Rightarrow> (rat \<Rightarrow> string) \<Rightarrow> (doc_db \<Rightarrow> doc_db) \<Rightarrow> candidate_args \<Rightarrow> fact_candidate dochandler" where
  "create_candidate sha fr env a =
     (let h = sha (idempotency_text fr a) in
      bindP (find_equal a h) (\<lambda>existing.
      case existing of
        Some c \<Rightarrow> retP c
      | None \<Rightarrow>
          bindP (s_read (prepare_candidate h a)) (\<lambda>c.
          bindP (s_others env) (\<lambda>_.
          bindP (tryP (savepoint (bindP (insert_candidate c) (\<lambda>_. bindP (add_evidence a) (\<lambda>_. retP None))))
            (\<lambda>e. if e = IntegrityError
               then bindP (find_equal a h) (\<lambda>dup. case dup of None \<Rightarrow> throwP e | Some x \<Rightarrow> retP (Some x))
               else throwP e)) (\<lambda>dup.
          case dup of
            Some x \<Rightarrow> retP x
          | None \<Rightarrow>
              bindP (doc_audit sha (ca_org a) ''FACT_CANDIDATE_CREATED'' ''financial_fact_candidate'' (fc_id c) None
                [(''raw_label'', JStr (ca_label a)), (''extraction_method'', JStr (ca_method a))]) (\<lambda>_.
              retP c))))))"

text \<open>A label is used as a pattern: the label of a percent sign matches every metric.\<close>

lemma like_percent: "sql_like ''%'' s"
  by (induction s) simp_all

lemma percent_label_raises:
  assumes "filter (\<lambda>a. al_org a = org) (b_aliases d) = []" "2 \<le> length (b_metrics d)"
  shows "match_metric_alias org ''%'' d = Inl MultipleResultsFound"
proof -
  have label: "str_lower (str_strip ''%'') = ''%''" by (simp add: str_lower_def str_strip_def is_space_def lower_char_def)
  have pat: "ilike s ''%''" for s by (simp add: ilike_def str_lower_def lower_char_def like_percent)
  have "filter (\<lambda>a. al_org a = org \<and> ilike (al_pattern a) ''%'') (b_aliases d) = []"
    using assms(1) by (auto simp: filter_empty_conv)
  with assms(2) show ?thesis by (simp add: match_metric_alias_def label pat scalar_one_or_none_Inl)
qed

end
