(* ===== verification/FactReview.thy ===== *)
theory FactReview
  imports FactCandidates
begin

text \<open>
  \<open>services/financial_fact_service.py\<close>: a reviewer approves a candidate, which makes its figure a
  verified fact, approves it as the revision of an active fact, or rejects it. Other sessions act at
  the parameter \<open>env\<close> after the handler has read and locked its rows and before its first write; the
  database refuses a second active fact of one natural key whatever they did.
\<close>

section \<open>Evidence and basis\<close>

definition candidate_evidence_of :: "uuid \<Rightarrow> uuid \<Rightarrow> doc_db \<Rightarrow> candidate_evidence list" where
  "candidate_evidence_of org c d = filter (\<lambda>e. ce_org e = org \<and> ce_candidate e = c) (b_evidence d)"

definition non_negative :: "int option \<Rightarrow> bool" where
  "non_negative i = (case i of None \<Rightarrow> False | Some n \<Rightarrow> 0 \<le> n)"

definition index_evidence :: "string \<Rightarrow> candidate_evidence \<Rightarrow> py_exc + unit" where
  "index_evidence kind e = raise_val (\<not> non_negative (ce_row e) \<or> \<not> non_negative (ce_column e))
     (''EVIDENCE_LINEAGE_INCOMPLETE: '' @ kind @ '' evidence requires non-negative row_index and column_index'')"

definition located_evidence :: "string \<Rightarrow> candidate_evidence \<Rightarrow> py_exc + unit" where
  "located_evidence mime e =
     (if contains_sub ''pdf'' mime then
        bindE (raise_val (case ce_page e of None \<Rightarrow> True | Some n \<Rightarrow> n < 1)
          ''EVIDENCE_LINEAGE_INCOMPLETE: PDF evidence requires valid page_number >= 1'') (\<lambda>_.
        raise_val (\<exists>k \<in> set box_corners. map_of (ce_bbox e) k = None)
          ''EVIDENCE_LINEAGE_INCOMPLETE: PDF evidence requires valid bounding_box coordinates'')
      else if contains_sub ''sheet'' mime \<or> contains_sub ''excel'' mime \<or> contains_sub ''spreadsheet'' mime then
        index_evidence ''XLSX'' e
      else if contains_sub ''csv'' mime then index_evidence ''CSV'' e
      else Inr ())"

definition version_mime_text :: "document_version \<Rightarrow> string" where
  "version_mime_text v = (if \<not> falsy_str (dv_detected_mime v) then str_lower (the (dv_detected_mime v))
     else if \<not> falsy_str (dv_declared_mime v) then str_lower (the (dv_declared_mime v)) else [])"

definition check_evidence :: "uuid \<Rightarrow> fact_candidate \<Rightarrow> doc_db \<Rightarrow> candidate_evidence \<Rightarrow> py_exc + unit" where
  "check_evidence org c d e =
     bindE (raise_val (ce_org e \<noteq> org) ''EVIDENCE_SOURCE_MISMATCH: Cross-tenant evidence attempt rejected'') (\<lambda>_.
     bindE (raise_val (ce_version e \<noteq> fc_version c)
       ''EVIDENCE_LINEAGE_INCOMPLETE: Candidate evidence document version mismatch'') (\<lambda>_.
     bindE (scalar_one_or_none (filter (\<lambda>v. dv_id v = ce_version e \<and> dv_org v = org) (b_versions d))) (\<lambda>r.
     case r of
       None \<Rightarrow> Inl (ValueError ''EVIDENCE_LINEAGE_INCOMPLETE: Document lineage mismatch'')
     | Some v \<Rightarrow>
         bindE (raise_val (dv_document v \<noteq> fc_document c) ''EVIDENCE_LINEAGE_INCOMPLETE: Document lineage mismatch'') (\<lambda>_.
           located_evidence (version_mime_text v) e))))"

definition verify_evidence_and_basis :: "uuid \<Rightarrow> fact_candidate \<Rightarrow> string option \<Rightarrow> doc_db \<Rightarrow> py_exc + string" where
  "verify_evidence_and_basis org c target d =
     (let evs = candidate_evidence_of org (fc_id c) d;
          basis = (if falsy_str target then fc_basis c else the target);
          up = str_upper basis
      in bindE (raise_val (evs = []) ''EVIDENCE_INCOMPLETE: Candidate evidence missing from database'') (\<lambda>_.
         bindE (for_each (check_evidence org c d) evs) (\<lambda>_.
         bindE (raise_val (basis = [] \<or> up = ''UNKNOWN'')
           ''REPORTING_BASIS_REQUIRED: UNKNOWN reporting basis cannot be approved without explicit selection'') (\<lambda>_.
         bindE (raise_val (up \<notin> {''SOLO'', ''CONSOLIDATED''})
           (''UNSUPPORTED_REPORTING_BASIS: Invalid basis '' @ quoted basis)) (\<lambda>_.
           Inr up)))))"

section \<open>Rows the handlers read and build\<close>

definition load_candidate :: "uuid \<Rightarrow> uuid \<Rightarrow> fact_candidate dochandler" where
  "load_candidate org i =
     bindP (s_read (\<lambda>d. scalar_one_or_none (filter (\<lambda>c. fc_id c = i \<and> fc_org c = org) (b_candidates d)))) (\<lambda>r.
       liftP (require_some (ValueError ''CANDIDATE_NOT_FOUND'') r))"

definition candidate_key :: "fact_candidate \<Rightarrow> uuid \<Rightarrow> uuid \<Rightarrow> string \<Rightarrow> natural_key" where
  "candidate_key c org metric basis = (org, fc_institution c, fc_period c, metric, basis, fc_currency c, fc_unit c)"

definition find_active :: "natural_key \<Rightarrow> financial_fact option dochandler" where
  "find_active k = s_read (\<lambda>d. scalar_one_or_none (active_facts k d))"

definition load_metric :: "uuid \<Rightarrow> metric_definition dochandler" where
  "load_metric i = s_read (\<lambda>d. scalar_one (filter (\<lambda>m. md_id m = i) (b_metrics d)))"

text \<open>\<open>candidate.parsed_decimal_value or candidate.normalized_value\<close>: a zero is false.\<close>

definition fact_value :: "fact_candidate \<Rightarrow> dec \<Rightarrow> dec" where
  "fact_value c normalized = (case fc_parsed c of None \<Rightarrow> normalized | Some p \<Rightarrow> if is_zero p then normalized else p)"

definition new_fact ::
  "uuid \<Rightarrow> uuid \<Rightarrow> uuid \<Rightarrow> fact_candidate \<Rightarrow> metric_definition \<Rightarrow> dec \<Rightarrow> string \<Rightarrow> uuid option \<Rightarrow> financial_fact" where
  "new_fact i org reviewer c m normalized basis supersedes =
     \<lparr>ff_id = i, ff_org = org, ff_institution = fc_institution c, ff_period = fc_period c, ff_metric_definition = md_id m,
      ff_metric_code = md_code m, ff_value = fact_value c normalized, ff_currency = fc_currency c, ff_unit = fc_unit c,
      ff_scale = fc_scale c, ff_normalized = normalized, ff_basis = basis, ff_candidate = Some (fc_id c),
      ff_document = fc_document c, ff_page = None, ff_review = ''HUMAN_VERIFIED'', ff_verified_by = Some reviewer,
      ff_supersedes = supersedes, ff_valid_to = None,
      ff_origin = (if fc_origin c = [] then ''SOURCE_REPORTED'' else fc_origin c)\<rparr>"

definition mark_reviewed :: "string \<Rightarrow> string \<Rightarrow> fact_candidate \<Rightarrow> fact_candidate" where
  "mark_reviewed status basis c = c\<lparr>fc_review := status, fc_validation := status, fc_basis := basis\<rparr>"

definition decision_row ::
  "uuid \<Rightarrow> fact_candidate \<Rightarrow> uuid \<Rightarrow> string \<Rightarrow> string option \<Rightarrow> string option \<Rightarrow> uuid option \<Rightarrow> review_decision" where
  "decision_row org c reviewer d reason notes made =
     \<lparr>rd_org = org, rd_candidate = fc_id c, rd_reviewer = reviewer, rd_decision = d, rd_reason = reason, rd_notes = notes,
      rd_fact = made\<rparr>"

definition close_candidate :: "fact_candidate \<Rightarrow> string \<Rightarrow> review_decision \<Rightarrow> unit dochandler" where
  "close_candidate c basis r =
     bindP (s_write (put_candidate (mark_reviewed ''APPROVED'' basis) (fc_id c))) (\<lambda>_. insert_decision r)"

definition str_or :: "string option \<Rightarrow> string \<Rightarrow> string option" where
  "str_or notes alt = (if falsy_str notes then Some alt else notes)"

text \<open>What a reviewer asks for.\<close>

record review =
  rv_org :: uuid
  rv_candidate :: uuid
  rv_reviewer :: uuid
  rv_basis :: "string option"
  rv_notes :: "string option"
  rv_fact_id :: uuid
  rv_now :: nat

section \<open>Approval\<close>

definition corroborate :: "review \<Rightarrow> fact_candidate \<Rightarrow> string \<Rightarrow> financial_fact \<Rightarrow> (fact_candidate \<times> financial_fact) dochandler" where
  "corroborate r c basis f =
     bindP (close_candidate c basis
       (decision_row (rv_org r) c (rv_reviewer r) ''APPROVED'' None
          (str_or (rv_notes r) ''Corroborating candidate approved'') (Some (ff_id f)))) (\<lambda>_.
     bindP s_commit (\<lambda>_. retP (mark_reviewed ''APPROVED'' basis c, f)))"

definition mark_conflict :: "(string \<Rightarrow> string) \<Rightarrow> nat \<Rightarrow> financial_fact \<Rightarrow> fact_candidate \<Rightarrow> fact_candidate" where
  "mark_conflict sha now f c = c\<lparr>fc_conflict := Some (ff_id f), fc_conflict_at := Some now,
     fc_conflict_reason := Some ''VALUE_MISMATCH'', fc_value_hash := Some (sha (dec_str (ff_normalized f))),
     fc_validation := ''CONFLICTED''\<rparr>"

definition record_conflict :: "(string \<Rightarrow> string) \<Rightarrow> review \<Rightarrow> fact_candidate \<Rightarrow> financial_fact \<Rightarrow> 'a dochandler" where
  "record_conflict sha r c f =
     bindP (s_write (put_candidate (mark_conflict sha (rv_now r) f) (fc_id c))) (\<lambda>_.
     bindP s_commit (\<lambda>_.
     raiseP ''FACT_VALUE_CONFLICT: Active fact with different value exists. Use explicit revision approval.''))"

definition approve_new ::
  "(string \<Rightarrow> string) \<Rightarrow> review \<Rightarrow> fact_candidate \<Rightarrow> metric_definition \<Rightarrow> dec \<Rightarrow> string \<Rightarrow> (fact_candidate \<times> financial_fact) dochandler" where
  "approve_new sha r c m normalized basis =
     (let f = new_fact (rv_fact_id r) (rv_org r) (rv_reviewer r) c m normalized basis None in
      bindP (insert_fact f) (\<lambda>_.
      bindP (close_candidate c basis
        (decision_row (rv_org r) c (rv_reviewer r) ''APPROVED'' None (rv_notes r) (Some (ff_id f)))) (\<lambda>_.
      bindP (doc_audit sha (rv_org r) ''FACT_CANDIDATE_APPROVED'' ''financial_fact_candidate'' (fc_id c) (Some (rv_reviewer r))
        [(''created_fact_id'', JStr (uuid_str (ff_id f))), (''metric_code'', JStr (ff_metric_code f))]) (\<lambda>_.
      bindP s_commit (\<lambda>_. retP (mark_reviewed ''APPROVED'' basis c, f))))))"

definition approve_candidate ::
  "(string \<Rightarrow> string) \<Rightarrow> (doc_db \<Rightarrow> doc_db) \<Rightarrow> review \<Rightarrow> (fact_candidate \<times> financial_fact) dochandler" where
  "approve_candidate sha env r =
     bindP (load_candidate (rv_org r) (rv_candidate r)) (\<lambda>c.
     bindP (assertP (fc_review c = ''PENDING'') (ValueError ''CANDIDATE_ALREADY_REVIEWED'')) (\<lambda>_.
     bindP (liftP (require_some (ValueError ''CANNOT_APPROVE_UNPARSED_VALUE'') (fc_normalized c))) (\<lambda>normalized.
     bindP (liftP (require_some (ValueError ''CANNOT_APPROVE_WITHOUT_METRIC_DEFINITION'') (fc_metric c))) (\<lambda>metric.
     bindP (s_read (verify_evidence_and_basis (rv_org r) c (rv_basis r))) (\<lambda>basis.
     bindP (load_metric metric) (\<lambda>m.
     bindP (find_active (candidate_key c (rv_org r) metric basis)) (\<lambda>existing.
     bindP (s_others env) (\<lambda>_.
     case existing of
       Some f \<Rightarrow> if deq (ff_normalized f) normalized then corroborate r c basis f else record_conflict sha r c f
     | None \<Rightarrow> approve_new sha r c m normalized basis))))))))"

section \<open>Revision\<close>

definition same_key :: "uuid \<Rightarrow> fact_candidate \<Rightarrow> uuid \<Rightarrow> string \<Rightarrow> financial_fact \<Rightarrow> bool" where
  "same_key org c metric basis f \<longleftrightarrow> ff_org f = org \<and> ff_institution f = fc_institution c \<and> ff_period f = fc_period c \<and>
     ff_metric_definition f = metric \<and> ff_basis f = basis \<and> ff_currency f = fc_currency c \<and> ff_unit f = fc_unit c"

definition supersede ::
  "(string \<Rightarrow> string) \<Rightarrow> review \<Rightarrow> fact_candidate \<Rightarrow> metric_definition \<Rightarrow> dec \<Rightarrow> string \<Rightarrow> financial_fact \<Rightarrow>
    (fact_candidate \<times> financial_fact) dochandler" where
  "supersede sha r c m normalized basis old =
     (let f = new_fact (rv_fact_id r) (rv_org r) (rv_reviewer r) c m normalized basis (Some (ff_id old)) in
      bindP (update_fact (ff_id old) (\<lambda>x. x\<lparr>ff_valid_to := Some (rv_now r)\<rparr>)) (\<lambda>_.
      bindP (insert_fact f) (\<lambda>_.
      bindP (close_candidate c basis
        (decision_row (rv_org r) c (rv_reviewer r) ''APPROVED'' None
           (str_or (rv_notes r) (''Explicit revision superseding fact '' @ uuid_str (ff_id old))) (Some (ff_id f)))) (\<lambda>_.
      bindP (doc_audit sha (rv_org r) ''FINANCIAL_FACT_SUPERSEDED'' ''financial_fact'' (ff_id old) (Some (rv_reviewer r))
        [(''superseded_by_fact_id'', JStr (uuid_str (ff_id f))), (''candidate_id'', JStr (uuid_str (fc_id c)))]) (\<lambda>_.
      bindP s_commit (\<lambda>_. retP (mark_reviewed ''APPROVED'' basis c, f)))))))"

definition approve_candidate_as_revision ::
  "(string \<Rightarrow> string) \<Rightarrow> (doc_db \<Rightarrow> doc_db) \<Rightarrow> uuid \<Rightarrow> review \<Rightarrow> (fact_candidate \<times> financial_fact) dochandler" where
  "approve_candidate_as_revision sha env expected r =
     bindP (load_candidate (rv_org r) (rv_candidate r)) (\<lambda>c.
     bindP (assertP (fc_review c = ''PENDING'' \<or> fc_validation c = ''CONFLICTED'')
       (ValueError ''CANDIDATE_ALREADY_REVIEWED'')) (\<lambda>_.
     bindP (liftP (require_some (ValueError ''CANNOT_APPROVE_INVALID_CANDIDATE'') (fc_normalized c))) (\<lambda>normalized.
     bindP (liftP (require_some (ValueError ''CANNOT_APPROVE_INVALID_CANDIDATE'') (fc_metric c))) (\<lambda>metric.
     bindP (assertP (fc_conflict c = None \<or> fc_conflict c = Some expected)
       (ValueError ''REVISION_TARGET_MISMATCH: Target fact ID does not match candidate conflict target.'')) (\<lambda>_.
     bindP (s_read (verify_evidence_and_basis (rv_org r) c (rv_basis r))) (\<lambda>basis.
     bindP (s_read (\<lambda>d. scalar_one_or_none (filter (\<lambda>f. ff_id f = expected \<and> ff_org f = rv_org r \<and> ff_valid_to f = None)
       (b_facts d)))) (\<lambda>found.
     bindP (liftP (require_some
       (ValueError ''REVISION_CONCURRENCY_CONFLICT: Expected active fact not found or already invalidated.'') found)) (\<lambda>old.
     bindP (assertP (same_key (rv_org r) c metric basis old)
       (ValueError ''REVISION_NATURAL_KEY_MISMATCH: Revision target does not match candidate natural key.'')) (\<lambda>_.
     bindP (assertP (\<not> deq (ff_normalized old) normalized)
       (ValueError ''REVISION_VALUE_UNCHANGED: Candidate normalized value is identical to active fact value.'')) (\<lambda>_.
     bindP (load_metric metric) (\<lambda>m.
     bindP (s_others env) (\<lambda>_.
       supersede sha r c m normalized basis old))))))))))))"

section \<open>Rejection\<close>

definition reject_candidate :: "(string \<Rightarrow> string) \<Rightarrow> (doc_db \<Rightarrow> doc_db) \<Rightarrow> string \<Rightarrow> review \<Rightarrow> fact_candidate dochandler" where
  "reject_candidate sha env reason r =
     bindP (load_candidate (rv_org r) (rv_candidate r)) (\<lambda>c.
     bindP (assertP (fc_review c = ''PENDING'') (ValueError ''CANDIDATE_ALREADY_REVIEWED'')) (\<lambda>_.
     bindP (s_others env) (\<lambda>_.
     bindP (s_write (put_candidate (\<lambda>x. x\<lparr>fc_review := ''REJECTED'', fc_validation := ''REJECTED''\<rparr>) (fc_id c))) (\<lambda>_.
     bindP (insert_decision (decision_row (rv_org r) c (rv_reviewer r) ''REJECTED'' (Some reason) (rv_notes r) None)) (\<lambda>_.
     bindP (doc_audit sha (rv_org r) ''FACT_CANDIDATE_REJECTED'' ''financial_fact_candidate'' (fc_id c) (Some (rv_reviewer r))
       [(''reason_code'', JStr reason)]) (\<lambda>_.
     bindP s_commit (\<lambda>_. retP (c\<lparr>fc_review := ''REJECTED'', fc_validation := ''REJECTED''\<rparr>))))))))"

end
