(* ===== verification/FactLedger.thy ===== *)
theory FactLedger
  imports FactReview CalculationTheorems
begin

text \<open>
  What the fact store promises. Abstractly it is a ledger: for each natural key (organization,
  institution, period, metric, basis, currency, unit) the values it has had, oldest first; a value is
  added to an empty key by an approval and after a different one by a revision, and nothing else
  changes it. \<open>facts_step\<close> are the committed changes of the services, \<open>facts_ok\<close> the invariant: the facts
  of a key form one chain of which only the last is active, every fact was decided by a reviewer
  whose decision is on record, and a candidate is decided once.
\<close>

section \<open>The abstract ledger\<close>

text \<open>For each natural key the values it has had, oldest first.\<close>

definition key_facts :: "natural_key \<Rightarrow> doc_db \<Rightarrow> financial_fact list" where
  "key_facts k d = filter (\<lambda>f. natural_key_of f = k) (b_facts d)"

definition ledger :: "doc_db \<Rightarrow> natural_key \<Rightarrow> dec list" where
  "ledger d k = map ff_normalized (key_facts k d)"

inductive ledger_step :: "(natural_key \<Rightarrow> dec list) \<Rightarrow> (natural_key \<Rightarrow> dec list) \<Rightarrow> bool" where
  keep: "ledger_step L L"
| first_value: "L k = [] \<Longrightarrow> ledger_step L (L(k := [v]))"
| revised: "L k = vs @ [w] \<Longrightarrow> \<not> deq w v \<Longrightarrow> ledger_step L (L(k := vs @ [w, v]))"

section \<open>Committed changes\<close>

definition reviewable :: "fact_candidate \<Rightarrow> bool" where
  "reviewable c \<longleftrightarrow> fc_review c = ''PENDING'' \<or> fc_validation c = ''CONFLICTED''"

definition approves :: "fact_candidate \<Rightarrow> financial_fact \<Rightarrow> review_decision \<Rightarrow> bool" where
  "approves c f r \<longleftrightarrow> rd_candidate r = fc_id c \<and> rd_fact r = Some (ff_id f) \<and> rd_decision r = ''APPROVED'' \<and> rd_org r = ff_org f"

definition made_from :: "fact_candidate \<Rightarrow> financial_fact \<Rightarrow> review_decision \<Rightarrow> bool" where
  "made_from c f r \<longleftrightarrow> approves c f r \<and> ff_candidate f = Some (fc_id c) \<and> ff_verified_by f = Some (rd_reviewer r) \<and>
     ff_org f = fc_org c \<and> Some (ff_normalized f) = fc_normalized c \<and> ff_valid_to f = None \<and>
     ff_review f = ''HUMAN_VERIFIED'' \<and> ff_origin f = ''SOURCE_REPORTED'' \<and> ff_basis f \<in> {''SOLO'', ''CONSOLIDATED''}"

inductive facts_step :: "doc_db \<Rightarrow> doc_db \<Rightarrow> bool" where
  other: "b_facts d' = b_facts d \<Longrightarrow> b_candidates d' = b_candidates d \<Longrightarrow> b_decisions d' = b_decisions d \<Longrightarrow> facts_step d d'"
| propose: "fc_id c \<notin> fc_id ` set (b_candidates d) \<Longrightarrow> fc_review c = ''PENDING'' \<Longrightarrow> fc_validation c \<noteq> ''CONFLICTED'' \<Longrightarrow>
    fc_origin c = ''SOURCE_REPORTED'' \<Longrightarrow> facts_step d (d\<lparr>b_candidates := b_candidates d @ [c]\<rparr>)"
| conflict: "c \<in> set (b_candidates d) \<Longrightarrow> fc_review c = ''PENDING'' \<Longrightarrow>
    facts_step d (put_candidate (mark_conflict sha now f) (fc_id c) d)"
| reject: "c \<in> set (b_candidates d) \<Longrightarrow> fc_review c = ''PENDING'' \<Longrightarrow> rd_candidate r = fc_id c \<Longrightarrow>
    facts_step d ((put_candidate (\<lambda>x. x\<lparr>fc_review := ''REJECTED'', fc_validation := ''REJECTED''\<rparr>) (fc_id c) d)
      \<lparr>b_decisions := b_decisions d @ [r]\<rparr>)"
| corroborate: "c \<in> set (b_candidates d) \<Longrightarrow> fc_review c = ''PENDING'' \<Longrightarrow> f \<in> set (b_facts d) \<Longrightarrow> approves c f r \<Longrightarrow>
    facts_step d ((put_candidate (mark_reviewed ''APPROVED'' basis) (fc_id c) d)\<lparr>b_decisions := b_decisions d @ [r]\<rparr>)"
| approve: "c \<in> set (b_candidates d) \<Longrightarrow> fc_review c = ''PENDING'' \<Longrightarrow> made_from c f r \<Longrightarrow> ff_id f \<notin> ff_id ` set (b_facts d) \<Longrightarrow>
    ff_supersedes f = None \<Longrightarrow> active_facts (natural_key_of f) d = [] \<Longrightarrow>
    facts_step d ((put_candidate (mark_reviewed ''APPROVED'' basis) (fc_id c) d)
      \<lparr>b_facts := b_facts d @ [f], b_decisions := b_decisions d @ [r]\<rparr>)"
| revise: "c \<in> set (b_candidates d) \<Longrightarrow> reviewable c \<Longrightarrow> made_from c f r \<Longrightarrow> ff_id f \<notin> ff_id ` set (b_facts d) \<Longrightarrow>
    old \<in> set (b_facts d) \<Longrightarrow> ff_valid_to old = None \<Longrightarrow> natural_key_of old = natural_key_of f \<Longrightarrow> \<not> deq (ff_normalized old) (ff_normalized f) \<Longrightarrow>
    ff_supersedes f = Some (ff_id old) \<Longrightarrow>
    facts_step d ((put_candidate (mark_reviewed ''APPROVED'' basis) (fc_id c) d)
      \<lparr>b_facts := map (\<lambda>x. if ff_id x = ff_id old then x\<lparr>ff_valid_to := Some now\<rparr> else x) (b_facts d) @ [f],
       b_decisions := b_decisions d @ [r]\<rparr>)"

section \<open>The invariant\<close>

text \<open>The facts of a key form one chain: each supersedes the one before, and only the last is active.\<close>

definition chain :: "financial_fact list \<Rightarrow> bool" where
  "chain fs \<longleftrightarrow> (fs \<noteq> [] \<longrightarrow> ff_valid_to (last fs) = None) \<and> (\<forall>f \<in> set (butlast fs). ff_valid_to f \<noteq> None) \<and>
     map ff_supersedes fs = take (length fs) (None # map (\<lambda>f. Some (ff_id f)) fs)"

definition decided :: "doc_db \<Rightarrow> financial_fact \<Rightarrow> bool" where
  "decided d f \<longleftrightarrow> (\<exists>c \<in> set (b_candidates d). \<exists>r \<in> set (b_decisions d). fc_review c = ''APPROVED'' \<and> approves c f r \<and>
     ff_candidate f = Some (fc_id c) \<and> ff_verified_by f = Some (rd_reviewer r) \<and> Some (ff_normalized f) = fc_normalized c)"

definition candidate_ok :: "fact_candidate \<Rightarrow> bool" where
  "candidate_ok c \<longleftrightarrow> (fc_validation c = ''CONFLICTED'' \<longrightarrow> fc_review c = ''PENDING'') \<and> fc_origin c = ''SOURCE_REPORTED''"

definition reviewed :: "doc_db \<Rightarrow> review_decision \<Rightarrow> bool" where
  "reviewed d r \<longleftrightarrow> (\<exists>c \<in> set (b_candidates d). fc_id c = rd_candidate r \<and> fc_review c \<noteq> ''PENDING'')"

definition fact_verified :: "financial_fact \<Rightarrow> bool" where
  "fact_verified f \<longleftrightarrow> ff_review f = ''HUMAN_VERIFIED'' \<and> ff_origin f = ''SOURCE_REPORTED'' \<and> ff_basis f \<in> {''SOLO'', ''CONSOLIDATED''}"

definition facts_ok :: "doc_db \<Rightarrow> bool" where
  "facts_ok d \<longleftrightarrow> distinct (map ff_id (b_facts d)) \<and> distinct (map fc_id (b_candidates d)) \<and> (\<forall>k. chain (key_facts k d)) \<and>
     (\<forall>f \<in> set (b_facts d). decided d f \<and> fact_verified f) \<and> (\<forall>c \<in> set (b_candidates d). candidate_ok c) \<and>
     distinct (map rd_candidate (b_decisions d)) \<and> (\<forall>r \<in> set (b_decisions d). reviewed d r)"

subsection \<open>Chains\<close>

lemma chain_Nil [simp]: "chain []" by (simp add: chain_def)

lemma chain_single: "ff_valid_to f = None \<Longrightarrow> ff_supersedes f = None \<Longrightarrow> chain [f]"
  by (simp add: chain_def)

lemma chain_extend:
  assumes "chain (fs @ [old])" "ff_valid_to f = None" "ff_supersedes f = Some (ff_id old)"
  shows "chain (fs @ [old\<lparr>ff_valid_to := Some now\<rparr>, f])"
  using assms by (auto simp: chain_def butlast_append)

lemma chain_active_last:
  assumes "chain fs" "old \<in> set fs" "ff_valid_to old = None"
  obtains gs where "fs = gs @ [old]"
proof -
  from assms(2) have "fs \<noteq> []" by auto
  then have fs: "fs = butlast fs @ [last fs]" by simp
  with assms have "old \<in> set (butlast fs) \<or> old = last fs" by (metis Un_iff empty_set list.simps(15) set_append singletonD)
  with assms have "old = last fs" unfolding chain_def by auto
  with fs show ?thesis using that by metis
qed

lemma active_facts_Nil:
  assumes "chain (key_facts k d)" "active_facts k d = []"
  shows "key_facts k d = []"
proof (rule ccontr)
  assume "key_facts k d \<noteq> []"
  with assms(1) have "last (key_facts k d) \<in> set (key_facts k d)" "ff_valid_to (last (key_facts k d)) = None"
    by (auto simp: chain_def)
  with assms(2) show False by (auto simp: active_facts_def key_facts_def filter_empty_conv)
qed

lemma key_facts_snoc: "key_facts k (d\<lparr>b_facts := b_facts d @ [f]\<rparr>) = key_facts k d @ (if natural_key_of f = k then [f] else [])"
  by (simp add: key_facts_def)

subsection \<open>Marking and closing rows\<close>

definition remarked :: "(fact_candidate \<Rightarrow> fact_candidate) \<Rightarrow> fact_candidate \<Rightarrow> fact_candidate list \<Rightarrow> fact_candidate list" where
  "remarked g c cs = map (\<lambda>x. if fc_id x = fc_id c then g x else x) cs"

lemma remarked_members:
  assumes "distinct (map fc_id cs)" "c \<in> set cs"
  shows "set (remarked g c cs) = insert (g c) (set cs - {c})"
  using assms unfolding remarked_def by (induction cs) (auto simp: image_iff)

lemma remarked_ids: "(\<And>x. fc_id (g x) = fc_id x) \<Longrightarrow> map fc_id (remarked g c cs) = map fc_id cs"
  by (simp add: remarked_def comp_def)

definition close_fact :: "uuid \<Rightarrow> nat \<Rightarrow> financial_fact list \<Rightarrow> financial_fact list" where
  "close_fact i now fs = map (\<lambda>x. if ff_id x = i then x\<lparr>ff_valid_to := Some now\<rparr> else x) fs"

lemma closed_ids [simp]: "map ff_id (close_fact i now fs) = map ff_id fs" "map ff_normalized (close_fact i now fs) = map ff_normalized fs"
  by (simp_all add: close_fact_def comp_def)

lemma natural_key_closed [simp]: "natural_key_of (f\<lparr>ff_valid_to := t\<rparr>) = natural_key_of f"
  by (simp add: natural_key_of_def)

lemma filter_closed: "filter (\<lambda>f. natural_key_of f = k) (close_fact i now fs) = close_fact i now (filter (\<lambda>f. natural_key_of f = k) fs)"
  unfolding close_fact_def by (induction fs) auto

lemma closed_other: "i \<notin> ff_id ` set fs \<Longrightarrow> close_fact i now fs = fs"
  unfolding close_fact_def by (induction fs) auto

lemma closed_last: "distinct (map ff_id (gs @ [old])) \<Longrightarrow> close_fact (ff_id old) now (gs @ [old]) = gs @ [old\<lparr>ff_valid_to := Some now\<rparr>]"
  using closed_other [of "ff_id old" gs now] by (simp add: close_fact_def)

lemma closed_member: "f \<in> set (close_fact i now fs) \<Longrightarrow> \<exists>g \<in> set fs. f = g \<or> f = g\<lparr>ff_valid_to := Some now\<rparr>"
  by (auto simp: close_fact_def split: if_splits)

lemma ok_chain: "facts_ok d \<Longrightarrow> chain (key_facts k d)"
  unfolding facts_ok_def by blast

text \<open>The chains after an approval and after a revision.\<close>

lemma approved_chain: "facts_ok d \<Longrightarrow> active_facts (natural_key_of f) d = [] \<Longrightarrow> key_facts (natural_key_of f) d = []"
  using active_facts_Nil ok_chain by blast

lemma revised_chain:
  assumes ok: "facts_ok d" and old: "old \<in> set (b_facts d)" "ff_valid_to old = None" "natural_key_of old = natural_key_of f"
    and d': "b_facts d' = close_fact (ff_id old) now (b_facts d) @ [f]"
  obtains gs where "key_facts (natural_key_of f) d = gs @ [old]"
    "key_facts (natural_key_of f) d' = gs @ [old\<lparr>ff_valid_to := Some now\<rparr>, f]"
    "\<And>k. k \<noteq> natural_key_of f \<Longrightarrow> key_facts k d' = key_facts k d"
proof -
  have dist: "distinct (map ff_id (b_facts d))" using ok by (simp add: facts_ok_def)
  have "old \<in> set (key_facts (natural_key_of f) d)" using old by (simp add: key_facts_def)
  then obtain gs where gs: "key_facts (natural_key_of f) d = gs @ [old]"
    using chain_active_last [OF ok_chain [OF ok] _ old(2)] by metis
  have "distinct (map ff_id (gs @ [old]))" using dist unfolding gs [symmetric] key_facts_def by (rule distinct_map_filter)
  then have "key_facts (natural_key_of f) d' = gs @ [old\<lparr>ff_valid_to := Some now\<rparr>, f]"
    using gs closed_last unfolding key_facts_def d' by (simp add: filter_closed)
  moreover have "key_facts k d' = key_facts k d" if k: "k \<noteq> natural_key_of f" for k
  proof -
    have "ff_id old \<notin> ff_id ` set (key_facts k d)"
      using dist old(1,3) k unfolding key_facts_def by (auto simp: distinct_map inj_on_def)
    then show ?thesis using k unfolding key_facts_def d' by (simp add: filter_closed closed_other)
  qed
  ultimately show ?thesis using gs that by blast
qed

section \<open>Every change keeps the invariant and steps the ledger\<close>

lemma same_id: "distinct (map f xs) \<Longrightarrow> x \<in> set xs \<Longrightarrow> y \<in> set xs \<Longrightarrow> f x = f y \<Longrightarrow> x = y"
  by (auto simp: distinct_map dest: inj_onD)

lemma pending_of: "facts_ok d \<Longrightarrow> c \<in> set (b_candidates d) \<Longrightarrow> reviewable c \<Longrightarrow> fc_review c = ''PENDING''"
  by (auto simp: facts_ok_def candidate_ok_def reviewable_def)

text \<open>A candidate that was pending is marked, and a decision may be added for it.\<close>

lemma facts_ok_mark:
  assumes ok: "facts_ok d" and c: "c \<in> set (b_candidates d)" "fc_review c = ''PENDING''"
    and g: "\<And>x. fc_id (g x) = fc_id x" "candidate_ok (g c)"
    and d': "b_candidates d' = remarked g c (b_candidates d)" "b_facts d' = b_facts d"
      "b_decisions d' = b_decisions d @ rs" and rs: "rs = [] \<or> (\<exists>r. rs = [r] \<and> rd_candidate r = fc_id c \<and> fc_review (g c) \<noteq> ''PENDING'')"
  shows "facts_ok d'"
proof -
  have dist: "distinct (map fc_id (b_candidates d))" using ok by (simp add: facts_ok_def)
  note mem = remarked_members [OF dist c(1), of g]
  have keep: "x \<in> set (b_candidates d')" if "x \<in> set (b_candidates d)" "fc_review x \<noteq> ''PENDING''" for x
    using that c(2) unfolding d' mem by auto
  have "decided d' f" if "decided d f" for f
    using that keep unfolding decided_def d'(3) by fastforce
  moreover have rev: "reviewed d' r" if "reviewed d r" for r
    using that keep unfolding reviewed_def by blast
  moreover have "reviewed d' r" if "rd_candidate r = fc_id c" "fc_review (g c) \<noteq> ''PENDING''" for r
    using that g(1) [of c] unfolding reviewed_def d' mem by auto
  moreover have "rd_candidate r \<noteq> fc_id c" if "r \<in> set (b_decisions d)" for r
  proof
    assume id: "rd_candidate r = fc_id c"
    from that ok obtain x where x: "x \<in> set (b_candidates d)" "fc_id x = rd_candidate r" "fc_review x \<noteq> ''PENDING''"
      unfolding facts_ok_def reviewed_def by blast
    with same_id [OF dist x(1) c(1)] id c(2) show False by simp
  qed
  ultimately show ?thesis
    using ok g rs unfolding facts_ok_def d' mem remarked_ids [of g c "b_candidates d", OF g(1)]
    by (auto simp: key_facts_def d')
qed

text \<open>A fact is added for a candidate that was pending; it ends the chain of its key.\<close>

lemma facts_ok_add:
  assumes ok: "facts_ok d" and c: "c \<in> set (b_candidates d)" "fc_review c = ''PENDING''" and m: "made_from c f r"
    and new: "ff_id f \<notin> ff_id ` set (b_facts d)"
    and d': "b_candidates d' = remarked (mark_reviewed ''APPROVED'' basis) c (b_candidates d)"
      "b_facts d' = fs @ [f]" "b_decisions d' = b_decisions d @ [r]"
    and fs: "map ff_id fs = map ff_id (b_facts d)" "\<And>x. x \<in> set fs \<Longrightarrow> \<exists>y \<in> set (b_facts d). x = y \<or> (\<exists>t. x = y\<lparr>ff_valid_to := t\<rparr>)"
    and ch: "\<And>k. chain (key_facts k d')"
  shows "facts_ok d'"
proof -
  let ?e = "d\<lparr>b_candidates := b_candidates d', b_decisions := b_decisions d'\<rparr>"
  have e: "facts_ok ?e"
    by (rule facts_ok_mark [OF ok c, of "mark_reviewed ''APPROVED'' basis" _ "[r]"])
      (use c m ok d' in \<open>auto simp: mark_reviewed_def candidate_ok_def facts_ok_def made_from_def approves_def\<close>)
  have dec: "decided d' x \<longleftrightarrow> decided ?e x" for x by (simp add: decided_def)
  have upd: "decided x (y\<lparr>ff_valid_to := t\<rparr>) \<longleftrightarrow> decided x y" "fact_verified (y\<lparr>ff_valid_to := t\<rparr>) \<longleftrightarrow> fact_verified y" for x y t
    by (simp_all add: decided_def approves_def fact_verified_def)
  have "decided d' x \<and> fact_verified x" if "x \<in> set fs" for x
  proof -
    from fs(2) [OF that] obtain y t where y: "y \<in> set (b_facts ?e)" "x = y \<or> x = y\<lparr>ff_valid_to := t\<rparr>" by auto
    with e have "decided ?e y \<and> fact_verified y" unfolding facts_ok_def by blast
    with y(2) show ?thesis unfolding dec using upd by auto
  qed
  moreover have "decided d' f \<and> fact_verified f"
  proof -
    have "mark_reviewed ''APPROVED'' basis c \<in> set (b_candidates d')"
      using remarked_members [OF _ c(1)] ok unfolding d' facts_ok_def by auto
    then show ?thesis
      using m d'(3) unfolding decided_def made_from_def fact_verified_def
      by (intro conjI bexI [of _ "mark_reviewed ''APPROVED'' basis c"] bexI [of _ r]) (auto simp: mark_reviewed_def approves_def)
  qed
  moreover have "reviewed d' x \<longleftrightarrow> reviewed ?e x" for x by (simp add: reviewed_def)
  moreover have "distinct (map ff_id (b_facts d'))" using ok new fs(1) unfolding d' facts_ok_def by (simp flip: set_map)
  ultimately show ?thesis using e ch unfolding facts_ok_def d'(2) by simp
qed

theorem facts_step_ok: "facts_step d d' \<Longrightarrow> facts_ok d \<Longrightarrow> facts_ok d'"
proof (induction rule: facts_step.induct)
  case (other d' d)
  then show ?case by (simp add: facts_ok_def key_facts_def decided_def reviewed_def)
next
  case (propose c d)
  have dec: "decided d f \<Longrightarrow> decided (d\<lparr>b_candidates := b_candidates d @ [c]\<rparr>) f" "reviewed d r \<Longrightarrow> reviewed (d\<lparr>b_candidates := b_candidates d @ [c]\<rparr>) r" for f r
    by (auto simp: decided_def reviewed_def)
  from propose show ?case
    unfolding facts_ok_def by (auto simp: key_facts_def candidate_ok_def dec image_iff)
next
  case (conflict c d sha now f)
  show ?case
    by (rule facts_ok_mark [OF conflict(3,1,2), of "mark_conflict sha now f" _ "[]"])
      (use conflict in \<open>auto simp: mark_conflict_def candidate_ok_def put_candidate_def remarked_def facts_ok_def\<close>)
next
  case (reject c d r)
  show ?case
    by (rule facts_ok_mark [OF reject(4,1,2), of "\<lambda>x. x\<lparr>fc_review := ''REJECTED'', fc_validation := ''REJECTED''\<rparr>" _ "[r]"])
      (use reject in \<open>auto simp: candidate_ok_def put_candidate_def remarked_def facts_ok_def\<close>)
next
  case (corroborate c d f r basis)
  show ?case
    by (rule facts_ok_mark [OF corroborate(5,1,2), of "mark_reviewed ''APPROVED'' basis" _ "[r]"])
      (use corroborate in \<open>auto simp: candidate_ok_def mark_reviewed_def put_candidate_def remarked_def facts_ok_def approves_def\<close>)
next
  case (approve c d f r basis)
  let ?d = "put_candidate (mark_reviewed ''APPROVED'' basis) (fc_id c) d\<lparr>b_facts := b_facts d @ [f], b_decisions := b_decisions d @ [r]\<rparr>"
  have none: "key_facts (natural_key_of f) d = []" by (rule approved_chain [OF approve(7,6)])
  have ch: "chain (key_facts k ?d)" for k
  proof (cases "k = natural_key_of f")
    case True
    then have "key_facts k ?d = [f]" using none by (simp add: key_facts_def)
    then show ?thesis using approve(3,5) by (simp add: chain_single made_from_def)
  next
    case False
    then have "key_facts k ?d = key_facts k d" by (simp add: key_facts_def)
    then show ?thesis using ok_chain [OF approve(7)] by (simp only:)
  qed
  show ?case
    by (rule facts_ok_add [OF approve(7,1,2,3,4) _ _ _ _ _ ch, of basis "b_facts d"]) (auto simp: put_candidate_def remarked_def)
next
  case (revise c d f r old now basis)
  let ?d = "put_candidate (mark_reviewed ''APPROVED'' basis) (fc_id c) d
    \<lparr>b_facts := map (\<lambda>x. if ff_id x = ff_id old then x\<lparr>ff_valid_to := Some now\<rparr> else x) (b_facts d) @ [f], b_decisions := b_decisions d @ [r]\<rparr>"
  have facts: "b_facts ?d = close_fact (ff_id old) now (b_facts d) @ [f]" by (simp add: close_fact_def)
  have new: "ff_valid_to f = None" using revise(3) by (simp add: made_from_def)
  obtain gs where gs: "key_facts (natural_key_of f) d = gs @ [old]"
    "key_facts (natural_key_of f) ?d = gs @ [old\<lparr>ff_valid_to := Some now\<rparr>, f]" "\<And>k. k \<noteq> natural_key_of f \<Longrightarrow> key_facts k ?d = key_facts k d"
    by (rule revised_chain [OF revise(10,5,6,7) facts]) blast
  have gs_old: "chain (gs @ [old])" using ok_chain [OF revise(10), of "natural_key_of f"] gs(1) by simp
  have ch: "chain (key_facts k ?d)" for k
  proof (cases "k = natural_key_of f")
    case True
    then show ?thesis unfolding True gs(2) by (intro chain_extend gs_old new revise(9))
  next
    case False
    then show ?thesis unfolding gs(3) [OF False] by (intro ok_chain revise(10))
  qed
  show ?case
    by (rule facts_ok_add [OF revise(10,1) pending_of [OF revise(10,1,2)] revise(3,4) _ facts _ _ _ ch, of basis])
      (auto simp: put_candidate_def remarked_def dest: closed_member)
qed

lemma ledger_same: "b_facts d' = b_facts d \<Longrightarrow> ledger_step (ledger d) (ledger d')"
proof -
  assume "b_facts d' = b_facts d"
  then have "ledger d' = ledger d" by (simp add: ledger_def key_facts_def fun_eq_iff)
  then show ?thesis by (simp add: ledger_step.keep)
qed

theorem facts_step_ledger:
  assumes "facts_step d d'" "facts_ok d"
  shows "ledger_step (ledger d) (ledger d')"
  using assms
proof (induction rule: facts_step.induct)
  case (approve c d f r basis)
  have none: "key_facts (natural_key_of f) d = []" by (rule approved_chain [OF approve(7,6)])
  have "ledger (put_candidate (mark_reviewed ''APPROVED'' basis) (fc_id c) d\<lparr>b_facts := b_facts d @ [f], b_decisions := b_decisions d @ [r]\<rparr>) =
      (ledger d)(natural_key_of f := [ff_normalized f])"
    using none by (auto simp: ledger_def key_facts_def fun_eq_iff)
  moreover have "ledger d (natural_key_of f) = []" using none by (simp add: ledger_def)
  ultimately show ?case using ledger_step.first_value by metis
next
  case (revise c d f r old now basis)
  let ?d = "put_candidate (mark_reviewed ''APPROVED'' basis) (fc_id c) d
    \<lparr>b_facts := map (\<lambda>x. if ff_id x = ff_id old then x\<lparr>ff_valid_to := Some now\<rparr> else x) (b_facts d) @ [f], b_decisions := b_decisions d @ [r]\<rparr>"
  have facts: "b_facts ?d = close_fact (ff_id old) now (b_facts d) @ [f]" by (simp add: close_fact_def)
  obtain gs where gs: "key_facts (natural_key_of f) d = gs @ [old]"
    "key_facts (natural_key_of f) ?d = gs @ [old\<lparr>ff_valid_to := Some now\<rparr>, f]" "\<And>k. k \<noteq> natural_key_of f \<Longrightarrow> key_facts k ?d = key_facts k d"
    by (rule revised_chain [OF revise(10,5,6,7) facts]) blast
  have "ledger ?d = (ledger d)(natural_key_of f := map ff_normalized gs @ [ff_normalized old, ff_normalized f])"
    using gs(2,3) by (auto simp: ledger_def fun_eq_iff)
  moreover have "ledger d (natural_key_of f) = map ff_normalized gs @ [ff_normalized old]" using gs(1) by (simp add: ledger_def)
  ultimately show ?case using revise(8) ledger_step.revised by metis
qed (rule ledger_same; simp add: put_candidate_def)+

end
