(* ===== verification/FactRuns.thy ===== *)
theory FactRuns
  imports FactLedger
begin

text \<open>
  The operations of the candidate and fact services, run in sessions of their own with other sessions
  acting in between, are sequences of the committed changes of \<open>FactLedger\<close>; so any sequence of them
  keeps the invariant and steps the ledger.
\<close>

section \<open>The operations are changes\<close>

text \<open>Others may do anything the services do, except to the rows this operation has locked: its
  candidate, and the active facts its query returned: the target of a revision, or the facts of the
  candidate's metric and key on the basis chosen.\<close>

definition locked_fact :: "review \<Rightarrow> uuid option \<Rightarrow> doc_db \<Rightarrow> fact_candidate \<Rightarrow> financial_fact \<Rightarrow> bool" where
  "locked_fact r target d c f \<longleftrightarrow> (case target of
       Some t \<Rightarrow> ff_id f = t
     | None \<Rightarrow> (\<exists>b \<in> {''SOLO'', ''CONSOLIDATED''}. verify_evidence_and_basis (rv_org r) c (rv_basis r) d = Inr b \<and>
         (\<exists>m \<in> set_option (fc_metric c). same_key (fc_org c) c m b f)))"

definition holds_rows :: "review \<Rightarrow> uuid option \<Rightarrow> doc_db \<Rightarrow> doc_db \<Rightarrow> bool" where
  "holds_rows r target d d' \<longleftrightarrow> (\<forall>c \<in> set (b_candidates d). fc_id c = rv_candidate r \<longrightarrow> c \<in> set (b_candidates d') \<and>
     (\<forall>f \<in> set (b_facts d). ff_valid_to f = None \<and> locked_fact r target d c f \<longrightarrow> f \<in> set (b_facts d')))"

definition others_allowed :: "review \<Rightarrow> uuid option \<Rightarrow> (doc_db \<Rightarrow> doc_db) \<Rightarrow> doc_db \<Rightarrow> bool" where
  "others_allowed r target env d \<longleftrightarrow> facts_step\<^sup>*\<^sup>* d (env d) \<and> holds_rows r target d (env d)"

lemma steps_ok: "facts_step\<^sup>*\<^sup>* d d' \<Longrightarrow> facts_ok d \<Longrightarrow> facts_ok d'"
  by (induction rule: rtranclp_induct) (auto intro: facts_step_ok)

subsection \<open>Statements of a handler that has not written yet\<close>

abbreviation at_start :: "doc_db \<Rightarrow> bool \<Rightarrow> doc_db session \<Rightarrow> bool" where
  "at_start d b s \<equiv> s = fresh_session d \<and> b"

lemma start_read:
  "(\<And>s e. P s \<Longrightarrow> E e s) \<Longrightarrow> triple P (s_read f) (\<lambda>x s. P s \<and> f (view s) = Inr x) E"
  by (rule triple_s_read) auto

lemma start_lift:
  "(\<And>s e. P s \<Longrightarrow> E e s) \<Longrightarrow> triple P (liftP r) (\<lambda>x s. P s \<and> r = Inr x) E"
  by (rule triple_lift) auto

lemma start_assert:
  "(\<And>s e. P s \<Longrightarrow> E e s) \<Longrightarrow> triple P (assertP b e) (\<lambda>_ s. P s \<and> b) E"
  by (rule triple_assert) auto

lemma start_others:
  "(\<And>s. P s \<Longrightarrow> s = fresh_session d \<and> b) \<Longrightarrow> triple P (s_others env) (\<lambda>_ s. at_start (env d) b s) E"
  unfolding s_others_def
proof (rule triple_modify)
  fix s
  assume "\<And>s. P s \<Longrightarrow> s = fresh_session d \<and> b" "P s"
  then have "s = fresh_session d" b by auto
  then show "at_start (env d) b (s\<lparr>published := env (published s)\<rparr>)" by (simp add: fresh_session_def)
qed

lemma load_candidate_rule:
  assumes "\<And>s e. P s \<Longrightarrow> E e s"
  shows "triple P (load_candidate org i) (\<lambda>c s. P s \<and> c \<in> set (b_candidates (view s)) \<and> fc_id c = i \<and> fc_org c = org) E"
  unfolding load_candidate_def
  by (rule triple_bind [OF start_read [where P = P]], rule assms, assumption, rule triple_lift)
    (use assms in \<open>auto simp: scalar_one_or_none_Some filter_eq_Cons_iff\<close>)

lemma verify_basis: "verify_evidence_and_basis org c target d = Inr basis \<Longrightarrow> basis \<in> {''SOLO'', ''CONSOLIDATED''}"
  by (auto simp: verify_evidence_and_basis_def Let_def exc_simps)

subsection \<open>The writing part\<close>

lemma write_simps:
  "s_write f (fresh_session d) = (Inr (), \<lparr>published = d, pending = f\<rparr>)"
  "s_write f \<lparr>published = d, pending = g\<rparr> = (Inr (), \<lparr>published = d, pending = (\<lambda>x. f (g x))\<rparr>)"
  "s_commit \<lparr>published = d, pending = g\<rparr> = (Inr (), fresh_session (g d))"
  "s_insert chk f \<lparr>published = d, pending = g\<rparr> =
     (case chk (g d) of Inl e \<Rightarrow> (Inl e, \<lparr>published = d, pending = g\<rparr>) | Inr _ \<Rightarrow> (Inr (), \<lparr>published = d, pending = (\<lambda>x. f (g x))\<rparr>))"
  "s_insert chk f (fresh_session d) =
     (case chk d of Inl e \<Rightarrow> (Inl e, fresh_session d) | Inr _ \<Rightarrow> (Inr (), \<lparr>published = d, pending = f\<rparr>))"
  by (simp_all add: s_simps proc_simps fresh_session_def view_def split: sum.splits)

definition corroborated :: "review \<Rightarrow> fact_candidate \<Rightarrow> string \<Rightarrow> financial_fact \<Rightarrow> doc_db \<Rightarrow> doc_db" where
  "corroborated r c basis f e = (put_candidate (mark_reviewed ''APPROVED'' basis) (fc_id c) e)\<lparr>b_decisions := b_decisions e @
     [decision_row (rv_org r) c (rv_reviewer r) ''APPROVED'' None (str_or (rv_notes r) ''Corroborating candidate approved'') (Some (ff_id f))]\<rparr>"

lemma corroborate_run:
  "corroborate r c basis f (fresh_session e) = (Inr (mark_reviewed ''APPROVED'' basis c, f), fresh_session (corroborated r c basis f e))"
  by (simp add: corroborate_def close_candidate_def insert_decision_def bindP_def retP_def write_simps corroborated_def put_candidate_def)

lemma record_conflict_run:
  "record_conflict sha r c f (fresh_session e) =
    (Inl (ValueError ''FACT_VALUE_CONFLICT: Active fact with different value exists. Use explicit revision approval.''),
     fresh_session (put_candidate (mark_conflict sha (rv_now r) f) (fc_id c) e))"
  by (simp add: record_conflict_def bindP_def raiseP_def throwP_def write_simps)

definition approved ::
  "(string \<Rightarrow> string) \<Rightarrow> review \<Rightarrow> fact_candidate \<Rightarrow> string \<Rightarrow> financial_fact \<Rightarrow> doc_db \<Rightarrow> doc_db" where
  "approved sha r c basis f e = (put_candidate (mark_reviewed ''APPROVED'' basis) (fc_id c) e)
     \<lparr>b_facts := b_facts e @ [f],
      b_decisions := b_decisions e @ [decision_row (rv_org r) c (rv_reviewer r) ''APPROVED'' None (rv_notes r) (Some (ff_id f))],
      b_audit := b_audit e @ [audit_record sha (rv_org r) ''FACT_CANDIDATE_APPROVED'' ''financial_fact_candidate'' (fc_id c)
        (Some (rv_reviewer r)) [(''created_fact_id'', JStr (uuid_str (ff_id f))), (''metric_code'', JStr (ff_metric_code f))]]\<rparr>"

lemma approve_new_run:
  assumes "f = new_fact (rv_fact_id r) (rv_org r) (rv_reviewer r) c m normalized basis None"
  shows "approve_new sha r c m normalized basis (fresh_session e) =
    (case fact_constraints f e of Inl x \<Rightarrow> (Inl x, fresh_session e)
     | Inr _ \<Rightarrow> (Inr (mark_reviewed ''APPROVED'' basis c, f), fresh_session (approved sha r c basis f e)))"
  by (simp add: approve_new_def Let_def flip: assms)
    (simp add: insert_fact_def close_candidate_def insert_decision_def doc_audit_def bindP_def retP_def write_simps
      approved_def put_candidate_def split: sum.splits)

definition superseded ::
  "(string \<Rightarrow> string) \<Rightarrow> review \<Rightarrow> fact_candidate \<Rightarrow> string \<Rightarrow> financial_fact \<Rightarrow> financial_fact \<Rightarrow> doc_db \<Rightarrow> doc_db" where
  "superseded sha r c basis old f e = (put_candidate (mark_reviewed ''APPROVED'' basis) (fc_id c) e)
     \<lparr>b_facts := close_fact (ff_id old) (rv_now r) (b_facts e) @ [f],
      b_decisions := b_decisions e @ [decision_row (rv_org r) c (rv_reviewer r) ''APPROVED'' None
        (str_or (rv_notes r) (''Explicit revision superseding fact '' @ uuid_str (ff_id old))) (Some (ff_id f))],
      b_audit := b_audit e @ [audit_record sha (rv_org r) ''FINANCIAL_FACT_SUPERSEDED'' ''financial_fact'' (ff_id old)
        (Some (rv_reviewer r)) [(''superseded_by_fact_id'', JStr (uuid_str (ff_id f))), (''candidate_id'', JStr (uuid_str (fc_id c)))]]\<rparr>"

lemma closing_keeps_core: "for_each (\<lambda>x. raise_if (\<not> same_core x (x\<lparr>ff_valid_to := Some t\<rparr>)) DataError) xs = Inr ()"
  by (simp add: for_each_Inr_iff same_core_def)

lemma supersede_run:
  assumes "f = new_fact (rv_fact_id r) (rv_org r) (rv_reviewer r) c m normalized basis (Some (ff_id old))"
  shows "\<exists>p. supersede sha r c m normalized basis old (fresh_session e) =
    (case fact_constraints f (e\<lparr>b_facts := close_fact (ff_id old) (rv_now r) (b_facts e)\<rparr>) of
       Inl x \<Rightarrow> (Inl x, \<lparr>published = e, pending = p\<rparr>)
     | Inr _ \<Rightarrow> (Inr (mark_reviewed ''APPROVED'' basis c, f), fresh_session (superseded sha r c basis old f e)))"
  by (simp add: supersede_def Let_def flip: assms)
    (auto simp: update_fact_def closing_keeps_core put_fact_def insert_fact_def close_candidate_def insert_decision_def
      doc_audit_def bindP_def retP_def write_simps superseded_def put_candidate_def close_fact_def split: sum.splits)

subsection \<open>Approval, revision and rejection\<close>

lemma steps_then: "facts_step\<^sup>*\<^sup>* d e \<Longrightarrow> facts_step e e1 \<Longrightarrow> b_facts e2 = b_facts e1 \<Longrightarrow> b_candidates e2 = b_candidates e1 \<Longrightarrow>
    b_decisions e2 = b_decisions e1 \<Longrightarrow> facts_step\<^sup>*\<^sup>* d e2"
  by (meson facts_step.other rtranclp.rtrancl_into_rtrancl)

lemma marked_member: "c \<in> set (b_candidates e) \<Longrightarrow> g c \<in> set (b_candidates (put_candidate g (fc_id c) e))"
  by (auto simp: put_candidate_def image_iff)

lemma fact_constraints_Inr: "fact_constraints f e = Inr u \<longleftrightarrow> ff_id f \<notin> ff_id ` set (b_facts e) \<and> (ff_valid_to f = None \<longrightarrow> active_facts (natural_key_of f) e = [])"
  by (auto simp: fact_constraints_def exc_simps)

text \<open>What an approval that returns has published.\<close>

definition published_fact :: "fact_candidate \<times> financial_fact \<Rightarrow> doc_db session \<Rightarrow> bool" where
  "published_fact cf s \<longleftrightarrow> pending s = (\<lambda>x. x) \<and> snd cf \<in> set (b_facts (published s)) \<and> ff_valid_to (snd cf) = None \<and>
     fst cf \<in> set (b_candidates (published s)) \<and> fc_review (fst cf) = ''APPROVED''"

lemma new_fact_made:
  "fc_org c = org \<Longrightarrow> fc_normalized c = Some v \<Longrightarrow> fc_origin c = ''SOURCE_REPORTED'' \<Longrightarrow> basis \<in> {''SOLO'', ''CONSOLIDATED''} \<Longrightarrow>
    made_from c (new_fact i org reviewer c m v basis prev) (decision_row org c reviewer ''APPROVED'' None notes (Some i))"
  by (auto simp: made_from_def approves_def new_fact_def decision_row_def)

lemma new_fact_fields [simp]:
  "ff_id (new_fact i org reviewer c m v basis prev) = i" "ff_supersedes (new_fact i org reviewer c m v basis prev) = prev"
  "ff_valid_to (new_fact i org reviewer c m v basis prev) = None" "ff_normalized (new_fact i org reviewer c m v basis prev) = v"
  by (simp_all add: new_fact_def)

lemma approve_new_steps:
  assumes "facts_step\<^sup>*\<^sup>* d e" "c \<in> set (b_candidates e)" "fc_review c = ''PENDING''" "fc_org c = rv_org r" "fc_normalized c = Some v"
    "fc_origin c = ''SOURCE_REPORTED''" "basis \<in> {''SOLO'', ''CONSOLIDATED''}"
  shows "triple (\<lambda>s. s = fresh_session e) (approve_new sha r c m v basis)
    (\<lambda>cf s. facts_step\<^sup>*\<^sup>* d (published s) \<and> published_fact cf s) (\<lambda>_ s. facts_step\<^sup>*\<^sup>* d (published s))"
proof -
  define f where "f = new_fact (rv_fact_id r) (rv_org r) (rv_reviewer r) c m v basis None"
  have made: "made_from c f (decision_row (rv_org r) c (rv_reviewer r) ''APPROVED'' None nts (Some (ff_id f)))"
    "ff_supersedes f = None" "ff_valid_to f = None" for nts
    unfolding f_def by (simp_all add: new_fact_made [OF assms(4-7)])
  have step: "facts_step\<^sup>*\<^sup>* d (approved sha r c basis f e)" if "fact_constraints f e = Inr ()"
    by (rule steps_then [OF assms(1) facts_step.approve [where c = c and d = e and f = f and basis = basis and
        r = "decision_row (rv_org r) c (rv_reviewer r) ''APPROVED'' None (rv_notes r) (Some (ff_id f))"]])
      (use that assms(2,3) made in \<open>auto simp: fact_constraints_Inr approved_def\<close>)
  have "published_fact (mark_reviewed ''APPROVED'' basis c, f) (fresh_session (approved sha r c basis f e))"
    using marked_member [OF assms(2), of "mark_reviewed ''APPROVED'' basis"] made(3)
    by (simp add: published_fact_def approved_def mark_reviewed_def)
  with step assms(1) approve_new_run [OF f_def, of sha e] show ?thesis
    by (cases "fact_constraints f e") (simp_all add: triple_def)
qed

lemma supersede_steps:
  assumes "facts_step\<^sup>*\<^sup>* d e" "c \<in> set (b_candidates e)" "reviewable c" "fc_org c = rv_org r" "fc_normalized c = Some v"
    "fc_origin c = ''SOURCE_REPORTED''" "basis \<in> {''SOLO'', ''CONSOLIDATED''}"
    "old \<in> set (b_facts e)" "ff_valid_to old = None" "same_key (rv_org r) c (md_id m) basis old" "\<not> deq (ff_normalized old) v"
  shows "triple (\<lambda>s. s = fresh_session e) (supersede sha r c m v basis old)
    (\<lambda>cf s. facts_step\<^sup>*\<^sup>* d (published s) \<and> published_fact cf s \<and> ff_supersedes (snd cf) = Some (ff_id old))
    (\<lambda>_ s. facts_step\<^sup>*\<^sup>* d (published s))"
proof -
  define f where "f = new_fact (rv_fact_id r) (rv_org r) (rv_reviewer r) c m v basis (Some (ff_id old))"
  let ?e = "e\<lparr>b_facts := close_fact (ff_id old) (rv_now r) (b_facts e)\<rparr>"
  have made: "made_from c f (decision_row (rv_org r) c (rv_reviewer r) ''APPROVED'' None nts (Some (ff_id f)))" "ff_id f = rv_fact_id r"
    "ff_supersedes f = Some (ff_id old)" "ff_normalized f = v" for nts
    unfolding f_def by (simp_all add: new_fact_made [OF assms(4-7)])
  have key: "natural_key_of old = natural_key_of f"
    using assms(10) by (simp add: same_key_def natural_key_of_def f_def new_fact_def)
  have "ff_id ` set (close_fact (ff_id old) (rv_now r) (b_facts e)) = ff_id ` set (b_facts e)"
    using arg_cong [OF closed_ids(1), of set] by (simp only: set_map)
  then have fresh: "ff_id f \<notin> ff_id ` set (b_facts e)" if "fact_constraints f ?e = Inr ()"
    using that by (simp add: fact_constraints_Inr)
  have step: "facts_step\<^sup>*\<^sup>* d (superseded sha r c basis old f e)" if "fact_constraints f ?e = Inr ()"
    by (rule steps_then [OF assms(1) facts_step.revise [where c = c and d = e and f = f and old = old and
        now = "rv_now r" and basis = basis and r = "decision_row (rv_org r) c (rv_reviewer r) ''APPROVED'' None
          (str_or (rv_notes r) (''Explicit revision superseding fact '' @ uuid_str (ff_id old))) (Some (ff_id f))"]])
      (use that key assms(2,3,8,9,11) made fresh in \<open>auto simp: superseded_def close_fact_def\<close>)
  obtain p where run: "supersede sha r c m v basis old (fresh_session e) =
    (case fact_constraints f ?e of Inl x \<Rightarrow> (Inl x, \<lparr>published = e, pending = p\<rparr>)
     | Inr _ \<Rightarrow> (Inr (mark_reviewed ''APPROVED'' basis c, f), fresh_session (superseded sha r c basis old f e)))"
    using supersede_run [OF f_def] by blast
  have "published_fact (mark_reviewed ''APPROVED'' basis c, f) (fresh_session (superseded sha r c basis old f e))"
    using marked_member [OF assms(2), of "mark_reviewed ''APPROVED'' basis"]
    by (simp add: published_fact_def superseded_def mark_reviewed_def f_def)
  with step assms(1) run made show ?thesis
    by (cases "fact_constraints f ?e") (simp_all add: triple_def)
qed

lemma allowed_candidate:
  "others_allowed r target env d \<Longrightarrow> c \<in> set (b_candidates d) \<Longrightarrow> fc_id c = rv_candidate r \<Longrightarrow> c \<in> set (b_candidates (env d))"
  by (simp add: others_allowed_def holds_rows_def)

lemma allowed_fact:
  "others_allowed r None env d \<Longrightarrow> c \<in> set (b_candidates d) \<Longrightarrow> fc_id c = rv_candidate r \<Longrightarrow> f \<in> set (b_facts d) \<Longrightarrow> ff_valid_to f = None \<Longrightarrow>
    verify_evidence_and_basis (rv_org r) c (rv_basis r) d = Inr b \<Longrightarrow> b \<in> {''SOLO'', ''CONSOLIDATED''} \<Longrightarrow> fc_metric c = Some m \<Longrightarrow>
    same_key (fc_org c) c m b f \<Longrightarrow> f \<in> set (b_facts (env d))"
  "others_allowed r (Some (ff_id f)) env d \<Longrightarrow> c \<in> set (b_candidates d) \<Longrightarrow> fc_id c = rv_candidate r \<Longrightarrow> f \<in> set (b_facts d) \<Longrightarrow>
    ff_valid_to f = None \<Longrightarrow> f \<in> set (b_facts (env d))"
  by (auto simp: others_allowed_def holds_rows_def locked_fact_def)

lemma ok_origin: "facts_ok d \<Longrightarrow> c \<in> set (b_candidates d) \<Longrightarrow> fc_origin c = ''SOURCE_REPORTED''"
  by (simp add: facts_ok_def candidate_ok_def)

lemma metric_found: "scalar_one (filter (\<lambda>m. md_id m = i) ms) = Inr m \<Longrightarrow> md_id m = i"
  by (auto simp: scalar_one_Inr filter_eq_Cons_iff)

lemma active_found:
  assumes "scalar_one_or_none (active_facts (candidate_key c org m basis) d) = Inr (Some f)"
  shows "f \<in> set (b_facts d)" "ff_valid_to f = None" "same_key org c m basis f" "natural_key_of f = candidate_key c org m basis"
proof -
  have "f \<in> set (active_facts (candidate_key c org m basis) d)" using assms by (simp add: scalar_one_or_none_Some)
  then show "f \<in> set (b_facts d)" "ff_valid_to f = None" "same_key org c m basis f" "natural_key_of f = candidate_key c org m basis"
    by (auto simp: active_facts_def natural_key_of_def candidate_key_def same_key_def)
qed

lemma triple_absurd: "\<not> b \<Longrightarrow> triple (\<lambda>s. P s \<and> b) m Q E"
  by (simp only: triple_def) blast

lemma corroborate_steps:
  assumes "facts_step\<^sup>*\<^sup>* d e" "c \<in> set (b_candidates e)" "fc_review c = ''PENDING''" "f \<in> set (b_facts e)" "ff_valid_to f = None" "ff_org f = rv_org r"
  shows "facts_step\<^sup>*\<^sup>* d (corroborated r c basis f e)" "published_fact (mark_reviewed ''APPROVED'' basis c, f) (fresh_session (corroborated r c basis f e))"
proof -
  show "facts_step\<^sup>*\<^sup>* d (corroborated r c basis f e)"
    unfolding corroborated_def
    by (rule rtranclp.rtrancl_into_rtrancl [OF assms(1)], rule facts_step.corroborate [OF assms(2,3,4)])
      (use assms(6) in \<open>simp add: approves_def decision_row_def\<close>)
  show "published_fact (mark_reviewed ''APPROVED'' basis c, f) (fresh_session (corroborated r c basis f e))"
    using marked_member [OF assms(2), of "mark_reviewed ''APPROVED'' basis"] assms(4,5)
    by (simp add: published_fact_def corroborated_def mark_reviewed_def put_candidate_def)
qed

lemma conflict_steps:
  assumes "facts_step\<^sup>*\<^sup>* d e" "c \<in> set (b_candidates e)" "fc_review c = ''PENDING''"
  shows "facts_step\<^sup>*\<^sup>* d (put_candidate (mark_conflict sha now f) (fc_id c) e)"
  using assms(1) by (rule rtranclp.rtrancl_into_rtrancl) (rule facts_step.conflict [OF assms(2,3)])

lemma approve_candidate_steps:
  assumes ok: "facts_ok d" and env: "others_allowed r None env d"
  shows "triple (\<lambda>s. s = fresh_session d) (approve_candidate sha env r)
    (\<lambda>cf s. facts_step\<^sup>*\<^sup>* d (published s) \<and> published_fact cf s) (\<lambda>_ s. facts_step\<^sup>*\<^sup>* d (published s))"
  unfolding approve_candidate_def load_metric_def find_active_def
proof (rule triple_bind [OF load_candidate_rule], simp, rule triple_bind [OF start_assert], clarsimp,
    rule triple_bind [OF start_lift], clarsimp, rule triple_bind [OF start_lift], clarsimp,
    rule triple_bind [OF start_read], clarsimp, rule triple_bind [OF start_read], clarsimp,
    rule triple_bind [OF start_read], clarsimp, goal_cases)
  case (1 c _ v metric basis m found)
  let ?facts = "c \<in> set (b_candidates d) \<and> fc_id c = rv_candidate r \<and> fc_org c = rv_org r \<and> fc_review c = ''PENDING'' \<and>
    fc_normalized c = Some v \<and> fc_metric c = Some metric \<and> verify_evidence_and_basis (rv_org r) c (rv_basis r) d = Inr basis \<and>
    scalar_one (filter (\<lambda>m. md_id m = metric) (b_metrics d)) = Inr m \<and>
    scalar_one_or_none (active_facts (candidate_key c (rv_org r) metric basis) d) = Inr found"
  have start: "facts_step\<^sup>*\<^sup>* d (env d)" using env by (simp add: others_allowed_def)
  show ?case
  proof (rule triple_bind [OF start_others [where d = d and b = "?facts"]], force, goal_cases)
    case (1 _)
    show ?case
    proof (cases "?facts")
      case True
      then have c: "c \<in> set (b_candidates (env d))" "fc_review c = ''PENDING''" using allowed_candidate [OF env] by auto
      show ?thesis
      proof (cases found)
        case None
        have "triple (\<lambda>s. s = fresh_session (env d)) (approve_new sha r c m v basis)
            (\<lambda>cf s. facts_step\<^sup>*\<^sup>* d (published s) \<and> published_fact cf s) (\<lambda>_ s. facts_step\<^sup>*\<^sup>* d (published s))"
          by (rule approve_new_steps [OF start c _ _ ok_origin [OF ok] verify_basis]) (use True in auto)
        then show ?thesis using None by (auto elim: triple_conseq)
      next
        case (Some f)
        note f = active_found [of c "rv_org r" metric basis d f]
        have "f \<in> set (b_facts (env d)) \<and> ff_valid_to f = None \<and> ff_org f = rv_org r"
          using True Some f allowed_fact(1) [OF env, of c f basis metric] verify_basis [of "rv_org r" c "rv_basis r" d basis]
          by (auto simp: same_key_def)
        then show ?thesis
          using corroborate_steps [OF start c, of f r basis] conflict_steps [OF start c] Some
          by (auto simp: triple_def corroborate_run record_conflict_run)
      qed
    qed (rule triple_absurd)
  qed
qed

lemma approve_candidate_as_revision_steps:
  assumes ok: "facts_ok d" and env: "others_allowed r (Some target) env d"
  shows "triple (\<lambda>s. s = fresh_session d) (approve_candidate_as_revision sha env target r)
    (\<lambda>cf s. facts_step\<^sup>*\<^sup>* d (published s) \<and> published_fact cf s \<and> ff_supersedes (snd cf) = Some target)
    (\<lambda>_ s. facts_step\<^sup>*\<^sup>* d (published s))"
  unfolding approve_candidate_as_revision_def load_metric_def
proof (rule triple_bind [OF load_candidate_rule], simp, rule triple_bind [OF start_assert], clarsimp,
    rule triple_bind [OF start_lift], clarsimp, rule triple_bind [OF start_lift], clarsimp,
    rule triple_bind [OF start_assert], clarsimp, rule triple_bind [OF start_read], clarsimp,
    rule triple_bind [OF start_read], clarsimp, rule triple_bind [OF start_lift], clarsimp,
    rule triple_bind [OF start_assert], clarsimp, rule triple_bind [OF start_assert], clarsimp,
    rule triple_bind [OF start_read], clarsimp, goal_cases)
  case (1 c _ v metric _ basis found old _ _ m)
  let ?facts = "c \<in> set (b_candidates d) \<and> fc_id c = rv_candidate r \<and> fc_org c = rv_org r \<and> reviewable c \<and>
    fc_normalized c = Some v \<and> verify_evidence_and_basis (rv_org r) c (rv_basis r) d = Inr basis \<and>
    old \<in> set (b_facts d) \<and> ff_id old = target \<and> ff_valid_to old = None \<and>
    same_key (rv_org r) c (md_id m) basis old \<and> \<not> deq (ff_normalized old) v"
  have start: "facts_step\<^sup>*\<^sup>* d (env d)" using env by (simp add: others_allowed_def)
  show ?case
  proof (rule triple_bind [OF start_others [where d = d and b = "?facts"]], goal_cases)
    case (1 s)
    then show ?case by (auto simp: reviewable_def scalar_one_or_none_Some filter_eq_Cons_iff dest!: metric_found)
  next
    case (2 _)
    show ?case
    proof (cases "?facts")
      case True
      then have pre: "c \<in> set (b_candidates (env d))" "old \<in> set (b_facts (env d))" "fc_origin c = ''SOURCE_REPORTED''"
        "basis \<in> {''SOLO'', ''CONSOLIDATED''}"
        using allowed_candidate [OF env, of c] allowed_fact(2) [of r old env d c] env ok_origin [OF ok, of c]
          verify_basis [of "rv_org r" c "rv_basis r" d basis] by auto
      have "triple (\<lambda>s. s = fresh_session (env d)) (supersede sha r c m v basis old)
          (\<lambda>cf s. facts_step\<^sup>*\<^sup>* d (published s) \<and> published_fact cf s \<and> ff_supersedes (snd cf) = Some (ff_id old))
          (\<lambda>_ s. facts_step\<^sup>*\<^sup>* d (published s))"
        by (rule supersede_steps [OF start pre(1) _ _ _ pre(3,4,2)]) (use True in auto)
      then show ?thesis using True by (auto elim: triple_conseq)
    qed (rule triple_absurd)
  qed
qed

lemma reject_candidate_steps:
  assumes start: "facts_step\<^sup>*\<^sup>* d (env d)" and held: "\<forall>c \<in> set (b_candidates d). fc_id c = rv_candidate r \<longrightarrow> c \<in> set (b_candidates (env d))"
  shows "triple (\<lambda>s. s = fresh_session d) (reject_candidate sha env reason r)
    (\<lambda>_ s. facts_step\<^sup>*\<^sup>* d (published s)) (\<lambda>_ s. facts_step\<^sup>*\<^sup>* d (published s))"
  unfolding reject_candidate_def
proof (rule triple_bind [OF load_candidate_rule], simp, rule triple_bind [OF start_assert], clarsimp, goal_cases)
  case (1 c _)
  let ?facts = "c \<in> set (b_candidates d) \<and> fc_id c = rv_candidate r \<and> fc_review c = ''PENDING''"
  show ?case
  proof (rule triple_bind [OF start_others [where d = d and b = "?facts"]], force, goal_cases)
    case (1 _)
    show ?case
    proof (cases "?facts")
      case True
      then have c: "c \<in> set (b_candidates (env d))" "fc_review c = ''PENDING''" using held by auto
      let ?r = "decision_row (rv_org r) c (rv_reviewer r) ''REJECTED'' (Some reason) (rv_notes r) None"
      have "facts_step\<^sup>*\<^sup>* d (put_candidate (\<lambda>x. x\<lparr>fc_review := ''REJECTED'', fc_validation := ''REJECTED''\<rparr>) (fc_id c) (env d)
          \<lparr>b_decisions := b_decisions (env d) @ [?r], b_audit := a\<rparr>)" for a
        by (rule steps_then [OF start facts_step.reject [OF c, of ?r]]) (simp_all add: decision_row_def)
      then show ?thesis
        using True by (simp add: triple_def bindP_def retP_def write_simps insert_decision_def doc_audit_def put_candidate_def)
    qed (rule triple_absurd)
  qed
qed

subsection \<open>Proposing a candidate\<close>

lemma prepare_candidate_fields:
  assumes "prepare_candidate h a d = Inr c"
  shows "fc_id c = ca_id a" "fc_org c = ca_org a" "fc_hash c = Some h" "fc_review c = ''PENDING''" "fc_validation c \<noteq> ''CONFLICTED''"
    "fc_origin c = ''SOURCE_REPORTED''"
  using assms by (auto simp: prepare_candidate_def exc_simps Let_def new_candidate_def split: if_splits)

lemma add_evidence_run:
  "add_evidence a \<lparr>published = d, pending = g\<rparr> = (res, t) \<Longrightarrow> published t = d \<and>
    (res = Inr () \<longrightarrow> (\<exists>es. pending t = (\<lambda>x. (g x)\<lparr>b_evidence := b_evidence (g x) @ es\<rparr>)))"
  by (auto simp: add_evidence_def insert_candidate_evidence_def bindP_def retP_def liftP_def write_simps
      split: if_splits sum.splits prod.splits intro: exI [of _ "[]"] exI [of _ "[_]"])

lemma insert_candidate_run:
  "insert_candidate c (fresh_session e) = (res, t) \<Longrightarrow>
    (\<exists>x. res = Inl x \<and> t = fresh_session e) \<or>
    (res = Inr () \<and> fc_id c \<notin> fc_id ` set (b_candidates e) \<and> (\<forall>h. fc_hash c = Some h \<longrightarrow> candidates_with (fc_org c) h e = []) \<and>
      t = \<lparr>published = e, pending = (\<lambda>d. d\<lparr>b_candidates := b_candidates d @ [c]\<rparr>)\<rparr>)"
  by (auto simp: insert_candidate_def write_simps candidate_constraints_def exc_simps split: sum.splits option.splits)

text \<open>The block inside the savepoint either adds the candidate with its evidence or changes nothing.\<close>

lemma record_block:
  assumes "savepoint (bindP (insert_candidate c) (\<lambda>_. bindP (add_evidence a) (\<lambda>_. retP None))) (fresh_session e) = (res, t)"
  shows "published t = e \<and> ((\<exists>x. res = Inl x \<and> t = fresh_session e) \<or>
    (res = Inr None \<and> fc_id c \<notin> fc_id ` set (b_candidates e) \<and> (\<forall>h. fc_hash c = Some h \<longrightarrow> candidates_with (fc_org c) h e = []) \<and>
      (\<exists>es. pending t = (\<lambda>d. d\<lparr>b_candidates := b_candidates d @ [c], b_evidence := b_evidence d @ es\<rparr>))))"
proof -
  obtain r1 t1 where i: "insert_candidate c (fresh_session e) = (r1, t1)" by fastforce
  from insert_candidate_run [OF this] show ?thesis
  proof (elim disjE exE conjE)
    fix x assume "r1 = Inl x" "t1 = fresh_session e"
    then show ?thesis using assms i by (auto simp: savepoint_def bindP_def fresh_session_def)
  next
    assume r1: "r1 = Inr ()" and c: "fc_id c \<notin> fc_id ` set (b_candidates e)" "\<forall>h. fc_hash c = Some h \<longrightarrow> candidates_with (fc_org c) h e = []"
      and t1: "t1 = \<lparr>published = e, pending = \<lambda>d. d\<lparr>b_candidates := b_candidates d @ [c]\<rparr>\<rparr>"
    obtain r2 t2 where v: "add_evidence a t1 = (r2, t2)" by fastforce
    note ev = add_evidence_run [OF v [unfolded t1]]
    show ?thesis
    proof (cases r2)
      case (Inl x)
      then show ?thesis using assms i r1 v ev by (auto simp: savepoint_def bindP_def fresh_session_def)
    next
      case (Inr u)
      then show ?thesis using assms i r1 v ev c by (auto simp: savepoint_def bindP_def retP_def)
    qed
  qed
qed

definition record_candidate :: "candidate_args \<Rightarrow> fact_candidate \<Rightarrow> fact_candidate option dochandler" where
  "record_candidate a c = savepoint (bindP (insert_candidate c) (\<lambda>_. bindP (add_evidence a) (\<lambda>_. retP None)))"

lemma record_candidate_steps:
  assumes start: "facts_step\<^sup>*\<^sup>* d e" and c: "fc_review c = ''PENDING''" "fc_validation c \<noteq> ''CONFLICTED''" "fc_origin c = ''SOURCE_REPORTED''"
  shows "triple (\<lambda>s. s = fresh_session e) (record_candidate a c) (\<lambda>_ s. published s = e \<and> facts_step\<^sup>*\<^sup>* d (view s)) (\<lambda>_ s. s = fresh_session e)"
proof -
  obtain res t where run: "record_candidate a c (fresh_session e) = (res, t)" by fastforce
  have "facts_step\<^sup>*\<^sup>* d (e\<lparr>b_candidates := b_candidates e @ [c], b_evidence := ev\<rparr>)" if "fc_id c \<notin> fc_id ` set (b_candidates e)" for ev
    by (rule steps_then [OF start facts_step.propose [OF that c]]) simp_all
  then show ?thesis
    using record_block [OF run [unfolded record_candidate_def]] run by (auto simp: triple_def view_def)
qed

lemma audit_steps:
  "triple (\<lambda>s. published s = e \<and> facts_step\<^sup>*\<^sup>* d (view s)) (doc_audit sha org et tt target actor payload)
    (\<lambda>_ s. published s = e \<and> facts_step\<^sup>*\<^sup>* d (view s)) E"
  unfolding doc_audit_def
  by (rule triple_s_write) (auto simp: view_def elim!: rtranclp.rtrancl_into_rtrancl intro: facts_step.other)

lemma create_candidate_steps:
  assumes start: "facts_step\<^sup>*\<^sup>* d (env d)"
  shows "triple (\<lambda>s. s = fresh_session d) (create_candidate sha fr env a)
    (\<lambda>_ s. facts_step\<^sup>*\<^sup>* d (view s)) (\<lambda>_ s. facts_step\<^sup>*\<^sup>* d (published s))"
  unfolding create_candidate_def Let_def find_equal_def record_candidate_def [symmetric]
proof (rule triple_bind [OF start_read], clarsimp, goal_cases)
  case (1 x)
  let ?h = "sha (idempotency_text fr a)"
  show ?case
  proof (cases x)
    case (Some c)
    then show ?thesis by (auto simp: triple_def retP_def)
  next
    case None
    show ?thesis
      unfolding None option.case
    proof (rule triple_bind [OF start_read], clarsimp, rename_tac c,
        rule_tac triple_bind [OF start_others [where d = d and b = "prepare_candidate ?h a d = Inr c" for c]], force, goal_cases)
      case (1 c _)
      show ?case
      proof (cases "prepare_candidate ?h a d = Inr c")
        case True
        note c = prepare_candidate_fields(4-6) [OF True]
        show ?thesis
        proof (rule triple_bind [where R = "\<lambda>_ s. published s = env d \<and> facts_step\<^sup>*\<^sup>* d (view s)"], goal_cases)
          case 1
          show ?case
            by (rule triple_try [where R = "\<lambda>_ s. s = fresh_session (env d)"],
                rule triple_conseq [OF record_candidate_steps [OF start c]])
              (use start in \<open>auto intro!: triple_if triple_throw triple_bind [OF start_read] triple_option triple_ret\<close>)
        next
          case (2 dup)
          show ?case
            by (rule triple_option, rule triple_bind [OF audit_steps], auto intro!: triple_ret)
        qed
      qed (rule triple_absurd)
    qed
  qed
qed

section \<open>Any sequence of operations\<close>

datatype fact_op = Propose candidate_args | Approve review | Revise uuid review | Reject string review

text \<open>One operation in a session of its own, started from the published rows.\<close>

definition perform_fact_op ::
  "(string \<Rightarrow> string) \<Rightarrow> (rat \<Rightarrow> string) \<Rightarrow> (doc_db \<Rightarrow> doc_db) \<Rightarrow> fact_op \<Rightarrow> doc_db \<Rightarrow> doc_db" where
  "perform_fact_op sha fr env op d = (case op of
      Propose a \<Rightarrow> published (snd (bindP (create_candidate sha fr env a) (\<lambda>_. s_commit) (fresh_session d)))
    | Approve r \<Rightarrow> published (snd (approve_candidate sha env r (fresh_session d)))
    | Revise t r \<Rightarrow> published (snd (approve_candidate_as_revision sha env t r (fresh_session d)))
    | Reject reason r \<Rightarrow> published (snd (reject_candidate sha env reason r (fresh_session d))))"

text \<open>What the others may do meanwhile.\<close>

definition meanwhile_allowed :: "fact_op \<Rightarrow> (doc_db \<Rightarrow> doc_db) \<Rightarrow> doc_db \<Rightarrow> bool" where
  "meanwhile_allowed op env d = (case op of
      Propose a \<Rightarrow> facts_step\<^sup>*\<^sup>* d (env d)
    | Approve r \<Rightarrow> others_allowed r None env d
    | Revise t r \<Rightarrow> others_allowed r (Some t) env d
    | Reject reason r \<Rightarrow> facts_step\<^sup>*\<^sup>* d (env d) \<and>
        (\<forall>c \<in> set (b_candidates d). fc_id c = rv_candidate r \<longrightarrow> c \<in> set (b_candidates (env d))))"

inductive fact_run :: "(string \<Rightarrow> string) \<Rightarrow> (rat \<Rightarrow> string) \<Rightarrow> doc_db \<Rightarrow> doc_db \<Rightarrow> bool" for sha fr where
  idle: "fact_run sha fr d d"
| operate: "fact_run sha fr d e \<Longrightarrow> meanwhile_allowed op env e \<Longrightarrow> fact_run sha fr d (perform_fact_op sha fr env op e)"

lemma triple_published:
  "triple (\<lambda>s. s = fresh_session d) m (\<lambda>x s. R (published s) \<and> Q x s) (\<lambda>_ s. R (published s)) \<Longrightarrow> R (published (snd (m (fresh_session d))))"
  by (cases "m (fresh_session d)") (auto simp: triple_def split: sum.splits)

lemma perform_steps:
  assumes "facts_ok d" "meanwhile_allowed op env d"
  shows "facts_step\<^sup>*\<^sup>* d (perform_fact_op sha fr env op d)"
proof (cases op)
  case (Propose a)
  with assms have env: "facts_step\<^sup>*\<^sup>* d (env d)" by (simp add: meanwhile_allowed_def)
  have "triple (\<lambda>s. s = fresh_session d) (bindP (create_candidate sha fr env a) (\<lambda>_. s_commit))
    (\<lambda>_ s. facts_step\<^sup>*\<^sup>* d (published s) \<and> True) (\<lambda>_ s. facts_step\<^sup>*\<^sup>* d (published s))"
    by (rule triple_bind [OF create_candidate_steps [where env = env and d = d and sha = sha and fr = fr, OF env]])
      (auto simp: s_commit_def intro: triple_modify)
  from triple_published [OF this] Propose show ?thesis by (simp add: perform_fact_op_def)
next
  case (Approve r)
  with assms triple_published [OF approve_candidate_steps] show ?thesis
    by (simp add: perform_fact_op_def meanwhile_allowed_def)
next
  case (Revise t r)
  with assms triple_published [OF approve_candidate_as_revision_steps] show ?thesis
    by (simp add: perform_fact_op_def meanwhile_allowed_def)
next
  case (Reject reason r)
  with assms reject_candidate_steps [of d env r sha reason] show ?thesis
    using triple_published [where m = "reject_candidate sha env reason r" and R = "facts_step\<^sup>*\<^sup>* d" and Q = "\<lambda>_ _. True"]
    by (simp add: perform_fact_op_def meanwhile_allowed_def)
qed

lemma ledger_steps: "facts_step\<^sup>*\<^sup>* d e \<Longrightarrow> facts_ok d \<Longrightarrow> ledger_step\<^sup>*\<^sup>* (ledger d) (ledger e)"
proof (induction rule: rtranclp_induct)
  case (step e e')
  then have "ledger_step (ledger e) (ledger e')" using facts_step_ledger steps_ok by blast
  with step show ?case by (meson rtranclp.rtrancl_into_rtrancl)
qed simp

lemma fact_run_steps: "fact_run sha fr d e \<Longrightarrow> facts_ok d \<Longrightarrow> facts_step\<^sup>*\<^sup>* d e"
proof (induction rule: fact_run.induct)
  case (operate d e op env)
  then show ?case using perform_steps steps_ok by (meson rtranclp_trans)
qed simp

lemma no_docs_ok: "facts_ok no_docs"
  by (simp add: facts_ok_def no_docs_def key_facts_def)

text \<open>C13: whatever sequence of proposals, approvals, revisions and rejections runs, with other sessions
  acting in between on anything an operation has not locked, the store stays sound: identifiers are
  unique, the facts of each natural key form one chain of which only the last is active, every fact has
  the value of a candidate that a reviewer approved in a recorded decision, no candidate is decided
  twice, and a decided candidate is no longer pending.\<close>

theorem fact_store_sound:
  assumes "fact_run sha fr d e" "facts_ok d"
  shows "facts_ok e"
  using steps_ok fact_run_steps assms by blast

text \<open>C14: the services refine the abstract ledger: over any sequence of operations the values of each
  natural key change only by a first value for an empty key or a different value after the last one.
  So no recorded value is ever changed or removed.\<close>

theorem fact_store_refines_ledger:
  assumes "fact_run sha fr d e" "facts_ok d"
  shows "ledger_step\<^sup>*\<^sup>* (ledger d) (ledger e) \<and> (\<forall>k. \<exists>new. ledger e k = ledger d k @ new)"
proof
  have steps: "ledger_step\<^sup>*\<^sup>* (ledger d) (ledger e)" using ledger_steps fact_run_steps assms by blast
  then show "ledger_step\<^sup>*\<^sup>* (ledger d) (ledger e)" .
  have grows: "\<exists>new. L' k = L k @ new" if "ledger_step L L'" for L L' k
    using that by (cases rule: ledger_step.cases) auto
  from steps show "\<forall>k. \<exists>new. ledger e k = ledger d k @ new"
  proof (induction rule: rtranclp_induct)
    case (step L L')
    then show ?case using grows by (metis append.assoc)
  qed simp
qed

end
