(* ===== verification/FactOutcomes.thy ===== *)
theory FactOutcomes
  imports FactRuns
begin

text \<open>
  What the candidate and review services deliver: a figure is recorded once, an approval decides by the
  ledger of its natural key. A concrete document store, candidate and review are at the end of each
  part.
\<close>

section \<open>Recording a candidate\<close>

lemma create_candidate_found:
  "candidates_with (ca_org a) (sha (idempotency_text fr a)) (view t) = [c] \<Longrightarrow> create_candidate sha fr env a t = (Inr c, t)"
  by (simp add: create_candidate_def Let_def find_equal_def s_read_def queryP_def bindP_def retP_def)

lemma candidates_with_rows: "b_candidates d' = b_candidates d \<Longrightarrow> candidates_with org h d' = candidates_with org h d"
  by (simp add: candidates_with_def)

definition holds_one :: "uuid \<Rightarrow> string \<Rightarrow> fact_candidate \<Rightarrow> doc_db session \<Rightarrow> bool" where
  "holds_one org h c s \<longleftrightarrow> candidates_with org h (view s) = [c]"

lemma find_equal_rule: "triple (\<lambda>_. True) (find_equal a h) (\<lambda>x s. case x of None \<Rightarrow> True | Some c \<Rightarrow> holds_one (ca_org a) h c s) (\<lambda>_ _. True)"
  unfolding find_equal_def by (rule triple_s_read) (auto simp: holds_one_def scalar_one_or_none_Some split: option.splits)

lemma add_evidence_candidates:
  "triple (\<lambda>s. b_candidates (view s) = cs) (add_evidence a) (\<lambda>_ s. b_candidates (view s) = cs) (\<lambda>_ _. True)"
  unfolding add_evidence_def insert_candidate_evidence_def s_insert_def
  by (rule triple_if, rule triple_ret, simp, rule triple_bind [OF triple_lift [where Q = "\<lambda>_ s. b_candidates (view s) = cs"]], simp, simp,
      rule triple_bind [OF triple_s_read [where Q = "\<lambda>_ s. b_candidates (view s) = cs"]], simp, simp, rule triple_s_write)
    (simp_all add: view_def)

lemma record_candidate_rule:
  assumes "fc_org c = org" "fc_hash c = Some h"
  shows "triple (\<lambda>_. True) (record_candidate a c) (\<lambda>x s. x = None \<and> holds_one org h c s) (\<lambda>_ _. True)"
proof -
  have ins: "triple (\<lambda>_. True) (insert_candidate c) (\<lambda>_ s. candidates_with org h (view s) = [c]) (\<lambda>_ _. True)"
    unfolding insert_candidate_def s_insert_def
    by (rule triple_bind [OF triple_s_read [where Q = "\<lambda>_ s. candidates_with org h (view s) = []"]])
      (use assms in \<open>auto simp: candidate_constraints_def exc_simps intro!: triple_s_write simp: view_def candidates_with_def split: option.splits\<close>)
  have keep: "candidates_with org h (view t) = candidates_with org h (view s)" if "add_evidence a s = (Inr u, t)" for s t u
    using tripleD(1) [OF add_evidence_candidates refl that] by (simp add: candidates_with_def)
  then have ev: "triple (\<lambda>s. candidates_with org h (view s) = [c]) (add_evidence a) (\<lambda>_ s. candidates_with org h (view s) = [c]) (\<lambda>_ _. True)"
    unfolding triple_def by (auto split: prod.splits sum.splits)
  have "triple (\<lambda>_. True) (bindP (insert_candidate c) (\<lambda>_. bindP (add_evidence a) (\<lambda>_. retP None))) (\<lambda>x s. x = None \<and> holds_one org h c s) (\<lambda>_ _. True)"
    by (rule triple_bind [OF ins], rule triple_bind [OF ev], rule triple_ret) (simp add: holds_one_def)
  then show ?thesis
    unfolding record_candidate_def savepoint_def triple_def by (fastforce split: prod.splits sum.splits)
qed

lemma create_candidate_rule:
  "triple (\<lambda>_. True) (create_candidate sha fr env a) (holds_one (ca_org a) (sha (idempotency_text fr a))) (\<lambda>_ _. True)"
  unfolding create_candidate_def Let_def record_candidate_def [symmetric]
proof (rule triple_bind [OF find_equal_rule], goal_cases)
  case (1 x)
  let ?h = "sha (idempotency_text fr a)" and ?one = "holds_one (ca_org a) (sha (idempotency_text fr a))"
  have found: "triple (\<lambda>s. case x of None \<Rightarrow> True | Some c \<Rightarrow> ?one c s) (retP (the x)) ?one (\<lambda>_ _. True)" if "x \<noteq> None" for x
    using that by (auto intro: triple_ret)
  show ?case
  proof (cases x)
    case (Some c)
    then show ?thesis using found [of x] by simp
  next
    case None
    show ?thesis
      unfolding None option.case
    proof (rule triple_bind [where R = "\<lambda>c _. fc_org c = ca_org a \<and> fc_hash c = Some ?h"], goal_cases)
      case 1
      show ?case by (rule triple_s_read) (auto dest: prepare_candidate_fields)
    next
      case (2 c)
      show ?case
      proof (rule triple_bind [where R = "\<lambda>_ _. fc_org c = ca_org a \<and> fc_hash c = Some ?h"], goal_cases)
        case 1
        show ?case unfolding s_others_def by (rule triple_modify)
      next
        case (2 _)
        show ?case
        proof (rule triple_bind [where R = "\<lambda>dup s. ?one (case dup of None \<Rightarrow> c | Some x \<Rightarrow> x) s"], goal_cases)
          case 1
          have handler: "triple (\<lambda>_. True) (if e = IntegrityError then bindP (find_equal a ?h) (\<lambda>dup. case dup of None \<Rightarrow> throwP e | Some x \<Rightarrow> retP (Some x)) else throwP e)
              (\<lambda>dup s. ?one (case dup of None \<Rightarrow> c | Some x \<Rightarrow> x) s) (\<lambda>_ _. True)" for e
            by (rule triple_if, rule triple_bind [OF find_equal_rule], rule triple_option) (auto intro: triple_throw triple_ret)
          show ?case
          proof (cases "fc_org c = ca_org a \<and> fc_hash c = Some ?h")
            case True
            show ?thesis
              by (rule triple_try [OF _ handler], rule triple_conseq [OF record_candidate_rule [of c "ca_org a" ?h a]]) (use True in auto)
          qed (rule triple_absurd [where P = "\<lambda>_. True", simplified])
        next
          case (2 dup)
          show ?case
            by (rule triple_option, rule triple_bind [where R = "\<lambda>_. ?one c"])
              (auto simp: doc_audit_def holds_one_def view_def candidates_with_def intro!: triple_s_write triple_ret)
        qed
      qed
    qed
  qed
qed

text \<open>C37: when \<open>create_candidate\<close> returns, exactly one candidate of the organization has the digest of the figure,
  and it is the one returned; a second call for the same figure, whatever others do, returns it and changes
  nothing. So a document that is read twice, or by two workers at once, proposes each figure once.\<close>

theorem candidate_recorded_once:
  assumes "create_candidate sha fr env a s = (Inr c, t)"
    "ca_org b = ca_org a" "idempotency_text fr b = idempotency_text fr a"
  shows "candidates_with (ca_org a) (sha (idempotency_text fr a)) (view t) = [c] \<and> create_candidate sha fr env' b t = (Inr c, t)"
proof -
  have "candidates_with (ca_org a) (sha (idempotency_text fr a)) (view t) = [c]"
    using tripleD(1) [OF create_candidate_rule _ assms(1)] by (simp add: holds_one_def)
  with create_candidate_found [of b sha fr t c env'] assms(2,3) show ?thesis by simp
qed

definition fact_request :: candidate_args where
  "fact_request = \<lparr>ca_id = 50, ca_evidence_id = 51, ca_org = 1, ca_institution = 2, ca_period = 3, ca_label = ''cash'', ca_value = ''7'',
     ca_document = 5, ca_version = 7, ca_currency = ''TRY'', ca_unit = ''CURRENCY'', ca_scale = ''ONE'', ca_basis = ''SOLO'',
     ca_location = [(''row_index'', LInt 4), (''column_index'', LInt 2)], ca_method = ''PARSER_TABLE'', ca_snippet = None,
     ca_metric_code = Some ''CASH''\<rparr>"

definition fact_docs :: doc_db where
  "fact_docs = no_docs\<lparr>b_metrics := [\<lparr>md_id = 4, md_code = ''CASH'', md_name = ''Cash'', md_status = ''ACTIVE''\<rparr>],
     b_versions := [\<lparr>dv_id = 7, dv_org = 1, dv_document = 5, dv_object = 8, dv_number = 1, dv_ingestion = ''COMPLETED'',
       dv_extraction = ''COMPLETED'', dv_detected_mime = Some ''text/csv'', dv_declared_mime = None\<rparr>]\<rparr>"

definition zero_sha :: "string \<Rightarrow> string" where
  "zero_sha s = ''0''"

definition seven :: dec where "seven = Dec False 7000000 (-6)"

lemma parse_seven: "parse_financial_decimal ''7'' None = amount_read (Dec False 7 0)"
  by (simp add: parse_financial_decimal_def str_strip_def is_space_def null_words_def str_lower_def lower_char_def percent_word_def
      take_negative_def resolve_separators_def decimal_of_text_def Let_def str_remove_def take_sign_def is_digit_def take_exponent_def
      digits_value_def exact_decimal_def ndigits_num amount_read_def)

lemma store_seven: "stored_number (Finite_Num (Dec False 7 0)) = Inr seven"
  by (simp add: stored_number_def stored_as_def drescale_def seven_def)

lemma scale_seven: "normalize_scale (Finite_Num (Dec False 7 0)) ''ONE'' = Inr (Finite_Num (Dec False 7 0))"
  by (simp add: normalize_scale_def str_upper_def upper_char_def str_strip_def is_space_def valid_scales_def scale_factors_def
      num_scale_def dmul_def dfix_def default_context_def ndigits_num Let_def)

definition seven_candidate :: fact_candidate where
  "seven_candidate = new_candidate ''0'' fact_request (Some \<lparr>md_id = 4, md_code = ''CASH'', md_name = ''Cash'', md_status = ''ACTIVE''\<rparr>)
     (amount_read (Dec False 7 0)) (Some seven) (Some seven)"

lemma prepare_seven: "prepare_candidate ''0'' fact_request fact_docs = Inr seven_candidate"
  by (simp add: prepare_candidate_def resolve_metric_def fact_request_def metric_by_code_def fact_docs_def no_docs_def parse_seven
      amount_read_def scale_seven stored_option_def store_seven seven_candidate_def Let_def)

definition seven_evidence :: candidate_evidence where
  "seven_evidence = \<lparr>ce_id = 51, ce_org = 1, ce_candidate = 50, ce_version = 7, ce_page = Some 1, ce_sheet = None, ce_cell = None,
     ce_header = None, ce_row = Some 4, ce_column = Some 2, ce_bbox = [], ce_snippet = Some ''Table Cell: cash = 7''\<rparr>"

lemma seven_evidence_row: "make_evidence_row fact_request = Inr seven_evidence"
  by (simp add: make_evidence_row_def fact_request_def int_column_def text_column_def loc_get_def evidence_page_def evidence_box_def
      box_corners_def seven_evidence_def)

lemma seven_candidate_fits: "candidate_constraints seven_candidate fact_docs = Inr ()"
  by (simp add: candidate_constraints_def candidate_fits_def seven_candidate_def new_candidate_def fact_request_def fact_docs_def
      no_docs_def too_long_def candidates_with_def Let_def amount_read_def)

lemma record_seven:
  "record_candidate fact_request seven_candidate (fresh_session fact_docs) = (Inr None, \<lparr>published = fact_docs,
     pending = (\<lambda>d. d\<lparr>b_candidates := b_candidates d @ [seven_candidate], b_evidence := b_evidence d @ [seven_evidence]\<rparr>)\<rparr>)"
proof -
  have "ca_location fact_request \<noteq> []" by (simp add: fact_request_def)
  moreover have "b_evidence fact_docs = []" "evidence_fits seven_evidence"
    by (simp_all add: fact_docs_def no_docs_def evidence_fits_def seven_evidence_def)
  ultimately show ?thesis
    by (simp add: record_candidate_def savepoint_def bindP_def insert_candidate_def write_simps seven_candidate_fits add_evidence_def
        liftP_def seven_evidence_row insert_candidate_evidence_def retP_def)
qed

lemma create_seven: "\<exists>t. create_candidate zero_sha fr (\<lambda>x. x) fact_request (fresh_session fact_docs) = (Inr seven_candidate, t)"
proof -
  have "candidates_with (ca_org fact_request) ''0'' fact_docs = []" by (simp add: candidates_with_def fact_docs_def no_docs_def)
  moreover have "s_others (\<lambda>x. x) (fresh_session fact_docs) = (Inr (), fresh_session fact_docs)" by (simp add: s_others_def modifyP_def)
  ultimately show ?thesis
    unfolding create_candidate_def Let_def find_equal_def record_candidate_def [symmetric] zero_sha_def
    by (simp add: bindP_def s_read_def queryP_def prepare_seven record_seven tryP_def doc_audit_def write_simps retP_def)
qed

theorem candidate_recorded_once_witness:
  "\<exists>t. create_candidate zero_sha (\<lambda>r. []) (\<lambda>x. x) fact_request (fresh_session fact_docs) = (Inr seven_candidate, t) \<and>
    candidates_with 1 ''0'' (view t) = [seven_candidate] \<and>
    create_candidate zero_sha (\<lambda>r. []) (\<lambda>x. x) fact_request t = (Inr seven_candidate, t)"
proof -
  obtain t where t: "create_candidate zero_sha (\<lambda>r. []) (\<lambda>x. x) fact_request (fresh_session fact_docs) = (Inr seven_candidate, t)"
    using create_seven by blast
  from candidate_recorded_once [OF t refl refl, of "\<lambda>x. x"] t show ?thesis by (auto simp: fact_request_def zero_sha_def)
qed
section \<open>What an approval does\<close>

lemma filter_one: "distinct (map f xs) \<Longrightarrow> x \<in> set xs \<Longrightarrow> P x \<Longrightarrow> filter (\<lambda>y. f y = f x \<and> P y) xs = [x]"
proof (induction xs)
  case (Cons y ys)
  show ?case
  proof (cases "x = y")
    case True
    then have "filter (\<lambda>z. f z = f x \<and> P z) ys = []" using Cons.prems(1) by (auto simp: filter_empty_conv) (metis image_eqI)
    with True Cons.prems show ?thesis by simp
  next
    case False
    then have "x \<in> set ys" "f y \<noteq> f x" using Cons.prems by auto
    with Cons show ?thesis by simp
  qed
qed simp

text \<open>The active fact of a key is the last of its chain.\<close>

lemma active_is_last:
  assumes "facts_ok d"
  shows "active_facts k d = (if key_facts k d = [] then [] else [last (key_facts k d)])"
proof -
  let ?fs = "key_facts k d"
  have act: "active_facts k d = filter (\<lambda>f. ff_valid_to f = None) ?fs"
    by (simp add: active_facts_def key_facts_def conj_commute)
  show ?thesis
  proof (cases "?fs = []")
    case False
    then have fs: "?fs = butlast ?fs @ [last ?fs]" by simp
    have "filter (\<lambda>f. ff_valid_to f = None) (butlast ?fs) = []" "ff_valid_to (last ?fs) = None"
      using ok_chain [OF assms, of k] False by (auto simp: chain_def filter_empty_conv)
    then have "filter (\<lambda>f. ff_valid_to f = None) (butlast ?fs @ [last ?fs]) = [last ?fs]" by simp
    then show ?thesis using False fs act by simp
  qed (simp add: act)
qed

lemma last_ledger: "key_facts k d \<noteq> [] \<Longrightarrow> last (ledger d k) = ff_normalized (last (key_facts k d))"
  by (simp add: ledger_def last_map)

text \<open>What the reviewer's request refers to.\<close>

definition request_fits :: "review \<Rightarrow> fact_candidate \<Rightarrow> dec \<Rightarrow> metric_definition \<Rightarrow> string \<Rightarrow> doc_db \<Rightarrow> bool" where
  "request_fits r c v m basis d \<longleftrightarrow> c \<in> set (b_candidates d) \<and> fc_id c = rv_candidate r \<and> fc_org c = rv_org r \<and>
     fc_normalized c = Some v \<and> fc_metric c = Some (md_id m) \<and> filter (\<lambda>x. md_id x = md_id m) (b_metrics d) = [m] \<and>
     verify_evidence_and_basis (rv_org r) c (rv_basis r) d = Inr basis \<and> rv_fact_id r \<notin> ff_id ` set (b_facts d)"

lemma load_run:
  assumes "facts_ok d" "c \<in> set (b_candidates d)"
  shows "load_candidate (fc_org c) (fc_id c) (fresh_session d) = (Inr c, fresh_session d)"
proof -
  have "filter (\<lambda>x. fc_id x = fc_id c \<and> fc_org x = fc_org c) (b_candidates d) = [c]"
    using assms by (intro filter_one) (auto simp: facts_ok_def)
  then show ?thesis by (simp add: load_candidate_def bindP_def s_read_def queryP_def liftP_def)
qed

lemma approve_candidate_run:
  assumes "facts_ok d" "request_fits r c v m basis d" "fc_review c = ''PENDING''"
  shows "approve_candidate sha (\<lambda>x. x) r (fresh_session d) =
    (case active_facts (candidate_key c (rv_org r) (md_id m) basis) d of
       [] \<Rightarrow> approve_new sha r c m v basis
     | f # _ \<Rightarrow> if deq (ff_normalized f) v then corroborate r c basis f else record_conflict sha r c f) (fresh_session d)"
proof -
  have "load_candidate (rv_org r) (rv_candidate r) (fresh_session d) = (Inr c, fresh_session d)"
    using load_run [OF assms(1), of c] assms(2) by (simp add: request_fits_def)
  moreover have "s_others (\<lambda>x. x) (fresh_session d) = (Inr (), fresh_session d)" by (simp add: s_others_def modifyP_def)
  ultimately have run: "approve_candidate sha (\<lambda>x. x) r (fresh_session d) =
    (case scalar_one_or_none (active_facts (candidate_key c (rv_org r) (md_id m) basis) d) of Inl e \<Rightarrow> (Inl e, fresh_session d)
     | Inr found \<Rightarrow> (case found of None \<Rightarrow> approve_new sha r c m v basis
       | Some f \<Rightarrow> if deq (ff_normalized f) v then corroborate r c basis f else record_conflict sha r c f) (fresh_session d))"
    using assms(2,3)
    by (simp add: approve_candidate_def bindP_def s_read_def queryP_def liftP_def request_fits_def load_metric_def find_active_def
        assertP_def retP_def split: sum.splits)
  show ?thesis
    using run active_is_last [OF assms(1), of "candidate_key c (rv_org r) (md_id m) basis"]
    by (cases "key_facts (candidate_key c (rv_org r) (md_id m) basis) d = []") simp_all
qed

text \<open>C15: for a pending candidate with evidence and a basis, \<open>approve_candidate\<close> decides by the ledger of its
  natural key. An empty key gets the value, as a fact the calculation service accepts as input; an equal
  last value is corroborated and no fact is added; a different one is refused, the conflict is recorded
  on the candidate, which stays pending, and the facts and decisions are left as they are.\<close>

theorem approval_outcome:
  assumes ok: "facts_ok d" and fits: "request_fits r c v m basis d" and pend: "fc_review c = ''PENDING''"
    and run: "approve_candidate sha (\<lambda>x. x) r (fresh_session d) = (res, t)" and k: "k = candidate_key c (rv_org r) (md_id m) basis"
  shows "if ledger d k = [] then
      (\<exists>f. res = Inr (mark_reviewed ''APPROVED'' basis c, f) \<and> ledger (published t) = (ledger d)(k := [v]) \<and>
        f \<in> set (eligible_facts (no_rows\<lparr>t_facts := b_facts (published t)\<rparr>) (rv_org r) (fc_institution c) (Some (fc_period c)) (Some (md_code m))))
    else if deq (last (ledger d k)) v then
      res = Inr (mark_reviewed ''APPROVED'' basis c, last (key_facts k d)) \<and> b_facts (published t) = b_facts d
    else (\<exists>msg. res = Inl (ValueError msg)) \<and> b_facts (published t) = b_facts d \<and> b_decisions (published t) = b_decisions d \<and>
      mark_conflict sha (rv_now r) (last (key_facts k d)) c \<in> set (b_candidates (published t))"
proof -
  note run' = run [unfolded approve_candidate_run [OF ok fits pend] k [symmetric]]
  have c: "c \<in> set (b_candidates d)" using fits by (simp add: request_fits_def)
  show ?thesis
  proof (cases "key_facts k d = []")
    case True
    define f where "f = new_fact (rv_fact_id r) (rv_org r) (rv_reviewer r) c m v basis None"
    have key: "natural_key_of f = k" by (simp add: f_def new_fact_def natural_key_of_def k candidate_key_def)
    have "fact_constraints f d = Inr ()"
      using fits True active_is_last [OF ok, of k] by (simp add: fact_constraints_Inr key) (simp add: f_def request_fits_def)
    then have "res = Inr (mark_reviewed ''APPROVED'' basis c, f)" "published t = approved sha r c basis f d"
      using run' True active_is_last [OF ok, of k] approve_new_run [OF f_def, of sha d] by auto
    moreover have "ledger (approved sha r c basis f d) = (ledger d)(k := [v])"
      using True by (auto simp: ledger_def key_facts_def approved_def fun_eq_iff key) (simp add: f_def)
    moreover have "f \<in> set (eligible_facts (no_rows\<lparr>t_facts := b_facts (approved sha r c basis f d)\<rparr>) (rv_org r) (fc_institution c)
        (Some (fc_period c)) (Some (md_code m)))"
      using verify_basis [of "rv_org r" c "rv_basis r" d basis] fits ok_origin [OF ok c]
      by (auto simp: eligible_facts_def approved_def f_def new_fact_def request_fits_def)
    ultimately show ?thesis using True by (auto simp: ledger_def)
  next
    case False
    then have act: "active_facts k d = [last (key_facts k d)]" using active_is_last [OF ok] by simp
    have "ledger d k \<noteq> []" using False by (simp add: ledger_def)
    then show ?thesis
      using run' last_ledger [OF False] c marked_member [OF c]
      by (auto simp: act corroborate_run record_conflict_run corroborated_def put_candidate_def image_iff split: if_splits)
  qed
qed

definition seven_review :: review where
  "seven_review = \<lparr>rv_org = 1, rv_candidate = 50, rv_reviewer = 6, rv_basis = None, rv_notes = None, rv_fact_id = 70, rv_now = 9\<rparr>"

definition cash_metric :: metric_definition where
  "cash_metric = \<lparr>md_id = 4, md_code = ''CASH'', md_name = ''Cash'', md_status = ''ACTIVE''\<rparr>"

definition seven_docs :: doc_db where
  "seven_docs = fact_docs\<lparr>b_candidates := [seven_candidate], b_evidence := [seven_evidence], b_audit :=
     [audit_record zero_sha 1 ''FACT_CANDIDATE_CREATED'' ''financial_fact_candidate'' 50 None
       [(''raw_label'', JStr ''cash''), (''extraction_method'', JStr ''PARSER_TABLE'')]]\<rparr>"

lemma seven_proposed: "perform_fact_op zero_sha fr (\<lambda>x. x) (Propose fact_request) fact_docs = seven_docs"
proof -
  have "candidates_with (ca_org fact_request) ''0'' fact_docs = []" by (simp add: candidates_with_def fact_docs_def no_docs_def)
  moreover have "s_others (\<lambda>x. x) (fresh_session fact_docs) = (Inr (), fresh_session fact_docs)" by (simp add: s_others_def modifyP_def)
  moreover have "b_candidates fact_docs = []" "b_evidence fact_docs = []" "b_audit fact_docs = []" by (simp_all add: fact_docs_def no_docs_def)
  moreover have "fc_id seven_candidate = 50" "ca_label fact_request = ''cash''" "ca_method fact_request = ''PARSER_TABLE''" "ca_org fact_request = 1"
    by (simp_all add: seven_candidate_def new_candidate_def fact_request_def Let_def)
  ultimately show ?thesis
    unfolding perform_fact_op_def create_candidate_def Let_def find_equal_def record_candidate_def [symmetric] zero_sha_def
    by (simp add: bindP_def s_read_def queryP_def prepare_seven record_seven tryP_def doc_audit_def write_simps retP_def seven_docs_def zero_sha_def [abs_def])
qed

lemma fact_docs_ok: "facts_ok fact_docs"
  by (simp add: facts_ok_def fact_docs_def no_docs_def key_facts_def)

lemma seven_docs_ok: "facts_ok seven_docs"
  by (simp add: facts_ok_def seven_docs_def fact_docs_def no_docs_def key_facts_def candidate_ok_def seven_candidate_def new_candidate_def Let_def)

lemma nobody_interferes: "meanwhile_allowed op (\<lambda>x. x) d"
  by (simp add: meanwhile_allowed_def others_allowed_def holds_rows_def split: fact_op.split)

theorem fact_store_sound_witness:
  "facts_ok seven_docs \<and> fact_run zero_sha (\<lambda>r. []) fact_docs seven_docs"
proof -
  have run: "fact_run zero_sha (\<lambda>r. []) fact_docs seven_docs"
    using fact_run.operate [OF fact_run.idle nobody_interferes, of zero_sha "\<lambda>r. []" fact_docs "Propose fact_request"] seven_proposed by simp
  with fact_store_sound [OF run fact_docs_ok] show ?thesis by simp
qed

lemma seven_fits: "request_fits seven_review seven_candidate seven cash_metric ''SOLO'' seven_docs" "fc_review seven_candidate = ''PENDING''"
  by (simp_all add: request_fits_def seven_review_def seven_docs_def fact_docs_def no_docs_def cash_metric_def seven_candidate_def new_candidate_def
      fact_request_def Let_def verify_evidence_and_basis_def candidate_evidence_of_def seven_evidence_def check_evidence_def
      version_mime_text_def str_lower_def lower_char_def located_evidence_def index_evidence_def non_negative_def str_upper_def upper_char_def)

definition seven_key :: natural_key where
  "seven_key = candidate_key seven_candidate 1 4 ''SOLO''"

theorem approval_outcome_witness:
  "\<exists>f t. approve_candidate zero_sha (\<lambda>x. x) seven_review (fresh_session seven_docs) =
      (Inr (mark_reviewed ''APPROVED'' ''SOLO'' seven_candidate, f), t) \<and> ledger (published t) seven_key = [seven]"
proof -
  obtain res t where run: "approve_candidate zero_sha (\<lambda>x. x) seven_review (fresh_session seven_docs) = (res, t)" by fastforce
  have k: "seven_key = candidate_key seven_candidate (rv_org seven_review) (md_id cash_metric) ''SOLO''"
    by (simp add: seven_key_def seven_review_def cash_metric_def)
  have "ledger seven_docs seven_key = []" by (simp add: ledger_def key_facts_def seven_docs_def fact_docs_def no_docs_def)
  with approval_outcome [OF seven_docs_ok seven_fits run k] run show ?thesis by auto
qed

theorem fact_store_refines_ledger_witness:
  "\<exists>e. fact_run zero_sha (\<lambda>r. []) fact_docs e \<and> ledger_step\<^sup>*\<^sup>* (ledger fact_docs) (ledger e) \<and> ledger e seven_key = [seven]"
proof -
  define e where "e = perform_fact_op zero_sha (\<lambda>r. []) (\<lambda>x. x) (Approve seven_review) seven_docs"
  have one: "fact_run zero_sha (\<lambda>r. []) fact_docs seven_docs"
    using fact_run.operate [OF fact_run.idle nobody_interferes, of zero_sha "\<lambda>r. []" fact_docs "Propose fact_request"] seven_proposed by simp
  have run: "fact_run zero_sha (\<lambda>r. []) fact_docs e"
    unfolding e_def by (rule fact_run.operate [OF one nobody_interferes])
  have none: "key_facts k seven_docs = []" for k by (simp add: key_facts_def seven_docs_def fact_docs_def no_docs_def)
  define f where "f = new_fact (rv_fact_id seven_review) (rv_org seven_review) (rv_reviewer seven_review) seven_candidate cash_metric seven ''SOLO'' None"
  have "fact_constraints f seven_docs = Inr ()"
    using none [of "natural_key_of f"] active_is_last [OF seven_docs_ok] by (simp add: fact_constraints_Inr seven_docs_def fact_docs_def no_docs_def)
  then have "e = approved zero_sha seven_review seven_candidate ''SOLO'' f seven_docs"
    using approve_candidate_run [OF seven_docs_ok seven_fits, of zero_sha] none active_is_last [OF seven_docs_ok] approve_new_run [OF f_def, of zero_sha seven_docs]
    by (simp add: e_def perform_fact_op_def)
  then have "ledger e seven_key = [seven]"
    using none [of seven_key] by (simp add: ledger_def key_facts_def approved_def f_def new_fact_def natural_key_of_def seven_key_def
        candidate_key_def seven_review_def cash_metric_def)
  with fact_store_refines_ledger [OF run fact_docs_ok] run show ?thesis by blast
qed

end
