(* ===== verification/TextScan.thy ===== *)
theory TextScan
  imports Normalization
begin

text \<open>
  Regular expressions of the ingestion code as scanners. A scanner sees whether the character before
  its position is a digit (for \<open>(?<!\d)\<close>) and the text from its position on, and returns a value with
  the text after the match. \<open>scan_all\<close> is \<open>findall\<close>, \<open>scan_first\<close> is \<open>search\<close> and \<open>scan_sub\<close> is \<open>sub\<close>.
\<close>

type_synonym 'a scanner = "bool \<Rightarrow> string \<Rightarrow> ('a \<times> string) option"

text \<open>The character before the rest of a match is a digit.\<close>

definition ends_in_digit :: "bool \<Rightarrow> string \<Rightarrow> string \<Rightarrow> bool" where
  "ends_in_digit prev s rest = (if length s \<le> length rest then prev else is_digit (s ! (length s - length rest - 1)))"

function scan_all :: "'a scanner \<Rightarrow> bool \<Rightarrow> string \<Rightarrow> 'a list" where
  "scan_all p prev s =
     (case p prev s of
        Some (x, rest) \<Rightarrow>
          if length rest < length s then x # scan_all p (ends_in_digit prev s rest) rest
          else (case s of [] \<Rightarrow> [x] | c # cs \<Rightarrow> x # scan_all p (is_digit c) cs)
      | None \<Rightarrow> (case s of [] \<Rightarrow> [] | c # cs \<Rightarrow> scan_all p (is_digit c) cs))"
  by pat_completeness auto
termination by (relation "measure (\<lambda>(p, prev, s). length s)") auto

fun scan_first :: "'a scanner \<Rightarrow> bool \<Rightarrow> string \<Rightarrow> 'a option" where
  "scan_first p prev [] = map_option fst (p prev [])"
| "scan_first p prev (c # cs) = (case p prev (c # cs) of Some (x, _) \<Rightarrow> Some x | None \<Rightarrow> scan_first p (is_digit c) cs)"

function scan_sub :: "'a scanner \<Rightarrow> string \<Rightarrow> bool \<Rightarrow> string \<Rightarrow> string" where
  "scan_sub p new prev s =
     (case p prev s of
        Some (x, rest) \<Rightarrow>
          if length rest < length s then new @ scan_sub p new (ends_in_digit prev s rest) rest
          else (case s of [] \<Rightarrow> new | c # cs \<Rightarrow> new @ c # scan_sub p new (is_digit c) cs)
      | None \<Rightarrow> (case s of [] \<Rightarrow> [] | c # cs \<Rightarrow> c # scan_sub p new (is_digit c) cs))"
  by pat_completeness auto
termination by (relation "measure (\<lambda>(p, new, prev, s). length s)") auto

declare scan_all.simps [simp del] scan_sub.simps [simp del]

text \<open>\<open>\d{lo,hi}\<close> (the code never has a digit follow it), a character of a set, \<open>\s+\<close>, and a word in any case.\<close>

definition some_digits :: "nat \<Rightarrow> nat \<Rightarrow> string \<Rightarrow> (nat \<times> string) option" where
  "some_digits lo hi s = (let ds = takeWhile is_digit (take hi s)
     in if lo \<le> length ds then Some (digits_value ds, drop (length ds) s) else None)"

definition one_of :: "string \<Rightarrow> string \<Rightarrow> string option" where
  "one_of cs s = (case s of [] \<Rightarrow> None | c # r \<Rightarrow> if c \<in> set cs then Some r else None)"

definition some_space :: "string \<Rightarrow> string option" where
  "some_space s = (if s \<noteq> [] \<and> is_space (hd s) then Some (dropWhile is_space s) else None)"

fun some_word :: "(string \<times> 'a) list \<Rightarrow> string \<Rightarrow> ('a \<times> string) option" where
  "some_word [] s = None"
| "some_word ((w, x) # ws) s = (if is_prefix_of w (str_lower s) then Some (x, drop (length w) s) else some_word ws s)"

definition not_digit_next :: "string \<Rightarrow> bool" where
  "not_digit_next s \<longleftrightarrow> s = [] \<or> \<not> is_digit (hd s)"

definition bind_opt :: "'a option \<Rightarrow> ('a \<Rightarrow> 'b option) \<Rightarrow> 'b option" where
  "bind_opt m f = (case m of None \<Rightarrow> None | Some x \<Rightarrow> f x)"

lemma bind_opt_Some: "bind_opt m f = Some y \<longleftrightarrow> (\<exists>x. m = Some x \<and> f x = Some y)"
  by (simp add: bind_opt_def split: option.splits)

section \<open>Dates as text\<close>

text \<open>A number with leading zeros.\<close>

fun fixed_digits :: "nat \<Rightarrow> nat \<Rightarrow> string" where
  "fixed_digits 0 n = []"
| "fixed_digits (Suc k) n = fixed_digits k (n div 10) @ [digit_char (n mod 10)]"

text \<open>\<open>str(date)\<close>.\<close>

definition date_str :: "date \<Rightarrow> string" where
  "date_str d = fixed_digits 4 (nat (dyear d)) @ ''-'' @ fixed_digits 2 (nat (dmonth d)) @ ''-'' @ fixed_digits 2 (nat (dday d))"

lemma fixed_digits_inject: "m < 10 ^ k \<Longrightarrow> n < 10 ^ k \<Longrightarrow> fixed_digits k m = fixed_digits k n \<Longrightarrow> m = n"
proof (induction k arbitrary: m n)
  case (Suc k)
  have "m div 10 = n div 10" using Suc by (auto simp: less_mult_imp_div_less mult.commute)
  moreover have "digit_char (m mod 10) = digit_char (n mod 10)" using Suc.prems(3) by simp
  then have "m mod 10 = n mod 10" by (metis add_left_cancel mod_less_divisor of_digit_char zero_less_numeral)
  ultimately show ?case by (metis div_mult_mod_eq)
qed simp

lemma length_fixed_digits [simp]: "length (fixed_digits k n) = k"
  by (induction k arbitrary: n) simp_all

end
