(* ===== verification/LlmFacts.thy ===== *)
theory LlmFacts
  imports TextScan DocumentStore
begin

text \<open>
  \<open>services/llm_fact_extraction_service.py\<close> and \<open>orchestration/injection_boundary.py\<close>: reading figures
  of a document with a model, which is the parameter \<open>provider\<close> from the text of a request to the
  arguments of its tool calls. \<open>str_of\<close> is Python's \<open>str\<close> of a JSON value that is no string.

  Strings are Latin-1, so the spellings of months and phrases with other Turkish letters, and the
  minus sign U+2212, are left out.

  Main result: every figure kept has an allowed metric, is printed in the excerpt it cites, and names
  no period but the one of the document; the number and the size of the requests are bounded.
\<close>

section \<open>Periods\<close>

definition tr_months :: "(string \<times> nat) list" where
  "tr_months = [(''ocak'', 1), (''subat'', 2), (''mart'', 3), (''nisan'', 4), (''mayis'', 5), (''haziran'', 6), (''temmuz'', 7),
     (''agustos'', 8), ([CHR ''e'', CHR ''y'', CHR ''l'', CHR 0xFC, CHR ''l''], 9), (''eylul'', 9), (''ekim'', 10), (''kasim'', 11),
     (''aralik'', 12)]"

definition tr_text_date :: "(nat \<times> nat \<times> nat) scanner" where
  "tr_text_date prev s =
     bind_opt (some_digits 1 2 s) (\<lambda>(day, r1). bind_opt (some_space r1) (\<lambda>r2.
     bind_opt (some_word tr_months r2) (\<lambda>(month, r3). bind_opt (some_space r3) (\<lambda>r4.
     bind_opt (some_digits 4 4 r4) (\<lambda>(year, r5). Some ((year, month, day), r5))))))"

definition numeric_date :: "(nat \<times> nat \<times> nat) scanner" where
  "numeric_date prev s = (if prev then None else
     bind_opt (some_digits 1 2 s) (\<lambda>(day, r1). bind_opt (one_of ''./'' r1) (\<lambda>r2.
     bind_opt (some_digits 1 2 r2) (\<lambda>(month, r3). bind_opt (one_of ''./'' r3) (\<lambda>r4.
     bind_opt (some_digits 4 4 r4) (\<lambda>(year, r5). if not_digit_next r5 then Some ((year, month, day), r5) else None))))))"

definition dates_in_text :: "string \<Rightarrow> (nat \<times> nat \<times> nat) list" where
  "dates_in_text t = remdups (scan_all tr_text_date False t @ scan_all numeric_date False t)"

definition prior_period_phrases :: "string list" where
  "prior_period_phrases = [[CHR 0xF6] @ ''nceki d'' @ [CHR 0xF6] @ ''nem'', ''onceki donem'', ''gecen yil'', ''prior period'',
     ''previous period'', ''donem basi'', ''opening balance'']"

text \<open>\<open>str.casefold\<close>: lower case, with the sharp s as two letters.\<close>

definition str_casefold :: "string \<Rightarrow> string" where
  "str_casefold s = concat (map (\<lambda>c. if c = CHR 0xDF then ''ss'' else [lower_char c]) s)"

definition names_the_comparative_column :: "string \<Rightarrow> bool" where
  "names_the_comparative_column t = list_ex (\<lambda>p. contains_sub p (str_casefold t)) prior_period_phrases"

definition date_triple :: "date \<Rightarrow> nat \<times> nat \<times> nat" where
  "date_triple d = (nat (dyear d), nat (dmonth d), nat (dday d))"

definition states_a_conflicting_period :: "string \<Rightarrow> date option \<Rightarrow> bool" where
  "states_a_conflicting_period t period_end =
     (case period_end of
        None \<Rightarrow> False
      | Some d \<Rightarrow> (let ds = dates_in_text t in ds \<noteq> [] \<and> (date_triple d \<notin> set ds \<or> 1 < length ds)))"

definition normalise_for_matching :: "string \<Rightarrow> string" where
  "normalise_for_matching t = filter (\<lambda>c. \<not> is_space c) t"

section \<open>Requests\<close>

text \<open>A chunk as a parser returns it.\<close>

record parsed_chunk =
  pc_index :: int
  pc_type :: string
  pc_content :: string
  pc_lineage :: location

definition max_batches_per_document :: nat where
  "max_batches_per_document = 12"

definition max_chars_per_batch :: nat where
  "max_chars_per_batch = 12000"

type_synonym batch = "(nat \<times> string) list"

fun collect_batches :: "batch list \<Rightarrow> batch \<Rightarrow> nat \<Rightarrow> nat \<Rightarrow> parsed_chunk list \<Rightarrow> batch list" where
  "collect_batches batches current chars position [] =
     (if current \<noteq> [] \<and> length batches < max_batches_per_document then batches @ [current] else batches)"
| "collect_batches batches current chars position (c # cs) =
     (let content = take max_chars_per_batch (str_strip (pc_content c)) in
      if str_strip (pc_content c) = [] then collect_batches batches current chars (position + 1) cs
      else if current \<noteq> [] \<and> max_chars_per_batch < chars + length content then
        (if max_batches_per_document \<le> length (batches @ [current]) then batches @ [current]
         else collect_batches (batches @ [current]) [(position, content)] (length content) (position + 1) cs)
      else collect_batches batches (current @ [(position, content)]) (chars + length content) (position + 1) cs)"

definition build_batches :: "parsed_chunk list \<Rightarrow> batch list" where
  "build_batches chunks = collect_batches [] [] 0 0 chunks"

text \<open>\<open>str.replace\<close> of a non-empty text.\<close>

function replace_text :: "string \<Rightarrow> string \<Rightarrow> string \<Rightarrow> string" where
  "replace_text old new [] = []"
| "replace_text old new (c # cs) =
     (if old \<noteq> [] \<and> is_prefix_of old (c # cs) then new @ replace_text old new (drop (length old) (c # cs))
      else c # replace_text old new cs)"
  by pat_completeness auto
termination by (relation "measure (\<lambda>(old, new, s). length s)") auto

definition closing_tag :: string where
  "closing_tag = ''</untrusted_document_content>''"

definition wrap_untrusted_content :: "string \<Rightarrow> string" where
  "wrap_untrusted_content raw = ''<untrusted_document_content>'' @ [CHR 10] @ replace_text closing_tag ''[TAG_CLOSED_ATTEMPT]'' raw @
     [CHR 10] @ closing_tag"

definition build_user_message :: "batch \<Rightarrow> string \<Rightarrow> string" where
  "build_user_message batch context_hint = joined [CHR 10, CHR 10]
     ((''Filing context: '' @ context_hint @ ''. Report only figures printed in the excerpts below.'') #
      map (\<lambda>(i, _, content). ''<excerpt index='' @ [CHR 0x22] @ nat_str i @ [CHR 0x22] @ ''>'' @ [CHR 10] @
          wrap_untrusted_content content @ [CHR 10] @ ''</excerpt>'') (zip [0..<length batch] batch))"

definition allowed_scales :: "string list" where
  "allowed_scales = [''ONE'', ''THOUSAND'', ''MILLION'', ''BILLION'']"

text \<open>The tool offered to the model: its codes, each described by the statement line it stands for.\<close>

definition tool_legend :: "string list \<Rightarrow> (string \<times> string) list \<Rightarrow> string" where
  "tool_legend codes names =
     (let described = [c @ '' = '' @ the (map_of names c). c \<leftarrow> codes, map_of names c \<noteq> None]
      in if described = [] then [] else '' Each code stands for this statement line: '' @ joined ''; '' described @ ''.'')"

definition max_facts_per_batch :: int where
  "max_facts_per_batch = 40"

definition text_property :: "string \<Rightarrow> int \<Rightarrow> string \<times> json" where
  "text_property k n = (k, JObj [(''type'', JStr ''string''), (''maxLength'', JInt n)])"

definition choice_property :: "string \<Rightarrow> string list \<Rightarrow> string \<times> json" where
  "choice_property k xs = (k, JObj [(''type'', JStr ''string''), (''enum'', JList (map JStr xs))])"

definition closed_object :: "(string \<times> json) list \<Rightarrow> string list \<Rightarrow> json" where
  "closed_object props required = JObj [(''type'', JStr ''object''), (''additionalProperties'', JBool False),
     (''properties'', JObj props), (''required'', JList (map JStr required))]"

definition build_extraction_tool :: "string list \<Rightarrow> (string \<times> string) list \<Rightarrow> json" where
  "build_extraction_tool codes names = JObj [(''name'', JStr ''report_financial_figures''),
     (''description'', JStr (''Report financial figures that appear verbatim in the provided excerpts. Omit anything uncertain.'' @
        tool_legend codes names)),
     (''input_schema'', closed_object
        [(''figures'', JObj [(''type'', JStr ''array''), (''maxItems'', JInt max_facts_per_batch), (''items'', closed_object
           [choice_property ''metric_code'' codes, text_property ''raw_label'' 300, text_property ''raw_value'' 60,
            text_property ''currency'' 10, choice_property ''scale'' (sort allowed_scales), text_property ''period_hint'' 60,
            (''excerpt_index'', JObj [(''type'', JStr ''integer'')])]
           [''metric_code'', ''raw_label'', ''raw_value'', ''excerpt_index'', ''period_hint''])])]
        [''figures''])]"

section \<open>Reading the answer\<close>

record extracted_fact =
  xf_metric :: string
  xf_label :: string
  xf_value :: string
  xf_chunk :: nat
  xf_currency :: "string option"
  xf_scale :: "string option"
  xf_period :: "string option"

record llm_result =
  lr_facts :: "extracted_fact list"
  lr_batches :: nat
  lr_proposed :: nat
  lr_unverified :: nat
  lr_unknown_metric :: nat
  lr_period_mismatch :: nat

definition empty_llm_result :: llm_result where
  "empty_llm_result = \<lparr>lr_facts = [], lr_batches = 0, lr_proposed = 0, lr_unverified = 0, lr_unknown_metric = 0, lr_period_mismatch = 0\<rparr>"

fun json_truthy :: "json \<Rightarrow> bool" where
  "json_truthy JNull = False"
| "json_truthy (JBool b) = b"
| "json_truthy (JInt n) = (n \<noteq> 0)"
| "json_truthy (JStr s) = (s \<noteq> [])"
| "json_truthy (JList xs) = (xs \<noteq> [])"
| "json_truthy (JObj kvs) = (kvs \<noteq> [])"

definition py_str :: "(json \<Rightarrow> string) \<Rightarrow> json \<Rightarrow> string" where
  "py_str str_of j = (case j of JStr s \<Rightarrow> s | _ \<Rightarrow> str_of j)"

text \<open>\<open>str(figure.get(k, default)).strip()\<close>, and \<open>str(figure.get(k)).strip() or None\<close> when there is one.\<close>

definition text_field :: "(json \<Rightarrow> string) \<Rightarrow> (string \<times> json) list \<Rightarrow> string \<Rightarrow> string" where
  "text_field str_of fig k = (case map_of fig k of None \<Rightarrow> [] | Some v \<Rightarrow> str_strip (py_str str_of v))"

definition non_empty :: "string \<Rightarrow> string option" where
  "non_empty s = (if s = [] then None else Some s)"

definition optional_field :: "(json \<Rightarrow> string) \<Rightarrow> (string \<times> json) list \<Rightarrow> string \<Rightarrow> string option" where
  "optional_field str_of fig k = (case map_of fig k of None \<Rightarrow> None
     | Some v \<Rightarrow> if json_truthy v then non_empty (str_strip (py_str str_of v)) else None)"

text \<open>\<open>str(figure.get(k) or "")\<close>.\<close>

definition text_or_empty :: "(json \<Rightarrow> string) \<Rightarrow> (string \<times> json) list \<Rightarrow> string \<Rightarrow> string" where
  "text_or_empty str_of fig k = (case map_of fig k of None \<Rightarrow> [] | Some v \<Rightarrow> if json_truthy v then py_str str_of v else [])"

text \<open>An index in range; a Boolean is an integer to \<open>isinstance\<close>.\<close>

definition excerpt_index :: "(string \<times> json) list \<Rightarrow> nat \<Rightarrow> nat option" where
  "excerpt_index fig n = (case map_of fig ''excerpt_index'' of
      Some (JInt i) \<Rightarrow> if 0 \<le> i \<and> i < int n then Some (nat i) else None
    | Some (JBool b) \<Rightarrow> if (if b then 1 else 0) < n then Some (if b then 1 else 0) else None
    | _ \<Rightarrow> None)"

definition scale_field :: "(json \<Rightarrow> string) \<Rightarrow> (string \<times> json) list \<Rightarrow> string option" where
  "scale_field str_of fig = (let s = str_upper (str_strip (text_or_empty str_of fig ''scale''))
     in if s \<in> set allowed_scales then Some s else None)"

definition conflicting_figure :: "string \<Rightarrow> string \<Rightarrow> date option \<Rightarrow> bool" where
  "conflicting_figure label hint period_end \<longleftrightarrow> states_a_conflicting_period label period_end \<or>
     states_a_conflicting_period hint period_end \<or> names_the_comparative_column label \<or> names_the_comparative_column hint"

definition verify_figure ::
  "(json \<Rightarrow> string) \<Rightarrow> batch \<Rightarrow> string list \<Rightarrow> date option \<Rightarrow> (string \<times> json) list \<Rightarrow> llm_result \<Rightarrow> llm_result" where
  "verify_figure str_of batch metrics period_end fig r0 =
     (let r = r0\<lparr>lr_proposed := lr_proposed r0 + 1\<rparr>;
          code = text_field str_of fig ''metric_code'';
          value = text_field str_of fig ''raw_value'';
          label = text_field str_of fig ''raw_label'';
          hint = text_or_empty str_of fig ''period_hint''
      in if code \<notin> set metrics then r\<lparr>lr_unknown_metric := lr_unknown_metric r + 1\<rparr>
         else (case excerpt_index fig (length batch) of
             None \<Rightarrow> r\<lparr>lr_unverified := lr_unverified r + 1\<rparr>
           | Some i \<Rightarrow>
               if value = [] \<or> \<not> contains_sub (normalise_for_matching value) (normalise_for_matching (snd (batch ! i)))
               then r\<lparr>lr_unverified := lr_unverified r + 1\<rparr>
               else if conflicting_figure label hint period_end then r\<lparr>lr_period_mismatch := lr_period_mismatch r + 1\<rparr>
               else r\<lparr>lr_facts := lr_facts r @ [\<lparr>xf_metric = code, xf_label = (if label = [] then code else label), xf_value = value,
                      xf_chunk = fst (batch ! i), xf_currency = optional_field str_of fig ''currency'', xf_scale = scale_field str_of fig,
                      xf_period = optional_field str_of fig ''period_hint''\<rparr>]\<rparr>))"

fun verify_and_collect ::
  "(json \<Rightarrow> string) \<Rightarrow> batch \<Rightarrow> string list \<Rightarrow> date option \<Rightarrow> json list \<Rightarrow> llm_result \<Rightarrow> py_exc + llm_result" where
  "verify_and_collect str_of batch metrics period_end [] r = Inr r"
| "verify_and_collect str_of batch metrics period_end (JObj fig # figs) r =
     verify_and_collect str_of batch metrics period_end figs (verify_figure str_of batch metrics period_end fig r)"
| "verify_and_collect str_of batch metrics period_end (_ # figs) r = Inl (AppError ''AttributeError'' ''get'')"

text \<open>The first tool call whose arguments hold a list of figures; the adapter's arguments are dictionaries.\<close>

fun figures_from_response :: "(string \<times> json) list list \<Rightarrow> json list" where
  "figures_from_response [] = []"
| "figures_from_response (args # calls) =
     (case map_of args ''figures'' of Some (JList xs) \<Rightarrow> xs | _ \<Rightarrow> figures_from_response calls)"

text \<open>The model: from the tool and the text of the request to the arguments of its tool calls, or an exception.\<close>

type_synonym provider = "json \<Rightarrow> string \<Rightarrow> py_exc + (string \<times> json) list list"

fun read_batches ::
  "(string \<Rightarrow> py_exc + (string \<times> json) list list) \<Rightarrow> (json \<Rightarrow> string) \<Rightarrow> string list \<Rightarrow> string \<Rightarrow> date option \<Rightarrow> batch list \<Rightarrow>
    llm_result \<Rightarrow> py_exc + llm_result" where
  "read_batches model str_of metrics hint period_end [] r = Inr r"
| "read_batches model str_of metrics hint period_end (b # bs) r =
     bindE (model (build_user_message b hint)) (\<lambda>calls.
     bindE (verify_and_collect str_of b metrics period_end (figures_from_response calls) (r\<lparr>lr_batches := lr_batches r + 1\<rparr>))
       (read_batches model str_of metrics hint period_end bs))"

definition llm_extract ::
  "provider \<Rightarrow> (json \<Rightarrow> string) \<Rightarrow> parsed_chunk list \<Rightarrow> string list \<Rightarrow> string \<Rightarrow> date option \<Rightarrow> (string \<times> string) list \<Rightarrow>
    py_exc + llm_result" where
  "llm_extract provider str_of chunks metrics hint period_end names =
     (if metrics = [] then Inr empty_llm_result
      else read_batches (provider (build_extraction_tool (sort (remdups metrics)) names)) str_of metrics hint period_end
        (build_batches chunks) empty_llm_result)"

section \<open>What is kept is printed\<close>

lemma normalise_strip: "normalise_for_matching (str_strip s) = normalise_for_matching s"
proof -
  have d: "filter (\<lambda>c. \<not> is_space c) (dropWhile is_space t) = filter (\<lambda>c. \<not> is_space c) t" for t
    by (induction t) auto
  show ?thesis by (simp add: normalise_for_matching_def str_strip_def d flip: rev_filter)
qed

lemma contains_in_take:
  assumes "contains_sub v (normalise_for_matching (take n s))"
  shows "contains_sub v (normalise_for_matching s)"
proof -
  have "normalise_for_matching s = normalise_for_matching (take n s) @ normalise_for_matching (drop n s)"
    unfolding normalise_for_matching_def by (metis append_take_drop_id filter_append)
  with assms show ?thesis unfolding contains_sub_iff by (metis append.assoc)
qed

text \<open>An excerpt of a batch is the beginning of its chunk.\<close>

definition excerpt_of :: "parsed_chunk list \<Rightarrow> nat \<times> string \<Rightarrow> bool" where
  "excerpt_of chunks x \<longleftrightarrow> fst x < length chunks \<and> snd x = take max_chars_per_batch (str_strip (pc_content (chunks ! fst x)))"

definition batch_chars :: "batch \<Rightarrow> nat" where
  "batch_chars b = sum_list (map (length \<circ> snd) b)"

definition batch_ok :: "parsed_chunk list \<Rightarrow> batch \<Rightarrow> bool" where
  "batch_ok chunks b \<longleftrightarrow> (\<forall>x \<in> set b. excerpt_of chunks x) \<and> batch_chars b \<le> max_chars_per_batch"

lemma collect_batches_ok:
  assumes "\<forall>b \<in> set batches. batch_ok (pre @ cs) b" "batch_ok (pre @ cs) current" "chars = batch_chars current"
    "length batches < max_batches_per_document" "position = length pre"
  shows "(\<forall>b \<in> set (collect_batches batches current chars position cs). batch_ok (pre @ cs) b) \<and>
    length (collect_batches batches current chars position cs) \<le> max_batches_per_document"
  using assms
proof (induction batches current chars position cs arbitrary: pre rule: collect_batches.induct)
  case (1 batches current chars position)
  then show ?case by auto
next
  case (2 batches current chars position c cs)
  let ?x = "(position, take max_chars_per_batch (str_strip (pc_content c)))"
  have one: "excerpt_of (pre @ c # cs) ?x" using 2(8) by (simp add: excerpt_of_def)
  then have single: "batch_ok (pre @ c # cs) [?x]" by (simp add: batch_ok_def batch_chars_def)
  have flush: "\<forall>b \<in> set (batches @ [current]). batch_ok (pre @ c # cs) b" using 2(4,5) by simp
  have shift: "(pre @ [c]) @ cs = pre @ c # cs" by simp
  show ?case
  proof (cases "str_strip (pc_content c) = []")
    case True
    then show ?thesis using 2(1) [OF refl True, of "pre @ [c]"] 2(4-8) by simp
  next
    case filled: False
    show ?thesis
    proof (cases "current \<noteq> [] \<and> max_chars_per_batch < chars + length (snd ?x)")
      case full: True
      show ?thesis
      proof (cases "max_batches_per_document \<le> length (batches @ [current])")
        case True
        then have "collect_batches batches current chars position (c # cs) = batches @ [current]"
          using filled full by (simp add: Let_def)
        then show ?thesis using flush 2(7) by simp
      next
        case False
        then show ?thesis
          using 2(2) [OF refl filled _ False, of "pre @ [c]"] full filled flush single 2(8) by (simp add: Let_def batch_chars_def)
      qed
    next
      case False
      then have "batch_ok (pre @ c # cs) (current @ [?x])"
        using 2(5,6) one by (cases "current = []") (auto simp: batch_ok_def batch_chars_def)
      moreover have "collect_batches batches current chars position (c # cs) =
          collect_batches batches (current @ [?x]) (chars + length (snd ?x)) (position + 1) cs"
        using False filled unfolding collect_batches.simps Let_def snd_conv by (simp only: if_False simp_thms)
      ultimately show ?thesis
        using 2(3) [OF refl filled, of "pre @ [c]"] False filled 2(4,6,7,8) by (simp add: batch_chars_def)
    qed
  qed
qed

lemma build_batches_ok: "(\<forall>b \<in> set (build_batches chunks). batch_ok chunks b) \<and> length (build_batches chunks) \<le> max_batches_per_document"
  using collect_batches_ok [of "[]" "[]" chunks "[]" 0 0]
  by (simp add: build_batches_def batch_ok_def batch_chars_def max_batches_per_document_def)

text \<open>A text that names neither a period other than the document's nor the comparative column.\<close>

definition of_period :: "date option \<Rightarrow> string \<Rightarrow> bool" where
  "of_period period_end t \<longleftrightarrow> \<not> states_a_conflicting_period t period_end \<and> \<not> names_the_comparative_column t"

text \<open>What holds of a figure that was kept, and of the counters. The period kept is the answer's hint
  without its outer white space.\<close>

definition printed_fact :: "parsed_chunk list \<Rightarrow> string list \<Rightarrow> date option \<Rightarrow> extracted_fact \<Rightarrow> bool" where
  "printed_fact chunks metrics period_end f \<longleftrightarrow> xf_metric f \<in> set metrics \<and> xf_value f \<noteq> [] \<and> xf_chunk f < length chunks \<and>
     contains_sub (normalise_for_matching (xf_value f)) (normalise_for_matching (pc_content (chunks ! xf_chunk f))) \<and>
     (xf_label f = xf_metric f \<or> of_period period_end (xf_label f)) \<and>
     (\<exists>hint. of_period period_end hint \<and> xf_period f = non_empty (str_strip hint)) \<and>
     (case xf_scale f of None \<Rightarrow> True | Some k \<Rightarrow> k \<in> set allowed_scales)"

lemma period_hint_kept: "optional_field str_of fig k = non_empty (str_strip (text_or_empty str_of fig k))"
  by (simp add: optional_field_def text_or_empty_def non_empty_def str_strip_def split: option.splits)

lemma scale_field_allowed: "scale_field str_of fig = Some k \<Longrightarrow> k \<in> set allowed_scales"
  by (auto simp: scale_field_def Let_def split: if_splits)

definition counted :: "llm_result \<Rightarrow> bool" where
  "counted r \<longleftrightarrow> lr_proposed r = length (lr_facts r) + lr_unverified r + lr_unknown_metric r + lr_period_mismatch r"

definition sound_result :: "parsed_chunk list \<Rightarrow> string list \<Rightarrow> date option \<Rightarrow> llm_result \<Rightarrow> bool" where
  "sound_result chunks metrics period_end r \<longleftrightarrow> (\<forall>f \<in> set (lr_facts r). printed_fact chunks metrics period_end f) \<and> counted r"

lemma excerpt_index_bound: "excerpt_index fig n = Some i \<Longrightarrow> i < n"
  by (auto simp: excerpt_index_def split: option.splits json.splits if_splits)

lemma verify_figure_sound:
  assumes "batch_ok chunks batch" "sound_result chunks metrics period_end r"
  shows "sound_result chunks metrics period_end (verify_figure str_of batch metrics period_end fig r) \<and>
    lr_batches (verify_figure str_of batch metrics period_end fig r) = lr_batches r"
proof -
  have seen: "contains_sub (normalise_for_matching v) (normalise_for_matching (pc_content (chunks ! fst (batch ! i)))) \<and>
      fst (batch ! i) < length chunks"
    if "excerpt_index fig (length batch) = Some i" "contains_sub (normalise_for_matching v) (normalise_for_matching (snd (batch ! i)))" for i v
  proof -
    have "excerpt_of chunks (batch ! i)"
      using assms(1) excerpt_index_bound [OF that(1)] by (simp add: batch_ok_def)
    then have "snd (batch ! i) = take max_chars_per_batch (str_strip (pc_content (chunks ! fst (batch ! i))))"
      "fst (batch ! i) < length chunks" by (simp_all add: excerpt_of_def)
    with contains_in_take that(2) show ?thesis by (metis normalise_strip)
  qed
  then show ?thesis
    using assms(2) by (auto simp: verify_figure_def Let_def sound_result_def counted_def printed_fact_def conflicting_figure_def
        of_period_def period_hint_kept split: option.splits dest: scale_field_allowed)
qed

lemma verify_and_collect_sound:
  "verify_and_collect str_of batch metrics period_end figs r = Inr r' \<Longrightarrow> batch_ok chunks batch \<Longrightarrow>
    sound_result chunks metrics period_end r \<Longrightarrow> sound_result chunks metrics period_end r' \<and> lr_batches r' = lr_batches r"
  by (induction str_of batch metrics period_end figs r rule: verify_and_collect.induct) (auto simp: verify_figure_sound)

lemma read_batches_sound:
  "read_batches model str_of metrics hint period_end bs r = Inr r' \<Longrightarrow> \<forall>b \<in> set bs. batch_ok chunks b \<Longrightarrow>
    sound_result chunks metrics period_end r \<Longrightarrow> sound_result chunks metrics period_end r' \<and> lr_batches r' = lr_batches r + length bs"
proof (induction bs arbitrary: r)
  case (Cons b bs)
  from Cons.prems(1) obtain calls r1 where r1:
    "verify_and_collect str_of b metrics period_end (figures_from_response calls) (r\<lparr>lr_batches := lr_batches r + 1\<rparr>) = Inr r1"
    "read_batches model str_of metrics hint period_end bs r1 = Inr r'" by (auto simp: exc_simps)
  have "sound_result chunks metrics period_end (r\<lparr>lr_batches := lr_batches r + 1\<rparr>)"
    using Cons.prems(3) by (simp add: sound_result_def counted_def)
  with verify_and_collect_sound [OF r1(1), of chunks] Cons.prems(2) have "sound_result chunks metrics period_end r1" "lr_batches r1 = lr_batches r + 1"
    by simp_all
  then show ?case using Cons.IH [OF r1(2)] Cons.prems(2) by simp
qed simp

text \<open>C38: whatever the model answers, every figure that is kept has one of the metrics asked for, is printed
  in the chunk it points to (up to white space), has an allowed scale or none, and neither its label nor the
  period the model stated for it names a period other than the document's or the comparative column; every
  figure proposed is kept or counted as rejected; and the document is sent in at most 12 requests of at most
  12000 characters of its text.\<close>

theorem llm_facts_are_printed:
  assumes "llm_extract provider str_of chunks metrics hint period_end names = Inr r"
  shows "(\<forall>f \<in> set (lr_facts r). printed_fact chunks metrics period_end f) \<and>
    lr_proposed r = length (lr_facts r) + lr_unverified r + lr_unknown_metric r + lr_period_mismatch r \<and> lr_batches r \<le> 12 \<and>
    (\<forall>b \<in> set (build_batches chunks). batch_chars b \<le> 12000)"
proof -
  have start: "sound_result chunks metrics period_end empty_llm_result" "lr_batches empty_llm_result = 0"
    by (simp_all add: sound_result_def counted_def empty_llm_result_def)
  with assms build_batches_ok [of chunks] have "sound_result chunks metrics period_end r \<and> lr_batches r \<le> max_batches_per_document"
    by (auto simp: llm_extract_def split: if_splits dest!: read_batches_sound [where chunks = chunks])
  with build_batches_ok [of chunks] show ?thesis
    by (simp add: sound_result_def counted_def batch_ok_def max_batches_per_document_def max_chars_per_batch_def)
qed

definition sample_chunks :: "parsed_chunk list" where
  "sample_chunks = [\<lparr>pc_index = 0, pc_type = ''TEXT'', pc_content = ''Total 7,5'', pc_lineage = []\<rparr>]"

definition sample_figure :: "string \<Rightarrow> json" where
  "sample_figure v = JObj [(''metric_code'', JStr ''TA''), (''raw_label'', JStr ''Total''), (''raw_value'', JStr v),
     (''excerpt_index'', JInt 0), (''period_hint'', JStr ''1.3.2026'')]"

definition sample_answer :: llm_result where
  "sample_answer = \<lparr>lr_facts = [\<lparr>xf_metric = ''TA'', xf_label = ''Total'', xf_value = ''7,5'', xf_chunk = 0, xf_currency = None,
     xf_scale = None, xf_period = Some ''1.3.2026''\<rparr>], lr_batches = 1, lr_proposed = 2, lr_unverified = 1, lr_unknown_metric = 0,
     lr_period_mismatch = 0\<rparr>"

lemma sample_answer_read:
  "llm_extract (\<lambda>_ _. Inr [[(''figures'', JList [sample_figure ''7,5'', sample_figure ''9''])]]) (\<lambda>_. []) sample_chunks [''TA''] []
     (Some (Date 2026 3 1)) [] = Inr sample_answer"
  unfolding llm_extract_def by code_simp

lemma llm_facts_are_printed_witness:
  "printed_fact sample_chunks [''TA''] (Some (Date 2026 3 1)) (hd (lr_facts sample_answer)) \<and> lr_batches sample_answer \<le> 12"
  using llm_facts_are_printed [OF sample_answer_read] by (simp add: sample_answer_def)

end
