(* ===== verification/ValueLocator.thy ===== *)
theory ValueLocator
  imports TextScan
begin

text \<open>
  \<open>parsers/value_locator.py\<close>: where on a page a figure is printed. The words of a page are what pdfplumber
  extracts (the parameter \<open>page_words\<close>, None when it raises or there is no such page); the cache of the
  last page changes no result and is left out. Coordinates are rationals.

  Main result: the pruned search finds the first run of at most six words that spells the value, as
  the exhaustive search does.
\<close>

record page_word =
  w_text :: string
  w_x0 :: rat
  w_top :: rat
  w_x1 :: rat
  w_bottom :: rat

definition max_words_per_page :: nat where
  "max_words_per_page = 6000"

definition max_words_per_value :: nat where
  "max_words_per_value = 6"

definition normalise :: "string \<Rightarrow> string" where
  "normalise t = filter (\<lambda>c. \<not> is_space c) t"

definition union_bbox :: "page_word list \<Rightarrow> (string \<times> rat) list" where
  "union_bbox ws = [(''x0'', Min (set (map w_x0 ws))), (''y0'', Min (set (map w_top ws))),
     (''x1'', Max (set (map w_x1 ws))), (''y1'', Max (set (map w_bottom ws)))]"

text \<open>The inner loop, from the words joined so far.\<close>

fun extend_run :: "string \<Rightarrow> page_word list \<Rightarrow> string \<Rightarrow> nat \<Rightarrow> page_word list \<Rightarrow> (string \<times> rat) list option" where
  "extend_run target run joined 0 ws = None"
| "extend_run target run joined (Suc k) [] = None"
| "extend_run target run joined (Suc k) (w # ws) =
     (let j = joined @ normalise (w_text w) in
      if j = target then Some (union_bbox (run @ [w]))
      else if \<not> is_prefix_of j target then None
      else extend_run target (run @ [w]) j k ws)"

fun locate_from :: "string \<Rightarrow> page_word list \<Rightarrow> (string \<times> rat) list option" where
  "locate_from target [] = None"
| "locate_from target (w # ws) =
     (case extend_run target [] [] max_words_per_value (w # ws) of Some b \<Rightarrow> Some b | None \<Rightarrow> locate_from target ws)"

definition locate_in_words :: "page_word list \<Rightarrow> string \<Rightarrow> (string \<times> rat) list option" where
  "locate_in_words ws v = (let target = normalise v in if target = [] then None else locate_from target ws)"

definition words_for_page :: "(int \<Rightarrow> page_word list option) \<Rightarrow> int \<Rightarrow> page_word list" where
  "words_for_page page_words n = (case page_words n of None \<Rightarrow> []
     | Some ws \<Rightarrow> if max_words_per_page < length ws then [] else ws)"

definition locate :: "(int \<Rightarrow> page_word list option) \<Rightarrow> int option \<Rightarrow> string \<Rightarrow> (string \<times> rat) list option" where
  "locate page_words page v = (case page of None \<Rightarrow> None
     | Some n \<Rightarrow> if n = 0 \<or> v = [] then None else locate_in_words (words_for_page page_words n) v)"

section \<open>The exhaustive search\<close>

definition spelled :: "page_word list \<Rightarrow> string" where
  "spelled ws = concat (map (normalise \<circ> w_text) ws)"

text \<open>The shortest beginning of at most \<open>k\<close> words, and of all positions the first, that spells the target.\<close>

definition shortest_run :: "string \<Rightarrow> nat \<Rightarrow> page_word list \<Rightarrow> page_word list option" where
  "shortest_run target k ws = find (\<lambda>r. spelled r = target) (map (\<lambda>n. take n ws) [1..<Suc (min k (length ws))])"

fun first_run :: "string \<Rightarrow> nat \<Rightarrow> page_word list \<Rightarrow> page_word list option" where
  "first_run target k [] = None"
| "first_run target k (w # ws) = (case shortest_run target k (w # ws) of Some r \<Rightarrow> Some r | None \<Rightarrow> first_run target k ws)"

lemma find_none: "(\<forall>x \<in> set xs. \<not> P x) \<Longrightarrow> find P xs = None"
  by (simp add: find_None_iff)

text \<open>With the words of \<open>run\<close> already joined.\<close>

definition longer_run :: "string \<Rightarrow> page_word list \<Rightarrow> nat \<Rightarrow> page_word list \<Rightarrow> page_word list option" where
  "longer_run target run k ws = find (\<lambda>r. spelled r = target) (map (\<lambda>n. run @ take n ws) [1..<Suc (min k (length ws))])"

lemma upt_shift: "[1..<Suc (Suc n)] = 1 # map Suc [1..<Suc n]"
  by (metis One_nat_def Suc_le_mono le0 map_Suc_upt upt_conv_Cons zero_less_Suc Suc_less_eq)

lemma longer_run_Cons:
  "longer_run target run (Suc k) (w # ws) =
    (if spelled (run @ [w]) = target then Some (run @ [w]) else longer_run target (run @ [w]) k ws)"
  by (simp only: longer_run_def length_Cons min_Suc_Suc upt_shift list.map find.simps map_map comp_def)
    (simp del: upt_Suc)

lemma extend_run_longer:
  "joined = spelled run \<Longrightarrow> extend_run target run joined k ws = map_option union_bbox (longer_run target run k ws)"
proof (induction target run joined k ws rule: extend_run.induct)
  case (3 target run joined k w ws)
  let ?j = "spelled (run @ [w])"
  have j: "joined @ normalise (w_text w) = ?j" using 3(2) by (simp add: spelled_def)
  show ?case
  proof (cases "is_prefix_of ?j target")
    case True
    then show ?thesis using 3(1) [OF refl] j by (simp add: Let_def longer_run_Cons)
  next
    case False
    then have "?j \<noteq> target" by (auto simp: is_prefix_of_iff)
    moreover have "longer_run target (run @ [w]) k ws = None"
      using False unfolding longer_run_def by (intro find_none) (auto simp: spelled_def is_prefix_of_iff)
    ultimately show ?thesis using False j by (simp add: Let_def longer_run_Cons)
  qed
qed (simp_all add: longer_run_def)

lemma longer_run_Nil: "longer_run target [] k ws = shortest_run target k ws"
  by (simp add: longer_run_def shortest_run_def)

text \<open>C39: the search for a figure on a page, which gives up a run of words as soon as it no longer is a
  beginning of the figure, is the exhaustive search: it returns the rectangle of the first run of at
  most six words that spells the figure, the shortest at its position, and None only when there is none.
  (The docstring of \<open>locate_in_words\<close> promises the shortest run of the page; see \<open>first_not_shortest\<close>.)\<close>

theorem locate_is_exhaustive:
  "locate_in_words ws v = (if normalise v = [] then None else map_option union_bbox (first_run (normalise v) max_words_per_value ws))"
proof -
  have "locate_from target ws = map_option union_bbox (first_run target max_words_per_value ws)" for target
    by (induction target ws rule: locate_from.induct)
      (simp_all add: extend_run_longer [where run = "[]"] spelled_def longer_run_Nil split: option.splits)
  then show ?thesis by (simp add: locate_in_words_def Let_def)
qed

text \<open>Of the words 1, 23 and 123, the figure 123 is placed over the first two, not on the one word that is it.\<close>

definition sample_word :: "string \<Rightarrow> rat \<Rightarrow> rat \<Rightarrow> page_word" where
  "sample_word t l r = \<lparr>w_text = t, w_x0 = l, w_top = 0, w_x1 = r, w_bottom = 1\<rparr>"

lemma first_not_shortest:
  "locate_in_words [sample_word ''1'' 0 1, sample_word ''23'' 2 3, sample_word ''123'' 8 9] ''123'' =
    Some [(''x0'', 0), (''y0'', 0), (''x1'', 3), (''y1'', 1)]"
  by (simp add: locate_in_words_def max_words_per_value_def numeral_eq_Suc normalise_def is_space_def union_bbox_def
      sample_word_def Let_def)

end
