(* ===== verification/FactExtraction.thy ===== *)
theory FactExtraction
  imports FactCandidates LlmFacts ValueLocator
begin

text \<open>
  \<open>services/fact_extraction_service.py\<close>: what a document is about is read from its file name, its table
  rows become candidates, and a document without recognised rows is read by the model. Reference data
  is made when an upload is finalized (\<open>ensure_reference_data\<close>) and only read by the worker. New
  identifiers come from \<open>ids\<close>, a function of the number of the candidate; \<open>env\<close> is what other sessions
  do before the insertion of that candidate.
\<close>

section \<open>The name of a document\<close>

definition dmy_date :: "(nat \<times> nat \<times> nat) scanner" where
  "dmy_date prev s = (if prev then None else
     bind_opt (some_digits 2 2 s) (\<lambda>(d, r1). bind_opt (one_of ''._-/'' r1) (\<lambda>r2.
     bind_opt (some_digits 2 2 r2) (\<lambda>(m, r3). bind_opt (one_of ''._-/'' r3) (\<lambda>r4.
     bind_opt (some_digits 4 4 r4) (\<lambda>(y, r5). if not_digit_next r5 then Some ((y, m, d), r5) else None))))))"

definition ymd_date :: "(nat \<times> nat \<times> nat) scanner" where
  "ymd_date prev s = (if prev then None else
     bind_opt (some_digits 4 4 s) (\<lambda>(y, r1). bind_opt (one_of ''._-/'' r1) (\<lambda>r2.
     bind_opt (some_digits 2 2 r2) (\<lambda>(m, r3). bind_opt (one_of ''._-/'' r3) (\<lambda>r4.
     bind_opt (some_digits 2 2 r4) (\<lambda>(d, r5). if not_digit_next r5 then Some ((y, m, d), r5) else None))))))"

definition solo_hints :: "string list" where
  "solo_hints = [''solo'', ''unconsolidated'', ''banka'']"

definition consolidated_hints :: "string list" where
  "consolidated_hints = [''konsolide'', ''consolidated'', ''konsol'']"

definition context_tokens :: "string list" where
  "context_tokens = [''solo'', ''konsolide'', ''consolidated'', ''unconsolidated'', ''tr'', ''en'', ''pdf'', ''xlsx'', ''csv'',
     ''finansal'', ''rapor'', ''report'', ''bilanco'', ''bilan'' @ [CHR 0xE7] @ ''o'']"

record document_context =
  dc_code :: "string option"
  dc_period_end :: "date option"
  dc_basis :: string

text \<open>\<open>name.rsplit(".", 1)[0]\<close>.\<close>

definition stem_of :: "string \<Rightarrow> string" where
  "stem_of s = (if CHR ''.'' \<in> set s then rev (tl (dropWhile (\<lambda>c. c \<noteq> CHR ''.'') (rev s))) else s)"

definition name_char :: "char \<Rightarrow> bool" where
  "name_char c \<longleftrightarrow> is_digit c \<or> c \<in> set ''ABCDEFGHIJKLMNOPQRSTUVWXYZabcdefghijklmnopqrstuvwxyz'' \<or>
     c \<in> set [CHR 0xC7, CHR 0xD6, CHR 0xDC, CHR 0xE7, CHR 0xF6, CHR 0xFC]"

text \<open>The non-empty parts between other characters: \<open>[t for t in re.split("[^...]+", s) if t]\<close>.\<close>

fun name_tokens :: "string \<Rightarrow> string \<Rightarrow> string list" where
  "name_tokens t [] = (if t = [] then [] else [t])"
| "name_tokens t (c # cs) = (if name_char c then name_tokens (t @ [c]) cs
     else (if t = [] then name_tokens [] cs else t # name_tokens [] cs))"

text \<open>\<open>max(xs, key=len)\<close>: the first of the longest.\<close>

fun longest :: "string list \<Rightarrow> string option" where
  "longest [] = None"
| "longest (x # xs) = (case longest xs of None \<Rightarrow> Some x | Some y \<Rightarrow> if length x < length y then Some y else Some x)"

definition basis_of_name :: "string \<Rightarrow> string" where
  "basis_of_name lowered = (if list_ex (\<lambda>h. contains_sub h lowered) consolidated_hints then ''CONSOLIDATED''
     else if list_ex (\<lambda>h. contains_sub h lowered) solo_hints then ''SOLO'' else ''UNKNOWN'')"

definition date_of_triple :: "nat \<times> nat \<times> nat \<Rightarrow> date option" where
  "date_of_triple t = (case t of (y, m, d) \<Rightarrow>
     let x = Date (int y) (int m) (int d) in if valid_date x then Some x else None)"

definition period_of_name :: "string \<Rightarrow> date option" where
  "period_of_name stem = (case scan_first dmy_date False stem of
      Some t \<Rightarrow> date_of_triple t
    | None \<Rightarrow> (case scan_first ymd_date False stem of Some t \<Rightarrow> date_of_triple t | None \<Rightarrow> None))"

definition code_of_name :: "string \<Rightarrow> string option" where
  "code_of_name stem =
     (let cleaned = scan_sub ymd_date '' '' False (scan_sub dmy_date '' '' False stem);
          candidates = filter (\<lambda>t. str_lower t \<notin> set context_tokens \<and> \<not> list_all is_digit t) (name_tokens [] cleaned)
      in map_option str_upper (longest candidates))"

definition parse_document_context :: "string \<Rightarrow> document_context" where
  "parse_document_context name = (let stem = stem_of name in
     \<lparr>dc_code = code_of_name stem, dc_period_end = period_of_name stem, dc_basis = basis_of_name (str_lower stem)\<rparr>)"

section \<open>Reference data\<close>

definition find_institution :: "uuid \<Rightarrow> string \<Rightarrow> doc_db \<Rightarrow> py_exc + institution option" where
  "find_institution org code d = scalar_one_or_none (filter (\<lambda>i. inst_org i = org \<and> ilike (inst_canonical i) code) (b_institutions d))"

definition new_institution :: "uuid \<Rightarrow> uuid \<Rightarrow> string \<Rightarrow> institution" where
  "new_institution i org code = \<lparr>inst_id = i, inst_org = org, inst_canonical = code, inst_display = code, inst_type = ''BANK'',
     inst_country = ''TR'', inst_regulatory = None, inst_status = ''ACTIVE''\<rparr>"

text \<open>The unique key of institutions, and of periods.\<close>

definition insert_institution :: "institution \<Rightarrow> unit dochandler" where
  "insert_institution x = s_insert
     (\<lambda>d. raise_if (\<exists>y \<in> set (b_institutions d). inst_id y = inst_id x \<or> inst_org y = inst_org x \<and> inst_canonical y = inst_canonical x)
        IntegrityError)
     (\<lambda>d. d\<lparr>b_institutions := b_institutions d @ [x]\<rparr>)"

definition insert_period :: "reporting_period \<Rightarrow> unit dochandler" where
  "insert_period x = s_insert
     (\<lambda>d. raise_if (\<exists>y \<in> set (b_periods d). rp_id y = rp_id x \<or> rp_org y = rp_org x \<and> rp_type y = rp_type x \<and>
         rp_fiscal_year y = rp_fiscal_year x \<and> rp_comparison_key y = rp_comparison_key x) IntegrityError)
     (\<lambda>d. d\<lparr>b_periods := b_periods d @ [x]\<rparr>)"

definition resolve_institution :: "uuid \<Rightarrow> uuid \<Rightarrow> string \<Rightarrow> institution dochandler" where
  "resolve_institution i org code =
     bindP (s_read (find_institution org code)) (\<lambda>found.
     case found of
       Some x \<Rightarrow> retP x
     | None \<Rightarrow> bindP (insert_institution (new_institution i org code)) (\<lambda>_. retP (new_institution i org code)))"

definition quarter_of :: "date \<Rightarrow> int" where
  "quarter_of d = (dmonth d - 1) div 3 + 1"

definition quarter_key :: "date \<Rightarrow> string" where
  "quarter_key d = generate_comparison_key ''QUARTER'' (dyear d) (Some (quarter_of d))"

definition find_reporting_period :: "uuid \<Rightarrow> date \<Rightarrow> doc_db \<Rightarrow> py_exc + reporting_period option" where
  "find_reporting_period org period_end d =
     scalar_one_or_none (filter (\<lambda>p. rp_org p = org \<and> rp_comparison_key p = quarter_key period_end) (b_periods d))"

definition new_period :: "uuid \<Rightarrow> uuid \<Rightarrow> date \<Rightarrow> reporting_period" where
  "new_period i org e = \<lparr>rp_id = i, rp_org = org, rp_type = ''QUARTER'', rp_presentation = ''YEAR_TO_DATE'', rp_fiscal_year = dyear e,
     rp_quarter = Some (quarter_of e), rp_start = Date (dyear e) (3 * (quarter_of e - 1) + 1) 1, rp_end = e,
     rp_label = int_str (dyear e) @ ''/Q'' @ int_str (quarter_of e), rp_comparison_key = quarter_key e\<rparr>"

definition resolve_reporting_period :: "uuid \<Rightarrow> uuid \<Rightarrow> date \<Rightarrow> reporting_period dochandler" where
  "resolve_reporting_period i org e =
     bindP (s_read (find_reporting_period org e)) (\<lambda>found.
     case found of
       Some x \<Rightarrow> retP x
     | None \<Rightarrow> bindP (insert_period (new_period i org e)) (\<lambda>_. retP (new_period i org e)))"

definition ensure_reference_data :: "uuid \<Rightarrow> uuid \<Rightarrow> uuid \<Rightarrow> string \<Rightarrow> document_context dochandler" where
  "ensure_reference_data new_inst new_per org name =
     (let ctx = parse_document_context name in
      case (dc_code ctx, dc_period_end ctx) of
        (Some code, Some e) \<Rightarrow>
          bindP (resolve_institution new_inst org code) (\<lambda>_. bindP (resolve_reporting_period new_per org e) (\<lambda>_. retP ctx))
      | _ \<Rightarrow> retP ctx)"

section \<open>Table rows\<close>

text \<open>The first cell after the label that reads as a number.\<close>

definition row_of_line :: "string \<Rightarrow> (string \<times> string) option" where
  "row_of_line line =
     (let cells = map str_strip (str_split CHR ''|'' line) in
      if length cells < 2 \<or> hd cells = [] then None
      else map_option (\<lambda>c. (hd cells, c))
        (find (\<lambda>c. c \<noteq> [] \<and> pr_value (parse_financial_decimal c None) \<noteq> None) (tl cells)))"

definition iter_table_rows :: "string \<Rightarrow> (string \<times> string) list" where
  "iter_table_rows content = List.map_filter row_of_line (str_split (CHR 10) content)"

section \<open>Candidates\<close>

text \<open>A locator of figures, on the page the lineage names.\<close>

type_synonym locator = "int option \<Rightarrow> string \<Rightarrow> (string \<times> rat) list option"

definition page_number_of :: "loc_value \<Rightarrow> int option" where
  "page_number_of v = (case v of LInt n \<Rightarrow> Some n | LBool b \<Rightarrow> Some (if b then 1 else 0) | LFloat r \<Rightarrow> Some (if 0 \<le> r then \<lfloor>r\<rfloor> else - \<lfloor>- r\<rfloor>) | _ \<Rightarrow> None)"

definition evidence_location :: "location \<Rightarrow> string \<Rightarrow> locator option \<Rightarrow> location" where
  "evidence_location lineage raw_value locator =
     (case locator of
        None \<Rightarrow> lineage
      | Some f \<Rightarrow>
          let v = (if loc_truthy (loc_get lineage ''page_number'') then loc_get lineage ''page_number'' else loc_get lineage ''page'')
          in (case f (page_number_of v) raw_value of
                Some (kv # kvs) \<Rightarrow> dict_put ''bounding_box'' (LBox (kv # kvs)) lineage
              | _ \<Rightarrow> lineage))"

record extraction_args =
  xa_org :: uuid
  xa_document :: uuid
  xa_version :: uuid
  xa_name :: string
  xa_chunks :: "parsed_chunk list"
  xa_provider :: "provider option"
  xa_locator :: "locator option"

record extraction_summary =
  xs_created :: nat
  xs_rows :: nat
  xs_matched :: nat
  xs_context :: document_context
  xs_batches :: nat
  xs_proposed :: nat
  xs_rejected :: nat
  xs_llm_created :: nat

definition short_summary :: "nat \<Rightarrow> nat \<Rightarrow> nat \<Rightarrow> document_context \<Rightarrow> extraction_summary" where
  "short_summary created rows matched ctx = \<lparr>xs_created = created, xs_rows = rows, xs_matched = matched, xs_context = ctx,
     xs_batches = 0, xs_proposed = 0, xs_rejected = 0, xs_llm_created = 0\<rparr>"

definition max_candidates_per_version :: nat where
  "max_candidates_per_version = 200"

text \<open>The surroundings of the handler: digest, text of floats, new identifiers, other sessions, \<open>str\<close>.\<close>

record surroundings =
  e_sha :: "string \<Rightarrow> string"
  e_float :: "rat \<Rightarrow> string"
  e_str :: "json \<Rightarrow> string"
  e_ids :: "nat \<Rightarrow> uuid \<times> uuid"
  e_env :: "nat \<Rightarrow> doc_db \<Rightarrow> doc_db"

definition table_candidate ::
  "surroundings \<Rightarrow> extraction_args \<Rightarrow> institution \<Rightarrow> reporting_period \<Rightarrow> document_context \<Rightarrow> nat \<Rightarrow> parsed_chunk \<Rightarrow> string \<Rightarrow> string \<Rightarrow>
    candidate_args" where
  "table_candidate e a inst per ctx n c label raw =
     \<lparr>ca_id = fst (e_ids e n), ca_evidence_id = snd (e_ids e n), ca_org = xa_org a, ca_institution = inst_id inst, ca_period = rp_id per,
      ca_label = label, ca_value = raw, ca_document = xa_document a, ca_version = xa_version a, ca_currency = ''TRY'',
      ca_unit = ''CURRENCY'', ca_scale = ''ONE'', ca_basis = dc_basis ctx,
      ca_location = evidence_location (pc_lineage c) raw (xa_locator a), ca_method = ''PARSER_TABLE'',
      ca_snippet = Some (take 500 (label @ '' | '' @ raw)), ca_metric_code = None\<rparr>"

definition llm_candidate ::
  "surroundings \<Rightarrow> extraction_args \<Rightarrow> institution \<Rightarrow> reporting_period \<Rightarrow> document_context \<Rightarrow> nat \<Rightarrow> extracted_fact \<Rightarrow> candidate_args" where
  "llm_candidate e a inst per ctx n f =
     (let lineage = (if xf_chunk f < length (xa_chunks a) then pc_lineage (xa_chunks a ! xf_chunk f) else []) in
      \<lparr>ca_id = fst (e_ids e n), ca_evidence_id = snd (e_ids e n), ca_org = xa_org a, ca_institution = inst_id inst, ca_period = rp_id per,
       ca_label = xf_label f, ca_value = xf_value f, ca_document = xa_document a, ca_version = xa_version a,
       ca_currency = (if falsy_str (xf_currency f) then ''TRY'' else the (xf_currency f)), ca_unit = ''CURRENCY'',
       ca_scale = (if falsy_str (xf_scale f) then ''ONE'' else the (xf_scale f)), ca_basis = dc_basis ctx,
       ca_location = evidence_location lineage (xf_value f) (xa_locator a), ca_method = ''LLM_ASSISTED'',
       ca_snippet = Some (take 500 (xf_label f @ '' | '' @ xf_value f)), ca_metric_code = Some (xf_metric f)\<rparr>)"

text \<open>The rows of the TABLE chunks in order; the loop stops at the ceiling, which the result tells.\<close>

definition table_rows :: "parsed_chunk list \<Rightarrow> (parsed_chunk \<times> string \<times> string) list" where
  "table_rows chunks = concat (map (\<lambda>c. if pc_type c = ''TABLE'' then map (\<lambda>r. (c, r)) (iter_table_rows (pc_content c)) else []) chunks)"

fun extract_rows ::
  "surroundings \<Rightarrow> extraction_args \<Rightarrow> (nat \<Rightarrow> parsed_chunk \<Rightarrow> string \<Rightarrow> string \<Rightarrow> candidate_args) \<Rightarrow>
    (parsed_chunk \<times> string \<times> string) list \<Rightarrow> nat \<Rightarrow> nat \<Rightarrow> nat \<Rightarrow> (bool \<times> nat \<times> nat \<times> nat) dochandler" where
  "extract_rows e a mk [] created rows matched = retP (False, created, rows, matched)"
| "extract_rows e a mk ((c, label, raw) # rest) created rows matched =
     (if max_candidates_per_version \<le> created then retP (True, created, rows, matched)
      else bindP (s_read (match_metric_alias (xa_org a) label)) (\<lambda>m.
        case m of
          None \<Rightarrow> extract_rows e a mk rest created (rows + 1) matched
        | Some _ \<Rightarrow> bindP (create_candidate (e_sha e) (e_float e) (e_env e created) (mk created c label raw)) (\<lambda>_.
            extract_rows e a mk rest (created + 1) (rows + 1) (matched + 1))))"

definition active_metrics :: "doc_db \<Rightarrow> (string \<times> string) list" where
  "active_metrics d = dict_update [] (map (\<lambda>m. (md_code m, md_name m)) (filter (\<lambda>m. md_status m = ''ACTIVE'') (b_metrics d)))"

definition context_hint_text :: "string \<Rightarrow> date \<Rightarrow> string \<Rightarrow> string" where
  "context_hint_text code e basis =
     (let sep = '' '' @ [CHR 0xB7] @ '' '' in code @ sep @ ''period ending '' @ date_str e @ sep @ ''basis '' @ basis)"

definition record_llm_facts ::
  "surroundings \<Rightarrow> (nat \<Rightarrow> extracted_fact \<Rightarrow> candidate_args) \<Rightarrow> extracted_fact list \<Rightarrow> unit dochandler" where
  "record_llm_facts e mk fs = forP (\<lambda>(n, f). bindP (create_candidate (e_sha e) (e_float e) (e_env e n) (mk n f)) (\<lambda>_. retP ()))
     (zip [0..<length fs] (take max_candidates_per_version fs))"

definition read_with_model ::
  "surroundings \<Rightarrow> extraction_args \<Rightarrow> provider \<Rightarrow> institution \<Rightarrow> reporting_period \<Rightarrow> document_context \<Rightarrow> string \<Rightarrow> date \<Rightarrow> nat \<Rightarrow> nat \<Rightarrow>
    extraction_summary dochandler" where
  "read_with_model e a provider inst per ctx code period_end rows matched =
     bindP (s_read (\<lambda>d. Inr (active_metrics d))) (\<lambda>names.
     bindP (liftP (llm_extract provider (e_str e) (xa_chunks a) (map fst names) (context_hint_text code period_end (dc_basis ctx))
         (Some period_end) names)) (\<lambda>r.
     bindP (record_llm_facts e (llm_candidate e a inst per ctx) (lr_facts r)) (\<lambda>_.
     let n = min max_candidates_per_version (length (lr_facts r)) in
     retP \<lparr>xs_created = n, xs_rows = rows, xs_matched = matched, xs_context = ctx, xs_batches = lr_batches r,
       xs_proposed = lr_proposed r, xs_rejected = lr_unverified r + lr_unknown_metric r + lr_period_mismatch r, xs_llm_created = n\<rparr>)))"

definition extract_candidates :: "surroundings \<Rightarrow> extraction_args \<Rightarrow> extraction_summary dochandler" where
  "extract_candidates e a =
     (let ctx = parse_document_context (xa_name a) in
      case (dc_code ctx, dc_period_end ctx) of
        (Some code, Some period_end) \<Rightarrow>
          bindP (s_read (find_institution (xa_org a) code)) (\<lambda>inst.
          bindP (s_read (find_reporting_period (xa_org a) period_end)) (\<lambda>per.
          case (inst, per) of
            (Some i, Some p) \<Rightarrow>
              bindP (extract_rows e a (table_candidate e a i p ctx) (table_rows (xa_chunks a)) 0 0 0) (\<lambda>(full, created, rows, matched).
              case xa_provider a of
                Some provider \<Rightarrow>
                  if full \<or> 0 < created then retP (short_summary created rows matched ctx)
                  else read_with_model e a provider i p ctx code period_end rows matched
              | None \<Rightarrow> retP (short_summary created rows matched ctx))
          | _ \<Rightarrow> retP (short_summary 0 0 0 ctx)))
      | _ \<Rightarrow> retP (short_summary 0 0 0 ctx))"

text \<open>The hints are tested in the wrong order: an unconsolidated filing is taken for a consolidated one.\<close>

lemma unconsolidated_taken_for_consolidated:
  "contains_sub ''unconsolidated'' lowered \<Longrightarrow> basis_of_name lowered = ''CONSOLIDATED''"
proof -
  assume "contains_sub ''unconsolidated'' lowered"
  then obtain us vs where "lowered = us @ ''unconsolidated'' @ vs" by (auto simp: contains_sub_iff)
  then have "lowered = (us @ ''un'') @ ''consolidated'' @ vs" by simp
  then have "contains_sub ''consolidated'' lowered" unfolding contains_sub_iff by blast
  then show ?thesis by (simp add: basis_of_name_def consolidated_hints_def)
qed

end
