(* ===== verification/IngestionStates.thy ===== *)
theory IngestionStates
  imports DocumentStore Lifecycle
begin

text \<open>
  \<open>services/state_machine.py\<close>: the statuses of upload sessions, document versions and ingestion jobs,
  their tables of allowed changes, and the handlers that make a change with its audit event. The clock
  is the argument \<open>now\<close>. The three tables satisfy the contract of \<open>Lifecycle\<close>: of an ingestion job, the
  retries from PARSING and FAILED are the pauses.
\<close>

section \<open>The tables\<close>

type_synonym transitions = "(string \<times> string list) list"

definition session_transitions :: transitions where
  "session_transitions = [
     (''PENDING_UPLOAD'', [''UPLOADED'', ''FAILED'', ''EXPIRED'']),
     (''UPLOADED'', [''FINALIZED'', ''FAILED'', ''EXPIRED'']),
     (''FINALIZED'', []), (''EXPIRED'', []), (''FAILED'', [])]"

definition version_transitions :: transitions where
  "version_transitions = [
     (''PENDING_UPLOAD'', [''QUEUED'', ''FAILED'']),
     (''QUEUED'', [''PARSING'', ''FAILED'']),
     (''PARSING'', [''EXTRACTED'', ''COMPLETED'', ''COMPLETED_WITH_WARNINGS'', ''AWAITING_REVIEW'', ''REJECTED'', ''FAILED'', ''QUEUED'']),
     (''EXTRACTED'', [''COMPLETED'', ''COMPLETED_WITH_WARNINGS'', ''AWAITING_REVIEW'', ''REJECTED'', ''FAILED'']),
     (''COMPLETED'', []), (''COMPLETED_WITH_WARNINGS'', []), (''AWAITING_REVIEW'', []), (''REJECTED'', []), (''FAILED'', [])]"

definition job_transitions :: transitions where
  "job_transitions = [
     (''PENDING_UPLOAD'', [''UPLOADED'', ''FAILED'', ''EXPIRED'']),
     (''UPLOADED'', [''VALIDATING'', ''QUEUED'', ''FAILED'', ''CANCELLED'']),
     (''VALIDATING'', [''VALIDATED'', ''REJECTED'', ''FAILED'']),
     (''VALIDATED'', [''QUEUED'', ''FAILED'']),
     (''QUEUED'', [''PARSING'', ''FAILED'', ''CANCELLED'']),
     (''PARSING'', [''EXTRACTED'', ''COMPLETED'', ''COMPLETED_WITH_WARNINGS'', ''AWAITING_REVIEW'', ''REJECTED'', ''FAILED'', ''QUEUED'']),
     (''EXTRACTED'', [''COMPLETED'', ''COMPLETED_WITH_WARNINGS'', ''AWAITING_REVIEW'', ''REJECTED'', ''FAILED'']),
     (''FAILED'', [''QUEUED'']),
     (''CANCELLED'', []), (''EXPIRED'', []), (''COMPLETED'', []), (''COMPLETED_WITH_WARNINGS'', []), (''AWAITING_REVIEW'', []),
     (''REJECTED'', [])]"

text \<open>\<open>TABLE.get(status, set())\<close>.\<close>

definition allowed_targets :: "transitions \<Rightarrow> string \<Rightarrow> string list" where
  "allowed_targets tab s = (case map_of tab s of None \<Rightarrow> [] | Some ts \<Rightarrow> ts)"

definition check_transition :: "transitions \<Rightarrow> string \<Rightarrow> string \<Rightarrow> string \<Rightarrow> py_exc + unit" where
  "check_transition tab current expected target =
     raise_if (current \<noteq> expected \<or> target \<notin> set (allowed_targets tab current)) (HTTPError 400 ''INVALID_STATE_TRANSITION'')"

section \<open>The handlers\<close>

definition status_payload :: "string \<Rightarrow> string \<Rightarrow> (string \<times> json) list" where
  "status_payload current target = [(''from_state'', JStr current), (''to_state'', JStr target)]"

definition transition_upload_session ::
  "(string \<Rightarrow> string) \<Rightarrow> nat \<Rightarrow> uuid \<Rightarrow> string \<Rightarrow> string \<Rightarrow> uuid \<Rightarrow> uuid option \<Rightarrow> upload_session dochandler" where
  "transition_upload_session sha now i expected target org actor =
     bindP (s_read (\<lambda>d. scalar_one_or_none (filter (\<lambda>u. us_id u = i \<and> us_org u = org) (b_sessions d)))) (\<lambda>r.
     bindP (liftP (require_some (HTTPError 404 ''UPLOAD_SESSION_NOT_FOUND'') r)) (\<lambda>u.
     bindP (liftP (check_transition session_transitions (us_status u) expected target)) (\<lambda>_.
     let change = (\<lambda>u. u\<lparr>us_status := target, us_finalized := (if target = ''FINALIZED'' then Some now else us_finalized u)\<rparr>) in
     bindP (s_write (put_session change i)) (\<lambda>_.
     bindP (doc_audit sha org (''SESSION_STATE_'' @ target) ''UPLOAD_SESSION'' i actor (status_payload (us_status u) target)) (\<lambda>_.
     retP (change u))))))"

definition transition_version ::
  "(string \<Rightarrow> string) \<Rightarrow> uuid \<Rightarrow> string \<Rightarrow> string \<Rightarrow> uuid \<Rightarrow> uuid option \<Rightarrow> document_version dochandler" where
  "transition_version sha i expected target org actor =
     bindP (s_read (\<lambda>d. scalar_one_or_none (filter (\<lambda>v. dv_id v = i \<and> dv_org v = org) (b_versions d)))) (\<lambda>r.
     bindP (liftP (require_some (HTTPError 404 ''VERSION_NOT_FOUND'') r)) (\<lambda>v.
     bindP (liftP (check_transition version_transitions (dv_ingestion v) expected target)) (\<lambda>_.
     let change = (\<lambda>v. v\<lparr>dv_ingestion := target\<rparr>) in
     bindP (s_write (put_version change i)) (\<lambda>_.
     bindP (doc_audit sha org (''VERSION_STATE_'' @ target) ''DOCUMENT_VERSION'' i actor (status_payload (dv_ingestion v) target)) (\<lambda>_.
     retP (change v))))))"

definition completing :: "string list" where
  "completing = [''COMPLETED'', ''COMPLETED_WITH_WARNINGS'', ''AWAITING_REVIEW'', ''FAILED'', ''CANCELLED'']"

definition change_job :: "nat \<Rightarrow> string \<Rightarrow> ingestion_job \<Rightarrow> ingestion_job" where
  "change_job now target j = j\<lparr>ij_status := target, ij_completed := (if target \<in> set completing then Some now else ij_completed j)\<rparr>"

definition transition_job ::
  "(string \<Rightarrow> string) \<Rightarrow> nat \<Rightarrow> uuid \<Rightarrow> string \<Rightarrow> string \<Rightarrow> uuid \<Rightarrow> uuid option \<Rightarrow> ingestion_job dochandler" where
  "transition_job sha now i expected target org actor =
     bindP (s_read (\<lambda>d. scalar_one_or_none (filter (\<lambda>j. ij_id j = i \<and> ij_org j = org) (b_jobs d)))) (\<lambda>r.
     bindP (liftP (require_some (HTTPError 404 ''JOB_NOT_FOUND'') r)) (\<lambda>j.
     bindP (liftP (check_transition job_transitions (ij_status j) expected target)) (\<lambda>_.
     bindP (s_write (put_ingestion_job (change_job now target) i)) (\<lambda>_.
     bindP (doc_audit sha org (''JOB_STATE_'' @ target) ''INGESTION_JOB'' i actor (status_payload (ij_status j) target)) (\<lambda>_.
     retP (change_job now target j))))))"

text \<open>The alias that takes the organization from the row.\<close>

definition transition :: "(string \<Rightarrow> string) \<Rightarrow> nat \<Rightarrow> uuid \<Rightarrow> string \<Rightarrow> string \<Rightarrow> ingestion_job dochandler" where
  "transition sha now i expected target =
     bindP (s_read (\<lambda>d. scalar_one (filter (\<lambda>j. ij_id j = i) (b_jobs d)))) (\<lambda>j.
       transition_job sha now i expected target (ij_org j) None)"

section \<open>The contract\<close>

lemma allowed_upd: "allowed_targets ((k, ts) # tab) s = (if s = k then ts else allowed_targets tab s)"
  by (simp add: allowed_targets_def)

lemma allowed_none: "allowed_targets [] s = []"
  by (simp add: allowed_targets_def)

lemmas allowed_session = session_transitions_def allowed_upd allowed_none
lemmas allowed_version = version_transitions_def allowed_upd allowed_none
lemmas allowed_job = job_transitions_def allowed_upd allowed_none

definition ranked :: "(string \<times> nat) list \<Rightarrow> string \<Rightarrow> nat" where
  "ranked tab s = (case map_of tab s of None \<Rightarrow> 0 | Some n \<Rightarrow> n)"

definition session_rank :: "string \<Rightarrow> nat" where
  "session_rank = ranked [(''PENDING_UPLOAD'', 2), (''UPLOADED'', 1)]"

definition version_rank :: "string \<Rightarrow> nat" where
  "version_rank = ranked [(''PENDING_UPLOAD'', 4), (''QUEUED'', 3), (''PARSING'', 2), (''EXTRACTED'', 1)]"

definition job_rank :: "string \<Rightarrow> nat" where
  "job_rank = ranked [(''PENDING_UPLOAD'', 7), (''UPLOADED'', 6), (''VALIDATING'', 5), (''VALIDATED'', 4), (''QUEUED'', 3), (''PARSING'', 2),
     (''EXTRACTED'', 1)]"

text \<open>The changes a table allows, as a decidable statement about its rows.\<close>

definition table_ok :: "transitions \<Rightarrow> (string \<Rightarrow> bool) \<Rightarrow> (string \<Rightarrow> nat) \<Rightarrow> bool" where
  "table_ok tab pause rank \<longleftrightarrow> list_all (\<lambda>(s, ts). list_all (\<lambda>t. pause s \<or> rank t < rank s) ts \<and>
     (pause s \<or> ts = [] \<or> list_ex (\<lambda>t. allowed_targets tab t = [] \<or> pause t) ts)) tab"

lemma allowed_row: "t \<in> set (allowed_targets tab s) \<Longrightarrow> \<exists>ts. (s, ts) \<in> set tab \<and> allowed_targets tab s = ts \<and> t \<in> set ts"
  by (auto simp: allowed_targets_def split: option.splits dest: map_of_SomeD)

lemma table_falls: "table_ok tab pause rank \<Longrightarrow> t \<in> set (allowed_targets tab s) \<Longrightarrow> \<not> pause s \<Longrightarrow> rank t < rank s"
  by (drule allowed_row) (auto simp: table_ok_def list_all_iff)

lemma table_ends:
  "table_ok tab pause rank \<Longrightarrow> allowed_targets tab s \<noteq> [] \<Longrightarrow> \<not> pause s \<Longrightarrow> \<exists>t \<in> set (allowed_targets tab s). allowed_targets tab t = [] \<or> pause t"
  using allowed_row [of "hd (allowed_targets tab s)" tab s] by (fastforce simp: table_ok_def list_all_iff list_ex_iff)

interpretation session_lifecycle: lifecycle "allowed_targets session_transitions" "\<lambda>s. allowed_targets session_transitions s = []"
  "\<lambda>_. False" session_rank 2
proof
  fix s t
  have ok: "table_ok session_transitions (\<lambda>_. False) session_rank" by code_simp
  show "t \<in> set (allowed_targets session_transitions s) \<Longrightarrow> session_rank t < session_rank s" by (rule table_falls [OF ok]) simp_all
  show "allowed_targets session_transitions s \<noteq> [] \<Longrightarrow> \<exists>t \<in> set (allowed_targets session_transitions s). allowed_targets session_transitions t = [] \<or> False"
    using table_ends [OF ok] by blast
  show "session_rank s \<le> 2" by (simp add: session_rank_def ranked_def)
qed auto

interpretation version_lifecycle: lifecycle "allowed_targets version_transitions" "\<lambda>s. allowed_targets version_transitions s = []"
  "\<lambda>s. s = ''PARSING''" version_rank 4
proof
  fix s t
  have ok: "table_ok version_transitions (\<lambda>s. s = ''PARSING'') version_rank" by code_simp
  show "t \<in> set (allowed_targets version_transitions s) \<Longrightarrow> s \<noteq> ''PARSING'' \<Longrightarrow> version_rank t < version_rank s" by (rule table_falls [OF ok])
  show "allowed_targets version_transitions s \<noteq> [] \<Longrightarrow> s \<noteq> ''PARSING'' \<Longrightarrow>
      \<exists>t \<in> set (allowed_targets version_transitions s). allowed_targets version_transitions t = [] \<or> t = ''PARSING''"
    by (rule table_ends [OF ok])
  show "version_rank s \<le> 4" by (simp add: version_rank_def ranked_def)
qed auto

interpretation job_lifecycle: lifecycle "allowed_targets job_transitions" "\<lambda>s. allowed_targets job_transitions s = []"
  "\<lambda>s. s = ''PARSING'' \<or> s = ''FAILED''" job_rank 7
proof
  fix s t
  have ok: "table_ok job_transitions (\<lambda>s. s = ''PARSING'' \<or> s = ''FAILED'') job_rank" by code_simp
  show "t \<in> set (allowed_targets job_transitions s) \<Longrightarrow> \<not> (s = ''PARSING'' \<or> s = ''FAILED'') \<Longrightarrow> job_rank t < job_rank s"
    by (rule table_falls [OF ok])
  show "allowed_targets job_transitions s \<noteq> [] \<Longrightarrow> \<not> (s = ''PARSING'' \<or> s = ''FAILED'') \<Longrightarrow>
      \<exists>t \<in> set (allowed_targets job_transitions s). allowed_targets job_transitions t = [] \<or> (t = ''PARSING'' \<or> t = ''FAILED'')"
    by (rule table_ends [OF ok])
  show "job_rank s \<le> 7" by (simp add: job_rank_def ranked_def)
qed auto

end
