(* ===== verification/CommandEnvelope.thy ===== *)
theory CommandEnvelope
  imports TextScan
begin

text \<open>
  \<open>services/worker/app/command_envelope.py\<close>: the signed command a worker processes a document for. A
  moment is a UTC datetime; \<open>hmac\<close> with SHA-256 is the parameter \<open>mac\<close> (key and text to digest), the
  environment of the process a parameter as well.

  Main results: the signed text determines every signed field, whatever delimiters the fields hold,
  and an envelope that validates was signed with the key of its \<open>key_id\<close>, for the very same fields,
  unless the digest was forged.
\<close>

section \<open>Moments\<close>

datatype moment = Moment (m_date: date) (m_hour: nat) (m_minute: nat) (m_second: nat) (m_micro: nat)

definition moment_us :: "moment \<Rightarrow> int" where
  "moment_us t = (((toordinal (m_date t) * 24 + int (m_hour t)) * 60 + int (m_minute t)) * 60 + int (m_second t)) * 1000000 +
     int (m_micro t)"

definition valid_moment :: "moment \<Rightarrow> bool" where
  "valid_moment t \<longleftrightarrow> valid_date (m_date t) \<and> m_hour t < 24 \<and> m_minute t < 60 \<and> m_second t < 60 \<and> m_micro t < 1000000"

text \<open>\<open>strftime("%Y-%m-%dT%H:%M:%S.%fZ")\<close>.\<close>

definition iso_text :: "moment \<Rightarrow> string" where
  "iso_text t = nat_str (nat (dyear (m_date t))) @ ''-'' @ fixed_digits 2 (nat (dmonth (m_date t))) @ ''-'' @
     fixed_digits 2 (nat (dday (m_date t))) @ ''T'' @ fixed_digits 2 (m_hour t) @ '':'' @ fixed_digits 2 (m_minute t) @ '':'' @
     fixed_digits 2 (m_second t) @ ''.'' @ fixed_digits 6 (m_micro t) @ ''Z''"

section \<open>The envelope\<close>

record envelope =
  env_job :: uuid
  env_command :: uuid
  env_type :: string
  env_issued :: moment
  env_expires :: moment
  env_key :: string
  env_schema :: string
  env_key_id :: string
  env_signature :: string

definition length_prefixed :: "string \<Rightarrow> string" where
  "length_prefixed p = nat_str (length p) @ '':'' @ p"

fun piped :: "string list \<Rightarrow> string" where
  "piped [] = []"
| "piped [p] = length_prefixed p"
| "piped (p # q # ps) = length_prefixed p @ ''|'' @ piped (q # ps)"

definition signed_parts :: "envelope \<Rightarrow> string list" where
  "signed_parts e = [env_schema e, uuid_str (env_command e), uuid_str (env_job e), env_type e, iso_text (env_issued e),
     iso_text (env_expires e), env_key e, env_key_id e]"

definition get_canonical_payload :: "envelope \<Rightarrow> string" where
  "get_canonical_payload e = piped (signed_parts e)"

definition compute_signature :: "(string \<Rightarrow> string \<Rightarrow> string) \<Rightarrow> string \<Rightarrow> envelope \<Rightarrow> py_exc + string" where
  "compute_signature mac secret e =
     bindE (raise_val (secret = []) ''COMMAND_KEY_UNAVAILABLE'') (\<lambda>_. Inr (mac secret (get_canonical_payload e)))"

definition with_signature :: "(string \<Rightarrow> string \<Rightarrow> string) \<Rightarrow> string \<Rightarrow> envelope \<Rightarrow> py_exc + envelope" where
  "with_signature mac secret e = bindE (compute_signature mac secret e) (\<lambda>s. Inr (e\<lparr>env_signature := s\<rparr>))"

definition is_expired :: "envelope \<Rightarrow> moment \<Rightarrow> bool" where
  "is_expired e now \<longleftrightarrow> moment_us (env_expires e) < moment_us now"

definition max_skew_us :: int where
  "max_skew_us = 300 * 1000000"

text \<open>\<open>hmac.compare_digest\<close> compares ASCII texts only.\<close>

definition ascii_text :: "string \<Rightarrow> bool" where
  "ascii_text s \<longleftrightarrow> list_all (\<lambda>c. of_char c < (128::nat)) s"

definition compare_digest :: "string \<Rightarrow> string \<Rightarrow> py_exc + bool" where
  "compare_digest a b =
     bindE (raise_if (\<not> ascii_text a \<or> \<not> ascii_text b)
       (AppError ''TypeError'' ''comparing strings with non-ASCII characters is not supported'')) (\<lambda>_. Inr (a = b))"

definition validate_envelope ::
  "(string \<Rightarrow> string \<Rightarrow> string) \<Rightarrow> (string \<Rightarrow> string) \<Rightarrow> moment \<Rightarrow> envelope \<Rightarrow> py_exc + unit" where
  "validate_envelope mac resolver now e =
     bindE (raise_val (env_schema e \<noteq> ''2.0.0'') ''COMMAND_SCHEMA_REJECTED'') (\<lambda>_.
     bindE (raise_val (env_type e \<noteq> ''PROCESS_INGESTION_JOB'') ''COMMAND_TYPE_INVALID'') (\<lambda>_.
     bindE (raise_val (is_expired e now) ''COMMAND_EXPIRED'') (\<lambda>_.
     bindE (raise_val (max_skew_us < \<bar>moment_us now - moment_us (env_issued e)\<bar>) ''COMMAND_CLOCK_SKEW'') (\<lambda>_.
     let secret = resolver (env_key_id e) in
     bindE (raise_val (secret = []) ''COMMAND_KEY_UNAVAILABLE'') (\<lambda>_.
     bindE (compute_signature mac secret e) (\<lambda>expected.
     bindE (compare_digest (env_signature e) expected) (\<lambda>same.
       raise_val (\<not> same) ''COMMAND_SIGNATURE_INVALID'')))))))"

text \<open>\<open>os.environ.get(name) or os.environ.get("INGESTION_HMAC_SECRET", "")\<close>.\<close>

definition default_secret_resolver :: "(string \<Rightarrow> string option) \<Rightarrow> string \<Rightarrow> string" where
  "default_secret_resolver environ key_id =
     (let named = environ (''INGESTION_HMAC_SECRET_'' @ map (\<lambda>c. if c = CHR ''-'' then CHR ''_'' else c) (str_upper key_id))
      in if \<not> falsy_str named then the named
         else (case environ ''INGESTION_HMAC_SECRET'' of None \<Rightarrow> [] | Some s \<Rightarrow> s))"

section \<open>The signed text determines the fields\<close>

lemma digits_then_other:
  assumes "nat_str m @ c # r = nat_str n @ c' # r'" "\<not> is_digit c" "\<not> is_digit c'"
  shows "m = n \<and> c # r = c' # r'"
proof -
  have tw: "takeWhile is_digit (nat_str k @ d # s) = nat_str k" if "\<not> is_digit d" for k d s
    using that nat_str_digits by (subst takeWhile_append2) auto
  have "nat_str m = nat_str n"
    using arg_cong [OF assms(1), of "takeWhile is_digit"] tw [OF assms(2)] tw [OF assms(3)] by simp
  with assms(1) show ?thesis by simp
qed

lemma colon_bar_not_digit: "\<not> is_digit CHR '':''" "\<not> is_digit CHR ''|''"
  by (simp_all add: is_digit_def)

lemma length_prefixed_prefix:
  assumes "length_prefixed p @ r = length_prefixed q @ r'"
  shows "p = q \<and> r = r'"
proof -
  from assms have "nat_str (length p) @ CHR '':'' # (p @ r) = nat_str (length q) @ CHR '':'' # (q @ r')"
    by (simp add: length_prefixed_def)
  from digits_then_other [OF this colon_bar_not_digit(1,1)] have "length p = length q" "p @ r = q @ r'" by simp_all
  then show ?thesis by simp
qed

lemma piped_inject: "length ps = length qs \<Longrightarrow> piped ps = piped qs \<Longrightarrow> ps = qs"
proof (induction ps arbitrary: qs rule: piped.induct)
  case (2 p)
  then obtain q where "qs = [q]" by (cases qs) auto
  with 2 length_prefixed_prefix [of p "[]" q "[]"] show ?case by simp
next
  case (3 p q ps)
  then obtain p' q' ps' where qs: "qs = p' # q' # ps'" by (cases qs rule: piped.cases) auto
  with 3(3) length_prefixed_prefix [of p "''|'' @ piped (q # ps)" p' "''|'' @ piped (q' # ps')"]
  have "p = p'" "piped (q # ps) = piped (q' # ps')" by simp_all
  moreover have "length (q # ps) = length (q' # ps')" using 3(2) qs by simp
  ultimately show ?case using 3(1) [of "q' # ps'"] qs by simp
qed simp

lemma valid_date_ranges:
  "valid_date d \<Longrightarrow> 1 \<le> dyear d \<and> 1 \<le> dmonth d \<and> dmonth d < 100 \<and> 1 \<le> dday d \<and> dday d < 100"
  by (auto simp: valid_date_def days_in_month_def split: if_splits)

lemma iso_text_inject:
  assumes "valid_moment s" "valid_moment t" "iso_text s = iso_text t"
  shows "s = t"
proof -
  note v = valid_date_ranges [of "m_date s"] valid_date_ranges [of "m_date t"]
  note d = digits_then_other [OF assms(3) [unfolded iso_text_def append_Cons append_Nil]]
  have nd: "\<not> is_digit CHR ''-''" by simp
  have f: "fixed_digits 2 a = fixed_digits 2 b \<longleftrightarrow> a = b" if "a < 100" "b < 100" for a b
    using that fixed_digits_inject [of a 2 b] by auto
  have y: "nat (dyear (m_date s)) = nat (dyear (m_date t))" and
    "nat (dmonth (m_date s)) = nat (dmonth (m_date t))" "nat (dday (m_date s)) = nat (dday (m_date t))"
    "m_hour s = m_hour t" "m_minute s = m_minute t" "m_second s = m_second t" "m_micro s = m_micro t"
    using d [OF nd nd] assms(1,2) v fixed_digits_inject [of "m_micro s" 6 "m_micro t"]
    by (auto simp: append_eq_append_conv valid_moment_def f nat_less_iff)
  moreover from this v assms(1,2) have "m_date s = m_date t"
    by (auto simp: valid_moment_def date.expand nat_eq_iff2 eq_nat_nat_iff)
  ultimately show ?thesis by (simp add: moment.expand)
qed

section \<open>Authenticity\<close>

definition valid_envelope :: "envelope \<Rightarrow> bool" where
  "valid_envelope e \<longleftrightarrow> env_job e < 2 ^ 128 \<and> env_command e < 2 ^ 128 \<and> valid_moment (env_issued e) \<and> valid_moment (env_expires e)"

lemma canonical_payload_inject:
  assumes "valid_envelope e" "valid_envelope f" "get_canonical_payload e = get_canonical_payload f"
  shows "e\<lparr>env_signature := s\<rparr> = f\<lparr>env_signature := s\<rparr>"
proof -
  have "signed_parts e = signed_parts f"
    using assms(3) by (intro piped_inject) (simp_all add: get_canonical_payload_def signed_parts_def)
  with assms(1,2) show ?thesis
    by (auto simp: signed_parts_def valid_envelope_def uuid_str_inject intro!: envelope.equality iso_text_inject)
qed

lemma compute_signature_simps:
  "compute_signature mac secret e = Inr s \<longleftrightarrow> secret \<noteq> [] \<and> s = mac secret (get_canonical_payload e)"
  by (auto simp: compute_signature_def raise_val_def raise_if_def bindE_def)

lemma with_signature_simps:
  "with_signature mac secret f = Inr e \<longleftrightarrow> secret \<noteq> [] \<and> e = f\<lparr>env_signature := mac secret (get_canonical_payload f)\<rparr>"
  by (auto simp: with_signature_def compute_signature_def raise_val_def raise_if_def bindE_def)

lemma payload_ignores_signature [simp]: "get_canonical_payload (f\<lparr>env_signature := s\<rparr>) = get_canonical_payload f"
  by (simp add: get_canonical_payload_def signed_parts_def)

definition accepted_fields :: "moment \<Rightarrow> envelope \<Rightarrow> bool" where
  "accepted_fields now e \<longleftrightarrow> env_schema e = ''2.0.0'' \<and> env_type e = ''PROCESS_INGESTION_JOB'' \<and>
     moment_us now \<le> moment_us (env_expires e) \<and> \<bar>moment_us now - moment_us (env_issued e)\<bar> \<le> max_skew_us"

lemma validate_envelope_iff:
  assumes "ascii_text (mac (resolver (env_key_id e)) (get_canonical_payload e))"
  shows "validate_envelope mac resolver now e = Inr () \<longleftrightarrow> accepted_fields now e \<and> resolver (env_key_id e) \<noteq> [] \<and>
    env_signature e = mac (resolver (env_key_id e)) (get_canonical_payload e)"
  using assms
  by (auto simp: validate_envelope_def accepted_fields_def is_expired_def compute_signature_def compare_digest_def
      raise_val_def raise_if_def bindE_def Let_def)

text \<open>C5: an envelope is accepted exactly when its schema and type are the supported ones, it has not
  expired, it was issued at most 300 seconds from now, and it is one of the envelopes a holder of the
  key signed, with every field as signed. This rests on HMAC: its digest is an ASCII text, and whoever
  has the digest of a text under the key got it from a signed envelope.\<close>

theorem envelope_accepted_iff_signed:
  assumes "valid_envelope e" "\<forall>f \<in> signed. valid_envelope f"
    and "\<forall>t. ascii_text (mac (resolver (env_key_id e)) t)"
    and unforged: "\<forall>t. mac (resolver (env_key_id e)) t = env_signature e \<longrightarrow> t \<in> get_canonical_payload ` signed"
  shows "validate_envelope mac resolver now e = Inr () \<longleftrightarrow> accepted_fields now e \<and>
    (\<exists>f \<in> signed. with_signature mac (resolver (env_key_id e)) f = Inr e)"
proof -
  have "\<exists>f \<in> signed. e = f\<lparr>env_signature := mac (resolver (env_key_id e)) (get_canonical_payload f)\<rparr>"
    if sig: "env_signature e = mac (resolver (env_key_id e)) (get_canonical_payload e)"
  proof -
    from unforged sig obtain f where f: "f \<in> signed" "get_canonical_payload e = get_canonical_payload f" by auto
    from canonical_payload_inject [OF assms(1) _ f(2)] assms(2) f(1)
    have "e\<lparr>env_signature := env_signature e\<rparr> = f\<lparr>env_signature := env_signature e\<rparr>" by blast
    moreover have "e\<lparr>env_signature := env_signature e\<rparr> = e" by simp
    ultimately have "e = f\<lparr>env_signature := env_signature e\<rparr>" by simp
    with f sig show ?thesis by metis
  qed
  moreover have "env_signature e = mac (resolver (env_key_id e)) (get_canonical_payload e)"
    if "e = f\<lparr>env_signature := mac (resolver (env_key_id e)) (get_canonical_payload f)\<rparr>" for f
    using arg_cong [OF that, of env_signature] arg_cong [OF that, of get_canonical_payload] by simp
  ultimately show ?thesis
    unfolding with_signature_simps using validate_envelope_iff assms(3) by blast
qed

definition sample_envelope :: envelope where
  "sample_envelope = \<lparr>env_job = 7, env_command = 9, env_type = ''PROCESS_INGESTION_JOB'',
     env_issued = Moment (Date 2026 7 30) 11 0 0 0, env_expires = Moment (Date 2026 7 30) 11 15 0 0, env_key = ''a|1:b'',
     env_schema = ''2.0.0'', env_key_id = ''key-v1'', env_signature = ''5e''\<rparr>"

definition sample_mac :: "string \<Rightarrow> string \<Rightarrow> string" where
  "sample_mac secret t = (if t = get_canonical_payload sample_envelope then ''5e'' else ''00'')"

lemma envelope_accepted_iff_signed_witness:
  "validate_envelope sample_mac (\<lambda>_. ''secret'') (Moment (Date 2026 7 30) 11 4 0 0) sample_envelope = Inr ()"
proof -
  have "valid_envelope sample_envelope"
    by (simp add: valid_envelope_def sample_envelope_def valid_moment_def valid_date_def days_in_month_def)
  moreover have "accepted_fields (Moment (Date 2026 7 30) 11 4 0 0) sample_envelope"
    by (simp add: accepted_fields_def sample_envelope_def moment_us_def max_skew_us_def toordinal_def)
  moreover have "with_signature sample_mac ''secret'' sample_envelope = Inr sample_envelope"
    by (simp add: with_signature_simps sample_mac_def) (simp add: sample_envelope_def)
  moreover have "sample_mac s t = env_signature sample_envelope \<longleftrightarrow> t = get_canonical_payload sample_envelope"
    and "ascii_text (sample_mac s t)" for s t
    by (simp_all add: sample_mac_def ascii_text_def sample_envelope_def)
  ultimately show ?thesis
    using envelope_accepted_iff_signed [of sample_envelope "{sample_envelope}" sample_mac "\<lambda>_. ''secret''"
        "Moment (Date 2026 7 30) 11 4 0 0"] by simp
qed

end
