(* ===== verification/IngestionWorker.thy ===== *)
theory IngestionWorker
  imports FactExtraction IngestionStates CommandEnvelope
begin

text \<open>
  \<open>services/worker/app/ingestion_worker.py\<close> with the SQL function \<open>claim_ingestion_job\<close>: a signed command
  claims a queued job (or one whose worker is gone for 15 minutes), is logged against replay, and the
  document is parsed into pages, chunks, a result and candidates, in one transaction; a failure is
  rolled back and counted as an attempt.

  Parameters: the storage, the parsers (a parser from the bytes and the name of a document to its
  output), the locator, the model, new identifiers, the clocks, and what other sessions do where this
  worker holds no lock. Rows of parsers fit their columns; the text of a database exception is taken
  not to contain \<open>UNKNOWN_PARSER_STATUS\<close>.
\<close>

section \<open>Outcomes\<close>

datatype outcome_status =
    NO_JOB_CLAIMED
  | PROCESSED_SUCCESS
  | PROCESSED_REVIEW_REQUIRED
  | PROCESSED_REJECTED
  | PROCESSED_FAILED
  | STALE_CLAIM_ABORTED
  | COMMAND_REJECTED

record process_outcome =
  wo_claimed :: bool
  wo_status :: outcome_status
  wo_job :: "uuid option"
  wo_error :: "string option"

definition job_outcome :: "bool \<Rightarrow> outcome_status \<Rightarrow> uuid option \<Rightarrow> string option \<Rightarrow> process_outcome" where
  "job_outcome c s j e = \<lparr>wo_claimed = c, wo_status = s, wo_job = j, wo_error = e\<rparr>"

definition known_safe_error_codes :: "string list" where
  "known_safe_error_codes = [''DOCUMENT_VERSION_NOT_FOUND'', ''UNSUPPORTED_MIME_TYPE'', ''ENCRYPTED_DOCUMENT'', ''MALFORMED_DOCUMENT'',
     ''RESOURCE_LIMIT_EXCEEDED'', ''ENCODING_UNCERTAIN'', ''NULL_BYTE_DETECTED'', ''ZIP_BOMB_LIMIT_EXCEEDED'', ''UNKNOWN_PARSER_STATUS'']"

definition valid_parser_statuses :: "string list" where
  "valid_parser_statuses = [''COMPLETED'', ''COMPLETED_WITH_WARNINGS'', ''AWAITING_REVIEW'', ''REJECTED'', ''FAILED'']"

text \<open>\<open>err.code\<close> and \<open>str(err)\<close>; the attributes of other exceptions are no known codes.\<close>

definition exc_code :: "py_exc \<Rightarrow> string option" where
  "exc_code e = (case e of AppError c _ \<Rightarrow> Some c | HTTPError _ c \<Rightarrow> Some c | _ \<Rightarrow> None)"

definition exc_text :: "py_exc \<Rightarrow> string" where
  "exc_text e = (case e of ValueError s \<Rightarrow> s | AppError _ m \<Rightarrow> m | _ \<Rightarrow> [])"

definition failure_code :: "py_exc \<Rightarrow> string" where
  "failure_code e =
     (if contains_sub ''UNKNOWN_PARSER_STATUS'' (exc_text e) then ''UNKNOWN_PARSER_STATUS''
      else (case exc_code e of
          Some c \<Rightarrow> if c \<in> set known_safe_error_codes then c else ''PARSER_FAILED''
        | None \<Rightarrow> ''PARSER_FAILED''))"

text \<open>Which outcome and which audit event a parser status has.\<close>

definition outcome_of :: "string \<Rightarrow> outcome_status" where
  "outcome_of s = (if s = ''AWAITING_REVIEW'' then PROCESSED_REVIEW_REQUIRED else if s = ''REJECTED'' then PROCESSED_REJECTED
     else if s = ''FAILED'' then PROCESSED_FAILED else PROCESSED_SUCCESS)"

definition event_of :: "string \<Rightarrow> string" where
  "event_of s = (if s = ''AWAITING_REVIEW'' then ''REVIEW_REQUIRED'' else if s = ''REJECTED'' then ''PARSING_REJECTED''
     else if s = ''FAILED'' then ''PARSING_FAILED'' else ''PARSING_COMPLETED'')"

section \<open>What the worker is given\<close>

record parser_output =
  po_parser :: string
  po_status :: string
  po_quality :: json
  po_pages :: "(int \<times> string) list"
  po_chunks :: "parsed_chunk list"
  po_warnings :: "string list"

type_synonym parser = "string \<Rightarrow> string \<Rightarrow> py_exc + parser_output"

record worker_env =
  wk_id :: string
  wk_mac :: "string \<Rightarrow> string \<Rightarrow> string"
  wk_resolver :: "string \<Rightarrow> string"
  wk_moment :: moment
  wk_clock :: nat
  wk_token :: uuid
  wk_attempt_id :: uuid
  wk_failed_id :: uuid
  wk_result_id :: uuid
  wk_page_id :: "nat \<Rightarrow> uuid"
  wk_busy :: bool
  wk_skipped :: bool
  wk_storage :: "uuid \<Rightarrow> string \<Rightarrow> py_exc + string"
  wk_parsers :: "(string \<times> parser) list"
  wk_model :: "provider option"
  wk_locator :: "string \<Rightarrow> locator"
  wk_around :: surroundings
  wk_after_claim :: "doc_db \<Rightarrow> doc_db"
  wk_after_failure :: "doc_db \<Rightarrow> doc_db"

abbreviation wk_sha :: "worker_env \<Rightarrow> string \<Rightarrow> string" where
  "wk_sha w \<equiv> e_sha (wk_around w)"

section \<open>Claiming\<close>

text \<open>\<open>claim_ingestion_job\<close>, whose SELECT skips a row another session holds. The clock counts seconds.\<close>

definition stale_after :: nat where
  "stale_after = 15 * 60"

definition claimable_job :: "nat \<Rightarrow> ingestion_job \<Rightarrow> bool" where
  "claimable_job now j \<longleftrightarrow> ij_status j = ''QUEUED'' \<or>
     ij_status j = ''PARSING'' \<and> (case ij_locked_at j of None \<Rightarrow> False | Some t \<Rightarrow> t + stale_after < now) \<and> ij_attempt j < ij_max j"

definition claim_ingestion_job :: "worker_env \<Rightarrow> uuid \<Rightarrow> ingestion_job option dochandler" where
  "claim_ingestion_job w i =
     bindP (s_read (\<lambda>d. Inr (if wk_busy w then None else find (\<lambda>j. ij_id j = i \<and> claimable_job (wk_clock w) j) (b_jobs d)))) (\<lambda>r.
     case r of
       None \<Rightarrow> retP None
     | Some j \<Rightarrow> bindP (s_write (put_ingestion_job (\<lambda>j. j\<lparr>ij_status := ''PARSING'', ij_locked_by := Some (wk_id w),
           ij_token := Some (wk_token w), ij_locked_at := Some (wk_clock w)\<rparr>) i)) (\<lambda>_. retP (Some j)))"

definition command_constraints :: "command_log \<Rightarrow> doc_db \<Rightarrow> py_exc + unit" where
  "command_constraints c d =
     bindE (raise_if (too_long 255 (cmd_key c)) DataError) (\<lambda>_.
       raise_if (\<exists>x \<in> set (b_commands d). cmd_id x = cmd_id c \<or> cmd_org x = cmd_org c \<and> cmd_key x = cmd_key c) IntegrityError)"

definition log_command :: "envelope \<Rightarrow> ingestion_job \<Rightarrow> unit dochandler" where
  "log_command e j =
     (let c = \<lparr>cmd_id = env_command e, cmd_job = ij_id j, cmd_org = ij_org j, cmd_type = env_type e, cmd_key = env_key e,
               cmd_schema = env_schema e\<rparr>
      in s_insert (command_constraints c) (\<lambda>d. d\<lparr>b_commands := b_commands d @ [c]\<rparr>))"

section \<open>Processing\<close>

definition get_parser :: "worker_env \<Rightarrow> string \<Rightarrow> py_exc + parser" where
  "get_parser w mime = require_some (HTTPError 415 ''UNSUPPORTED_FILE_TYPE'') (map_of (wk_parsers w) mime)"

definition store_pages :: "worker_env \<Rightarrow> uuid \<Rightarrow> uuid \<Rightarrow> (int \<times> string) list \<Rightarrow> unit dochandler" where
  "store_pages w org version pages = s_write (\<lambda>d. d\<lparr>b_pages := b_pages d @ map (\<lambda>(n, (number, text)).
     \<lparr>pg_id = wk_page_id w n, pg_org = org, pg_version = version, pg_number = number, pg_text = text\<rparr>) (zip [0..<length pages] pages)\<rparr>)"

definition page_map :: "worker_env \<Rightarrow> (int \<times> string) list \<Rightarrow> (int \<times> uuid) list" where
  "page_map w pages = dict_update [] (map (\<lambda>(n, (number, _)). (number, wk_page_id w n)) (zip [0..<length pages] pages))"

definition chunk_page :: "(int \<times> uuid) list \<Rightarrow> location \<Rightarrow> uuid option" where
  "chunk_page pages lineage = (case loc_get lineage ''page_number'' of LInt n \<Rightarrow> if n = 0 then None else map_of pages n | _ \<Rightarrow> None)"

definition store_chunks :: "worker_env \<Rightarrow> uuid \<Rightarrow> uuid \<Rightarrow> parser_output \<Rightarrow> unit dochandler" where
  "store_chunks w org version out = s_write (\<lambda>d. d\<lparr>b_chunks := b_chunks d @ map (\<lambda>c.
     \<lparr>ck_org = org, ck_version = version, ck_page = chunk_page (page_map w (po_pages out)) (pc_lineage c), ck_index = pc_index c,
      ck_type = pc_type c, ck_content = pc_content c, ck_lineage = pc_lineage c\<rparr>) (po_chunks out)\<rparr>)"

definition store_result :: "worker_env \<Rightarrow> uuid \<Rightarrow> uuid \<Rightarrow> parser_output \<Rightarrow> unit dochandler" where
  "store_result w org version out = s_write (\<lambda>d. d\<lparr>
     b_results := b_results d @ [\<lparr>er_id = wk_result_id w, er_org = org, er_version = version, er_parser = po_parser out, er_status = po_status out\<rparr>],
     b_warnings := b_warnings d @ map (\<lambda>c. \<lparr>ew_org = org, ew_result = wk_result_id w, ew_code = c\<rparr>) (po_warnings out)\<rparr>)"

definition extract_from :: "worker_env \<Rightarrow> uuid \<Rightarrow> document_version \<Rightarrow> string \<Rightarrow> string \<Rightarrow> parser_output \<Rightarrow> unit dochandler" where
  "extract_from w org v mime bytes out =
     whenP (po_status out \<in> {''COMPLETED'', ''COMPLETED_WITH_WARNINGS''})
       (bindP (s_read (\<lambda>d. Inr (find (\<lambda>x. doc_id x = dv_document v) (b_documents d)))) (\<lambda>r.
        case r of
          None \<Rightarrow> retP ()
        | Some doc \<Rightarrow> bindP (extract_candidates (wk_around w) \<lparr>xa_org = org, xa_document = doc_id doc, xa_version = dv_id v,
              xa_name = doc_name doc, xa_chunks = po_chunks out, xa_provider = wk_model w,
              xa_locator = (if contains_sub ''pdf'' (str_lower mime) then Some (wk_locator w bytes) else None)\<rparr>) (\<lambda>_. retP ())))"

definition close_attempt :: "uuid \<Rightarrow> string \<Rightarrow> unit dochandler" where
  "close_attempt i status = s_write (put_ingestion_attempt (\<lambda>x. x\<lparr>ia_status := status\<rparr>) i)"

definition insert_ingestion_attempt :: "uuid \<Rightarrow> uuid \<Rightarrow> uuid \<Rightarrow> nat \<Rightarrow> string \<Rightarrow> string option \<Rightarrow> unit dochandler" where
  "insert_ingestion_attempt i org job n status err = s_insert
     (\<lambda>d. raise_if (i \<in> ia_id ` set (b_attempts d)) IntegrityError)
     (\<lambda>d. d\<lparr>b_attempts := b_attempts d @
        [\<lparr>ia_id = i, ia_org = org, ia_job = job, ia_number = n, ia_status = status, ia_error = err\<rparr>]\<rparr>)"

text \<open>The body of the \<open>try\<close>: parse, store, extract, and close job, version and attempt.\<close>

definition parse_document :: "worker_env \<Rightarrow> uuid \<Rightarrow> document_version \<Rightarrow> (string \<times> string \<times> parser_output) dochandler" where
  "parse_document w org v =
     bindP (s_read (\<lambda>d. scalar_one (filter (\<lambda>o'. so_id o' = dv_object v \<and> so_org o' = org) (b_objects d)))) (\<lambda>obj.
     bindP (liftP (wk_storage w org (so_key obj))) (\<lambda>bytes.
     bindP (liftP (get_parser w (so_mime obj))) (\<lambda>parse.
     bindP (liftP (parse bytes (so_key obj))) (\<lambda>out.
     bindP (liftP (raise_val (po_status out \<notin> set valid_parser_statuses) ''UNKNOWN_PARSER_STATUS'')) (\<lambda>_.
     retP (so_mime obj, bytes, out))))))"

definition store_output :: "worker_env \<Rightarrow> uuid \<Rightarrow> document_version \<Rightarrow> string \<times> string \<times> parser_output \<Rightarrow> unit dochandler" where
  "store_output w org v x = (case x of (mime, bytes, out) \<Rightarrow>
     bindP (store_pages w org (dv_id v) (po_pages out)) (\<lambda>_.
     bindP (store_chunks w org (dv_id v) out) (\<lambda>_.
     bindP (store_result w org (dv_id v) out) (\<lambda>_.
     extract_from w org v mime bytes out))))"

definition finish_job :: "worker_env \<Rightarrow> ingestion_job \<Rightarrow> uuid \<Rightarrow> document_version \<Rightarrow> parser_output \<Rightarrow> process_outcome dochandler" where
  "finish_job w j org v out =
     bindP (close_attempt (wk_attempt_id w) (po_status out)) (\<lambda>_.
     bindP (transition_job (wk_sha w) (wk_clock w) (ij_id j) ''PARSING'' (po_status out) org None) (\<lambda>_.
     bindP (transition_version (wk_sha w) (dv_id v) ''PARSING'' (po_status out) org None) (\<lambda>_.
     bindP (s_write (put_version (\<lambda>v. v\<lparr>dv_extraction := po_status out\<rparr>) (dv_id v))) (\<lambda>_.
     bindP (doc_audit (wk_sha w) org (event_of (po_status out)) ''INGESTION_JOB'' (ij_id j) None
       [(''quality_score'', po_quality out), (''status'', JStr (po_status out))]) (\<lambda>_.
     bindP s_commit (\<lambda>_.
     retP (job_outcome True (outcome_of (po_status out)) (Some (ij_id j)) None)))))))"

definition work_on :: "worker_env \<Rightarrow> ingestion_job \<Rightarrow> uuid \<Rightarrow> document_version \<Rightarrow> process_outcome dochandler" where
  "work_on w j org v =
     bindP (parse_document w org v) (\<lambda>x. bindP (store_output w org v x) (\<lambda>_. finish_job w j org v (snd (snd x))))"

text \<open>The handler of its exceptions; \<open>n\<close> is the number of the attempt that failed.\<close>

definition fail_version :: "worker_env \<Rightarrow> ingestion_job \<Rightarrow> string \<Rightarrow> unit dochandler" where
  "fail_version w j next_status =
     bindP (s_read (\<lambda>d. scalar_one_or_none (filter (\<lambda>v. dv_id v = ij_version j \<and> dv_org v = ij_org j) (b_versions d)))) (\<lambda>r.
     case r of
       None \<Rightarrow> retP ()
     | Some v \<Rightarrow>
         bindP (whenP (dv_ingestion v \<noteq> next_status)
           (bindP (transition_version (wk_sha w) (dv_id v) (dv_ingestion v) next_status (ij_org j) None) (\<lambda>_. retP ()))) (\<lambda>_.
         s_write (put_version (\<lambda>v. v\<lparr>dv_extraction := ''FAILED''\<rparr>) (dv_id v))))"

definition count_failure :: "worker_env \<Rightarrow> ingestion_job \<Rightarrow> nat \<Rightarrow> string \<Rightarrow> process_outcome dochandler" where
  "count_failure w j n code =
     (let next_status = (if n < ij_max j then ''QUEUED'' else ''FAILED'') in
      bindP (whenP (ij_status j \<noteq> next_status)
        (bindP (transition_job (wk_sha w) (wk_clock w) (ij_id j) (ij_status j) next_status (ij_org j) None) (\<lambda>_. retP ()))) (\<lambda>_.
      bindP (s_write (put_ingestion_job (\<lambda>j. j\<lparr>ij_attempt := n\<rparr>) (ij_id j))) (\<lambda>_.
      bindP (insert_ingestion_attempt (wk_failed_id w) (ij_org j) (ij_id j) n ''FAILED'' (Some code)) (\<lambda>_.
      bindP (fail_version w j next_status) (\<lambda>_.
      bindP (doc_audit (wk_sha w) (ij_org j) ''PARSING_FAILED'' ''INGESTION_JOB'' (ij_id j) None [(''error_code'', JStr code)]) (\<lambda>_.
      bindP s_commit (\<lambda>_.
      retP (job_outcome True PROCESSED_FAILED (Some (ij_id j)) (Some code)))))))))"

definition recover_failure :: "worker_env \<Rightarrow> uuid \<Rightarrow> nat \<Rightarrow> py_exc \<Rightarrow> process_outcome dochandler" where
  "recover_failure w i n err =
     bindP s_rollback (\<lambda>_.
     bindP (s_others (wk_after_failure w)) (\<lambda>_.
     bindP (s_read (\<lambda>d. scalar_one_or_none (filter (\<lambda>j. ij_id j = i) (b_jobs d)))) (\<lambda>r.
     case r of
       None \<Rightarrow> retP (job_outcome True STALE_CLAIM_ABORTED (Some i) (Some (failure_code err)))
     | Some j \<Rightarrow>
         if ij_locked_by j \<noteq> Some (wk_id w) \<or> ij_token j \<noteq> Some (wk_token w)
         then retP (job_outcome True STALE_CLAIM_ABORTED (Some i) (Some (failure_code err)))
         else count_failure w j n (failure_code err))))"

definition find_claimed :: "worker_env \<Rightarrow> uuid \<Rightarrow> doc_db \<Rightarrow> py_exc + ingestion_job option" where
  "find_claimed w i d = (if wk_skipped w then Inr None else scalar_one_or_none (filter (\<lambda>j. ij_id j = i \<and> ij_locked_by j = Some (wk_id w) \<and>
     ij_token j = Some (wk_token w) \<and> ij_status j \<in> {''QUEUED'', ''PARSING''}) (b_jobs d)))"

text \<open>The attempt is counted and recorded before the document is touched.\<close>

definition begin_attempt :: "worker_env \<Rightarrow> ingestion_job \<Rightarrow> uuid \<Rightarrow> unit dochandler" where
  "begin_attempt w j org =
     bindP (whenP (ij_status j \<noteq> ''PARSING'')
       (bindP (transition_job (wk_sha w) (wk_clock w) (ij_id j) ''QUEUED'' ''PARSING'' org None) (\<lambda>_. retP ()))) (\<lambda>_.
     bindP (s_write (put_ingestion_job (\<lambda>j. j\<lparr>ij_attempt := ij_attempt j + 1, ij_started := Some (wk_clock w)\<rparr>) (ij_id j))) (\<lambda>_.
     bindP (insert_ingestion_attempt (wk_attempt_id w) org (ij_id j) (ij_attempt j + 1) ''PARSING'' None) (\<lambda>_.
     doc_audit (wk_sha w) org ''PARSING_STARTED'' ''INGESTION_JOB'' (ij_id j) None [(''attempt_number'', JInt (int (ij_attempt j) + 1))])))"

definition without_version :: "worker_env \<Rightarrow> ingestion_job \<Rightarrow> uuid \<Rightarrow> process_outcome dochandler" where
  "without_version w j org =
     bindP (transition_job (wk_sha w) (wk_clock w) (ij_id j) ''PARSING'' ''FAILED'' org None) (\<lambda>_.
     bindP (s_write (put_ingestion_attempt (\<lambda>x. x\<lparr>ia_status := ''FAILED'', ia_error := Some ''DOCUMENT_VERSION_NOT_FOUND''\<rparr>)
       (wk_attempt_id w))) (\<lambda>_.
     bindP s_commit (\<lambda>_.
     retP (job_outcome True PROCESSED_FAILED (Some (ij_id j)) (Some ''DOCUMENT_VERSION_NOT_FOUND'')))))"

definition process_claimed_job :: "worker_env \<Rightarrow> uuid \<Rightarrow> uuid \<Rightarrow> process_outcome dochandler" where
  "process_claimed_job w i org =
     bindP (s_read (find_claimed w i)) (\<lambda>r.
     case r of
       None \<Rightarrow> retP (job_outcome True STALE_CLAIM_ABORTED (Some i) None)
     | Some j \<Rightarrow>
         bindP (begin_attempt w j org) (\<lambda>_.
         bindP (s_read (\<lambda>d. scalar_one_or_none (filter (\<lambda>v. dv_id v = ij_version j \<and> dv_org v = org) (b_versions d)))) (\<lambda>rv.
         case rv of
           None \<Rightarrow> without_version w j org
         | Some v \<Rightarrow>
             bindP (transition_version (wk_sha w) (dv_id v) ''QUEUED'' ''PARSING'' org None) (\<lambda>v'.
             tryP (work_on w j org v') (recover_failure w i (ij_attempt j + 1))))))"

section \<open>The command\<close>

definition valid_worker_id :: "string \<Rightarrow> bool" where
  "valid_worker_id s \<longleftrightarrow> str_strip s \<noteq> [] \<and> length s \<le> 255"

text \<open>\<open>str(e).split(":")[0].strip()\<close>.\<close>

definition safe_error :: "string \<Rightarrow> string" where
  "safe_error s = str_strip (hd (str_split CHR '':'' s))"

definition run_command :: "worker_env \<Rightarrow> envelope \<Rightarrow> process_outcome dochandler" where
  "run_command w e =
     bindP (claim_ingestion_job w (env_job e)) (\<lambda>r.
     case r of
       None \<Rightarrow> bindP s_commit (\<lambda>_. retP (job_outcome False NO_JOB_CLAIMED None None))
     | Some j \<Rightarrow>
         bindP (tryP (bindP (log_command e j) (\<lambda>_. retP None))
           (\<lambda>x. if x = IntegrityError
              then bindP s_rollback (\<lambda>_. retP (Some (job_outcome False COMMAND_REJECTED (Some (env_job e)) (Some ''COMMAND_REPLAYED''))))
              else throwP x)) (\<lambda>replayed.
         case replayed of
           Some out \<Rightarrow> retP out
         | None \<Rightarrow>
             bindP s_commit (\<lambda>_.
             bindP (s_others (wk_after_claim w)) (\<lambda>_.
             process_claimed_job w (ij_id j) (ij_org j)))))"

definition claim_and_process_envelope :: "worker_env \<Rightarrow> envelope \<Rightarrow> process_outcome dochandler" where
  "claim_and_process_envelope w e =
     bindP (liftP (raise_val (\<not> valid_worker_id (wk_id w)) ''CRITICAL_SECURITY_VIOLATION: Invalid worker ID'')) (\<lambda>_.
     case validate_envelope (wk_mac w) (wk_resolver w) (wk_moment w) e of
       Inl (ValueError m) \<Rightarrow> retP (job_outcome False COMMAND_REJECTED (Some (env_job e)) (Some (safe_error m)))
     | Inl x \<Rightarrow> throwP x
     | Inr _ \<Rightarrow> run_command w e)"

text \<open>A command in a session of its own; closing the session drops what was not committed.\<close>

definition run_worker :: "worker_env \<Rightarrow> envelope \<Rightarrow> doc_db \<Rightarrow> (py_exc + process_outcome) \<times> doc_db" where
  "run_worker w e d = (case claim_and_process_envelope w e (fresh_session d) of (r, t) \<Rightarrow> (r, published t))"

end
