(* ===== verification/IngestionLedger.thy ===== *)
theory IngestionLedger
  imports IngestionWorker
begin

text \<open>
  The history of ingestion jobs. \<open>ingest_step\<close> are the committed changes of the jobs, versions and
  attempts: a document is queued, its job is claimed, and an attempt is closed with the status of the
  job after it. \<open>ingestion_ok\<close> is the invariant: the attempts of a job are numbered from one, all but
  the last have failed, a job that waits or is worked on has attempts left and a queued version, and a
  job that is done agrees with its version and its last attempt.
\<close>

section \<open>Committed changes\<close>

definition job_attempts :: "uuid \<Rightarrow> doc_db \<Rightarrow> ingestion_attempt list" where
  "job_attempts i d = filter (\<lambda>x. ia_job x = i) (b_attempts d)"

definition on_job :: "uuid \<Rightarrow> (ingestion_job \<Rightarrow> ingestion_job) \<Rightarrow> ingestion_job list \<Rightarrow> ingestion_job list" where
  "on_job i f = map (\<lambda>j. if ij_id j = i then f j else j)"

definition on_version :: "uuid \<Rightarrow> (document_version \<Rightarrow> document_version) \<Rightarrow> document_version list \<Rightarrow> document_version list" where
  "on_version i f = map (\<lambda>v. if dv_id v = i then f v else v)"

text \<open>The columns of a job no change touches.\<close>

definition same_job :: "ingestion_job \<Rightarrow> ingestion_job \<Rightarrow> bool" where
  "same_job j k \<longleftrightarrow> ij_id k = ij_id j \<and> ij_org k = ij_org j \<and> ij_version k = ij_version j \<and> ij_max k = ij_max j"

definition same_version :: "document_version \<Rightarrow> document_version \<Rightarrow> bool" where
  "same_version v u \<longleftrightarrow> dv_id u = dv_id v \<and> dv_org u = dv_org v"

text \<open>The status of the version that goes with the status of its job.\<close>

definition version_of_status :: "string \<Rightarrow> string" where
  "version_of_status s = (if s = ''PARSING'' then ''QUEUED'' else s)"

inductive ingest_step :: "doc_db \<Rightarrow> doc_db \<Rightarrow> bool" where
  other: "b_jobs d' = b_jobs d \<Longrightarrow> b_versions d' = b_versions d \<Longrightarrow> b_attempts d' = b_attempts d \<Longrightarrow> ingest_step d d'"
| queue: "ij_id j \<notin> ij_id ` set (b_jobs d) \<Longrightarrow> ij_version j \<notin> ij_version ` set (b_jobs d) \<Longrightarrow> dv_id v \<notin> dv_id ` set (b_versions d) \<Longrightarrow>
    ij_version j = dv_id v \<Longrightarrow> ij_org j = dv_org v \<Longrightarrow> ij_status j = ''QUEUED'' \<Longrightarrow> dv_ingestion v = ''QUEUED'' \<Longrightarrow> ij_attempt j = 0 \<Longrightarrow>
    0 < ij_max j \<Longrightarrow> job_attempts (ij_id j) d = [] \<Longrightarrow>
    b_jobs d' = b_jobs d @ [j] \<Longrightarrow> b_versions d' = b_versions d @ [v] \<Longrightarrow> b_attempts d' = b_attempts d \<Longrightarrow> ingest_step d d'"
| claim: "j \<in> set (b_jobs d) \<Longrightarrow> ij_status j \<in> {''QUEUED'', ''PARSING''} \<Longrightarrow>
    same_job j (f j) \<Longrightarrow> ij_status (f j) = ''PARSING'' \<Longrightarrow> ij_attempt (f j) = ij_attempt j \<Longrightarrow>
    b_jobs d' = on_job (ij_id j) f (b_jobs d) \<Longrightarrow> b_versions d' = b_versions d \<Longrightarrow> b_attempts d' = b_attempts d \<Longrightarrow> ingest_step d d'"
| close: "j \<in> set (b_jobs d) \<Longrightarrow> ij_status j \<in> {''QUEUED'', ''PARSING''} \<Longrightarrow> v \<in> set (b_versions d) \<Longrightarrow> dv_id v = ij_version j \<Longrightarrow>
    same_job j (f j) \<Longrightarrow> ij_attempt (f j) = ij_attempt j + 1 \<Longrightarrow>
    ia_job a = ij_id j \<Longrightarrow> ia_number a = ij_attempt j + 1 \<Longrightarrow>
    ij_status (f j) \<in> set valid_parser_statuses \<and> ia_status a = ij_status (f j) \<or>
      ij_status (f j) = ''QUEUED'' \<and> ia_status a = ''FAILED'' \<and> ij_attempt j + 1 < ij_max j \<Longrightarrow>
    same_version v (g v) \<Longrightarrow> dv_ingestion (g v) = ij_status (f j) \<Longrightarrow>
    b_jobs d' = on_job (ij_id j) f (b_jobs d) \<Longrightarrow> b_versions d' = on_version (dv_id v) g (b_versions d) \<Longrightarrow>
    b_attempts d' = b_attempts d @ [a] \<Longrightarrow> ingest_step d d'"

section \<open>The invariant\<close>

definition job_ok :: "doc_db \<Rightarrow> ingestion_job \<Rightarrow> bool" where
  "job_ok d j \<longleftrightarrow>
     map ia_number (job_attempts (ij_id j) d) = [1..<Suc (ij_attempt j)] \<and> ij_attempt j \<le> ij_max j \<and>
     list_all (\<lambda>a. ia_status a = ''FAILED'') (butlast (job_attempts (ij_id j) d)) \<and>
     (\<exists>v \<in> set (b_versions d). dv_id v = ij_version j \<and> dv_org v = ij_org j \<and> dv_ingestion v = version_of_status (ij_status j)) \<and>
     (if ij_status j \<in> {''QUEUED'', ''PARSING''}
      then ij_attempt j < ij_max j \<and> list_all (\<lambda>a. ia_status a = ''FAILED'') (job_attempts (ij_id j) d)
      else ij_status j \<in> set valid_parser_statuses \<and> job_attempts (ij_id j) d \<noteq> [] \<and> ia_status (last (job_attempts (ij_id j) d)) = ij_status j)"

definition ingestion_ok :: "doc_db \<Rightarrow> bool" where
  "ingestion_ok d \<longleftrightarrow> distinct (map ij_id (b_jobs d)) \<and> distinct (map dv_id (b_versions d)) \<and> distinct (map ij_version (b_jobs d)) \<and>
     (\<forall>j \<in> set (b_jobs d). job_ok d j)"

lemma distinct_same: "distinct (map f xs) \<Longrightarrow> x \<in> set xs \<Longrightarrow> y \<in> set xs \<Longrightarrow> f x = f y \<Longrightarrow> x = y"
  by (auto simp: distinct_map dest: inj_onD)

lemma map_on_job: "\<forall>j \<in> set js. ij_id j = i \<longrightarrow> h (f j) = h j \<Longrightarrow> map h (on_job i f js) = map h js"
  by (simp add: on_job_def)

lemma map_on_version: "\<forall>v \<in> set vs. dv_id v = i \<longrightarrow> h (f v) = h v \<Longrightarrow> map h (on_version i f vs) = map h vs"
  by (simp add: on_version_def)

text \<open>A job other than the changed one keeps its invariant when its version and its attempts are kept.\<close>

lemma job_ok_kept:
  "job_ok d j \<Longrightarrow> job_attempts (ij_id j) d' = job_attempts (ij_id j) d \<Longrightarrow>
    (\<And>v. v \<in> set (b_versions d) \<Longrightarrow> dv_id v = ij_version j \<Longrightarrow> v \<in> set (b_versions d')) \<Longrightarrow> job_ok d' j"
  unfolding job_ok_def by (elim conjE bexE, intro conjI bexI) auto

lemma job_claim_ok:
  assumes ok: "ingestion_ok d" and j: "j \<in> set (b_jobs d)" "ij_status j \<in> {''QUEUED'', ''PARSING''}" "same_job j (f j)"
    "ij_status (f j) = ''PARSING''" "ij_attempt (f j) = ij_attempt j"
    and d': "b_jobs d' = on_job (ij_id j) f (b_jobs d)" "b_versions d' = b_versions d" "b_attempts d' = b_attempts d"
  shows "ingestion_ok d'"
proof -
  have one: "k = j" if "k \<in> set (b_jobs d)" "ij_id k = ij_id j" for k
    using distinct_same [of ij_id "b_jobs d"] ok j(1) that by (simp add: ingestion_ok_def)
  have at: "job_attempts i d' = job_attempts i d" for i by (simp add: job_attempts_def d')
  have "job_ok d j" using ok j(1) by (simp add: ingestion_ok_def)
  then have fj: "job_ok d' (f j)"
    using j(2-5) by (auto simp: job_ok_def at d' same_job_def version_of_status_def)
  have "job_ok d' k" if "k \<in> set (b_jobs d)" for k
    using ok that job_ok_kept [of d k d'] by (simp add: at d' ingestion_ok_def)
  with fj one have "\<forall>k \<in> set (b_jobs d'). job_ok d' k" by (auto simp: d' on_job_def)
  moreover have "map h (b_jobs d') = map h (b_jobs d)" if "h (f j) = h j" for h :: "ingestion_job \<Rightarrow> uuid"
    unfolding d' using one that by (intro map_on_job) auto
  ultimately show ?thesis using ok j(3) by (simp add: ingestion_ok_def d' same_job_def)
qed

lemma job_close_ok:
  assumes ok: "ingestion_ok d" and j: "j \<in> set (b_jobs d)" "ij_status j \<in> {''QUEUED'', ''PARSING''}" and v: "v \<in> set (b_versions d)" "dv_id v = ij_version j"
    and f: "same_job j (f j)" "ij_attempt (f j) = ij_attempt j + 1" and a: "ia_job a = ij_id j" "ia_number a = ij_attempt j + 1"
    and s: "ij_status (f j) \<in> set valid_parser_statuses \<and> ia_status a = ij_status (f j) \<or>
      ij_status (f j) = ''QUEUED'' \<and> ia_status a = ''FAILED'' \<and> ij_attempt j + 1 < ij_max j"
    and g: "same_version v (g v)" "dv_ingestion (g v) = ij_status (f j)"
    and d': "b_jobs d' = on_job (ij_id j) f (b_jobs d)" "b_versions d' = on_version (dv_id v) g (b_versions d)" "b_attempts d' = b_attempts d @ [a]"
  shows "ingestion_ok d'"
proof -
  have one: "k = j" if "k \<in> set (b_jobs d)" "ij_id k = ij_id j \<or> ij_version k = ij_version j" for k
    using distinct_same [of ij_id "b_jobs d"] distinct_same [of ij_version "b_jobs d"] ok j(1) that by (auto simp: ingestion_ok_def)
  have onev: "u = v" if "u \<in> set (b_versions d)" "dv_id u = dv_id v" for u
    using distinct_same [of dv_id "b_versions d"] ok v(1) that by (simp add: ingestion_ok_def)
  have at: "job_attempts (ij_id j) d' = job_attempts (ij_id j) d @ [a]" "i \<noteq> ij_id j \<Longrightarrow> job_attempts i d' = job_attempts i d" for i
    using a(1) by (auto simp: job_attempts_def d')
  have jo: "job_ok d j" using ok j(1) by (simp add: ingestion_ok_def)
  have gv: "g v \<in> set (b_versions d')" using v(1) by (auto simp: d' on_version_def)
  have orgs: "dv_org v = ij_org j" using jo onev v(2) by (auto simp: job_ok_def)
  have "ij_status (f j) \<noteq> ''PARSING''" using s by (auto simp: valid_parser_statuses_def)
  then have vs: "version_of_status (ij_status (f j)) = ij_status (f j)" by (simp add: version_of_status_def)
  have jf: "map ia_number (job_attempts (ij_id j) d) = [1..<Suc (ij_attempt j)]" "ij_attempt j < ij_max j"
    "list_all (\<lambda>a. ia_status a = ''FAILED'') (job_attempts (ij_id j) d)"
    using jo j(2) by (auto simp: job_ok_def)
  have same: "ij_id (f j) = ij_id j" "ij_max (f j) = ij_max j" "dv_id (g v) = ij_version (f j)" "dv_org (g v) = ij_org (f j)"
    using f(1) g(1) v(2) orgs by (auto simp: same_job_def same_version_def)
  have "map ia_number (job_attempts (ij_id j) d @ [a]) = [1..<Suc (ij_attempt (f j))]"
    using jf(1) a(2) f(2) by simp
  moreover have "if ij_status (f j) \<in> {''QUEUED'', ''PARSING''}
      then ij_attempt (f j) < ij_max j \<and> list_all (\<lambda>a. ia_status a = ''FAILED'') (job_attempts (ij_id j) d @ [a])
      else ij_status (f j) \<in> set valid_parser_statuses \<and> ia_status a = ij_status (f j)"
    using s jf(3) f(2) by (auto simp: valid_parser_statuses_def)
  ultimately have "job_ok d' (f j)"
    using jf(2,3) f(2) same gv g(2) unfolding job_ok_def vs same(1) at(1)
    by (intro conjI) (auto split: if_splits simp del: upt_Suc)
  moreover have "job_ok d' k" if "k \<in> set (b_jobs d)" "k \<noteq> j" for k
  proof -
    have ne: "ij_id k \<noteq> ij_id j" "ij_version k \<noteq> dv_id v" using one that v(2) by auto
    have "job_ok d k" using ok that(1) by (simp add: ingestion_ok_def)
    then show ?thesis
      by (rule job_ok_kept) (use ne at(2) in \<open>auto simp: d' on_version_def image_iff\<close>)
  qed
  ultimately have "\<forall>k \<in> set (b_jobs d'). job_ok d' k" using one by (auto simp: d' on_job_def)
  moreover have "map h (b_jobs d') = map h (b_jobs d)" if "h (f j) = h j" for h :: "ingestion_job \<Rightarrow> uuid"
    unfolding d' using one that by (intro map_on_job) auto
  moreover have "map dv_id (b_versions d') = map dv_id (b_versions d)"
    unfolding d' using onev g(1) by (intro map_on_version) (auto simp: same_version_def)
  ultimately show ?thesis using ok f(1) by (simp add: ingestion_ok_def same_job_def)
qed

lemma job_queue_ok:
  assumes ok: "ingestion_ok d" and j: "ij_id j \<notin> ij_id ` set (b_jobs d)" "ij_version j \<notin> ij_version ` set (b_jobs d)"
    "ij_status j = ''QUEUED''" "ij_attempt j = 0" "0 < ij_max j" "job_attempts (ij_id j) d = []"
    and v: "dv_id v \<notin> dv_id ` set (b_versions d)" "ij_version j = dv_id v" "ij_org j = dv_org v" "dv_ingestion v = ''QUEUED''"
    and d': "b_jobs d' = b_jobs d @ [j]" "b_versions d' = b_versions d @ [v]" "b_attempts d' = b_attempts d"
  shows "ingestion_ok d'"
proof -
  have at: "job_attempts i d' = job_attempts i d" for i by (simp add: job_attempts_def d')
  have "job_ok d' j" using j v by (auto simp: job_ok_def at d' version_of_status_def)
  moreover have "job_ok d' k" if "k \<in> set (b_jobs d)" for k
    using ok that job_ok_kept [of d k d'] by (simp add: at d' ingestion_ok_def)
  ultimately show ?thesis using ok j(1,2) v(1) by (auto simp: ingestion_ok_def d')
qed

theorem ingest_step_ok: "ingest_step d d' \<Longrightarrow> ingestion_ok d \<Longrightarrow> ingestion_ok d'"
proof (induction rule: ingest_step.induct)
  case (other d' d)
  then have "job_attempts i d' = job_attempts i d" for i by (simp add: job_attempts_def)
  with other show ?case by (simp add: ingestion_ok_def job_ok_def)
next
  case (queue j d v d')
  show ?case by (rule job_queue_ok [of d j v]) (use queue in simp_all)
next
  case (claim j d f d')
  show ?case by (rule job_claim_ok [of d j f]) (use claim in simp_all)
next
  case (close j d v f a g d')
  show ?case by (rule job_close_ok [of d j v f a g]) (use close in simp_all)
qed

lemma ingest_steps_ok: "ingest_step\<^sup>*\<^sup>* d d' \<Longrightarrow> ingestion_ok d \<Longrightarrow> ingestion_ok d'"
  by (induction rule: rtranclp_induct) (auto intro: ingest_step_ok)

text \<open>The attempts of a job are never taken back, its identity and its limit never change.\<close>

definition job_grows :: "uuid \<Rightarrow> doc_db \<Rightarrow> doc_db \<Rightarrow> bool" where
  "job_grows i d d' \<longleftrightarrow> (\<forall>j \<in> set (b_jobs d). ij_id j = i \<longrightarrow> (\<exists>k \<in> set (b_jobs d'). same_job j k \<and> ij_attempt j \<le> ij_attempt k))"

lemma on_job_grows:
  assumes "ingestion_ok d" "j \<in> set (b_jobs d)" "same_job j (f j)" "ij_attempt j \<le> ij_attempt (f j)"
    "b_jobs d' = on_job (ij_id j) f (b_jobs d)"
  shows "job_grows i d d'"
  unfolding job_grows_def
proof (intro ballI impI)
  fix k
  assume k: "k \<in> set (b_jobs d)"
  let ?k = "if ij_id k = ij_id j then f k else k"
  have "ij_id k = ij_id j \<Longrightarrow> k = j"
    using distinct_same [of ij_id "b_jobs d"] assms(1,2) k by (simp add: ingestion_ok_def)
  then have "same_job k ?k" "ij_attempt k \<le> ij_attempt ?k" using assms(3,4) by (auto simp: same_job_def)
  moreover have "?k \<in> set (b_jobs d')" using k unfolding assms(5) on_job_def set_map by (rule imageI)
  ultimately show "\<exists>k' \<in> set (b_jobs d'). same_job k k' \<and> ij_attempt k \<le> ij_attempt k'" by blast
qed

lemma job_grows_kept: "set (b_jobs d) \<subseteq> set (b_jobs d') \<Longrightarrow> job_grows i d d'"
  unfolding job_grows_def same_job_def by blast

lemma ingest_step_grows: "ingest_step d d' \<Longrightarrow> ingestion_ok d \<Longrightarrow> job_grows i d d'"
proof (induction rule: ingest_step.induct)
  case (claim j d f d')
  show ?case by (rule on_job_grows [of d j f]) (use claim in simp_all)
next
  case (close j d v f a g d')
  show ?case by (rule on_job_grows [of d j f]) (use close in simp_all)
qed (auto intro!: job_grows_kept)

lemma ingest_steps_grow: "ingest_step\<^sup>*\<^sup>* d d' \<Longrightarrow> ingestion_ok d \<Longrightarrow> job_grows i d d'"
proof (induction rule: rtranclp_induct)
  case base
  then show ?case by (simp add: job_grows_kept)
next
  case (step e e')
  have a: "job_grows i d e" and b: "job_grows i e e'"
    using step ingest_step_grows ingest_steps_ok by blast+
  show ?case unfolding job_grows_def
  proof (intro ballI impI)
    fix j
    assume "j \<in> set (b_jobs d)" "ij_id j = i"
    with a obtain k where k: "k \<in> set (b_jobs e)" "same_job j k" "ij_attempt j \<le> ij_attempt k" "ij_id k = i"
      by (auto simp: job_grows_def same_job_def)
    with b obtain l where "l \<in> set (b_jobs e')" "same_job k l" "ij_attempt k \<le> ij_attempt l" by (auto simp: job_grows_def)
    with k show "\<exists>l \<in> set (b_jobs e'). same_job j l \<and> ij_attempt j \<le> ij_attempt l"
      by (intro bexI [of _ l]) (simp_all add: same_job_def)
  qed
qed

end
