(* ===== verification/IngestionRuns.thy ===== *)
theory IngestionRuns
  imports IngestionLedger FactRuns
begin

text \<open>
  A worker's command is a sequence of the committed changes of \<open>IngestionLedger\<close>, with other sessions
  acting in between: after the claim, while the document is read, and after a failure. The state of a
  transaction is described by what its pending writes do to jobs, versions and attempts.
\<close>

section \<open>The rows a worker holds\<close>

text \<open>While a worker has locked them, its job, its version and its attempts stay as they are, and nobody
  else inserts its new attempt.\<close>

definition held :: "ingestion_job \<Rightarrow> document_version \<Rightarrow> uuid \<Rightarrow> doc_db \<Rightarrow> doc_db \<Rightarrow> bool" where
  "held j v aid d e \<longleftrightarrow> j \<in> set (b_jobs e) \<and> v \<in> set (b_versions e) \<and> job_attempts (ij_id j) e = job_attempts (ij_id j) d \<and>
     (aid \<notin> ia_id ` set (b_attempts d) \<longrightarrow> aid \<notin> ia_id ` set (b_attempts e))"

text \<open>What the writes of a transaction do: the job \<open>i\<close> is changed by \<open>f\<close>, the version \<open>u\<close> by \<open>g\<close>, and attempts are added.\<close>

definition writes :: "uuid \<Rightarrow> uuid \<Rightarrow> uuid \<Rightarrow> (ingestion_job \<Rightarrow> ingestion_job) \<Rightarrow> (document_version \<Rightarrow> document_version) \<Rightarrow>
    ingestion_attempt list \<Rightarrow> (doc_db \<Rightarrow> doc_db) \<Rightarrow> bool" where
  "writes i u aid f g as w \<longleftrightarrow> (\<forall>d. aid \<notin> ia_id ` set (b_attempts d) \<longrightarrow> b_jobs (w d) = on_job i f (b_jobs d) \<and>
     b_versions (w d) = on_version u g (b_versions d) \<and> b_attempts (w d) = b_attempts d @ as)"

lemma writes_nothing: "writes i u aid (\<lambda>j. j) (\<lambda>v. v) [] (\<lambda>d. d)"
  by (simp add: writes_def on_job_def on_version_def)

lemma writes_aside:
  "writes i u aid f g as w \<Longrightarrow> (\<And>d. b_jobs (h d) = b_jobs d \<and> b_versions (h d) = b_versions d \<and> b_attempts (h d) = b_attempts d) \<Longrightarrow>
    writes i u aid f g as (\<lambda>d. h (w d))"
  by (simp add: writes_def)

lemma writes_job:
  "writes i u aid f g as w \<Longrightarrow> (\<And>j. ij_id (f j) = ij_id j) \<Longrightarrow>
    writes i u aid (\<lambda>j. f' (f j)) g as (\<lambda>d. put_ingestion_job f' i (w d))"
  by (auto simp: writes_def put_ingestion_job_def on_job_def)

lemma writes_version:
  "writes i u aid f g as w \<Longrightarrow> (\<And>v. dv_id (g v) = dv_id v) \<Longrightarrow>
    writes i u aid f (\<lambda>v. g' (g v)) as (\<lambda>d. put_version g' u (w d))"
  by (auto simp: writes_def put_version_def on_version_def)

lemma writes_attempt:
  "writes i u aid f g as w \<Longrightarrow> writes i u aid f g (as @ [a]) (\<lambda>d. (w d)\<lparr>b_attempts := b_attempts (w d) @ [a]\<rparr>)"
  by (simp add: writes_def)

lemma writes_put_attempt:
  "writes i u aid f g as w \<Longrightarrow> writes i u aid f g (map (\<lambda>x. if ia_id x = aid then h x else x) as) (\<lambda>d. put_ingestion_attempt h aid (w d))"
  by (auto simp: writes_def put_ingestion_attempt_def image_iff intro!: map_idI)

text \<open>A transaction under way: others have made committed changes only and left the held rows alone.\<close>

definition under_way :: "doc_db \<Rightarrow> ingestion_job \<Rightarrow> document_version \<Rightarrow> uuid \<Rightarrow> doc_db \<Rightarrow> (ingestion_job \<Rightarrow> ingestion_job) \<Rightarrow>
    (document_version \<Rightarrow> document_version) \<Rightarrow> ingestion_attempt list \<Rightarrow> doc_db session \<Rightarrow> bool" where
  "under_way d0 j v aid d f g as s \<longleftrightarrow> ingest_step\<^sup>*\<^sup>* d0 (published s) \<and> held j v aid d (published s) \<and>
     writes (ij_id j) (dv_id v) aid f g as (pending s)"

text \<open>A handler that leaves the three tables alone, whatever it does to the others.\<close>

definition aside :: "(doc_db \<Rightarrow> doc_db) \<Rightarrow> bool" where
  "aside h \<longleftrightarrow> (\<forall>d. b_jobs (h d) = b_jobs d \<and> b_versions (h d) = b_versions d \<and> b_attempts (h d) = b_attempts d)"

text \<open>\<open>discreet allowed m\<close>: \<open>m\<close> only writes aside, and what others do in between is \<open>allowed\<close>.\<close>

definition discreet :: "(doc_db \<Rightarrow> doc_db \<Rightarrow> bool) \<Rightarrow> (doc_db, 'a) dbproc \<Rightarrow> bool" where
  "discreet R m \<longleftrightarrow> (\<forall>s. (\<exists>h. pending (snd (m s)) = (\<lambda>d. h (pending s d)) \<and> aside h) \<and> R (published s) (published (snd (m s))))"

lemma aside_id: "aside (\<lambda>d. d)"
  by (simp add: aside_def)

text \<open>What a handler relies on: a relation between published states that holds when nothing happens and
  of one thing after another.\<close>

locale rely =
  fixes R :: "doc_db \<Rightarrow> doc_db \<Rightarrow> bool"
  assumes stays: "R d d"
    and chains: "R a b \<Longrightarrow> R b c \<Longrightarrow> R a c"
begin

lemma discreet_bind:
  assumes "discreet R m" "\<And>x. discreet R (f x)"
  shows "discreet R (bindP m f)"
  unfolding discreet_def
proof (intro allI)
  fix s
  obtain r t where m: "m s = (r, t)" by fastforce
  from assms(1) m obtain h where h: "pending t = (\<lambda>d. h (pending s d))" "aside h" "R (published s) (published t)"
    unfolding discreet_def by (metis snd_conv)
  show "(\<exists>h. pending (snd (bindP m f s)) = (\<lambda>d. h (pending s d)) \<and> aside h) \<and> R (published s) (published (snd (bindP m f s)))"
  proof (cases r)
    case (Inl e)
    then show ?thesis using h m by (auto simp: bindP_def)
  next
    case (Inr x)
    from assms(2) [of x] obtain k where k: "pending (snd (f x t)) = (\<lambda>d. k (pending t d))" "aside k" "R (published t) (published (snd (f x t)))"
      unfolding discreet_def by blast
    have "aside (\<lambda>d. k (h d))" using h(2) k(2) by (simp add: aside_def)
    moreover have "R (published s) (published (snd (f x t)))" using chains h(3) k(3) by blast
    ultimately show ?thesis using h(1) k(1) m Inr by (auto simp: bindP_def intro!: exI [of _ "\<lambda>d. k (h d)"])
  qed
qed

lemma discreet_pure:
  shows "discreet R (s_read f)" "discreet R (retP x)" "discreet R (throwP e)" "discreet R (liftP r)"
  using stays aside_id by (auto simp: discreet_def s_read_def queryP_def retP_def throwP_def liftP_def intro!: exI [of _ "\<lambda>d. d"])

lemma discreet_write: "aside h \<Longrightarrow> discreet R (s_write h)"
  using stays by (auto simp: discreet_def s_write_def modifyP_def)

lemma discreet_others: "(\<And>d. R d (env d)) \<Longrightarrow> discreet R (s_others env)"
  by (auto simp: discreet_def s_others_def modifyP_def aside_id intro!: exI [of _ "\<lambda>d. d"])

lemma discreet_savepoint:
  assumes "discreet R m"
  shows "discreet R (savepoint m)"
  unfolding discreet_def
proof (intro allI)
  fix s
  obtain r t where m: "m s = (r, t)" by fastforce
  from assms m have "(\<exists>h. pending t = (\<lambda>d. h (pending s d)) \<and> aside h) \<and> R (published s) (published t)"
    unfolding discreet_def by (metis snd_conv)
  then show "(\<exists>h. pending (snd (savepoint m s)) = (\<lambda>d. h (pending s d)) \<and> aside h) \<and> R (published s) (published (snd (savepoint m s)))"
    using m aside_id by (cases r) (auto simp: savepoint_def intro!: exI [of _ "\<lambda>d. d"])
qed

lemma discreet_try:
  assumes "discreet R m" "\<And>e. discreet R (h e)"
  shows "discreet R (tryP m h)"
  unfolding discreet_def
proof (intro allI)
  fix s
  obtain r t where m: "m s = (r, t)" by fastforce
  from assms(1) m obtain k where k: "pending t = (\<lambda>d. k (pending s d))" "aside k" "R (published s) (published t)"
    unfolding discreet_def by (metis snd_conv)
  show "(\<exists>k. pending (snd (tryP m h s)) = (\<lambda>d. k (pending s d)) \<and> aside k) \<and> R (published s) (published (snd (tryP m h s)))"
  proof (cases r)
    case (Inr x)
    then show ?thesis using k m by (auto simp: tryP_def)
  next
    case (Inl e)
    from assms(2) [of e] obtain l where l: "pending (snd (h e t)) = (\<lambda>d. l (pending t d))" "aside l" "R (published t) (published (snd (h e t)))"
      unfolding discreet_def by blast
    have "aside (\<lambda>d. l (k d))" using k(2) l(2) by (simp add: aside_def)
    moreover have "R (published s) (published (snd (h e t)))" using chains k(3) l(3) by blast
    ultimately show ?thesis using k(1) l(1) m Inl by (auto simp: tryP_def intro!: exI [of _ "\<lambda>d. l (k d)"])
  qed
qed

lemma discreet_option: "discreet R m \<Longrightarrow> (\<And>x. discreet R (f x)) \<Longrightarrow> discreet R (case r of None \<Rightarrow> m | Some x \<Rightarrow> f x)"
  by (cases r) simp_all

lemma discreet_if: "(b \<Longrightarrow> discreet R m) \<Longrightarrow> (\<not> b \<Longrightarrow> discreet R n) \<Longrightarrow> discreet R (if b then m else n)"
  by simp

lemma discreet_insert: "aside h \<Longrightarrow> discreet R (s_insert chk h)"
  unfolding s_insert_def by (intro discreet_bind discreet_pure discreet_write)

lemma discreet_for: "(\<And>x. x \<in> set xs \<Longrightarrow> discreet R (f x)) \<Longrightarrow> discreet R (forP f xs)"
proof (induction xs)
  case Nil
  show ?case unfolding forP.simps by (rule discreet_pure)
next
  case (Cons x xs)
  show ?case unfolding forP.simps by (intro discreet_bind Cons) simp_all
qed

lemma discreet_audit: "discreet R (doc_audit sha org ev tt i actor payload)"
  unfolding doc_audit_def by (rule discreet_write) (simp add: aside_def)

lemmas discreet_rules = discreet_bind discreet_pure discreet_write discreet_others discreet_savepoint discreet_try discreet_option
  discreet_if discreet_insert discreet_audit

lemma create_candidate_discreet:
  assumes "\<And>d. R d (env d)"
  shows "discreet R (create_candidate sha fr env a)"
  unfolding create_candidate_def Let_def find_equal_def insert_candidate_def add_evidence_def insert_candidate_evidence_def
  by (intro discreet_rules assms) (simp_all add: aside_def)

lemma extract_rows_discreet:
  assumes "\<And>n d. R d (e_env e n d)"
  shows "discreet R (extract_rows e a mk rows created considered matched)"
proof (induction rows arbitrary: created considered matched)
  case Nil
  show ?case by (simp add: discreet_pure)
next
  case (Cons row rest)
  obtain c label raw where "row = (c, label, raw)" by (cases row)
  then show ?case
    by (simp only: extract_rows.simps) (intro discreet_rules create_candidate_discreet assms Cons)
qed

lemma extract_candidates_discreet:
  assumes "\<And>n d. R d (e_env e n d)"
  shows "discreet R (extract_candidates e a)"
proof -
  have split: "discreet R (case p of (x, y) \<Rightarrow> f x y)" if "\<And>x y. discreet R (f x y)" for p :: "'a \<times> 'b" and f :: "'a \<Rightarrow> 'b \<Rightarrow> (doc_db, 'c) dbproc"
    using that by (cases p) simp
  have "discreet R (read_with_model e a provider i p ctx code period_end rows matched)" for provider i p ctx code period_end rows matched
    unfolding read_with_model_def Let_def record_llm_facts_def
    by (intro discreet_rules discreet_for split create_candidate_discreet assms)
  then show ?thesis
    unfolding extract_candidates_def Let_def
    by (cases "dc_code (parse_document_context (xa_name a))"; cases "dc_period_end (parse_document_context (xa_name a))")
      (auto intro!: discreet_rules split extract_rows_discreet assms split: option.splits)
qed

end

definition keeps_held :: "ingestion_job \<Rightarrow> document_version \<Rightarrow> uuid \<Rightarrow> doc_db \<Rightarrow> doc_db \<Rightarrow> doc_db \<Rightarrow> bool" where
  "keeps_held j v aid d a b \<longleftrightarrow> (held j v aid d a \<longrightarrow> ingest_step\<^sup>*\<^sup>* a b \<and> held j v aid d b)"

interpretation held_rows: rely "keeps_held j v aid d" for j v aid d
  by unfold_locales (auto simp: keeps_held_def)

section \<open>Rules of the statements\<close>

text \<open>Whatever is raised, others made committed changes only and the held rows are untouched.\<close>

definition unharmed :: "doc_db \<Rightarrow> ingestion_job \<Rightarrow> document_version \<Rightarrow> uuid \<Rightarrow> doc_db \<Rightarrow> doc_db session \<Rightarrow> bool" where
  "unharmed d0 j v aid d s \<longleftrightarrow> ingest_step\<^sup>*\<^sup>* d0 (published s) \<and> held j v aid d (published s)"

text \<open>The conditions under which a transaction starts: the rows are those of the tables, and the attempt is new.\<close>

definition started :: "doc_db \<Rightarrow> ingestion_job \<Rightarrow> document_version \<Rightarrow> uuid \<Rightarrow> doc_db \<Rightarrow> bool" where
  "started d0 j v aid d \<longleftrightarrow> ingestion_ok d0 \<and> ij_status j \<in> {''QUEUED'', ''PARSING''} \<and> dv_id v = ij_version j \<and> dv_org v = ij_org j \<and>
     aid \<notin> ia_id ` set (b_attempts d)"

lemma under_way_unharmed: "under_way d0 j v aid d f g as s \<Longrightarrow> unharmed d0 j v aid d s"
  by (simp add: under_way_def unharmed_def)

lemma filter_unique:
  assumes "distinct (map k xs)" "x \<in> set xs" "\<And>y. P y \<Longrightarrow> k y = k x" "P x"
  shows "filter P xs = [x]"
  using assms(1,2)
proof (induction xs)
  case (Cons y ys)
  show ?case
  proof (cases "y = x")
    case True
    then have "\<forall>z \<in> set ys. \<not> P z" using Cons.prems(1) assms(3) by (metis distinct.simps(2) list.simps(9) image_eqI list.set_map)
    then show ?thesis using True assms(4) by (simp add: filter_empty_conv)
  next
    case False
    then have "x \<in> set ys" using Cons.prems(2) by simp
    moreover from this have "\<not> P y" using Cons.prems(1) assms(3) [of y] by (auto simp: image_iff)
    ultimately show ?thesis using Cons.IH Cons.prems(1) by simp
  qed
qed simp

lemma view_rows:
  assumes "started d0 j v aid d" "under_way d0 j v aid d f g as s"
  shows "(\<And>x. same_job x (f x)) \<Longrightarrow> filter (\<lambda>x. ij_id x = ij_id j \<and> ij_org x = ij_org j) (b_jobs (view s)) = [f j]"
    and "(\<And>x. same_version x (g x)) \<Longrightarrow> filter (\<lambda>x. dv_id x = dv_id v \<and> dv_org x = ij_org j) (b_versions (view s)) = [g v]"
proof -
  let ?p = "published s"
  have p: "ingestion_ok ?p" "j \<in> set (b_jobs ?p)" "v \<in> set (b_versions ?p)" "aid \<notin> ia_id ` set (b_attempts ?p)"
    and w: "writes (ij_id j) (dv_id v) aid f g as (pending s)"
    using assms ingest_steps_ok by (auto simp: under_way_def started_def held_def)
  have e: "b_jobs (view s) = on_job (ij_id j) f (b_jobs ?p)" "b_versions (view s) = on_version (dv_id v) g (b_versions ?p)"
    using w p(4) by (simp_all add: writes_def view_def)
  show "filter (\<lambda>x. ij_id x = ij_id j \<and> ij_org x = ij_org j) (b_jobs (view s)) = [f j]" if f: "\<And>x. same_job x (f x)"
  proof (rule filter_unique [of ij_id])
    have "map ij_id (on_job (ij_id j) f (b_jobs ?p)) = map ij_id (b_jobs ?p)"
      using f by (intro map_on_job) (simp add: same_job_def)
    then show "distinct (map ij_id (b_jobs (view s)))" using p(1) by (simp add: e ingestion_ok_def)
    show "f j \<in> set (b_jobs (view s))" using p(2) by (auto simp: e on_job_def)
  qed (use f [of j] in \<open>auto simp: same_job_def\<close>)
  show "filter (\<lambda>x. dv_id x = dv_id v \<and> dv_org x = ij_org j) (b_versions (view s)) = [g v]" if g: "\<And>x. same_version x (g x)"
  proof (rule filter_unique [of dv_id])
    have "map dv_id (on_version (dv_id v) g (b_versions ?p)) = map dv_id (b_versions ?p)"
      using g by (intro map_on_version) (simp add: same_version_def)
    then show "distinct (map dv_id (b_versions (view s)))" using p(1) by (simp add: e ingestion_ok_def)
    show "g v \<in> set (b_versions (view s))" using p(3) by (auto simp: e on_version_def)
  qed (use g [of v] assms(1) in \<open>auto simp: same_version_def started_def\<close>)
qed

lemma transition_job_run:
  assumes "filter (\<lambda>x. ij_id x = i \<and> ij_org x = org) (b_jobs (view s)) = [k]"
  shows "\<exists>h. aside h \<and> transition_job sha now i expected target org actor s =
    (if ij_status k = expected \<and> target \<in> set (allowed_targets job_transitions (ij_status k))
     then (Inr (change_job now target k), s\<lparr>pending := (\<lambda>d. h (put_ingestion_job (change_job now target) i (pending s d)))\<rparr>)
     else (Inl (HTTPError 400 ''INVALID_STATE_TRANSITION''), s))"
proof -
  define h :: "doc_db \<Rightarrow> doc_db" where "h = (\<lambda>d. d\<lparr>b_audit := b_audit d @ [audit_record sha org (''JOB_STATE_'' @ target) ''INGESTION_JOB'' i actor
    (status_payload (ij_status k) target)]\<rparr>)"
  have "aside h" by (simp add: h_def aside_def)
  then show ?thesis
    using assms by (intro exI [of _ h]) (auto simp: transition_job_def check_transition_def proc_simps s_simps doc_audit_def h_def raise_if_def)
qed

lemma transition_version_run:
  assumes "filter (\<lambda>x. dv_id x = i \<and> dv_org x = org) (b_versions (view s)) = [u]"
  shows "\<exists>h. aside h \<and> transition_version sha i expected target org actor s =
    (if dv_ingestion u = expected \<and> target \<in> set (allowed_targets version_transitions (dv_ingestion u))
     then (Inr (u\<lparr>dv_ingestion := target\<rparr>), s\<lparr>pending := (\<lambda>d. h (put_version (\<lambda>v. v\<lparr>dv_ingestion := target\<rparr>) i (pending s d)))\<rparr>)
     else (Inl (HTTPError 400 ''INVALID_STATE_TRANSITION''), s))"
proof -
  define h :: "doc_db \<Rightarrow> doc_db" where "h = (\<lambda>d. d\<lparr>b_audit := b_audit d @ [audit_record sha org (''VERSION_STATE_'' @ target) ''DOCUMENT_VERSION'' i actor
    (status_payload (dv_ingestion u) target)]\<rparr>)"
  have "aside h" by (simp add: h_def aside_def)
  then show ?thesis
    using assms by (intro exI [of _ h]) (auto simp: transition_version_def check_transition_def proc_simps s_simps doc_audit_def h_def raise_if_def Let_def)
qed

lemma same_change_job: "same_job x (f x) \<Longrightarrow> same_job x (change_job now t (f x))"
  by (simp add: same_job_def change_job_def)

lemma transition_job_way:
  assumes st: "started d0 j v aid d" and f: "\<And>x. same_job x (f x)"
  shows "triple (under_way d0 j v aid d f g as) (transition_job sha now (ij_id j) expected target (ij_org j) actor)
    (\<lambda>_. under_way d0 j v aid d (\<lambda>x. change_job now target (f x)) g as) (\<lambda>_. unharmed d0 j v aid d)"
  unfolding triple_def
proof (intro allI impI)
  fix s
  assume u: "under_way d0 j v aid d f g as s"
  note run = transition_job_run [OF view_rows(1) [OF st u f], of sha now expected target actor]
  have "under_way d0 j v aid d (\<lambda>x. change_job now target (f x)) g as
      (s\<lparr>pending := (\<lambda>d. h (put_ingestion_job (change_job now target) (ij_id j) (pending s d)))\<rparr>)" if "aside h" for h
    using u writes_aside [OF writes_job [of "ij_id j" "dv_id v" aid f g as "pending s" "change_job now target"], of h] f that
    by (simp add: under_way_def same_job_def aside_def)
  with run under_way_unharmed [OF u] show "case transition_job sha now (ij_id j) expected target (ij_org j) actor s of
      (Inl e, t) \<Rightarrow> unharmed d0 j v aid d t | (Inr x, t) \<Rightarrow> under_way d0 j v aid d (\<lambda>x. change_job now target (f x)) g as t"
    by (auto split: if_splits sum.splits)
qed

lemma transition_version_way:
  assumes st: "started d0 j v aid d" and g: "\<And>x. same_version x (g x)"
  shows "triple (under_way d0 j v aid d f g as) (transition_version sha (dv_id v) expected target (ij_org j) actor)
    (\<lambda>r s. under_way d0 j v aid d f (\<lambda>x. (g x)\<lparr>dv_ingestion := target\<rparr>) as s \<and> r = (g v)\<lparr>dv_ingestion := target\<rparr>) (\<lambda>_. unharmed d0 j v aid d)"
  unfolding triple_def
proof (intro allI impI)
  fix s
  assume u: "under_way d0 j v aid d f g as s"
  note run = transition_version_run [OF view_rows(2) [OF st u g], of sha expected target actor]
  have "under_way d0 j v aid d f (\<lambda>x. (g x)\<lparr>dv_ingestion := target\<rparr>) as
      (s\<lparr>pending := (\<lambda>d. h (put_version (\<lambda>x. x\<lparr>dv_ingestion := target\<rparr>) (dv_id v) (pending s d)))\<rparr>)" if "aside h" for h
    using u writes_aside [OF writes_version [of "ij_id j" "dv_id v" aid f g as "pending s" "\<lambda>x. x\<lparr>dv_ingestion := target\<rparr>"], of h] g that
    by (simp add: under_way_def same_version_def aside_def)
  with run under_way_unharmed [OF u] show "case transition_version sha (dv_id v) expected target (ij_org j) actor s of
      (Inl e, t) \<Rightarrow> unharmed d0 j v aid d t
    | (Inr x, t) \<Rightarrow> under_way d0 j v aid d f (\<lambda>x. (g x)\<lparr>dv_ingestion := target\<rparr>) as t \<and> x = (g v)\<lparr>dv_ingestion := target\<rparr>"
    by (auto split: if_splits sum.splits)
qed

lemma read_way: "triple (under_way d0 j v aid d f g as) (s_read q) (\<lambda>x s. under_way d0 j v aid d f g as s \<and> q (view s) = Inr x)
    (\<lambda>_. unharmed d0 j v aid d)"
  by (rule triple_s_read) (simp_all add: under_way_unharmed)

lemma lift_way: "triple (under_way d0 j v aid d f g as) (liftP r) (\<lambda>x s. under_way d0 j v aid d f g as s \<and> r = Inr x) (\<lambda>_. unharmed d0 j v aid d)"
  by (rule triple_lift) (simp_all add: under_way_unharmed)

lemma discreet_way:
  assumes "discreet (keeps_held j v aid d) m"
  shows "triple (under_way d0 j v aid d f g as) m (\<lambda>_. under_way d0 j v aid d f g as) (\<lambda>_. unharmed d0 j v aid d)"
  unfolding triple_def
proof (intro allI impI)
  fix s
  assume u: "under_way d0 j v aid d f g as s"
  from assms obtain h where h: "pending (snd (m s)) = (\<lambda>d. h (pending s d))" "aside h"
    "keeps_held j v aid d (published s) (published (snd (m s)))" unfolding discreet_def by blast
  have "under_way d0 j v aid d f g as (snd (m s))"
    using u h writes_aside [of "ij_id j" "dv_id v" aid f g as "pending s" h]
    by (auto simp: under_way_def keeps_held_def aside_def)
  then show "case m s of (Inl e, t) \<Rightarrow> unharmed d0 j v aid d t | (Inr x, t) \<Rightarrow> under_way d0 j v aid d f g as t"
    using under_way_unharmed by (auto split: prod.splits sum.splits)
qed

lemma write_way:
  assumes "\<And>w. writes (ij_id j) (dv_id v) aid f g as w \<Longrightarrow> writes (ij_id j) (dv_id v) aid f' g' as' (\<lambda>d. h (w d))"
  shows "triple (under_way d0 j v aid d f g as) (s_write h) (\<lambda>_. under_way d0 j v aid d f' g' as') (\<lambda>_. unharmed d0 j v aid d)"
  by (rule triple_s_write) (simp add: under_way_def assms)

text \<open>The changes with which a worker closes an attempt, as \<open>ingest_step.close\<close> wants them.\<close>

definition closes :: "ingestion_job \<Rightarrow> document_version \<Rightarrow> (ingestion_job \<Rightarrow> ingestion_job) \<Rightarrow> (document_version \<Rightarrow> document_version) \<Rightarrow>
    ingestion_attempt \<Rightarrow> bool" where
  "closes j v f g a \<longleftrightarrow> same_job j (f j) \<and> ij_attempt (f j) = ij_attempt j + 1 \<and> ia_job a = ij_id j \<and> ia_number a = ij_attempt j + 1 \<and>
     (ij_status (f j) \<in> set valid_parser_statuses \<and> ia_status a = ij_status (f j) \<or>
      ij_status (f j) = ''QUEUED'' \<and> ia_status a = ''FAILED'' \<and> ij_attempt j + 1 < ij_max j) \<and>
     same_version v (g v) \<and> dv_ingestion (g v) = ij_status (f j)"

text \<open>What a commit has published: the job with one more attempt.\<close>

definition attempted :: "doc_db \<Rightarrow> ingestion_job \<Rightarrow> ingestion_job \<Rightarrow> ingestion_attempt \<Rightarrow> doc_db session \<Rightarrow> bool" where
  "attempted d0 j k a s \<longleftrightarrow> ingest_step\<^sup>*\<^sup>* d0 (published s) \<and> k \<in> set (b_jobs (published s)) \<and> same_job j k \<and>
     ij_attempt k = ij_attempt j + 1 \<and> a \<in> set (job_attempts (ij_id j) (published s)) \<and> ia_number a = ij_attempt k"

lemma closing_step:
  assumes st: "started d0 j v aid d" and u: "under_way d0 j v aid d f g [a] s" and c: "closes j v f g a"
  shows "attempted d0 j (f j) a (fresh_session (view s))"
proof -
  let ?p = "published s"
  have p: "j \<in> set (b_jobs ?p)" "v \<in> set (b_versions ?p)" "aid \<notin> ia_id ` set (b_attempts ?p)" "ingest_step\<^sup>*\<^sup>* d0 ?p"
    using st u by (auto simp: under_way_def started_def held_def)
  have e: "b_jobs (view s) = on_job (ij_id j) f (b_jobs ?p)" "b_versions (view s) = on_version (dv_id v) g (b_versions ?p)"
    "b_attempts (view s) = b_attempts ?p @ [a]"
    using u p(3) by (simp_all add: under_way_def writes_def view_def)
  have "ingest_step ?p (view s)"
    by (rule ingest_step.close [OF p(1) _ p(2) _ _ _ _ _ _ _ _ e]) (use st c in \<open>auto simp: started_def closes_def\<close>)
  then have "ingest_step\<^sup>*\<^sup>* d0 (view s)" using p(4) by (rule rtranclp.rtrancl_into_rtrancl [rotated])
  moreover have "f j \<in> set (b_jobs (view s))" using p(1) by (auto simp: e on_job_def)
  moreover have "a \<in> set (job_attempts (ij_id j) (view s))" using c by (simp add: job_attempts_def e closes_def)
  ultimately show ?thesis using c by (simp add: attempted_def closes_def)
qed

lemma commit_way:
  assumes "started d0 j v aid d" "closes j v f g a"
  shows "triple (under_way d0 j v aid d f g [a]) s_commit (\<lambda>_. attempted d0 j (f j) a) E"
  unfolding s_commit_def by (rule triple_modify) (rule closing_step [OF assms(1) _ assms(2)])

section \<open>The worker\<close>

text \<open>What others may do while this worker runs a command for job \<open>i\<close>.\<close>

definition ours :: "worker_env \<Rightarrow> ingestion_job \<Rightarrow> bool" where
  "ours w j \<longleftrightarrow> ij_locked_by j = Some (wk_id w) \<and> ij_token j = Some (wk_token w)"

definition others_behave :: "worker_env \<Rightarrow> uuid \<Rightarrow> bool" where
  "others_behave w i \<longleftrightarrow>
     (\<forall>d. ingest_step\<^sup>*\<^sup>* d (wk_after_claim w d) \<and>
        (wk_attempt_id w \<notin> ia_id ` set (b_attempts d) \<longrightarrow> wk_attempt_id w \<notin> ia_id ` set (b_attempts (wk_after_claim w d)))) \<and>
     (\<forall>j v d n a. ij_id j = i \<longrightarrow> dv_id v = ij_version j \<longrightarrow> keeps_held j v (wk_attempt_id w) d a (e_env (wk_around w) n a)) \<and>
     (\<forall>a. ingest_step\<^sup>*\<^sup>* a (wk_after_failure w a)) \<and>
     (\<forall>j v d a k. ij_id j = i \<longrightarrow> dv_id v = ij_version j \<longrightarrow> held j v (wk_attempt_id w) d a \<longrightarrow>
        k \<in> set (b_jobs (wk_after_failure w a)) \<longrightarrow> ij_id k = i \<longrightarrow> ours w k \<longrightarrow> held j v (wk_attempt_id w) d (wk_after_failure w a))"

lemma parse_document_discreet: "discreet (keeps_held j v aid d) (parse_document w org u)"
  unfolding parse_document_def by (intro held_rows.discreet_rules)

lemma store_output_discreet:
  assumes "others_behave w (ij_id j)" "dv_id v = ij_version j"
  shows "discreet (keeps_held j v (wk_attempt_id w) d) (store_output w org u x)"
proof -
  have "keeps_held j v (wk_attempt_id w) d a (e_env (wk_around w) n a)" for n a
    using assms unfolding others_behave_def by blast
  then have "discreet (keeps_held j v (wk_attempt_id w) d) (extract_candidates (wk_around w) y)" for y
    by (rule held_rows.extract_candidates_discreet)
  then have "discreet (keeps_held j v (wk_attempt_id w) d) (extract_from w org u mime bytes out)" for mime bytes out
    unfolding extract_from_def whenP_def by (intro held_rows.discreet_rules)
  then show ?thesis
    unfolding store_output_def store_pages_def store_chunks_def store_result_def
    by (cases x) (simp, intro held_rows.discreet_rules; simp add: aside_def)
qed

text \<open>The outcome a worker reports, and what it has published of the job by then.\<close>

definition reported :: "uuid \<Rightarrow> doc_db \<Rightarrow> process_outcome \<Rightarrow> doc_db \<Rightarrow> bool" where
  "reported i d out d' \<longleftrightarrow>
     wo_status out \<in> {PROCESSED_SUCCESS, PROCESSED_REVIEW_REQUIRED, PROCESSED_REJECTED, PROCESSED_FAILED} \<longrightarrow>
     wo_claimed out \<and> wo_job out = Some i \<and> (\<exists>k \<in> set (b_jobs d'). ij_id k = i \<and>
       (\<forall>j \<in> set (b_jobs d). ij_id j = i \<longrightarrow> ij_attempt j < ij_attempt k) \<and>
       (\<exists>a \<in> set (job_attempts i d'). ia_number a = ij_attempt k) \<and>
       (if wo_error out = None then ij_status k \<in> set valid_parser_statuses \<and> wo_status out = outcome_of (ij_status k)
        else wo_status out = PROCESSED_FAILED \<and> ij_status k \<in> {''QUEUED'', ''FAILED''}))"

definition good_end :: "uuid \<Rightarrow> doc_db \<Rightarrow> process_outcome \<Rightarrow> doc_db session \<Rightarrow> bool" where
  "good_end i d0 out s \<longleftrightarrow> ingest_step\<^sup>*\<^sup>* d0 (published s) \<and> reported i d0 out (published s)"

definition later :: "doc_db \<Rightarrow> doc_db session \<Rightarrow> bool" where
  "later d0 s \<longleftrightarrow> ingest_step\<^sup>*\<^sup>* d0 (published s)"

lemma unharmed_later: "unharmed d0 j v aid d s \<Longrightarrow> later d0 s"
  by (simp add: unharmed_def later_def)

lemma quiet_end: "later d0 s \<Longrightarrow> wo_status out \<in> {STALE_CLAIM_ABORTED, NO_JOB_CLAIMED, COMMAND_REJECTED} \<Longrightarrow> good_end i d0 out s"
  by (auto simp: good_end_def later_def reported_def)

lemma attempted_reported:
  assumes "attempted d0 j k a s" "ij_id j = i" "\<forall>x \<in> set (b_jobs d0). ij_id x = i \<longrightarrow> ij_attempt x \<le> ij_attempt j"
    "wo_claimed out" "wo_job out = Some i"
    "if wo_error out = None then ij_status k \<in> set valid_parser_statuses \<and> wo_status out = outcome_of (ij_status k)
     else wo_status out = PROCESSED_FAILED \<and> ij_status k \<in> {''QUEUED'', ''FAILED''}"
  shows "good_end i d0 out s"
  using assms unfolding good_end_def reported_def attempted_def same_job_def
  by (intro conjI impI bexI [of _ k] bexI [of _ a]) auto

definition beginning :: "worker_env \<Rightarrow> ingestion_job \<Rightarrow> ingestion_job \<Rightarrow> ingestion_job" where
  "beginning w j x = (if ij_status j = ''PARSING'' then x else change_job (wk_clock w) ''PARSING'' x)
     \<lparr>ij_attempt := ij_attempt (if ij_status j = ''PARSING'' then x else change_job (wk_clock w) ''PARSING'' x) + 1,
      ij_started := Some (wk_clock w)\<rparr>"

lemma beginning_simps [simp]:
  "same_job x (beginning w j x)" "ij_attempt (beginning w j x) = ij_attempt x + 1"
  by (simp_all add: beginning_def same_job_def change_job_def)

definition first_attempt :: "worker_env \<Rightarrow> ingestion_job \<Rightarrow> ingestion_attempt" where
  "first_attempt w j = \<lparr>ia_id = wk_attempt_id w, ia_org = ij_org j, ia_job = ij_id j, ia_number = ij_attempt j + 1, ia_status = ''PARSING'', ia_error = None\<rparr>"

lemma insert_way:
  "triple (under_way d0 j v aid d f g as) (insert_ingestion_attempt i org job n st er)
    (\<lambda>_. under_way d0 j v aid d f g (as @ [\<lparr>ia_id = i, ia_org = org, ia_job = job, ia_number = n, ia_status = st, ia_error = er\<rparr>]))
    (\<lambda>_. unharmed d0 j v aid d)"
  unfolding insert_ingestion_attempt_def s_insert_def
  by (rule triple_bind [OF read_way], rule triple_conseq [OF write_way [OF writes_attempt]]) auto

lemma put_job_way:
  "(\<And>x. ij_id (f x) = ij_id x) \<Longrightarrow> triple (under_way d0 j v aid d f g as) (s_write (put_ingestion_job h (ij_id j)))
    (\<lambda>_. under_way d0 j v aid d (\<lambda>x. h (f x)) g as) (\<lambda>_. unharmed d0 j v aid d)"
  by (rule write_way) (rule writes_job)

lemma put_version_way:
  "(\<And>x. dv_id (g x) = dv_id x) \<Longrightarrow> triple (under_way d0 j v aid d f g as) (s_write (put_version h (dv_id v)))
    (\<lambda>_. under_way d0 j v aid d f (\<lambda>x. h (g x)) as) (\<lambda>_. unharmed d0 j v aid d)"
  by (rule write_way) (rule writes_version)

lemma put_attempt_way:
  "triple (under_way d0 j v aid d f g as) (s_write (put_ingestion_attempt h aid))
    (\<lambda>_. under_way d0 j v aid d f g (map (\<lambda>x. if ia_id x = aid then h x else x) as)) (\<lambda>_. unharmed d0 j v aid d)"
  by (rule write_way) (rule writes_put_attempt)

lemma begin_attempt_way:
  assumes st: "started d0 j v (wk_attempt_id w) d"
  shows "triple (under_way d0 j v (wk_attempt_id w) d (\<lambda>x. x) (\<lambda>x. x) []) (begin_attempt w j (ij_org j))
    (\<lambda>_. under_way d0 j v (wk_attempt_id w) d (beginning w j) (\<lambda>x. x) [first_attempt w j]) (\<lambda>_. unharmed d0 j v (wk_attempt_id w) d)"
proof -
  let ?f = "\<lambda>x. if ij_status j = ''PARSING'' then x else change_job (wk_clock w) ''PARSING'' x"
  let ?U = "under_way d0 j v (wk_attempt_id w) d" and ?X = "\<lambda>_. unharmed d0 j v (wk_attempt_id w) d"
  have same: "same_job x x" "same_job x (?f x)" for x by (simp_all add: same_job_def change_job_def)
  have first: "triple (?U (\<lambda>x. x) (\<lambda>x. x) []) (whenP (ij_status j \<noteq> ''PARSING'')
      (bindP (transition_job (wk_sha w) (wk_clock w) (ij_id j) ''QUEUED'' ''PARSING'' (ij_org j) None) (\<lambda>_. retP ())))
      (\<lambda>_. ?U ?f (\<lambda>x. x) []) ?X"
  proof (cases "ij_status j = ''PARSING''")
    case True
    then show ?thesis by (simp add: whenP_def triple_ret)
  next
    case False
    then show ?thesis
      by (simp add: whenP_def) (rule triple_bind [OF transition_job_way [OF st same(1)]], rule triple_ret)
  qed
  show ?thesis
    unfolding begin_attempt_def
    by (rule triple_bind [OF first], rule triple_bind [OF put_job_way], simp add: same(2)[unfolded same_job_def])
      (rule triple_bind [OF insert_way], rule triple_conseq [OF discreet_way [OF held_rows.discreet_audit]],
        simp_all add: beginning_def first_attempt_def)
qed

lemma parse_document_way:
  "triple (under_way d0 j v aid d f g as) (parse_document w org u)
    (\<lambda>x s. under_way d0 j v aid d f g as s \<and> po_status (snd (snd x)) \<in> set valid_parser_statuses) (\<lambda>_. unharmed d0 j v aid d)"
  unfolding parse_document_def
  by (rule triple_bind [OF read_way], rule triple_conseq [where P = "under_way d0 j v aid d f g as"],
      rule triple_bind [OF lift_way], rule triple_conseq [where P = "under_way d0 j v aid d f g as"],
      rule triple_bind [OF lift_way], rule triple_conseq [where P = "under_way d0 j v aid d f g as"],
      rule triple_bind [OF lift_way], rule triple_conseq [where P = "under_way d0 j v aid d f g as"],
      rule triple_bind [OF lift_way], rule triple_ret) auto

lemma finish_job_way:
  assumes st: "started d0 j v (wk_attempt_id w) d" and s: "po_status out \<in> set valid_parser_statuses" and i: "ij_id j = i"
    and before: "\<forall>x \<in> set (b_jobs d0). ij_id x = i \<longrightarrow> ij_attempt x \<le> ij_attempt j"
  shows "triple (under_way d0 j v (wk_attempt_id w) d (beginning w j) (\<lambda>x. x\<lparr>dv_ingestion := ''PARSING''\<rparr>) [first_attempt w j])
    (finish_job w j (ij_org j) (v\<lparr>dv_ingestion := ''PARSING''\<rparr>) out) (good_end i d0) (\<lambda>_. unharmed d0 j v (wk_attempt_id w) d)"
proof -
  let ?f = "\<lambda>x. change_job (wk_clock w) (po_status out) (beginning w j x)"
  let ?g = "\<lambda>x. x\<lparr>dv_ingestion := po_status out, dv_extraction := po_status out\<rparr>"
  let ?a = "(first_attempt w j)\<lparr>ia_status := po_status out\<rparr>"
  have same: "same_job x (beginning w j x)" "same_version u (u\<lparr>dv_ingestion := ''PARSING''\<rparr>)" "dv_id (u\<lparr>dv_ingestion := p\<rparr>) = dv_id u" for x u p
    by (simp_all add: same_version_def)
  have c: "closes j v ?f ?g ?a"
    using s by (simp add: closes_def same_change_job same_version_def first_attempt_def) (simp add: change_job_def)
  have "triple (attempted d0 j (?f j) ?a) (retP (job_outcome True (outcome_of (po_status out)) (Some (ij_id j)) None)) (good_end i d0)
      (\<lambda>_. unharmed d0 j v (wk_attempt_id w) d)"
    by (rule triple_ret, rule attempted_reported [OF _ i before]) (use s i in \<open>auto simp: job_outcome_def change_job_def\<close>)
  note last = triple_bind [OF commit_way [OF st c] this]
  have audit: "triple (under_way d0 j v (wk_attempt_id w) d ?f ?g [?a])
      (doc_audit (wk_sha w) (ij_org j) (event_of (po_status out)) ''INGESTION_JOB'' (ij_id j) None
        [(''quality_score'', po_quality out), (''status'', JStr (po_status out))])
      (\<lambda>_. under_way d0 j v (wk_attempt_id w) d ?f ?g [?a]) (\<lambda>_. unharmed d0 j v (wk_attempt_id w) d)"
    by (rule discreet_way [OF held_rows.discreet_audit])
  let ?U = "under_way d0 j v (wk_attempt_id w) d" and ?p = "\<lambda>x. x\<lparr>dv_ingestion := ''PARSING''\<rparr>" and ?X = "\<lambda>_. unharmed d0 j v (wk_attempt_id w) d"
  have attempt: "triple (?U (beginning w j) ?p [first_attempt w j]) (s_write (put_ingestion_attempt (\<lambda>x. x\<lparr>ia_status := po_status out\<rparr>) (wk_attempt_id w)))
      (\<lambda>_. ?U (beginning w j) ?p [?a]) ?X"
    using put_attempt_way [of d0 j v "wk_attempt_id w" d "beginning w j" ?p "[first_attempt w j]" "\<lambda>x. x\<lparr>ia_status := po_status out\<rparr>"]
    unfolding list.map by (simp add: first_attempt_def)
  have version: "triple (?U ?f ?p [?a]) (transition_version (wk_sha w) (dv_id v) ''PARSING'' (po_status out) (ij_org j) None)
      (\<lambda>_. ?U ?f (\<lambda>x. x\<lparr>dv_ingestion := po_status out\<rparr>) [?a]) ?X"
    by (rule triple_conseq [OF transition_version_way [OF st same(2)]]) auto
  have extraction: "triple (?U ?f (\<lambda>x. x\<lparr>dv_ingestion := po_status out\<rparr>) [?a])
      (s_write (put_version (\<lambda>v. v\<lparr>dv_extraction := po_status out\<rparr>) (dv_id v))) (\<lambda>_. ?U ?f ?g [?a]) ?X"
    by (rule triple_conseq [OF put_version_way]) simp_all
  show ?thesis
    unfolding finish_job_def close_attempt_def same(3)
    by (rule triple_bind [OF attempt], rule triple_bind [OF transition_job_way [OF st same(1)]], rule triple_bind [OF version],
        rule triple_bind [OF extraction], rule triple_bind [OF audit last])
qed

lemma work_on_way:
  assumes st: "started d0 j v (wk_attempt_id w) d" and i: "ij_id j = i" and others: "others_behave w i"
    and before: "\<forall>x \<in> set (b_jobs d0). ij_id x = i \<longrightarrow> ij_attempt x \<le> ij_attempt j"
  shows "triple (under_way d0 j v (wk_attempt_id w) d (beginning w j) (\<lambda>x. x\<lparr>dv_ingestion := ''PARSING''\<rparr>) [first_attempt w j])
    (work_on w j (ij_org j) (v\<lparr>dv_ingestion := ''PARSING''\<rparr>)) (good_end i d0) (\<lambda>_. unharmed d0 j v (wk_attempt_id w) d)"
  unfolding work_on_def
proof (rule triple_bind [OF parse_document_way], goal_cases)
  case (1 x)
  let ?U = "under_way d0 j v (wk_attempt_id w) d (beginning w j) (\<lambda>x. x\<lparr>dv_ingestion := ''PARSING''\<rparr>) [first_attempt w j]"
  have store: "triple ?U (store_output w (ij_org j) (v\<lparr>dv_ingestion := ''PARSING''\<rparr>) x) (\<lambda>_. ?U) (\<lambda>_. unharmed d0 j v (wk_attempt_id w) d)"
    using st others i by (intro discreet_way store_output_discreet) (simp_all add: started_def)
  show ?case
  proof (cases "po_status (snd (snd x)) \<in> set valid_parser_statuses")
    case True
    then show ?thesis
      by simp (rule triple_bind [OF store finish_job_way [OF st _ i before]])
  qed (simp add: triple_def)
qed

lemma fail_version_way:
  assumes st: "started d0 j v aid d"
  shows "triple (under_way d0 j v aid d f (\<lambda>x. x) as) (fail_version w j next_status)
    (\<lambda>_. under_way d0 j v aid d f (\<lambda>x. (if dv_ingestion v \<noteq> next_status then x\<lparr>dv_ingestion := next_status\<rparr> else x)\<lparr>dv_extraction := ''FAILED''\<rparr>) as)
    (\<lambda>_. unharmed d0 j v aid d)"
proof -
  let ?U = "under_way d0 j v aid d f" and ?X = "\<lambda>_. unharmed d0 j v aid d"
  let ?g = "\<lambda>x. if dv_ingestion v \<noteq> next_status then x\<lparr>dv_ingestion := next_status\<rparr> else x"
  have same: "same_version x x" "dv_id (?g x) = dv_id x" for x by (simp_all add: same_version_def)
  have vid: "dv_id v = ij_version j" using st by (simp add: started_def)
  have found: "r = Some v" if "?U (\<lambda>x. x) as s"
    "scalar_one_or_none (filter (\<lambda>x. dv_id x = ij_version j \<and> dv_org x = ij_org j) (b_versions (view s))) = Inr r" for s r
    using view_rows(2) [OF st that(1) same(1)] that(2) vid by simp
  have change: "triple (?U (\<lambda>x. x) as) (whenP (dv_ingestion v \<noteq> next_status)
      (bindP (transition_version (wk_sha w) (dv_id v) (dv_ingestion v) next_status (ij_org j) None) (\<lambda>_. retP ()))) (\<lambda>_. ?U ?g as) ?X"
  proof (cases "dv_ingestion v = next_status")
    case True
    then show ?thesis by (simp add: whenP_def triple_ret)
  next
    case False
    then show ?thesis
      by (simp add: whenP_def) (rule triple_bind [OF transition_version_way [OF st same(1)]], rule triple_ret, simp)
  qed
  have some: "triple (?U (\<lambda>x. x) as) (bindP (whenP (dv_ingestion v \<noteq> next_status)
      (bindP (transition_version (wk_sha w) (dv_id v) (dv_ingestion v) next_status (ij_org j) None) (\<lambda>_. retP ()))) (\<lambda>_.
      s_write (put_version (\<lambda>v. v\<lparr>dv_extraction := ''FAILED''\<rparr>) (dv_id v))))
      (\<lambda>_. ?U (\<lambda>x. (?g x)\<lparr>dv_extraction := ''FAILED''\<rparr>) as) ?X"
    by (rule triple_bind [OF change], rule put_version_way) (simp add: same(2))
  show ?thesis
    unfolding fail_version_def
  proof (rule triple_bind [OF read_way], goal_cases)
    case (1 r)
    show ?case
    proof (cases "r = Some v")
      case True
      then show ?thesis using some by (auto elim: triple_conseq)
    next
      case False
      then show ?thesis using found unfolding triple_def by blast
    qed
  qed
qed

lemma count_failure_way:
  assumes st: "started d0 j v aid d" and i: "ij_id j = i" and n: "n = ij_attempt j + 1" and limit: "ij_attempt j < ij_max j"
    and before: "\<forall>x \<in> set (b_jobs d0). ij_id x = i \<longrightarrow> ij_attempt x \<le> ij_attempt j"
  shows "triple (under_way d0 j v aid d (\<lambda>x. x) (\<lambda>x. x) []) (count_failure w j n code) (good_end i d0) (\<lambda>_. later d0)"
proof -
  define next_status where "next_status = (if n < ij_max j then ''QUEUED'' else ''FAILED'')"
  have ns: "next_status \<in> {''QUEUED'', ''FAILED''}" by (simp add: next_status_def)
  let ?U = "under_way d0 j v aid d" and ?X = "\<lambda>_. unharmed d0 j v aid d"
  let ?f = "\<lambda>x. if ij_status j \<noteq> next_status then change_job (wk_clock w) next_status x else x"
  let ?g = "\<lambda>x. (if dv_ingestion v \<noteq> next_status then x\<lparr>dv_ingestion := next_status\<rparr> else x)\<lparr>dv_extraction := ''FAILED''\<rparr>"
  let ?h = "\<lambda>x. (?f x)\<lparr>ij_attempt := n\<rparr>"
  let ?a = "\<lparr>ia_id = wk_failed_id w, ia_org = ij_org j, ia_job = ij_id j, ia_number = n, ia_status = ''FAILED'', ia_error = Some code\<rparr>"
  have same: "same_job x x" "ij_id (?f x) = ij_id x" "same_version u (?g u)" for x u
    by (simp_all add: same_job_def same_version_def change_job_def)
  have status: "ij_status (?h j) = next_status" "dv_ingestion (?g v) = next_status" "same_job j (?h j)"
    by (simp_all add: change_job_def same_job_def)
  have c: "closes j v ?h ?g ?a"
  proof -
    have "next_status \<in> set valid_parser_statuses \<and> ia_status ?a = next_status \<or>
        next_status = ''QUEUED'' \<and> ia_status ?a = ''FAILED'' \<and> ij_attempt j + 1 < ij_max j"
      using n by (simp add: next_status_def valid_parser_statuses_def)
    with n show ?thesis unfolding closes_def status(1) by (intro conjI status(2,3) same(3)) simp_all
  qed
  have change: "triple (?U (\<lambda>x. x) (\<lambda>x. x) []) (whenP (ij_status j \<noteq> next_status)
      (bindP (transition_job (wk_sha w) (wk_clock w) (ij_id j) (ij_status j) next_status (ij_org j) None) (\<lambda>_. retP ()))) (\<lambda>_. ?U ?f (\<lambda>x. x) []) ?X"
  proof (cases "ij_status j = next_status")
    case True
    then show ?thesis by (simp add: whenP_def triple_ret)
  next
    case False
    then show ?thesis
      by (simp add: whenP_def) (rule triple_bind [OF transition_job_way [OF st same(1)]], rule triple_ret)
  qed
  have final: "triple (attempted d0 j (?h j) ?a) (retP (job_outcome True PROCESSED_FAILED (Some (ij_id j)) (Some code))) (good_end i d0) ?X"
    by (rule triple_ret, rule attempted_reported [OF _ i before], assumption)
      (use i ns in \<open>simp_all add: job_outcome_def status(1)\<close>)
  have audit: "triple (?U ?h ?g [?a]) (doc_audit (wk_sha w) (ij_org j) ''PARSING_FAILED'' ''INGESTION_JOB'' (ij_id j) None [(''error_code'', JStr code)])
      (\<lambda>_. ?U ?h ?g [?a]) ?X"
    by (rule discreet_way [OF held_rows.discreet_audit])
  have insert: "triple (?U ?h (\<lambda>x. x) []) (insert_ingestion_attempt (wk_failed_id w) (ij_org j) (ij_id j) n ''FAILED'' (Some code))
      (\<lambda>_. ?U ?h (\<lambda>x. x) [?a]) ?X"
    using insert_way [where as = "[]"] by simp
  have "triple (?U (\<lambda>x. x) (\<lambda>x. x) []) (count_failure w j n code) (good_end i d0) ?X"
    unfolding count_failure_def Let_def next_status_def [symmetric]
    by (rule triple_bind [OF change], rule triple_bind [OF put_job_way], rule same(2), rule triple_bind [OF insert],
        rule triple_bind [OF fail_version_way [OF st]], rule triple_bind [OF audit], rule triple_bind [OF commit_way [OF st c] final])
  then show ?thesis by (rule triple_conseq) (simp_all add: unharmed_later)
qed

lemma rollback_others:
  "triple (unharmed d0 j v aid d) (bindP s_rollback (\<lambda>_. bindP (s_others env) m)) Q E"
  if "\<And>p. ingest_step\<^sup>*\<^sup>* d0 p \<Longrightarrow> held j v aid d p \<Longrightarrow> triple (\<lambda>s. s = fresh_session (env p)) (m ()) Q E"
proof -
  have "bindP s_rollback (\<lambda>_. bindP (s_others env) m) s = m () (fresh_session (env (published s)))" for s
    by (simp add: bindP_def s_rollback_def s_others_def modifyP_def fresh_session_def)
  with that show ?thesis by (auto simp: triple_def unharmed_def)
qed

lemma recover_failure_way:
  assumes st: "started d0 j v (wk_attempt_id w) d" and i: "ij_id j = i" and n: "n = ij_attempt j + 1" and limit: "ij_attempt j < ij_max j"
    and others: "others_behave w i" and before: "\<forall>x \<in> set (b_jobs d0). ij_id x = i \<longrightarrow> ij_attempt x \<le> ij_attempt j"
  shows "triple (unharmed d0 j v (wk_attempt_id w) d) (recover_failure w i n err) (good_end i d0) (\<lambda>_. later d0)"
  unfolding recover_failure_def
proof (rule rollback_others)
  fix p
  assume p: "ingest_step\<^sup>*\<^sup>* d0 p" "held j v (wk_attempt_id w) d p"
  let ?e = "wk_after_failure w p"
  have "ingest_step\<^sup>*\<^sup>* p ?e" using others by (simp add: others_behave_def)
  with p(1) have e: "ingest_step\<^sup>*\<^sup>* d0 ?e" by (rule rtranclp_trans)
  have ok: "ingestion_ok ?e" using ingest_steps_ok [OF e] st by (simp add: started_def)
  show "triple (\<lambda>s. s = fresh_session ?e) (bindP (s_read (\<lambda>d. scalar_one_or_none (filter (\<lambda>j. ij_id j = i) (b_jobs d)))) (\<lambda>r.
      case r of None \<Rightarrow> retP (job_outcome True STALE_CLAIM_ABORTED (Some i) (Some (failure_code err)))
      | Some j \<Rightarrow> if ij_locked_by j \<noteq> Some (wk_id w) \<or> ij_token j \<noteq> Some (wk_token w)
          then retP (job_outcome True STALE_CLAIM_ABORTED (Some i) (Some (failure_code err)))
          else count_failure w j n (failure_code err))) (good_end i d0) (\<lambda>_. later d0)"
  proof (rule triple_bind [OF start_read], simp add: later_def e, goal_cases)
    case (1 r)
    have stale: "triple P (retP (job_outcome True STALE_CLAIM_ABORTED (Some i) (Some (failure_code err)))) (good_end i d0) (\<lambda>_. later d0)"
      if "\<And>s. P s \<Longrightarrow> s = fresh_session ?e" for P
      by (auto simp: triple_def retP_def later_def e job_outcome_def dest!: that intro!: quiet_end)
    show ?case
    proof (cases "\<exists>k. r = Some k \<and> ours w k \<and> filter (\<lambda>j. ij_id j = i) (b_jobs ?e) = [k]")
      case True
      then obtain k where k: "r = Some k" "ours w k" "filter (\<lambda>j. ij_id j = i) (b_jobs ?e) = [k]" by blast
      then have mem: "k \<in> set (b_jobs ?e)" "ij_id k = i" by (auto simp: filter_eq_Cons_iff)
      have h: "held j v (wk_attempt_id w) d ?e"
        using others p(2) mem k(2) i st unfolding others_behave_def started_def by blast
      then have "k = j" using distinct_same [of ij_id "b_jobs ?e" k j] ok mem i by (simp add: ingestion_ok_def held_def)
      have "started d0 j v (wk_attempt_id w) ?e" "under_way d0 j v (wk_attempt_id w) ?e (\<lambda>x. x) (\<lambda>x. x) [] (fresh_session ?e)"
        using st h e writes_nothing by (auto simp: started_def under_way_def held_def)
      with count_failure_way [of d0 j v "wk_attempt_id w" ?e i n w "failure_code err"] i n limit before
      have "triple (\<lambda>s. s = fresh_session ?e) (count_failure w j n (failure_code err)) (good_end i d0) (\<lambda>_. later d0)"
        by (auto simp: triple_def)
      with k \<open>k = j\<close> show ?thesis by (auto simp: ours_def elim: triple_conseq)
    next
      case False
      show ?thesis
      proof (cases r)
        case None
        then show ?thesis by (simp, intro stale) simp
      next
        case (Some k)
        then show ?thesis
          using False stale by (cases "ours w k") (auto simp: ours_def scalar_one_or_none_Some triple_def)
      qed
    qed
  qed
qed

lemma started_way:
  assumes "ingestion_ok d0" "ingest_step\<^sup>*\<^sup>* d0 d" "aid \<notin> ia_id ` set (b_attempts d)" "j \<in> set (b_jobs d)" "ij_status j \<in> {''QUEUED'', ''PARSING''}"
  obtains v where "started d0 j v aid d" "under_way d0 j v aid d (\<lambda>x. x) (\<lambda>x. x) [] (fresh_session d)" "ij_attempt j < ij_max j"
proof -
  have "ingestion_ok d" using ingest_steps_ok assms(1,2) by blast
  then have jo: "job_ok d j" using assms(4) by (simp add: ingestion_ok_def)
  then obtain v where v: "v \<in> set (b_versions d)" "dv_id v = ij_version j" "dv_org v = ij_org j" by (auto simp: job_ok_def)
  show thesis
    by (rule that [of v]) (use assms v jo writes_nothing in \<open>auto simp: started_def under_way_def held_def job_ok_def\<close>)
qed

lemma process_claimed_way:
  assumes ok: "ingestion_ok d0" and d: "ingest_step\<^sup>*\<^sup>* d0 d" and fresh: "wk_attempt_id w \<notin> ia_id ` set (b_attempts d)"
    and others: "others_behave w i" and org: "\<forall>j \<in> set (b_jobs d). ij_id j = i \<longrightarrow> ij_org j = org"
  shows "triple (\<lambda>s. s = fresh_session d) (process_claimed_job w i org) (good_end i d0) (\<lambda>_. later d0)"
  unfolding process_claimed_job_def
proof (rule triple_bind [OF start_read], simp add: later_def d, goal_cases)
  case (1 r)
  show ?case
  proof (cases "\<exists>j \<in> set (b_jobs d). r = Some j \<and> ij_id j = i \<and> ij_status j \<in> {''QUEUED'', ''PARSING''}")
    case False
    have "r = None" if "find_claimed w i d = Inr r"
      using that False by (cases r) (auto simp: find_claimed_def scalar_one_or_none_Some filter_eq_Cons_iff split: if_splits)
    then show ?thesis
      by (cases r) (auto simp: triple_def retP_def later_def d job_outcome_def intro!: quiet_end)
  next
    case True
    then obtain j where j: "j \<in> set (b_jobs d)" "r = Some j" "ij_id j = i" "ij_status j \<in> {''QUEUED'', ''PARSING''}" by blast
    obtain v where v: "started d0 j v (wk_attempt_id w) d" "under_way d0 j v (wk_attempt_id w) d (\<lambda>x. x) (\<lambda>x. x) [] (fresh_session d)"
      and limit: "ij_attempt j < ij_max j"
      using started_way [OF ok d fresh j(1,4)] by blast
    have before: "\<forall>x \<in> set (b_jobs d0). ij_id x = i \<longrightarrow> ij_attempt x \<le> ij_attempt j"
    proof (intro ballI impI)
      fix x assume x: "x \<in> set (b_jobs d0)" "ij_id x = i"
      then obtain k where "k \<in> set (b_jobs d)" "same_job x k" "ij_attempt x \<le> ij_attempt k"
        using ingest_steps_grow [OF d ok, of i] by (auto simp: job_grows_def)
      moreover from this have "k = j"
        using distinct_same [of ij_id "b_jobs d" k j] ingest_steps_ok [OF d ok] j(1,3) x(2) by (simp add: ingestion_ok_def same_job_def)
      ultimately show "ij_attempt x \<le> ij_attempt j" by simp
    qed
    let ?U = "under_way d0 j v (wk_attempt_id w) d" and ?a = "[first_attempt w j]"
    have same: "same_version x x" "dv_id v = ij_version j" for x using v(1) by (simp_all add: same_version_def started_def)
    have found: "rv = Some v" if "?U f (\<lambda>x. x) as s"
      "scalar_one_or_none (filter (\<lambda>x. dv_id x = ij_version j \<and> dv_org x = ij_org j) (b_versions (view s))) = Inr rv" for s rv f as
      using view_rows(2) [OF v(1) that(1) same(1)] that(2) same(2) by simp
    have work: "triple (?U (beginning w j) (\<lambda>x. x) ?a) (bindP (transition_version (wk_sha w) (dv_id v) ''QUEUED'' ''PARSING'' (ij_org j) None)
        (\<lambda>v'. tryP (work_on w j (ij_org j) v') (recover_failure w i (ij_attempt j + 1)))) (good_end i d0) (\<lambda>_. later d0)"
    proof (rule triple_bind [OF triple_conseq [OF transition_version_way [OF v(1) same(1)]]], assumption, assumption, rule unharmed_later, assumption, goal_cases)
      case (1 v')
      have "triple (?U (beginning w j) (\<lambda>x. x\<lparr>dv_ingestion := ''PARSING''\<rparr>) ?a)
          (tryP (work_on w j (ij_org j) (v\<lparr>dv_ingestion := ''PARSING''\<rparr>)) (recover_failure w i (ij_attempt j + 1))) (good_end i d0) (\<lambda>_. later d0)"
        by (rule triple_try [OF work_on_way [OF v(1) j(3) others before] recover_failure_way [OF v(1) j(3) refl limit others before]])
      then show ?case by (auto simp: triple_def)
    qed
    have rest: "triple (?U (\<lambda>x. x) (\<lambda>x. x) []) (bindP (begin_attempt w j (ij_org j)) (\<lambda>_.
       bindP (s_read (\<lambda>d. scalar_one_or_none (filter (\<lambda>v. dv_id v = ij_version j \<and> dv_org v = ij_org j) (b_versions d)))) (\<lambda>rv.
         case rv of None \<Rightarrow> without_version w j (ij_org j)
         | Some v \<Rightarrow> bindP (transition_version (wk_sha w) (dv_id v) ''QUEUED'' ''PARSING'' (ij_org j) None)
             (\<lambda>v'. tryP (work_on w j (ij_org j) v') (recover_failure w i (ij_attempt j + 1)))))) (good_end i d0) (\<lambda>_. later d0)"
    proof (rule triple_bind [OF triple_conseq [OF begin_attempt_way [OF v(1)]]], assumption, assumption, rule unharmed_later, assumption,
        rule triple_bind [OF triple_conseq [OF read_way]], assumption, assumption, rule unharmed_later, assumption, goal_cases)
      case (1 _ rv)
      show ?case
      proof (cases "rv = Some v")
        case True
        then show ?thesis using work by (auto elim: triple_conseq)
      next
        case False
        then show ?thesis using found unfolding triple_def by blast
      qed
    qed
    have "ij_org j = org" using org j(1,3) by blast
    then show ?thesis
      using rest v(2) j(2) by (simp add: triple_def)
  qed
qed

subsection \<open>The command\<close>

lemma claim_run:
  "claim_ingestion_job w i (fresh_session d) =
    (case (if wk_busy w then None else find (\<lambda>j. ij_id j = i \<and> claimable_job (wk_clock w) j) (b_jobs d)) of
       None \<Rightarrow> (Inr None, fresh_session d)
     | Some j \<Rightarrow> (Inr (Some j), \<lparr>published = d, pending = put_ingestion_job (\<lambda>j. j\<lparr>ij_status := ''PARSING'', ij_locked_by := Some (wk_id w),
           ij_token := Some (wk_token w), ij_locked_at := Some (wk_clock w)\<rparr>) i\<rparr>))"
  by (simp add: claim_ingestion_job_def bindP_def retP_def write_simps s_read_def queryP_def split: option.split)

definition command_row :: "envelope \<Rightarrow> ingestion_job \<Rightarrow> command_log" where
  "command_row e j = \<lparr>cmd_id = env_command e, cmd_job = ij_id j, cmd_org = ij_org j, cmd_type = env_type e, cmd_key = env_key e,
     cmd_schema = env_schema e\<rparr>"

lemma commands_put_job [simp]: "b_commands (put_ingestion_job f i d) = b_commands d"
  by (simp add: put_ingestion_job_def)

lemma command_constraints_cong: "b_commands d' = b_commands d \<Longrightarrow> command_constraints c d' = command_constraints c d"
  by (simp add: command_constraints_def)

text \<open>What the first transaction does: nothing, or the claim with its log row.\<close>

lemma run_command_cases:
  "(\<exists>r. run_command w e (fresh_session d) = (r, fresh_session d) \<and> (\<forall>out. r = Inr out \<longrightarrow> \<not> wo_claimed out \<and> wo_status out \<in> {NO_JOB_CLAIMED, COMMAND_REJECTED})) \<or>
   (\<exists>x p. run_command w e (fresh_session d) = (Inl x, \<lparr>published = d, pending = p\<rparr>)) \<or>
   (\<exists>j. j \<in> set (b_jobs d) \<and> ij_id j = env_job e \<and> claimable_job (wk_clock w) j \<and> command_constraints (command_row e j) d = Inr () \<and>
     run_command w e (fresh_session d) = process_claimed_job w (ij_id j) (ij_org j) (fresh_session (wk_after_claim w
       ((put_ingestion_job (\<lambda>j. j\<lparr>ij_status := ''PARSING'', ij_locked_by := Some (wk_id w),
           ij_token := Some (wk_token w), ij_locked_at := Some (wk_clock w)\<rparr>) (env_job e) d)\<lparr>b_commands := b_commands d @ [command_row e j]\<rparr>))))"
proof (cases "if wk_busy w then None else find (\<lambda>j. ij_id j = env_job e \<and> claimable_job (wk_clock w) j) (b_jobs d)")
  case None
  then show ?thesis
    by (intro disjI1) (simp add: run_command_def bindP_def claim_run s_commit_def modifyP_def retP_def job_outcome_def)
next
  case (Some j)
  let ?p = "put_ingestion_job (\<lambda>j. j\<lparr>ij_status := ''PARSING'', ij_locked_by := Some (wk_id w), ij_token := Some (wk_token w),
    ij_locked_at := Some (wk_clock w)\<rparr>) (env_job e)"
  from Some have j: "j \<in> set (b_jobs d)" "ij_id j = env_job e" "claimable_job (wk_clock w) j"
    by (auto simp: find_Some_iff split: if_splits)
  have chk: "command_constraints (command_row e j) (?p d) = command_constraints (command_row e j) d"
    by (rule command_constraints_cong) simp
  have run: "run_command w e (fresh_session d) = bindP (tryP (bindP (log_command e j) (\<lambda>_. retP None))
           (\<lambda>x. if x = IntegrityError
              then bindP s_rollback (\<lambda>_. retP (Some (job_outcome False COMMAND_REJECTED (Some (env_job e)) (Some ''COMMAND_REPLAYED''))))
              else throwP x)) (\<lambda>replayed. case replayed of Some out \<Rightarrow> retP out
         | None \<Rightarrow> bindP s_commit (\<lambda>_. bindP (s_others (wk_after_claim w)) (\<lambda>_. process_claimed_job w (ij_id j) (ij_org j))))
         \<lparr>published = d, pending = ?p\<rparr>"
    unfolding run_command_def bindP_def [of "claim_ingestion_job w (env_job e)"] claim_run Some by simp
  have log: "log_command e j \<lparr>published = d, pending = ?p\<rparr> = (case command_constraints (command_row e j) d of
      Inl x \<Rightarrow> (Inl x, \<lparr>published = d, pending = ?p\<rparr>)
    | Inr _ \<Rightarrow> (Inr (), \<lparr>published = d, pending = (\<lambda>d. (?p d)\<lparr>b_commands := b_commands d @ [command_row e j]\<rparr>)\<rparr>))"
    unfolding log_command_def Let_def command_row_def [symmetric] write_simps chk commands_put_job by (rule refl)
  show ?thesis
  proof (cases "command_constraints (command_row e j) d")
    case (Inl x)
    then show ?thesis
      unfolding run by (cases "x = IntegrityError")
        (auto simp: bindP_def tryP_def log throwP_def retP_def s_rollback_def modifyP_def job_outcome_def)
  next
    case (Inr u)
    then have "run_command w e (fresh_session d) = process_claimed_job w (ij_id j) (ij_org j)
        (fresh_session (wk_after_claim w ((?p d)\<lparr>b_commands := b_commands d @ [command_row e j]\<rparr>)))"
      unfolding run by (simp add: bindP_def tryP_def log retP_def s_commit_def s_others_def modifyP_def view_def fresh_session_def)
    with j Inr show ?thesis by (intro disjI2 exI [of _ j]) simp
  qed
qed

end
