(* ===== verification/IngestionOutcomes.thy ===== *)
theory IngestionOutcomes
  imports IngestionRuns
begin

text \<open>
  What a worker's command does to the history of ingestion jobs, whatever other sessions do at the same
  time: the invariant of \<open>IngestionLedger\<close> is kept, a reported outcome is published with one more
  attempt, and a command that was logged before changes nothing. The last section runs a worker on a
  concrete queue.
\<close>

section \<open>A command is a sequence of committed changes\<close>

definition claimed_rows :: "worker_env \<Rightarrow> envelope \<Rightarrow> ingestion_job \<Rightarrow> doc_db \<Rightarrow> doc_db" where
  "claimed_rows w e j d = (put_ingestion_job (\<lambda>j. j\<lparr>ij_status := ''PARSING'', ij_locked_by := Some (wk_id w),
     ij_token := Some (wk_token w), ij_locked_at := Some (wk_clock w)\<rparr>) (env_job e) d)\<lparr>b_commands := b_commands d @ [command_row e j]\<rparr>"

lemma claim_step:
  "j \<in> set (b_jobs d) \<Longrightarrow> ij_id j = env_job e \<Longrightarrow> claimable_job (wk_clock w) j \<Longrightarrow> ingest_step d (claimed_rows w e j d)"
  by (rule ingest_step.claim [of j _ "\<lambda>j. j\<lparr>ij_status := ''PARSING'', ij_locked_by := Some (wk_id w), ij_token := Some (wk_token w),
      ij_locked_at := Some (wk_clock w)\<rparr>"]) (auto simp: claimable_job_def same_job_def claimed_rows_def put_ingestion_job_def on_job_def)

lemma same_org_kept:
  assumes "ingestion_ok d" "ingest_step\<^sup>*\<^sup>* d d'" "j \<in> set (b_jobs d)" "k \<in> set (b_jobs d')" "ij_id k = ij_id j"
  shows "ij_org k = ij_org j"
proof -
  obtain x where x: "x \<in> set (b_jobs d')" "same_job j x"
    using ingest_steps_grow [OF assms(2,1), of "ij_id j"] assms(3) by (auto simp: job_grows_def)
  moreover have "x = k"
    using distinct_same [of ij_id "b_jobs d'" x k] ingest_steps_ok [OF assms(2,1)] x assms(4,5) by (simp add: ingestion_ok_def same_job_def)
  ultimately show ?thesis by (simp add: same_job_def)
qed

lemma run_command_way:
  assumes ok: "ingestion_ok d" and others: "others_behave w (env_job e)" and new: "wk_attempt_id w \<notin> ia_id ` set (b_attempts d)"
  shows "triple (\<lambda>s. s = fresh_session d) (run_command w e) (good_end (env_job e) d) (\<lambda>_. later d)"
proof -
  have idle: "later d (fresh_session d)" "later d \<lparr>published = d, pending = p\<rparr>" for p by (simp_all add: later_def)
  show ?thesis
    using run_command_cases [of w e d]
  proof (elim disjE exE conjE)
    fix r
    assume r: "run_command w e (fresh_session d) = (r, fresh_session d)"
      "\<forall>out. r = Inr out \<longrightarrow> \<not> wo_claimed out \<and> wo_status out \<in> {NO_JOB_CLAIMED, COMMAND_REJECTED}"
    then show ?thesis by (cases r) (auto simp: triple_def idle intro!: quiet_end)
  next
    fix x p
    assume "run_command w e (fresh_session d) = (Inl x, \<lparr>published = d, pending = p\<rparr>)"
    then show ?thesis by (simp add: triple_def idle)
  next
    fix j
    let ?c = "claimed_rows w e j d"
    let ?d = "wk_after_claim w ?c"
    assume j: "j \<in> set (b_jobs d)" "ij_id j = env_job e" "claimable_job (wk_clock w) j"
    assume "run_command w e (fresh_session d) = process_claimed_job w (ij_id j) (ij_org j) (fresh_session (wk_after_claim w
       ((put_ingestion_job (\<lambda>j. j\<lparr>ij_status := ''PARSING'', ij_locked_by := Some (wk_id w),
           ij_token := Some (wk_token w), ij_locked_at := Some (wk_clock w)\<rparr>) (env_job e) d)\<lparr>b_commands := b_commands d @ [command_row e j]\<rparr>)))"
    then have run: "run_command w e (fresh_session d) = process_claimed_job w (env_job e) (ij_org j) (fresh_session ?d)"
      unfolding claimed_rows_def j(2) .
    have "ingest_step\<^sup>*\<^sup>* ?c ?d" using others by (simp add: others_behave_def)
    then have steps: "ingest_step\<^sup>*\<^sup>* d ?d"
      by (rule converse_rtranclp_into_rtranclp [of ingest_step, OF claim_step [OF j]])
    have "wk_attempt_id w \<notin> ia_id ` set (b_attempts ?c)" using new by (simp add: claimed_rows_def put_ingestion_job_def)
    then have new': "wk_attempt_id w \<notin> ia_id ` set (b_attempts ?d)" using others by (simp add: others_behave_def)
    have "\<forall>k \<in> set (b_jobs ?d). ij_id k = env_job e \<longrightarrow> ij_org k = ij_org j"
      using same_org_kept [OF ok steps j(1)] j(2) by simp
    from process_claimed_way [OF ok steps new' others this] run show ?thesis by (simp add: triple_def)
  qed
qed

lemma run_worker_way:
  assumes "ingestion_ok d" "others_behave w (env_job e)" "wk_attempt_id w \<notin> ia_id ` set (b_attempts d)" "run_worker w e d = (r, d')"
  shows "ingest_step\<^sup>*\<^sup>* d d' \<and> (\<forall>out. r = Inr out \<longrightarrow> reported (env_job e) d out d')"
proof -
  let ?Q = "good_end (env_job e) d" and ?E = "\<lambda>_. later d" and ?P = "\<lambda>s. s = fresh_session d"
  have "triple ?P (claim_and_process_envelope w e) ?Q ?E"
    unfolding claim_and_process_envelope_def
  proof (rule triple_bind [OF start_lift])
    fix x :: unit
    let ?G = "\<lambda>s. s = fresh_session d \<and> raise_val (\<not> valid_worker_id (wk_id w)) ''CRITICAL_SECURITY_VIOLATION: Invalid worker ID'' = Inr x"
    have "triple ?P (retP (job_outcome False COMMAND_REJECTED (Some (env_job e)) c)) ?Q ?E" for c
      by (rule triple_ret) (auto simp: later_def job_outcome_def intro!: quiet_end)
    moreover have "triple ?P (throwP y) ?Q ?E" for y
      by (rule triple_throw) (simp add: later_def)
    ultimately have "triple ?P (case validate_envelope (wk_mac w) (wk_resolver w) (wk_moment w) e of
       Inl (ValueError m) \<Rightarrow> retP (job_outcome False COMMAND_REJECTED (Some (env_job e)) (Some (safe_error m)))
     | Inl x \<Rightarrow> throwP x
     | Inr _ \<Rightarrow> run_command w e) ?Q ?E"
      using run_command_way [OF assms(1-3)] by (simp split: sum.split py_exc.split)
    then show "triple ?G (case validate_envelope (wk_mac w) (wk_resolver w) (wk_moment w) e of
       Inl (ValueError m) \<Rightarrow> retP (job_outcome False COMMAND_REJECTED (Some (env_job e)) (Some (safe_error m)))
     | Inl x \<Rightarrow> throwP x
     | Inr _ \<Rightarrow> run_command w e) ?Q ?E"
      by (rule triple_conseq) simp_all
  qed (simp add: later_def)
  note way = tripleD [OF this refl]
  obtain t where t: "claim_and_process_envelope w e (fresh_session d) = (r, t)" "published t = d'"
    using assms(4) unfolding run_worker_def by (auto split: prod.splits)
  show ?thesis
  proof (cases r)
    case (Inl x)
    then show ?thesis using way(2) [of x t] t by (simp add: later_def)
  next
    case (Inr out)
    then show ?thesis using way(1) [of out t] t by (simp add: good_end_def)
  qed
qed

section \<open>The history of a job\<close>

definition processed :: "uuid \<Rightarrow> py_exc + process_outcome \<Rightarrow> bool" where
  "processed i r \<longleftrightarrow> (case r of Inl _ \<Rightarrow> False | Inr out \<Rightarrow> wo_job out = Some i \<and>
     wo_status out \<in> {PROCESSED_SUCCESS, PROCESSED_REVIEW_REQUIRED, PROCESSED_REJECTED, PROCESSED_FAILED})"

text \<open>Workers and others at work; \<open>k\<close> counts how often a worker has reported the job \<open>i\<close> as processed.\<close>

inductive ingestion_run :: "uuid \<Rightarrow> doc_db \<Rightarrow> nat \<Rightarrow> doc_db \<Rightarrow> bool" for i d where
  begins: "ingestion_run i d 0 d"
| others: "ingestion_run i d k e \<Longrightarrow> ingest_step e f \<Longrightarrow> ingestion_run i d k f"
| worker: "ingestion_run i d k e \<Longrightarrow> others_behave w (env_job c) \<Longrightarrow> wk_attempt_id w \<notin> ia_id ` set (b_attempts e) \<Longrightarrow>
    run_worker w c e = (r, f) \<Longrightarrow> ingestion_run i d (if processed i r then Suc k else k) f"

lemma processed_counts:
  assumes "ingestion_ok e" "j \<in> set (b_jobs e)" "ij_id j = i"
    "ingest_step\<^sup>*\<^sup>* e f" "\<forall>out. r = Inr out \<longrightarrow> reported (env_job c) e out f"
  shows "\<exists>k \<in> set (b_jobs f). same_job j k \<and> ij_attempt j + (if processed i r then 1 else 0) \<le> ij_attempt k"
proof -
  obtain k where k: "k \<in> set (b_jobs f)" "same_job j k" "ij_attempt j \<le> ij_attempt k"
    using ingest_steps_grow [OF assms(4,1), of i] assms(2,3) by (auto simp: job_grows_def)
  have "ij_attempt j < ij_attempt k" if "processed i r"
  proof -
    from that obtain out where out: "r = Inr out" "wo_job out = Some i"
      "wo_status out \<in> {PROCESSED_SUCCESS, PROCESSED_REVIEW_REQUIRED, PROCESSED_REJECTED, PROCESSED_FAILED}"
      by (cases r) (auto simp: processed_def)
    with assms(5) obtain m where m: "env_job c = i" "m \<in> set (b_jobs f)" "ij_id m = i" "ij_attempt j < ij_attempt m"
      using assms(2,3) unfolding reported_def by fastforce
    moreover have "m = k"
      using distinct_same [of ij_id "b_jobs f" m k] ingest_steps_ok [OF assms(4,1)] k m(2,3) assms(3) by (simp add: ingestion_ok_def same_job_def)
    ultimately show ?thesis by simp
  qed
  with k show ?thesis by (intro bexI [of _ k]) auto
qed

lemma ingestion_run_counts:
  assumes "ingestion_run i d k e" "ingestion_ok d" "j \<in> set (b_jobs d)" "ij_id j = i"
  shows "ingestion_ok e \<and> (\<exists>j' \<in> set (b_jobs e). same_job j j' \<and> ij_attempt j + k \<le> ij_attempt j')"
  using assms(1)
proof (induction rule: ingestion_run.induct)
  case begins
  then show ?case using assms by (auto simp: same_job_def)
next
  case (others k e f)
  then have "ingest_step\<^sup>*\<^sup>* e f" "ingestion_ok e" by auto
  moreover from others obtain j' where "j' \<in> set (b_jobs e)" "same_job j j'" "ij_attempt j + k \<le> ij_attempt j'" by blast
  ultimately show ?case
    using ingest_steps_ok ingest_steps_grow [of e f i] assms(4) by (fastforce simp: job_grows_def same_job_def)
next
  case (worker k e w c r f)
  then obtain j' where j': "j' \<in> set (b_jobs e)" "same_job j j'" "ij_attempt j + k \<le> ij_attempt j'" and ok: "ingestion_ok e" by blast
  note way = run_worker_way [OF ok worker(2,3,4)]
  obtain m where "m \<in> set (b_jobs f)" "same_job j' m" "ij_attempt j' + (if processed i r then 1 else 0) \<le> ij_attempt m"
    using processed_counts [OF ok j'(1), of i f r c] way j'(2) assms(4) by (auto simp: same_job_def)
  moreover have "ingestion_ok f" using ingest_steps_ok way ok by blast
  ultimately show ?case using j'(2,3) by (intro conjI bexI [of _ m]) (auto simp: same_job_def)
qed

text \<open>C16: Whatever workers and other sessions do, each in their own transactions, the ingestion tables keep their
  invariant, and a job is reported as processed at most as often as its limit of attempts allows: every report has
  counted an attempt.\<close>

theorem ingestion_history_sound:
  assumes "ingestion_ok d" "j \<in> set (b_jobs d)" "ingestion_run (ij_id j) d k e"
  shows "ingestion_ok e \<and> (\<exists>j' \<in> set (b_jobs e). same_job j j' \<and> ij_attempt j + k \<le> ij_attempt j' \<and> ij_attempt j' \<le> ij_max j)"
  using ingestion_run_counts [OF assms(3,1,2) refl] by (fastforce simp: ingestion_ok_def job_ok_def same_job_def)

text \<open>C17: When a worker reports that it has processed a job, the published job has more attempts than before and
  its newest attempt is recorded; without an error code the job has the final status the outcome names, with one
  it is queued again or has failed.\<close>

theorem worker_outcome_published:
  assumes "ingestion_ok d" "others_behave w (env_job e)" "wk_attempt_id w \<notin> ia_id ` set (b_attempts d)"
    and "run_worker w e d = (Inr out, d')"
    and "wo_status out \<in> {PROCESSED_SUCCESS, PROCESSED_REVIEW_REQUIRED, PROCESSED_REJECTED, PROCESSED_FAILED}"
  shows "\<exists>k \<in> set (b_jobs d'). ij_id k = env_job e \<and>
    (\<forall>j \<in> set (b_jobs d). ij_id j = env_job e \<longrightarrow> ij_attempt j < ij_attempt k) \<and>
    (\<exists>a \<in> set (job_attempts (env_job e) d'). ia_number a = ij_attempt k) \<and>
    (if wo_error out = None then ij_status k \<in> set valid_parser_statuses \<and> wo_status out = outcome_of (ij_status k)
     else wo_status out = PROCESSED_FAILED \<and> ij_status k \<in> {''QUEUED'', ''FAILED''})"
proof -
  have "reported (env_job e) d out d'" using run_worker_way [OF assms(1-4)] by blast
  with assms(5) show ?thesis unfolding reported_def by blast
qed

text \<open>C18: A command that was logged before, by its id or by its idempotency key in the organization of the job,
  changes nothing and claims nothing, however often and whenever it is delivered again.\<close>

theorem replayed_command_changes_nothing:
  assumes "\<forall>j \<in> set (b_jobs d). ij_id j = env_job e \<longrightarrow>
    (\<exists>c \<in> set (b_commands d). cmd_id c = env_command e \<or> cmd_org c = ij_org j \<and> cmd_key c = env_key e)"
    and "run_worker w e d = (r, d')"
  shows "d' = d \<and> (\<forall>out. r = Inr out \<longrightarrow> \<not> wo_claimed out)"
proof -
  have "command_constraints (command_row e j) d \<noteq> Inr ()" if "j \<in> set (b_jobs d)" "ij_id j = env_job e" for j
    using assms(1) that by (auto simp: command_constraints_def command_row_def raise_if_def bindE_def split: sum.splits)
  then have "published (snd (run_command w e (fresh_session d))) = d \<and>
      (\<forall>out. fst (run_command w e (fresh_session d)) = Inr out \<longrightarrow> \<not> wo_claimed out)"
    using run_command_cases [of w e d] by fastforce
  then show ?thesis
    using assms(2) by (auto simp: run_worker_def claim_and_process_envelope_def bindP_def liftP_def retP_def throwP_def job_outcome_def
      split: prod.splits sum.splits py_exc.splits)
qed

section \<open>A worker on a queue\<close>

definition sample_queue :: doc_db where
  "sample_queue = no_docs\<lparr>b_jobs := [\<lparr>ij_id = 7, ij_org = 1, ij_version = 5, ij_status = ''QUEUED'', ij_attempt = 0, ij_max = 3,
       ij_started = None, ij_completed = None, ij_locked_by = None, ij_locked_at = None, ij_token = None\<rparr>],
     b_versions := [\<lparr>dv_id = 5, dv_org = 1, dv_document = 4, dv_object = 6, dv_number = 1, dv_ingestion = ''QUEUED'',
       dv_extraction = ''PENDING'', dv_detected_mime = None, dv_declared_mime = None\<rparr>]\<rparr>"

definition sample_worker :: worker_env where
  "sample_worker = \<lparr>wk_id = ''w'', wk_mac = sample_mac, wk_resolver = (\<lambda>_. ''secret''), wk_moment = Moment (Date 2026 7 30) 11 4 0 0,
     wk_clock = 100, wk_token = 11, wk_attempt_id = 12, wk_failed_id = 13, wk_result_id = 14, wk_page_id = (\<lambda>n. 20), wk_busy = False,
     wk_skipped = False, wk_storage = (\<lambda>_ _. Inr []), wk_parsers = [], wk_model = None, wk_locator = (\<lambda>_ _ _. None),
     wk_around = \<lparr>e_sha = (\<lambda>_. []), e_float = (\<lambda>_. []), e_str = (\<lambda>_. []), e_ids = (\<lambda>_. (30, 31)), e_env = (\<lambda>_ d. d)\<rparr>,
     wk_after_claim = (\<lambda>d. d), wk_after_failure = (\<lambda>d. d)\<rparr>"

lemma sample_queue_ok: "ingestion_ok sample_queue"
  by (simp add: sample_queue_def no_docs_def ingestion_ok_def job_ok_def job_attempts_def version_of_status_def)

lemma sample_alone: "others_behave sample_worker i"
  by (simp add: others_behave_def sample_worker_def keeps_held_def)

lemma sample_command:
  "claim_and_process_envelope sample_worker sample_envelope = run_command sample_worker sample_envelope"
proof -
  have "validate_envelope sample_mac (\<lambda>_. ''secret'') (Moment (Date 2026 7 30) 11 4 0 0) sample_envelope = Inr ()"
    by (simp add: validate_envelope_iff ascii_text_def sample_mac_def accepted_fields_def moment_us_def max_skew_us_def toordinal_def)
      (simp add: sample_envelope_def accepted_fields_def moment_us_def max_skew_us_def toordinal_def)
  moreover have "valid_worker_id ''w''" by (simp add: valid_worker_id_def str_strip_def is_space_def)
  ultimately show ?thesis
    by (simp add: claim_and_process_envelope_def sample_worker_def raise_if_def bindP_def liftP_def fun_eq_iff)
qed

lemma sample_job_claimed:
  "run_command sample_worker sample_envelope (fresh_session sample_queue) =
     process_claimed_job sample_worker 7 1 (fresh_session (claimed_rows sample_worker sample_envelope (hd (b_jobs sample_queue)) sample_queue))"
  by (simp add: run_command_def bindP_def tryP_def retP_def claim_run log_command_def write_simps command_constraints_def Let_def
    claimable_job_def claimed_rows_def put_ingestion_job_def command_row_def s_others_def modifyP_def raise_if_def too_long_def
    sample_worker_def sample_envelope_def sample_queue_def no_docs_def)

lemma sample_job_run:
  "case run_command sample_worker sample_envelope (fresh_session sample_queue) of
     (Inl _, _) \<Rightarrow> False
   | (Inr out, t) \<Rightarrow> wo_status out = PROCESSED_FAILED \<and> wo_job out = Some 7 \<and> map ij_attempt (b_jobs (published t)) = [1] \<and>
       map ij_id (b_jobs (published t)) = [7] \<and> map cmd_id (b_commands (published t)) = [9]"
  unfolding sample_job_claimed process_claimed_job_def begin_attempt_def whenP_def transition_job_def transition_version_def work_on_def
    parse_document_def recover_failure_def count_failure_def fail_version_def insert_ingestion_attempt_def doc_audit_def Let_def
  by (simp add: proc_simps tryP_def s_simps view_def fresh_session_def claimed_rows_def put_ingestion_job_def put_version_def command_row_def
    find_claimed_def raise_if_def job_outcome_def check_transition_def change_job_def
    job_transitions_def version_transitions_def allowed_targets_def
    sample_worker_def sample_envelope_def sample_queue_def no_docs_def)

lemma sample_job_outcome:
  obtains out e where "run_worker sample_worker sample_envelope sample_queue = (Inr out, e)" "wo_status out = PROCESSED_FAILED"
    "wo_job out = Some 7" "map ij_id (b_jobs e) = [7]" "map cmd_id (b_commands e) = [9]"
  using sample_job_run that unfolding run_worker_def sample_command by (auto split: prod.splits sum.splits)

lemma ingestion_history_sound_witness: "\<exists>e. ingestion_run 7 sample_queue 1 e \<and> ingestion_ok e"
proof -
  obtain out e where run: "run_worker sample_worker sample_envelope sample_queue = (Inr out, e)" "wo_status out = PROCESSED_FAILED" "wo_job out = Some 7"
    by (rule sample_job_outcome) blast
  have "ingestion_run 7 sample_queue (if processed 7 (Inr out) then Suc 0 else 0) e"
    by (rule ingestion_run.worker [OF ingestion_run.begins sample_alone _ run(1)]) (simp add: sample_queue_def no_docs_def)
  with run have r: "ingestion_run 7 sample_queue 1 e" by (simp add: processed_def)
  define j where "j = hd (b_jobs sample_queue)"
  have "j \<in> set (b_jobs sample_queue)" "ij_id j = 7" by (simp_all add: j_def sample_queue_def)
  with ingestion_history_sound [OF sample_queue_ok, of j 1 e] r show ?thesis by auto
qed

lemma worker_outcome_published_witness:
  "\<exists>out e. run_worker sample_worker sample_envelope sample_queue = (Inr out, e) \<and> (\<exists>k \<in> set (b_jobs e). ij_id k = 7 \<and> 0 < ij_attempt k)"
proof -
  obtain out e where run: "run_worker sample_worker sample_envelope sample_queue = (Inr out, e)" "wo_status out = PROCESSED_FAILED"
    by (rule sample_job_outcome) blast
  have "wk_attempt_id sample_worker \<notin> ia_id ` set (b_attempts sample_queue)" by (simp add: sample_queue_def no_docs_def)
  from worker_outcome_published [OF sample_queue_ok sample_alone this run(1)] run(2)
  obtain k where "k \<in> set (b_jobs e)" "ij_id k = env_job sample_envelope"
    "\<forall>j \<in> set (b_jobs sample_queue). ij_id j = env_job sample_envelope \<longrightarrow> ij_attempt j < ij_attempt k" by blast
  with run show ?thesis by (auto simp: sample_queue_def sample_envelope_def)
qed

lemma replayed_command_changes_nothing_witness:
  "\<exists>out e r. run_worker sample_worker sample_envelope sample_queue = (Inr out, e) \<and> run_worker sample_worker sample_envelope e = (r, e)"
proof -
  obtain out e where run: "run_worker sample_worker sample_envelope sample_queue = (Inr out, e)" "map cmd_id (b_commands e) = [9]"
    by (rule sample_job_outcome) (rule that)
  obtain r f where again: "run_worker sample_worker sample_envelope e = (r, f)" by fastforce
  have "\<exists>c \<in> set (b_commands e). cmd_id c = env_command sample_envelope"
    using run(2) by (auto simp: sample_envelope_def)
  with replayed_command_changes_nothing [OF _ again] have "f = e" by blast
  with run again show ?thesis by blast
qed

end
