(* ===== verification/ComparisonSchemas.thy ===== *)
theory ComparisonSchemas
  imports CalculationService DocumentStore Normalization "HOL-Library.Product_Lexorder"
begin

text \<open>
  What a comparison is asked for and what it answers: \<open>schemas/comparison.py\<close>,
  \<open>schemas/result_dataset.py\<close>, the registry of measures (\<open>calculations/semantic_measure_registry.py\<close>)
  and the tables it reads and writes. A model is a record, a dictionary in the order of its keys an
  association list, an unordered \<open>list(set(...))\<close> a set. \<open>model_dump\<close> and \<open>model_validate\<close> are inverse
  on these records, so a stored snapshot is the record itself. The snapshot of the query is the whole request: the
  code leaves out its chart types and its two flags, which nothing reads from it.
\<close>

section \<open>The request\<close>

datatype value_source_policy =
    SOURCE_REPORTED_ONLY
  | SYSTEM_DERIVED_ONLY
  | PREFER_SOURCE_REPORTED
  | PREFER_SYSTEM_DERIVED
  | BOTH_SEPARATE_SERIES

datatype value_origin = SOURCE_REPORTED | SYSTEM_DERIVED

record measure_selector =
  sel_code :: string
  sel_origin :: string

record comparison_request =
  rq_institutions :: "uuid list"
  rq_measures :: "measure_selector list"
  rq_periods :: "uuid list"
  rq_basis :: string
  rq_currency :: string
  rq_scale :: string
  rq_policy :: value_source_policy
  rq_sort_measure :: "string option"
  rq_sort_origin :: "string option"
  rq_direction :: string
  rq_top_n :: "nat option"
  rq_top_scope :: string
  rq_mode :: string
  rq_common :: string
  rq_evidence :: string
  rq_charts :: "string list"
  rq_reconciliation :: bool
  rq_page :: nat
  rq_page_size :: nat

text \<open>What pydantic has checked before the handler runs.\<close>

definition valid_request :: "comparison_request \<Rightarrow> bool" where
  "valid_request q \<longleftrightarrow>
     1 \<le> length (rq_institutions q) \<and> length (rq_institutions q) \<le> 10 \<and>
     1 \<le> length (rq_measures q) \<and> length (rq_measures q) \<le> 15 \<and>
     1 \<le> length (rq_periods q) \<and> length (rq_periods q) \<le> 20 \<and>
     rq_basis q \<in> {''SOLO'', ''CONSOLIDATED''} \<and> rq_scale q \<in> {''ONE'', ''THOUSAND'', ''MILLION'', ''BILLION''} \<and>
     rq_direction q \<in> {''asc'', ''desc''} \<and> (case rq_top_n q of None \<Rightarrow> True | Some n \<Rightarrow> 1 \<le> n \<and> n \<le> 50) \<and>
     rq_top_scope q \<in> {''INSTITUTIONS_PER_PERIOD'', ''DATASET_ROWS_GLOBAL''} \<and>
     rq_common q \<in> {''STRICT_COMMON_PERIOD'', ''ALLOW_PARTIAL_WITH_WARNINGS''} \<and> rq_evidence q \<in> {''STRICT'', ''PARTIAL''} \<and>
     length (rq_charts q) \<le> 4 \<and> 1 \<le> rq_page q \<and> 1 \<le> rq_page_size q \<and> rq_page_size q \<le> 100"

section \<open>Measures\<close>

record semantic_measure =
  sm_code :: string
  sm_name :: string
  sm_reported :: "string option"
  sm_derived :: "string option"
  sm_unit :: string
  sm_currency_semantics :: string
  sm_scale_semantics :: string

definition currency_line :: "string \<times> string \<Rightarrow> semantic_measure" where
  "currency_line l = (case l of (code, name) \<Rightarrow> \<lparr>sm_code = code, sm_name = name, sm_reported = Some code, sm_derived = None,
     sm_unit = ''CURRENCY'', sm_currency_semantics = ''REQUIRED'', sm_scale_semantics = ''ALLOWED''\<rparr>)"

definition percent_measure :: "string \<Rightarrow> string \<Rightarrow> string option \<Rightarrow> string option \<Rightarrow> semantic_measure" where
  "percent_measure code name reported derived = \<lparr>sm_code = code, sm_name = name, sm_reported = reported, sm_derived = derived,
     sm_unit = ''PERCENT'', sm_currency_semantics = ''PROHIBITED'', sm_scale_semantics = ''NONE''\<rparr>"

definition measure_definitions :: "semantic_measure list" where
  "measure_definitions =
     [currency_line (''TOTAL_ASSETS'', ''Total Assets''),
      currency_line (''TOTAL_DEPOSITS'', ''Total Deposits''),
      currency_line (''TOTAL_LOANS'', ''Total Loans''),
      currency_line (''NON_PERFORMING_LOANS'', ''Non-Performing Loans''),
      currency_line (''NET_INCOME'', ''Net Income''),
      currency_line (''TOTAL_EQUITY'', ''Total Equity''),
      percent_measure ''LOAN_TO_DEPOSIT_RATIO'' ''Loan to Deposit Ratio'' (Some ''LOAN_TO_DEPOSIT_RATIO'') (Some ''LOAN_TO_DEPOSIT_RATIO''),
      percent_measure ''NPL_RATIO'' ''Non-Performing Loans Ratio'' (Some ''NPL_RATIO'') (Some ''NPL_RATIO''),
      percent_measure ''GROWTH_RATE'' ''Growth Rate'' None (Some ''GROWTH_RATE''),
      percent_measure ''RETURN_ON_ASSETS'' ''Return on Assets'' (Some ''RETURN_ON_ASSETS'') (Some ''RETURN_ON_ASSETS''),
      percent_measure ''RETURN_ON_EQUITY'' ''Return on Equity'' (Some ''RETURN_ON_EQUITY'') (Some ''RETURN_ON_EQUITY'')]"

definition source_reported_lines :: "(string \<times> string) list" where
  "source_reported_lines =
     [(''CASH_AND_CENTRAL_BANK'', ''Cash and Central Bank''),
      (''BANKS_RECEIVABLES'', ''Banks''),
      (''SECURITIES_PORTFOLIO'', ''Securities Portfolio''),
      (''SUBSIDIARIES_AND_ASSOCIATES'', ''Subsidiaries and Associates''),
      (''TANGIBLE_ASSETS'', ''Tangible Assets''),
      (''INTANGIBLE_ASSETS'', ''Intangible Assets''),
      (''OTHER_ASSETS'', ''Other Assets''),
      (''TOTAL_LIABILITIES'', ''Total Liabilities''),
      (''FUNDS_BORROWED'', ''Funds Borrowed''),
      (''MONEY_MARKET_FUNDING'', ''Money Market Funding''),
      (''SECURITIES_ISSUED'', ''Securities Issued''),
      (''LEASE_LIABILITIES'', ''Lease Liabilities''),
      (''PROVISIONS'', ''Provisions''),
      (''SUBORDINATED_DEBT'', ''Subordinated Debt''),
      (''OTHER_LIABILITIES'', ''Other Liabilities''),
      (''PAID_IN_CAPITAL'', ''Paid-in Capital''),
      (''CAPITAL_RESERVES'', ''Capital Reserves''),
      (''PROFIT_RESERVES'', ''Profit Reserves''),
      (''RETAINED_EARNINGS'', ''Retained Earnings''),
      (''INTEREST_INCOME'', ''Interest Income''),
      (''INTEREST_EXPENSE'', ''Interest Expense''),
      (''NET_INTEREST_INCOME'', ''Net Interest Income''),
      (''NET_FEE_COMMISSION_INCOME'', ''Net Fee and Commission Income''),
      (''TRADING_INCOME'', ''Trading Income''),
      (''OPERATING_EXPENSES'', ''Operating Expenses''),
      (''EXPECTED_CREDIT_LOSS'', ''Expected Credit Loss''),
      (''PROFIT_BEFORE_TAX'', ''Profit Before Tax''),
      (''TAX_EXPENSE'', ''Tax Expense'')]"

definition published_ratios :: "(string \<times> string) list" where
  "published_ratios = [(''CAPITAL_ADEQUACY_RATIO'', ''Capital Adequacy Ratio''), (''NET_INTEREST_MARGIN'', ''Net Interest Margin'')]"

text \<open>\<open>dict.setdefault\<close>: a present key is left alone.\<close>

definition set_default :: "semantic_measure \<Rightarrow> (string \<times> semantic_measure) list \<Rightarrow> (string \<times> semantic_measure) list" where
  "set_default m d = (if sm_code m \<in> fst ` set d then d else d @ [(sm_code m, m)])"

definition semantic_registry :: "(string \<times> semantic_measure) list" where
  "semantic_registry = fold set_default (map currency_line source_reported_lines @
     map (\<lambda>(code, name). percent_measure code name (Some code) None) published_ratios) (map (\<lambda>m. (sm_code m, m)) measure_definitions)"

definition get_measure :: "string \<Rightarrow> py_exc + semantic_measure" where
  "get_measure code = require_some (ValueError ''SEMANTIC_MEASURE_MAPPING_UNAVAILABLE'') (map_of semantic_registry code)"

definition list_measures :: "semantic_measure list" where
  "list_measures = map snd semantic_registry"

section \<open>The answer\<close>

record measure_item =
  mi_code :: string
  mi_semantic :: string
  mi_label :: string
  mi_unit :: string
  mi_currency :: "string option"
  mi_scale :: string
  mi_origin :: value_origin
  mi_formula :: "string option"

record dataset_cell =
  dc_measure :: string
  dc_semantic :: string
  dc_canonical :: string
  dc_display :: string
  dc_origin :: value_origin
  dc_fact :: "uuid option"
  dc_calculation :: "uuid option"
  dc_evidence :: "uuid option"
  dc_reconciliation :: "string option"
  dc_warning :: bool
  dc_warning_code :: "string option"

record dataset_row =
  dr_id :: string
  dr_institution :: uuid
  dr_name :: string
  dr_period :: uuid
  dr_label :: string
  dr_basis :: string
  dr_cells :: "(string \<times> dataset_cell) list"

record table_column =
  tc_key :: string
  tc_title :: string
  tc_type :: string
  tc_alignment :: string
  tc_unit :: string

record table_cell =
  tl_raw :: string
  tl_display :: string
  tl_origin :: value_origin
  tl_reconciliation :: "string option"
  tl_warning :: bool
  tl_warning_code :: "string option"
  tl_evidence :: "uuid option"

record table_row =
  tr_id :: string
  tr_name :: string
  tr_label :: string
  tr_cells :: "(string \<times> table_cell) list"

record pagination =
  pn_page :: nat
  pn_size :: nat
  pn_rows :: nat
  pn_pages :: nat
  pn_next :: bool
  pn_previous :: bool

record table_spec =
  ts_dataset :: uuid
  ts_version :: string
  ts_columns :: "table_column list"
  ts_rows :: "table_row list"
  ts_pagination :: pagination

record chart_point =
  cp_x :: string
  cp_y :: string
  cp_display :: string
  cp_label :: string
  cp_evidence :: "uuid option"
  cp_warning :: bool
  cp_warning_code :: "string option"

record chart_series =
  cs_name :: string
  cs_semantic :: string
  cs_measure :: string
  cs_unit :: string
  cs_currency :: "string option"
  cs_points :: "chart_point list"

record chart_spec =
  ct_dataset :: uuid
  ct_type :: string
  ct_title :: string
  ct_subtitle :: string
  ct_y_label :: string
  ct_unit :: string
  ct_currency :: "string option"
  ct_series :: "chart_series list"
  ct_warnings :: "string set"

record data_quality =
  dq_expected :: nat
  dq_populated :: nat
  dq_missing :: nat
  dq_ineligible :: nat
  dq_mismatch :: nat
  dq_warnings :: nat
  dq_reported :: nat
  dq_derived :: nat
  dq_reconciliation :: nat
  dq_completeness :: string

definition quality_sum :: "data_quality \<Rightarrow> nat" where
  "quality_sum q = dq_populated q + dq_missing q + dq_ineligible q + dq_mismatch q"

definition validate_data_quality :: "data_quality \<Rightarrow> py_exc + data_quality" where
  "validate_data_quality q = bindE (raise_val (dq_expected q \<noteq> quality_sum q)
     (''DATA_QUALITY_INVARIANT_VIOLATED: expected ('' @ nat_str (dq_expected q) @ '') != sum ('' @ nat_str (quality_sum q) @ '')'')) (\<lambda>_. Inr q)"

text \<open>A warning is the dictionary of a missing cell.\<close>

type_synonym dataset_warning = "(string \<times> string) list"

record result_dataset =
  ds_id :: uuid
  ds_version :: string
  ds_generated :: nat
  ds_query :: comparison_request
  ds_dimensions :: "(string \<times> nat) list"
  ds_measures :: "measure_item list"
  ds_rows :: "dataset_row list"
  ds_quality :: data_quality
  ds_warnings :: "dataset_warning list"
  ds_evidence :: "uuid set"
  ds_calculations :: "uuid set"
  ds_pagination :: pagination

record comparison_response =
  cmp_id :: uuid
  cmp_dataset :: result_dataset
  cmp_table :: table_spec
  cmp_charts :: "chart_spec list"

section \<open>Tables\<close>

text \<open>The columns of \<open>calculations\<close> only the comparison reads, and the stored comparisons.\<close>

record stored_calculation = calculation +
  sc_version :: string
  sc_spec :: "string option"
  sc_impl :: "string option"

record comparison_run =
  cn_id :: uuid
  cn_org :: uuid
  cn_user :: uuid
  cn_mode :: string
  cn_policy :: value_source_policy
  cn_query :: comparison_request
  cn_created :: nat

record stored_dataset =
  sd_id :: uuid
  sd_org :: uuid
  sd_run :: uuid
  sd_version :: string
  sd_query :: comparison_request
  sd_dimensions :: "(string \<times> nat) list"
  sd_measures :: "measure_item list"
  sd_rows :: "dataset_row list"
  sd_table :: table_spec
  sd_charts :: "chart_spec list"
  sd_quality :: data_quality
  sd_warnings :: "dataset_warning list"
  sd_created :: nat

record comparison_db =
  k_institutions :: "institution list"
  k_periods :: "reporting_period list"
  k_facts :: "financial_fact list"
  k_evidence :: "candidate_evidence list"
  k_versions :: "document_version list"
  k_documents :: "document list"
  k_candidates :: "fact_candidate list"
  k_calculations :: "stored_calculation list"
  k_attempts :: "calc_attempt list"
  k_inputs :: "calc_input list"
  k_calc_evidence :: "calc_evidence list"
  k_reconciliations :: "reconciliation list"
  k_runs :: "comparison_run list"
  k_datasets :: "stored_dataset list"
  k_audit :: "audit_event list"

end
