(* ===== verification/ComparisonService.thy ===== *)
theory ComparisonService
  imports ComparisonSchemas
begin

text \<open>
  \<open>services/comparison_service.py\<close> and its endpoints (\<open>api/v1/comparisons.py\<close>, \<open>api/v1/evidence.py\<close>): the
  facts and calculations a request may show, the cells of every institution and period, sorting, the
  best rows, pages, tables and charts, and the stored snapshot.

  The statements of a request see one state of the tables. Rows of a table are in the order of their
  creation, which is the order of a query without \<open>order_by\<close>. A bounding box holds JSON numbers, as
  the extraction writes it. The clock, new identifiers and the digest are parameters.
\<close>

section \<open>A loop that may raise\<close>

fun foldE :: "('b \<Rightarrow> 'a \<Rightarrow> 'e + 'b) \<Rightarrow> 'b \<Rightarrow> 'a list \<Rightarrow> 'e + 'b" where
  "foldE f s [] = Inr s"
| "foldE f s (x # xs) = bindE (f s x) (\<lambda>t. foldE f t xs)"

lemma foldE_rule:
  "P s \<Longrightarrow> (\<And>s x t. x \<in> set xs \<Longrightarrow> P s \<Longrightarrow> f s x = Inr t \<Longrightarrow> P t) \<Longrightarrow> foldE f s xs = Inr t \<Longrightarrow> P t"
  by (induction xs arbitrary: s) (auto simp: bindE_Inr_iff)

lemma foldE_raises:
  "P s \<Longrightarrow> (\<And>s x t. x \<in> set xs \<Longrightarrow> P s \<Longrightarrow> f s x = Inr t \<Longrightarrow> P t) \<Longrightarrow> (\<And>s x e. x \<in> set xs \<Longrightarrow> P s \<Longrightarrow> f s x = Inl e \<Longrightarrow> Q e) \<Longrightarrow>
    foldE f s xs = Inl e \<Longrightarrow> Q e"
proof (induction xs arbitrary: s)
  case (Cons x xs)
  show ?case
  proof (cases "f s x")
    case (Inl d)
    then show ?thesis using Cons.prems(3) [OF _ Cons.prems(1), of x] Cons.prems(4) by simp
  next
    case (Inr t)
    then have "P t" using Cons.prems(2) [OF _ Cons.prems(1), of x] by simp
    then show ?thesis
    proof (rule Cons.IH)
      show "P t'" if "y \<in> set xs" "P s'" "f s' y = Inr t'" for s' y t'
        using Cons.prems(2) [OF _ that(2,3)] that(1) by simp
      show "Q e'" if "y \<in> set xs" "P s'" "f s' y = Inl e'" for s' y e'
        using Cons.prems(3) [OF _ that(2,3)] that(1) by simp
      show "foldE f t xs = Inl e" using Cons.prems(4) Inr by simp
    qed
  qed
qed simp

section \<open>Helpers\<close>

definition scale_divisor :: "string \<Rightarrow> py_exc + dec" where
  "scale_divisor s = require_some (ValueError ''SCALE_NORMALIZATION_ERROR'')
     (map_of [(''ONE'', Dec False 1 0), (''THOUSAND'', Dec False 1000 0), (''MILLION'', Dec False 1000000 0),
        (''BILLION'', Dec False 1000000000 0)] s)"

definition safe_decimal :: "string \<Rightarrow> py_exc + dec" where
  "safe_decimal v = (case decimal_of_text v of Some (Finite_Num d) \<Rightarrow> Inr d | _ \<Rightarrow> Inl (ValueError ''INVALID_DECIMAL_VALUE''))"

text \<open>\<open>f"{value:.4f}"\<close> and, with the comma, \<open>f"{value:,.2f}"\<close>.\<close>

definition fixed_text :: "bool \<Rightarrow> nat \<Rightarrow> dec \<Rightarrow> string" where
  "fixed_text commas p d =
     (let r = drescale ROUND_HALF_EVEN d (- int p);
          ds = nat_str (dcoeff r);
          padded = replicate (p + 1 - length ds) CHR ''0'' @ ds;
          ip = take (length padded - p) padded
      in (if dsign r then ''-'' else []) @ (if commas then rev (group_rev CHR '','' (rev ip)) else ip) @ ''.'' @
         drop (length padded - p) padded)"

definition format_display :: "dec \<Rightarrow> string \<Rightarrow> dec \<Rightarrow> py_exc + string" where
  "format_display v unit scale =
     (if unit \<in> {''PERCENT'', ''RATIO''} then Inr (fixed_text False 4 v)
      else bindE (ddiv default_context v scale) (\<lambda>scaled. Inr (fixed_text True 2 scaled)))"

definition make_pagination :: "nat \<Rightarrow> nat \<Rightarrow> nat \<Rightarrow> pagination" where
  "make_pagination rows p per_page =
     (let total_pages = max 1 ((rows + per_page - 1) div per_page)
      in \<lparr>pn_page = p, pn_size = per_page, pn_rows = rows, pn_pages = total_pages, pn_next = p < total_pages, pn_previous = 1 < p\<rparr>)"

definition is_number :: "float_arg option \<Rightarrow> bool" where
  "is_number x \<longleftrightarrow> (case x of None \<Rightarrow> False | Some NotAFloat \<Rightarrow> False | Some _ \<Rightarrow> True)"

definition validate_coordinates :: "candidate_evidence \<Rightarrow> document_version \<Rightarrow> py_exc + bool" where
  "validate_coordinates ev dv =
     (case dv_detected_mime dv of
        None \<Rightarrow> Inl (AppError ''AttributeError'' ''lower'')
      | Some m \<Rightarrow>
          let mime = str_lower m in
          if contains_sub ''pdf'' mime then
            Inr (positive_index (ce_page ev) \<and> list_all (\<lambda>k. is_number (map_of (ce_bbox ev) k)) [''x0'', ''y0'', ''x1'', ''y1''])
          else if contains_sub ''spreadsheet'' mime \<or> contains_sub ''excel'' mime \<or> contains_sub ''xlsx'' mime then
            Inr (\<not> falsy_str (ce_sheet ev) \<and> \<not> falsy_str (ce_cell ev) \<or> positive_index (ce_row ev) \<and> positive_index (ce_column ev))
          else if contains_sub ''csv'' mime \<or> contains_sub ''text'' mime then
            Inr (positive_index (ce_row ev) \<and> positive_index (ce_column ev))
          else Inr (positive_index (ce_page ev) \<or> ce_bbox ev \<noteq> []))"

section \<open>What a request may show\<close>

text \<open>The measures by code, in the order of their first mention.\<close>

definition semantic_defs :: "comparison_request \<Rightarrow> py_exc + (string \<times> semantic_measure) list" where
  "semantic_defs q = foldE (\<lambda>d sel. bindE (get_measure (sel_code sel)) (\<lambda>m. Inr (dict_put (sm_code m) m d))) [] (rq_measures q)"

definition check_thresholds :: "comparison_request \<Rightarrow> py_exc + unit" where
  "check_thresholds q =
     bindE (raise_val (10 < length (rq_institutions q) \<or> 15 < length (rq_measures q) \<or> 20 < length (rq_periods q)) ''COMPARISON_LIMIT_EXCEEDED'') (\<lambda>_.
       raise_val (case rq_top_n q of None \<Rightarrow> False | Some n \<Rightarrow> 50 < n) ''COMPARISON_LIMIT_EXCEEDED'')"

definition find_institutions :: "comparison_db \<Rightarrow> uuid \<Rightarrow> comparison_request \<Rightarrow> py_exc + (uuid \<times> institution) list" where
  "find_institutions db org q =
     (let found = dict_update [] (map (\<lambda>i. (inst_id i, i))
            (filter (\<lambda>i. inst_id i \<in> set (rq_institutions q) \<and> inst_org i = org) (k_institutions db)))
      in bindE (raise_val (length found \<noteq> length (rq_institutions q)) ''INSTITUTION_NOT_FOUND'') (\<lambda>_. Inr found))"

definition find_periods :: "comparison_db \<Rightarrow> uuid \<Rightarrow> comparison_request \<Rightarrow> py_exc + (uuid \<times> reporting_period) list" where
  "find_periods db org q =
     (let found = dict_update [] (map (\<lambda>p. (rp_id p, p))
            (filter (\<lambda>p. rp_id p \<in> set (rq_periods q) \<and> rp_org p = org) (k_periods db)))
      in bindE (raise_val (length found \<noteq> length (rq_periods q)) ''PERIOD_NOT_FOUND'') (\<lambda>_. Inr found))"

definition code_if :: "bool \<Rightarrow> string option \<Rightarrow> string list" where
  "code_if b c = (case c of None \<Rightarrow> [] | Some s \<Rightarrow> if b \<and> s \<noteq> [] then [s] else [])"

definition reported_metrics :: "value_source_policy \<Rightarrow> (string \<times> semantic_measure) list \<Rightarrow> string list" where
  "reported_metrics p defs = concat (map (\<lambda>(_, m).
     code_if (p \<in> {SOURCE_REPORTED_ONLY, PREFER_SOURCE_REPORTED, BOTH_SEPARATE_SERIES}) (sm_reported m) @
     code_if (p = PREFER_SYSTEM_DERIVED) (sm_reported m)) defs)"

definition derived_formulas :: "value_source_policy \<Rightarrow> (string \<times> semantic_measure) list \<Rightarrow> string list" where
  "derived_formulas p defs = concat (map (\<lambda>(_, m).
     code_if (p \<in> {SYSTEM_DERIVED_ONLY, PREFER_SYSTEM_DERIVED, BOTH_SEPARATE_SERIES}) (sm_derived m) @
     code_if (p = PREFER_SOURCE_REPORTED) (sm_derived m)) defs)"

type_synonym cell_key = "uuid \<times> uuid \<times> string"

subsection \<open>Reported facts\<close>

definition eligible_fact :: "uuid \<Rightarrow> comparison_request \<Rightarrow> string list \<Rightarrow> financial_fact \<Rightarrow> bool" where
  "eligible_fact org q metrics f \<longleftrightarrow> ff_org f = org \<and> ff_institution f \<in> set (rq_institutions q) \<and> ff_period f \<in> set (rq_periods q) \<and>
     ff_metric_code f \<in> set metrics \<and> ff_valid_to f = None \<and> ff_review f = ''HUMAN_VERIFIED'' \<and> ff_origin f = ''SOURCE_REPORTED'' \<and>
     ff_basis f = rq_basis q"

text \<open>NULLs come last.\<close>

definition null_last :: "int option \<Rightarrow> nat \<times> int" where
  "null_last x = (case x of None \<Rightarrow> (1, 0) | Some n \<Rightarrow> (0, n))"

definition evidence_of :: "comparison_db \<Rightarrow> uuid \<Rightarrow> financial_fact \<Rightarrow> (candidate_evidence \<times> document_version) list" where
  "evidence_of db org f = sort_key (\<lambda>(e, _). (null_last (ce_page e), null_last (ce_row e), null_last (ce_column e)))
     [(e, v). e \<leftarrow> k_evidence db, ce_org e = org \<and> Some (ce_candidate e) = ff_candidate f, v \<leftarrow> k_versions db, ce_version e = dv_id v]"

fun first_valid :: "(candidate_evidence \<times> document_version) list \<Rightarrow> py_exc + uuid option" where
  "first_valid [] = Inr None"
| "first_valid ((e, v) # evs) = bindE (validate_coordinates e v) (\<lambda>ok. if ok then Inr (Some (ce_id e)) else first_valid evs)"

type_synonym fact_maps = "(cell_key \<times> financial_fact) list \<times> (uuid \<times> uuid) list"

definition take_fact :: "comparison_db \<Rightarrow> uuid \<Rightarrow> comparison_request \<Rightarrow> fact_maps \<Rightarrow> financial_fact \<Rightarrow> py_exc + fact_maps" where
  "take_fact db org q st f =
     bindE (raise_val (ff_unit f \<notin> {''PERCENT'', ''RATIO''} \<and> ff_currency f \<noteq> rq_currency q) ''CURRENCY_MISMATCH'') (\<lambda>_.
     let evs = evidence_of db org f in
     if evs = [] then bindE (raise_val (rq_evidence q = ''STRICT'') ''EVIDENCE_INCOMPLETE'') (\<lambda>_. Inr st)
     else bindE (first_valid evs) (\<lambda>r.
       case r of
         None \<Rightarrow> bindE (raise_val (rq_evidence q = ''STRICT'') ''EVIDENCE_FORMAT_COORDINATES_INVALID'') (\<lambda>_. Inr st)
       | Some i \<Rightarrow> Inr (dict_put (ff_institution f, ff_period f, ff_metric_code f) f (fst st), dict_put (ff_id f) i (snd st))))"

definition reported_facts :: "comparison_db \<Rightarrow> uuid \<Rightarrow> comparison_request \<Rightarrow> string list \<Rightarrow> py_exc + fact_maps" where
  "reported_facts db org q metrics =
     (if metrics = [] then Inr ([], [])
      else foldE (take_fact db org q) ([], []) (filter (eligible_fact org q metrics) (k_facts db)))"

subsection \<open>Derived calculations\<close>

definition eligible_calculation :: "uuid \<Rightarrow> comparison_request \<Rightarrow> string list \<Rightarrow> stored_calculation \<Rightarrow> calc_attempt \<Rightarrow> bool" where
  "eligible_calculation org q codes c a \<longleftrightarrow> cl_attempt c = at_id a \<and> cl_org c = org \<and> cl_institution c \<in> set (rq_institutions q) \<and>
     cl_period c \<in> set (rq_periods q) \<and> cl_formula_code c \<in> set codes \<and> cl_status c = ''COMPLETED'' \<and> at_status a = ''COMPLETED''"

text \<open>Lineage and checksums; a calculation that fails is passed over.\<close>

definition sound_lineage :: "(string \<Rightarrow> string) \<Rightarrow> stored_calculation \<Rightarrow> calc_attempt \<Rightarrow> bool" where
  "sound_lineage sha c a \<longleftrightarrow> cl_org c = at_org a \<and> Some (cl_hash c) = at_hash a \<and> cl_unit c \<noteq> [] \<and> cl_scale c \<noteq> [] \<and>
     (case verify_checksum sha (cl_formula_code c) (sc_version c) (sc_spec c) (sc_impl c) of Inl _ \<Rightarrow> False | Inr _ \<Rightarrow> True)"

definition documented :: "comparison_db \<Rightarrow> uuid \<Rightarrow> stored_calculation \<Rightarrow> bool" where
  "documented db org c \<longleftrightarrow> (\<exists>i \<in> set (k_inputs db). ci_calculation i = cl_id c \<and> ci_org i = org) \<and>
     (\<exists>e \<in> set (k_calc_evidence db). cv_calculation e = cl_id c \<and> cv_org e = org)"

type_synonym calc_maps = "(cell_key \<times> stored_calculation) list \<times> (uuid \<times> reconciliation) list"

definition take_calculation ::
  "(string \<Rightarrow> string) \<Rightarrow> comparison_db \<Rightarrow> uuid \<Rightarrow> calc_maps \<Rightarrow> stored_calculation \<times> calc_attempt \<Rightarrow> py_exc + calc_maps" where
  "take_calculation sha db org st ca = (case ca of (c, a) \<Rightarrow>
     if \<not> sound_lineage sha c a \<or> \<not> documented db org c then Inr st
     else bindE (scalar_one_or_none (filter (\<lambda>r. rc_calculation r = cl_id c \<and> rc_org r = org) (k_reconciliations db))) (\<lambda>r.
       Inr (dict_put (cl_institution c, cl_period c, cl_formula_code c) c (fst st),
            (case r of None \<Rightarrow> snd st | Some x \<Rightarrow> dict_put (cl_id c) x (snd st)))))"

definition derived_calculations ::
  "(string \<Rightarrow> string) \<Rightarrow> comparison_db \<Rightarrow> uuid \<Rightarrow> comparison_request \<Rightarrow> string list \<Rightarrow> py_exc + calc_maps" where
  "derived_calculations sha db org q codes =
     (if codes = [] then Inr ([], [])
      else foldE (take_calculation sha db org) ([], [])
        [(c, a). c \<leftarrow> k_calculations db, a \<leftarrow> k_attempts db, eligible_calculation org q codes c a])"

section \<open>Cells\<close>

type_synonym target = "string \<times> semantic_measure \<times> value_origin"

definition measure_targets :: "value_source_policy \<Rightarrow> string \<times> semantic_measure \<Rightarrow> target list" where
  "measure_targets p cm = (case cm of (code, m) \<Rightarrow>
     (case p of
        BOTH_SEPARATE_SERIES \<Rightarrow>
          (if falsy_str (sm_reported m) then [] else [(code @ '':SOURCE_REPORTED'', m, SOURCE_REPORTED)]) @
          (if falsy_str (sm_derived m) then [] else [(code @ '':SYSTEM_DERIVED'', m, SYSTEM_DERIVED)])
      | SOURCE_REPORTED_ONLY \<Rightarrow> (if falsy_str (sm_reported m) then [] else [(code, m, SOURCE_REPORTED)])
      | SYSTEM_DERIVED_ONLY \<Rightarrow> (if falsy_str (sm_derived m) then [] else [(code, m, SYSTEM_DERIVED)])
      | PREFER_SOURCE_REPORTED \<Rightarrow> [(code, m, SOURCE_REPORTED)]
      | PREFER_SYSTEM_DERIVED \<Rightarrow> [(code, m, SYSTEM_DERIVED)]))"

definition target_measures :: "value_source_policy \<Rightarrow> (string \<times> semantic_measure) list \<Rightarrow> target list" where
  "target_measures p defs = concat (map (measure_targets p) defs)"

record chosen =
  hs_value :: dec
  hs_origin :: value_origin
  hs_fact :: "uuid option"
  hs_calculation :: "uuid option"
  hs_evidence :: "uuid option"

definition chosen_fact :: "(uuid \<times> uuid) list \<Rightarrow> financial_fact option \<Rightarrow> chosen option" where
  "chosen_fact evs r = map_option (\<lambda>f. \<lparr>hs_value = ff_normalized f, hs_origin = SOURCE_REPORTED, hs_fact = Some (ff_id f),
     hs_calculation = None, hs_evidence = map_of evs (ff_id f)\<rparr>) r"

definition chosen_calculation :: "stored_calculation option \<Rightarrow> chosen option" where
  "chosen_calculation r = map_option (\<lambda>c. \<lparr>hs_value = cl_unrounded c, hs_origin = SYSTEM_DERIVED, hs_fact = None,
     hs_calculation = Some (cl_id c), hs_evidence = None\<rparr>) r"

definition or_else :: "'a option \<Rightarrow> 'a option \<Rightarrow> 'a option" where
  "or_else x y = (case x of None \<Rightarrow> y | Some _ \<Rightarrow> x)"

definition choose_value :: "value_source_policy \<Rightarrow> value_origin \<Rightarrow> chosen option \<Rightarrow> chosen option \<Rightarrow> chosen option" where
  "choose_value p wanted f c =
     (case p of
        SOURCE_REPORTED_ONLY \<Rightarrow> f
      | SYSTEM_DERIVED_ONLY \<Rightarrow> c
      | PREFER_SOURCE_REPORTED \<Rightarrow> or_else f c
      | PREFER_SYSTEM_DERIVED \<Rightarrow> or_else c f
      | BOTH_SEPARATE_SERIES \<Rightarrow> if wanted = SOURCE_REPORTED then f else c)"

definition reconciliation_states :: "string list" where
  "reconciliation_states = [''RECONCILED'', ''WITHIN_TOLERANCE'', ''OUTSIDE_TOLERANCE'', ''NO_SOURCE_REPORTED_COMPARISON'', ''NOT_APPLICABLE'']"

definition reconciliation_of :: "comparison_request \<Rightarrow> (uuid \<times> reconciliation) list \<Rightarrow> chosen \<Rightarrow> string option" where
  "reconciliation_of q recs h =
     (case hs_calculation h of
        None \<Rightarrow> None
      | Some i \<Rightarrow> if \<not> rq_reconciliation q then None
          else (case map_of recs i of None \<Rightarrow> None | Some r \<Rightarrow> if rc_status r \<in> set reconciliation_states then Some (rc_status r) else None))"

record sources =
  src_facts :: "(cell_key \<times> financial_fact) list"
  src_evidence :: "(uuid \<times> uuid) list"
  src_calculations :: "(cell_key \<times> stored_calculation) list"
  src_reconciliations :: "(uuid \<times> reconciliation) list"
  src_scale :: dec

definition by_code :: "(cell_key \<times> 'a) list \<Rightarrow> uuid \<Rightarrow> uuid \<Rightarrow> string option \<Rightarrow> 'a option" where
  "by_code d i p c = (case c of None \<Rightarrow> None | Some s \<Rightarrow> if s = [] then None else map_of d (i, p, s))"

definition cell_value :: "comparison_request \<Rightarrow> sources \<Rightarrow> uuid \<Rightarrow> uuid \<Rightarrow> target \<Rightarrow> chosen option" where
  "cell_value q src i p tgt = (case tgt of (_, m, wanted) \<Rightarrow>
     choose_value (rq_policy q) wanted (chosen_fact (src_evidence src) (by_code (src_facts src) i p (sm_reported m)))
       (chosen_calculation (by_code (src_calculations src) i p (sm_derived m))))"

record assembly =
  as_measures :: "(string \<times> measure_item) list"
  as_rows :: "dataset_row list"
  as_evidence :: "uuid list"
  as_calculations :: "uuid list"
  as_warnings :: "dataset_warning list"
  as_populated :: nat
  as_missing :: nat
  as_warned :: nat
  as_reported :: nat
  as_derived :: nat
  as_reconciled :: nat

definition empty_assembly :: assembly where
  "empty_assembly = \<lparr>as_measures = [], as_rows = [], as_evidence = [], as_calculations = [], as_warnings = [], as_populated = 0,
     as_missing = 0, as_warned = 0, as_reported = 0, as_derived = 0, as_reconciled = 0\<rparr>"

definition measure_item_of :: "comparison_request \<Rightarrow> string \<Rightarrow> semantic_measure \<Rightarrow> value_origin \<Rightarrow> measure_item" where
  "measure_item_of q key m origin = \<lparr>mi_code = key, mi_semantic = sm_code m, mi_label = sm_name m, mi_unit = sm_unit m,
     mi_currency = (if sm_unit m = ''CURRENCY'' then Some (rq_currency q) else None), mi_scale = rq_scale q, mi_origin = origin,
     mi_formula = (if origin = SYSTEM_DERIVED then sm_derived m else None)\<rparr>"

definition cell_of :: "string \<Rightarrow> semantic_measure \<Rightarrow> chosen \<Rightarrow> string \<Rightarrow> string option \<Rightarrow> dataset_cell" where
  "cell_of key m h display status = \<lparr>dc_measure = key, dc_semantic = sm_code m, dc_canonical = dec_str (hs_value h), dc_display = display,
     dc_origin = hs_origin h, dc_fact = hs_fact h, dc_calculation = hs_calculation h, dc_evidence = hs_evidence h,
     dc_reconciliation = status, dc_warning = (status = Some ''OUTSIDE_TOLERANCE''),
     dc_warning_code = (if status = Some ''OUTSIDE_TOLERANCE'' then Some ''OUTSIDE_TOLERANCE'' else None)\<rparr>"

definition opt_list :: "'a option \<Rightarrow> 'a list" where
  "opt_list x = (case x of None \<Rightarrow> [] | Some y \<Rightarrow> [y])"

definition populate :: "comparison_request \<Rightarrow> string \<Rightarrow> semantic_measure \<Rightarrow> chosen \<Rightarrow> string option \<Rightarrow> assembly \<Rightarrow> assembly" where
  "populate q key m h status s =
     (let outside = (if status = Some ''OUTSIDE_TOLERANCE'' then 1 else 0) in
      s\<lparr>as_measures := (if key \<in> fst ` set (as_measures s) then as_measures s else as_measures s @ [(key, measure_item_of q key m (hs_origin h))]),
        as_evidence := as_evidence s @ opt_list (hs_evidence h), as_calculations := as_calculations s @ opt_list (hs_calculation h),
        as_populated := as_populated s + 1, as_warned := as_warned s + outside, as_reconciled := as_reconciled s + outside,
        as_reported := as_reported s + (if hs_origin h = SOURCE_REPORTED then 1 else 0),
        as_derived := as_derived s + (if hs_origin h = SOURCE_REPORTED then 0 else 1)\<rparr>)"

definition missing_warning :: "institution \<Rightarrow> reporting_period \<Rightarrow> semantic_measure \<Rightarrow> dataset_warning" where
  "missing_warning i p m = [(''code'', ''MISSING_DATA_POINT''),
     (''message'', ''Data missing for '' @ inst_display i @ '' ('' @ rp_label p @ '')''),
     (''institution'', inst_display i), (''period'', rp_label p), (''measure'', sm_name m)]"

definition miss :: "comparison_request \<Rightarrow> institution \<Rightarrow> reporting_period \<Rightarrow> semantic_measure \<Rightarrow> assembly \<Rightarrow> assembly" where
  "miss q i p m s = s\<lparr>as_missing := as_missing s + 1,
     as_warnings := as_warnings s @ (if rq_common q = ''ALLOW_PARTIAL_WITH_WARNINGS'' then [missing_warning i p m] else [])\<rparr>"

definition assemble_cell ::
  "comparison_request \<Rightarrow> sources \<Rightarrow> institution \<Rightarrow> reporting_period \<Rightarrow> assembly \<times> (string \<times> dataset_cell) list \<Rightarrow> target \<Rightarrow>
    py_exc + assembly \<times> (string \<times> dataset_cell) list" where
  "assemble_cell q src i p st tgt = (case (st, tgt) of ((s, cells), (key, m, wanted)) \<Rightarrow>
     (case cell_value q src (inst_id i) (rp_id p) tgt of
        Some h \<Rightarrow> bindE (format_display (hs_value h) (sm_unit m) (src_scale src)) (\<lambda>display.
          let status = reconciliation_of q (src_reconciliations src) h
          in Inr (populate q key m h status s, dict_put key (cell_of key m h display status) cells))
      | None \<Rightarrow> bindE (raise_val (rq_common q = ''STRICT_COMMON_PERIOD'') ''INCOMPLETE_COMMON_PERIOD'') (\<lambda>_. Inr (miss q i p m s, cells))))"

definition row_of :: "comparison_request \<Rightarrow> institution \<Rightarrow> reporting_period \<Rightarrow> (string \<times> dataset_cell) list \<Rightarrow> dataset_row" where
  "row_of q i p cells = \<lparr>dr_id = uuid_str (inst_id i) @ '':'' @ uuid_str (rp_id p), dr_institution = inst_id i, dr_name = inst_display i,
     dr_period = rp_id p, dr_label = rp_label p, dr_basis = rq_basis q, dr_cells = cells\<rparr>"

definition assemble_row ::
  "comparison_request \<Rightarrow> sources \<Rightarrow> target list \<Rightarrow> assembly \<Rightarrow> institution \<times> reporting_period \<Rightarrow> py_exc + assembly" where
  "assemble_row q src targets s ip = (case ip of (i, p) \<Rightarrow>
     bindE (foldE (assemble_cell q src i p) (s, []) targets) (\<lambda>(s', cells).
       Inr (if cells = [] then s' else s'\<lparr>as_rows := as_rows s' @ [row_of q i p cells]\<rparr>)))"

definition in_order :: "('a \<times> 'b) list \<Rightarrow> 'a list \<Rightarrow> py_exc + 'b list" where
  "in_order d ks = mapE (\<lambda>k. require_some (AppError ''KeyError'' []) (map_of d k)) ks"

definition assemble ::
  "comparison_request \<Rightarrow> sources \<Rightarrow> target list \<Rightarrow> institution list \<Rightarrow> reporting_period list \<Rightarrow> py_exc + assembly" where
  "assemble q src targets insts periods = foldE (assemble_row q src targets) empty_assembly
     (List.product (sort_key (\<lambda>i. (inst_display i, uuid_str (inst_id i))) insts)
        (sort_key (\<lambda>p. (rp_start p, rp_end p, rp_type p, uuid_str (rp_id p))) periods))"

end
