(* ===== verification/ComparisonDataset.thy ===== *)
theory ComparisonDataset
  imports ComparisonService
begin

text \<open>
  The second half of \<open>execute_comparison\<close>: rows are sorted and cut, summed up, paged and drawn as table
  and charts, and the snapshot is stored and read back; then the detail of a piece of evidence and
  the options of the filter, and the endpoints with the errors they let through.
\<close>

section \<open>Order and pages\<close>

definition sort_measure_key :: "comparison_request \<Rightarrow> (string \<times> measure_item) list \<Rightarrow> string option" where
  "sort_measure_key q ms = (if \<not> falsy_str (rq_sort_measure q) then rq_sort_measure q
     else (case ms of [] \<Rightarrow> None | (k, _) # _ \<Rightarrow> Some k))"

definition row_value :: "comparison_request \<Rightarrow> string option \<Rightarrow> dataset_row \<Rightarrow> py_exc + dec" where
  "row_value q key r =
     (case key of
        None \<Rightarrow> Inr (Dec False 0 0)
      | Some k \<Rightarrow>
          (case map_of (dr_cells r) k of
             None \<Rightarrow> Inr (Dec False 0 0)
           | Some c \<Rightarrow> if k = [] then Inr (Dec False 0 0)
               else bindE (safe_decimal (dc_canonical c)) (\<lambda>v. Inr (if rq_direction q = ''desc'' then dneg default_context v else v))))"

type_synonym row_key = "rat \<times> string \<times> string"

definition row_sort_key :: "comparison_request \<Rightarrow> string option \<Rightarrow> dataset_row \<Rightarrow> py_exc + row_key" where
  "row_sort_key q key r = bindE (row_value q key r) (\<lambda>v. Inr (dval v, dr_name r, dr_id r))"

definition sort_rows :: "comparison_request \<Rightarrow> string option \<Rightarrow> dataset_row list \<Rightarrow> py_exc + dataset_row list" where
  "sort_rows q key rows = bindE (mapE (row_sort_key q key) rows) (\<lambda>ks. Inr (map snd (sort_key fst (zip ks rows))))"

fun best_per_period :: "nat \<Rightarrow> (uuid \<Rightarrow> nat) \<Rightarrow> dataset_row list \<Rightarrow> dataset_row list" where
  "best_per_period n counts [] = []"
| "best_per_period n counts (r # rs) =
     (if counts (dr_period r) < n then r # best_per_period n (counts(dr_period r := counts (dr_period r) + 1)) rs
      else best_per_period n counts rs)"

definition top_rows :: "comparison_request \<Rightarrow> dataset_row list \<Rightarrow> dataset_row list" where
  "top_rows q rows =
     (case rq_top_n q of
        None \<Rightarrow> rows
      | Some n \<Rightarrow>
          if rq_top_scope q = ''DATASET_ROWS_GLOBAL'' then take n rows
          else if rq_top_scope q = ''INSTITUTIONS_PER_PERIOD'' then best_per_period n (\<lambda>_. 0) rows
          else rows)"

definition page_rows :: "nat \<Rightarrow> nat \<Rightarrow> 'a list \<Rightarrow> 'a list" where
  "page_rows p per_page rows = take per_page (drop ((p - 1) * per_page) rows)"

section \<open>The dataset\<close>

definition completeness :: "nat \<Rightarrow> nat \<Rightarrow> py_exc + string" where
  "completeness populated expected =
     (if 0 < expected then
        bindE (ddiv default_context (dec_of_int (int populated)) (dec_of_int (int expected))) (\<lambda>r.
        bindE (dquantize default_context ROUND_HALF_EVEN (dmul default_context r (Dec False 100 0)) (-2)) (\<lambda>x. Inr (dec_str x)))
      else Inr ''0.00'')"

definition data_quality_of :: "nat \<Rightarrow> assembly \<Rightarrow> py_exc + data_quality" where
  "data_quality_of expected s =
     (let cells = as_populated s + as_missing s + 0 + 0 in
      bindE (raise_val (expected \<noteq> cells)
        (''DATA_QUALITY_INVARIANT_VIOLATED: expected ('' @ nat_str expected @ '') != sum ('' @ nat_str cells @ '')'')) (\<lambda>_.
      bindE (completeness (as_populated s) expected) (\<lambda>pct.
      validate_data_quality \<lparr>dq_expected = expected, dq_populated = as_populated s, dq_missing = as_missing s, dq_ineligible = 0,
        dq_mismatch = 0, dq_warnings = as_warned s, dq_reported = as_reported s, dq_derived = as_derived s,
        dq_reconciliation = as_reconciled s, dq_completeness = pct\<rparr>)))"

definition percent_unit :: "string \<Rightarrow> bool" where
  "percent_unit u \<longleftrightarrow> u \<in> {''PERCENT'', ''RATIO''}"

definition text_column :: "string \<Rightarrow> string \<Rightarrow> table_column" where
  "text_column key title = \<lparr>tc_key = key, tc_title = title, tc_type = ''string'', tc_alignment = ''left'', tc_unit = ''Text''\<rparr>"

definition measure_column :: "measure_item \<Rightarrow> table_column" where
  "measure_column m = \<lparr>tc_key = mi_code m, tc_title = mi_label m, tc_type = (if percent_unit (mi_unit m) then ''percent'' else ''decimal''),
     tc_alignment = ''right'', tc_unit = (if percent_unit (mi_unit m) then ''%''
       else (case mi_currency m of None \<Rightarrow> [] | Some c \<Rightarrow> c) @ '' ('' @ mi_scale m @ '')'')\<rparr>"

definition table_columns :: "measure_item list \<Rightarrow> table_column list" where
  "table_columns ms = [text_column ''institution_name'' ''Institution'', text_column ''period_label'' ''Period''] @ map measure_column ms"

definition table_cell_of :: "dataset_cell \<Rightarrow> table_cell" where
  "table_cell_of c = \<lparr>tl_raw = dc_canonical c, tl_display = dc_display c, tl_origin = dc_origin c, tl_reconciliation = dc_reconciliation c,
     tl_warning = dc_warning c, tl_warning_code = dc_warning_code c, tl_evidence = dc_evidence c\<rparr>"

definition table_row_of :: "dataset_row \<Rightarrow> table_row" where
  "table_row_of r = \<lparr>tr_id = dr_id r, tr_name = dr_name r, tr_label = dr_label r, tr_cells = map (\<lambda>(k, c). (k, table_cell_of c)) (dr_cells r)\<rparr>"

text \<open>Measures of one unit share a chart.\<close>

definition unit_groups :: "(string \<times> measure_item) list \<Rightarrow> (string \<times> string list) list" where
  "unit_groups ms = fold (\<lambda>(k, m) d. dict_put (mi_unit m) ((case map_of d (mi_unit m) of None \<Rightarrow> [] | Some ks \<Rightarrow> ks) @ [k]) d) ms []"

definition chart_point_of :: "measure_item \<Rightarrow> dataset_row \<Rightarrow> dataset_cell \<Rightarrow> chart_point" where
  "chart_point_of m r c = \<lparr>cp_x = dr_name r @ '' ('' @ dr_label r @ '')'', cp_y = dc_canonical c, cp_display = dc_display c,
     cp_label = mi_label m, cp_evidence = dc_evidence c, cp_warning = dc_warning c, cp_warning_code = dc_warning_code c\<rparr>"

definition cells_of_measure :: "string \<Rightarrow> dataset_row list \<Rightarrow> (dataset_row \<times> dataset_cell) list" where
  "cells_of_measure k rows = concat (map (\<lambda>r. case map_of (dr_cells r) k of None \<Rightarrow> [] | Some c \<Rightarrow> [(r, c)]) rows)"

definition series_of :: "dataset_row list \<Rightarrow> string \<times> measure_item \<Rightarrow> chart_series" where
  "series_of rows km = (case km of (k, m) \<Rightarrow> \<lparr>cs_name = mi_label m, cs_semantic = mi_semantic m, cs_measure = k, cs_unit = mi_unit m,
     cs_currency = mi_currency m, cs_points = map (\<lambda>(r, c). chart_point_of m r c) (cells_of_measure k rows)\<rparr>)"

definition chart_warnings :: "dataset_row list \<Rightarrow> string list \<Rightarrow> string set" where
  "chart_warnings rows keys = set (concat (map (\<lambda>k. concat (map (\<lambda>(r, c).
     if dc_warning c \<and> \<not> falsy_str (dc_warning_code c) then opt_list (dc_warning_code c) else []) (cells_of_measure k rows))) keys))"

definition chart_of ::
  "comparison_request \<Rightarrow> uuid \<Rightarrow> (string \<times> measure_item) list \<Rightarrow> dataset_row list \<Rightarrow> string \<Rightarrow> string \<times> string list \<Rightarrow> chart_spec" where
  "chart_of q dataset ms rows kind unit_group = (case unit_group of (unit, keys) \<Rightarrow>
     (let members = filter (\<lambda>(k, _). k \<in> set keys) ms in
      \<lparr>ct_dataset = dataset, ct_type = kind, ct_title = joined '', '' (map (\<lambda>(_, m). mi_label m) members),
       ct_subtitle = ''Basis: '' @ rq_basis q @ '' | Scale: '' @ rq_scale q, ct_y_label = (if percent_unit unit then unit else rq_scale q),
       ct_unit = unit, ct_currency = (if percent_unit unit then None else Some (rq_currency q)),
       ct_series = map (series_of rows) members, ct_warnings = chart_warnings rows keys\<rparr>))"

definition charts_of :: "comparison_request \<Rightarrow> uuid \<Rightarrow> (string \<times> measure_item) list \<Rightarrow> dataset_row list \<Rightarrow> chart_spec list" where
  "charts_of q dataset ms rows = concat (map (\<lambda>kind. map (chart_of q dataset ms rows kind) (unit_groups ms)) (rq_charts q))"

definition sources_of ::
  "(string \<Rightarrow> string) \<Rightarrow> comparison_db \<Rightarrow> uuid \<Rightarrow> comparison_request \<Rightarrow> (string \<times> semantic_measure) list \<Rightarrow> py_exc + sources" where
  "sources_of sha db org q defs =
     bindE (reported_facts db org q (reported_metrics (rq_policy q) defs)) (\<lambda>(facts, evs).
     bindE (derived_calculations sha db org q (derived_formulas (rq_policy q) defs)) (\<lambda>(calcs, recs).
     bindE (scale_divisor (rq_scale q)) (\<lambda>scale.
     Inr \<lparr>src_facts = facts, src_evidence = evs, src_calculations = calcs, src_reconciliations = recs, src_scale = scale\<rparr>)))"

record comparison_ids =
  id_run :: uuid
  id_dataset :: uuid

definition response_of ::
  "comparison_ids \<Rightarrow> nat \<Rightarrow> comparison_request \<Rightarrow> assembly \<Rightarrow> data_quality \<Rightarrow> dataset_row list \<Rightarrow> comparison_response" where
  "response_of ids now q s quality rows =
     (let paged = page_rows (rq_page q) (rq_page_size q) rows;
          pages = make_pagination (length rows) (rq_page q) (rq_page_size q);
          items = map snd (as_measures s)
      in \<lparr>cmp_id = id_run ids,
          cmp_dataset = \<lparr>ds_id = id_dataset ids, ds_version = ''3.0.0'', ds_generated = now, ds_query = q,
            ds_dimensions = [(''institutions_count'', length (rq_institutions q)), (''periods_count'', length (rq_periods q)),
              (''measures_count'', length (as_measures s))],
            ds_measures = items, ds_rows = paged, ds_quality = quality, ds_warnings = as_warnings s,
            ds_evidence = set (as_evidence s), ds_calculations = set (as_calculations s), ds_pagination = pages\<rparr>,
          cmp_table = \<lparr>ts_dataset = id_dataset ids, ts_version = ''3.0.0'', ts_columns = table_columns items,
            ts_rows = map table_row_of paged, ts_pagination = pages\<rparr>,
          cmp_charts = charts_of q (id_dataset ids) (as_measures s) paged\<rparr>)"

text \<open>All rows of the answer, whose pages are shown, and the answer for the page asked for.\<close>

definition build_comparison ::
  "(string \<Rightarrow> string) \<Rightarrow> comparison_ids \<Rightarrow> nat \<Rightarrow> uuid \<Rightarrow> comparison_request \<Rightarrow> comparison_db \<Rightarrow>
    py_exc + comparison_response \<times> dataset_row list" where
  "build_comparison sha ids now org q db =
     bindE (check_thresholds q) (\<lambda>_.
     bindE (semantic_defs q) (\<lambda>defs.
     bindE (find_institutions db org q) (\<lambda>insts.
     bindE (find_periods db org q) (\<lambda>periods.
     bindE (sources_of sha db org q defs) (\<lambda>src.
     let targets = target_measures (rq_policy q) defs in
     bindE (in_order insts (rq_institutions q)) (\<lambda>is.
     bindE (in_order periods (rq_periods q)) (\<lambda>ps.
     bindE (assemble q src targets is ps) (\<lambda>s.
     bindE (sort_rows q (sort_measure_key q (as_measures s)) (as_rows s)) (\<lambda>sorted_rows.
     let rows = top_rows q sorted_rows in
     bindE (data_quality_of (length (rq_institutions q) * length (rq_periods q) * length targets) s) (\<lambda>quality.
     Inr (response_of ids now q s quality rows, rows)))))))))))"

definition stored_of :: "uuid \<Rightarrow> comparison_response \<Rightarrow> dataset_row list \<Rightarrow> stored_dataset" where
  "stored_of org r rows = (let d = cmp_dataset r in
     \<lparr>sd_id = ds_id d, sd_org = org, sd_run = cmp_id r, sd_version = ''3.0.0'', sd_query = ds_query d, sd_dimensions = ds_dimensions d,
      sd_measures = ds_measures d, sd_rows = rows, sd_table = cmp_table r, sd_charts = cmp_charts r, sd_quality = ds_quality d,
      sd_warnings = ds_warnings d, sd_created = ds_generated d\<rparr>)"

definition run_of :: "uuid \<Rightarrow> uuid \<Rightarrow> comparison_response \<Rightarrow> comparison_run" where
  "run_of org user r = (let q = ds_query (cmp_dataset r) in
     \<lparr>cn_id = cmp_id r, cn_org = org, cn_user = user, cn_mode = rq_mode q, cn_policy = rq_policy q, cn_query = q,
      cn_created = ds_generated (cmp_dataset r)\<rparr>)"

definition execute_comparison ::
  "(string \<Rightarrow> string) \<Rightarrow> comparison_ids \<Rightarrow> nat \<Rightarrow> uuid \<Rightarrow> uuid \<Rightarrow> comparison_request \<Rightarrow> (comparison_db, comparison_response) dbproc" where
  "execute_comparison sha ids now org user q =
     bindP (s_read (build_comparison sha ids now org q)) (\<lambda>(r, rows).
     bindP (s_write (\<lambda>d. d\<lparr>k_runs := k_runs d @ [run_of org user r]\<rparr>)) (\<lambda>_.
     bindP (s_write (\<lambda>d. d\<lparr>k_datasets := k_datasets d @ [stored_of org r rows]\<rparr>)) (\<lambda>_.
     bindP (s_write (\<lambda>d. d\<lparr>k_audit := k_audit d @ [audit_record sha org ''COMPARISON_COMPLETED'' ''COMPARISON_RUN'' (id_run ids) (Some user)
       [(''comparison_mode'', JStr (rq_mode q)), (''total_rows'', JInt (int (length rows)))]]\<rparr>)) (\<lambda>_.
     bindP s_commit (\<lambda>_. retP r)))))"

section \<open>The endpoints\<close>

definition allowed_comparison_errors :: "string list" where
  "allowed_comparison_errors = [''COMPARISON_LIMIT_EXCEEDED'', ''METRIC_NOT_SUPPORTED'', ''SEMANTIC_MEASURE_MAPPING_UNAVAILABLE'',
     ''CURRENCY_MISMATCH'', ''REPORTING_BASIS_MISMATCH'', ''UNIT_MISMATCH'', ''SCALE_NORMALIZATION_ERROR'', ''PERIOD_TYPE_MISMATCH'',
     ''EVIDENCE_INCOMPLETE'', ''EVIDENCE_SOURCE_MISMATCH'', ''EVIDENCE_FORMAT_COORDINATES_INVALID'', ''INSTITUTION_NOT_FOUND'',
     ''PERIOD_NOT_FOUND'', ''INCOMPLETE_COMMON_PERIOD'', ''INVALID_DECIMAL_VALUE'', ''DATA_QUALITY_INVARIANT_VIOLATED'',
     ''DATASET_SCHEMA_VERSION_UNSUPPORTED'']"

definition comparison_error :: "py_exc \<Rightarrow> py_exc" where
  "comparison_error e =
     (case e of
        ValueError code \<Rightarrow>
          if code \<in> set allowed_comparison_errors then HTTPError (if contains_sub ''NOT_FOUND'' code then 404 else 400) code
          else HTTPError 400 ''COMPARISON_INTERNAL_ERROR''
      | _ \<Rightarrow> HTTPError 400 ''COMPARISON_INTERNAL_ERROR'')"

definition post_comparison ::
  "(string \<Rightarrow> string) \<Rightarrow> comparison_ids \<Rightarrow> nat \<Rightarrow> uuid \<Rightarrow> uuid \<Rightarrow> comparison_request \<Rightarrow> (comparison_db, comparison_response) dbproc" where
  "post_comparison sha ids now org user q = tryP (execute_comparison sha ids now org user q) (\<lambda>e. throwP (comparison_error e))"

text \<open>
  The endpoint hands \<open>TableCellDTO\<close> the dictionary of a \<open>DatasetRowCellDTO\<close>. Unknown keys are forbidden, so
  the names of the fields decide; the values of the fields both have are of one type.
\<close>

definition dataset_cell_fields :: "string list" where
  "dataset_cell_fields = [''measure_code'', ''semantic_measure_code'', ''canonical_value'', ''display_value'', ''value_origin'', ''fact_id'',
     ''calculation_id'', ''evidence_id'', ''reconciliation_status'', ''warning_flag'', ''warning_code'']"

definition table_cell_fields :: "string list" where
  "table_cell_fields = [''raw_value'', ''display_text'', ''value_origin'', ''reconciliation_status'', ''warning_flag'', ''warning_code'', ''evidence_id'']"

definition required_cell_fields :: "string list" where
  "required_cell_fields = [''raw_value'', ''display_text'', ''value_origin'']"

definition read_table_cell :: "string list \<Rightarrow> dataset_cell \<Rightarrow> py_exc + table_cell" where
  "read_table_cell names c =
     bindE (raise_if (\<not> set names \<subseteq> set table_cell_fields \<or> \<not> set required_cell_fields \<subseteq> set names)
       (AppError ''ValidationError'' ''TableCellDTO'')) (\<lambda>_. Inr (table_cell_of c))"

definition rebuild_row :: "dataset_row \<Rightarrow> py_exc + table_row" where
  "rebuild_row r = bindE (mapE (\<lambda>(k, c). bindE (read_table_cell dataset_cell_fields c) (\<lambda>t. Inr (k, t))) (dr_cells r)) (\<lambda>cells.
     Inr \<lparr>tr_id = dr_id r, tr_name = dr_name r, tr_label = dr_label r, tr_cells = cells\<rparr>)"

definition get_comparison :: "uuid \<Rightarrow> uuid \<Rightarrow> nat \<Rightarrow> nat \<Rightarrow> comparison_db \<Rightarrow> py_exc + comparison_response" where
  "get_comparison org run p per_page db =
     bindE (scalar_one_or_none (filter (\<lambda>d. sd_run d = run \<and> sd_org d = org) (k_datasets db))) (\<lambda>r.
     bindE (require_some (HTTPError 404 ''COMPARISON_NOT_FOUND'') r) (\<lambda>d.
     bindE (raise_if (sd_version d \<notin> {''1.0.0'', ''2.0.0'', ''3.0.0''}) (HTTPError 400 ''DATASET_SCHEMA_VERSION_UNSUPPORTED'')) (\<lambda>_.
     bindE (validate_data_quality (sd_quality d)) (\<lambda>quality.
     let paged = page_rows p per_page (sd_rows d); pages = make_pagination (length (sd_rows d)) p per_page in
     bindE (mapE rebuild_row paged) (\<lambda>table_rows.
     Inr \<lparr>cmp_id = sd_run d,
       cmp_dataset = \<lparr>ds_id = sd_id d, ds_version = sd_version d, ds_generated = sd_created d, ds_query = sd_query d,
         ds_dimensions = sd_dimensions d, ds_measures = sd_measures d, ds_rows = paged, ds_quality = quality, ds_warnings = sd_warnings d,
         ds_evidence = {}, ds_calculations = {}, ds_pagination = pages\<rparr>,
       cmp_table = \<lparr>ts_dataset = sd_id d, ts_version = sd_version d, ts_columns = table_columns (sd_measures d), ts_rows = table_rows,
         ts_pagination = pages\<rparr>,
       cmp_charts = sd_charts d\<rparr>)))))"

section \<open>Filter and evidence\<close>

record filter_metadata =
  fm_institutions :: "(uuid \<times> string) list"
  fm_periods :: "(uuid \<times> string) list"
  fm_measures :: "(string \<times> string \<times> string) list"
  fm_data_backed :: bool

definition get_filter_metadata :: "uuid \<Rightarrow> comparison_db \<Rightarrow> filter_metadata" where
  "get_filter_metadata org db =
     (let insts = map (\<lambda>i. (inst_id i, inst_display i)) (filter (\<lambda>i. inst_org i = org) (k_institutions db));
          periods = map (\<lambda>p. (rp_id p, rp_label p)) (sort_key (\<lambda>p. (rp_start p, rp_end p)) (filter (\<lambda>p. rp_org p = org) (k_periods db)))
      in \<lparr>fm_institutions = insts, fm_periods = periods, fm_measures = map (\<lambda>m. (sm_code m, sm_name m, sm_unit m)) list_measures,
          fm_data_backed = (0 < length insts \<and> 0 < length periods)\<rparr>)"

record evidence_detail =
  ed_id :: uuid
  ed_title :: "string option"
  ed_version :: uuid
  ed_mime :: "string option"
  ed_mime_verified :: bool
  ed_page :: "int option"
  ed_sheet :: "string option"
  ed_cell :: "string option"
  ed_row :: "int option"
  ed_column :: "int option"
  ed_bbox :: "(string \<times> float_arg) list"
  ed_snippet :: "string option"
  ed_method :: "string option"
  ed_confidence :: "string option"
  ed_review :: "string option"
  ed_classification :: string
  ed_masked :: bool

definition masked_snippet :: "string option \<Rightarrow> string option \<times> bool \<times> string" where
  "masked_snippet raw =
     (let snippet = (case raw of None \<Rightarrow> None | Some s \<Rightarrow> if s = [] then None else Some (take 2000 s)) in
      case snippet of
        None \<Rightarrow> (None, False, ''CONFIDENTIAL'')
      | Some s \<Rightarrow> if contains_sub ''TCKN'' s \<or> contains_sub ''SECRET'' s
          then (Some ''[MASKED PERSONAL DATA]'', True, ''STRICTLY_CONFIDENTIAL'') else (Some s, False, ''CONFIDENTIAL''))"

definition get_evidence_detail :: "uuid \<Rightarrow> uuid \<Rightarrow> comparison_db \<Rightarrow> py_exc + evidence_detail" where
  "get_evidence_detail org i db =
     bindE (scalar_one_or_none (filter (\<lambda>e. ce_id e = i \<and> ce_org e = org) (k_evidence db))) (\<lambda>r.
     bindE (require_some (ValueError ''EVIDENCE_NOT_FOUND'') r) (\<lambda>e.
     bindE (scalar_one_or_none (filter (\<lambda>c. fc_id c = ce_candidate e \<and> fc_org c = org) (k_candidates db))) (\<lambda>cand.
     bindE (scalar_one_or_none (filter (\<lambda>v. dv_id v = ce_version e \<and> dv_org v = org) (k_versions db))) (\<lambda>ver.
     bindE (case ver of None \<Rightarrow> Inr None
       | Some v \<Rightarrow> scalar_one_or_none (filter (\<lambda>d. doc_id d = dv_document v \<and> doc_org d = org) (k_documents db))) (\<lambda>doc.
     let mime = (case ver of None \<Rightarrow> None | Some v \<Rightarrow> if falsy_str (dv_detected_mime v) then None else dv_detected_mime v) in
     case masked_snippet (ce_snippet e) of (snippet, masked, classification) \<Rightarrow>
     Inr \<lparr>ed_id = ce_id e, ed_title = map_option doc_name doc, ed_version = ce_version e, ed_mime = mime, ed_mime_verified = (mime \<noteq> None),
       ed_page = ce_page e, ed_sheet = ce_sheet e, ed_cell = ce_cell e, ed_row = ce_row e, ed_column = ce_column e, ed_bbox = ce_bbox e,
       ed_snippet = snippet, ed_method = map_option fc_method cand,
       ed_confidence = (case cand of None \<Rightarrow> None | Some c \<Rightarrow> if is_zero (fc_confidence c) then None else Some (dec_str (fc_confidence c))),
       ed_review = map_option fc_review cand, ed_classification = classification, ed_masked = masked\<rparr>)))))"

definition evidence_error :: "py_exc \<Rightarrow> py_exc" where
  "evidence_error e = (if e = ValueError ''EVIDENCE_NOT_FOUND'' then HTTPError 404 ''EVIDENCE_NOT_FOUND''
     else HTTPError 400 ''EVIDENCE_INTERNAL_ERROR'')"

definition get_evidence :: "uuid \<Rightarrow> uuid \<Rightarrow> comparison_db \<Rightarrow> py_exc + evidence_detail" where
  "get_evidence org i db = (case get_evidence_detail org i db of Inl e \<Rightarrow> Inl (evidence_error e) | Inr x \<Rightarrow> Inr x)"

end
