(* ===== verification/CanonicalValues.thy ===== *)
theory CanonicalValues
  imports ComparisonDataset
begin

text \<open>
  The canonical value of a cell is lossless: \<open>Decimal(str(d))\<close> is \<open>d\<close>, digit for digit and with its
  exponent, whichever notation \<open>str\<close> chooses.
\<close>

lemma number_char:
  assumes "is_digit c \<or> c \<in> set ''-+.E''"
  shows "\<not> is_space c" "c \<noteq> CHR ''_''"
  using assms by (auto simp: is_digit_def is_space_def)

definition exponent_text :: "int \<Rightarrow> string" where
  "exponent_text i = CHR ''E'' # (if 0 \<le> i then ''+'' else []) @ int_str i"

lemma exponent_read: "take_exponent (exponent_text i) = Some i"
  using nat_str_digits by (auto simp: exponent_text_def take_exponent_def take_sign_def int_str_def list_all_iff Let_def)

lemma decimal_of_parts:
  assumes ip: "ip \<noteq> []" "\<forall>c \<in> set ip. is_digit c" and fp: "\<forall>c \<in> set fp. is_digit c"
    and x: "x = [] \<or> x \<in> range exponent_text" and e: "take_exponent x = Some e"
  shows "decimal_of_text ((if s then ''-'' else []) @ ip @ (if fp = [] then [] else CHR ''.'' # fp) @ x) =
    exact_decimal (Dec s (digits_value (ip @ fp)) (e - int (length fp)))"
proof -
  let ?u = "ip @ (if fp = [] then [] else CHR ''.'' # fp) @ x"
  let ?t = "(if s then ''-'' else []) @ ?u"
  have cx: "is_digit c \<or> c \<in> set ''-+.E''" if "c \<in> set x" for c
    using x that nat_str_digits by (auto simp: exponent_text_def int_str_def split: if_splits)
  have chars: "is_digit c \<or> c \<in> set ''-+.E''" if "c \<in> set ?t" for c
    using that cx ip fp by (auto split: if_splits)
  have strip: "str_remove CHR ''_'' (str_strip ?t) = ?t"
    using chars number_char by (subst str_strip_id) (auto simp: str_remove_def filter_id_conv)
  obtain c ip' where c: "ip = c # ip'" "is_digit c" using ip by (cases ip) auto
  then have "c \<noteq> CHR ''-''" "c \<noteq> CHR ''+''" by (auto simp: is_digit_def)
  then have sgn: "take_sign ?t = (s, ?u)" using c by (cases s) (simp_all add: take_sign_def)
  have nd: "\<not> is_digit CHR ''.''" "\<not> is_digit CHR ''E''" by (simp_all add: is_digit_def)
  have x0: "takeWhile is_digit x = []" "dropWhile is_digit x = x" "(x \<noteq> [] \<and> hd x = CHR ''.'') = False"
    using x nd by (auto simp: exponent_text_def)
  have span: "takeWhile is_digit (ip @ r) = ip @ takeWhile is_digit r" "dropWhile is_digit (ip @ r) = dropWhile is_digit r"
    "takeWhile is_digit (fp @ r) = fp @ takeWhile is_digit r" "dropWhile is_digit (fp @ r) = dropWhile is_digit r" for r
    using ip fp by (simp_all add: takeWhile_append2 dropWhile_append2)
  show ?thesis
    unfolding decimal_of_text_def strip sgn Let_def prod.case
    using ip(1) e nd by (cases "fp = []") (simp_all add: span x0)
qed

lemma zeros_value: "digits_value (replicate k CHR ''0'' @ ds) = digits_value ds"
  by (induction k) (simp_all add: digits_value_def)

lemma decimal_of_dec_str:
  assumes "dexp d + int (ndigits (dcoeff d)) - 1 \<le> 999999999999999999" "-1999999999999999997 \<le> dexp d"
  shows "decimal_of_text (dec_str d) = Some (Finite_Num d)"
proof -
  obtain s c e where d: "d = Dec s c e" by (cases d)
  define ds where "ds = nat_str c"
  have ds: "ds \<noteq> []" "\<forall>c \<in> set ds. is_digit c" "digits_value ds = c"
    using nat_str_digits by (auto simp: ds_def)
  have z: "is_digit CHR ''0''" by (simp add: is_digit_def)
  have ok: "exact_decimal (Dec s c e) = Some (Finite_Num d)" using assms by (simp add: exact_decimal_def d)
  consider (small) "e \<le> 0" "e + int (length ds) > -6" "e + int (length ds) \<le> 0"
    | (plain) "e = 0" | (dotted) "e < 0" "0 < e + int (length ds)" | (scientific) "0 < e \<or> e + int (length ds) \<le> -6" "length ds \<noteq> 1"
    | (digit) "0 < e \<or> e + int (length ds) \<le> -6" "length ds = 1"
    by linarith
  then show ?thesis
  proof cases
    case small
    then have "dec_str d = (if s then ''-'' else []) @ ''0'' @ CHR ''.'' # replicate (nat (- (e + int (length ds)))) CHR ''0'' @ ds"
      by (simp add: dec_str_def d Let_def ds_def)
    moreover have "\<forall>c \<in> set (replicate (nat (- (e + int (length ds)))) CHR ''0'' @ ds). is_digit c" using z ds(2) by auto
    ultimately show ?thesis
      using decimal_of_parts [of "''0''" "replicate (nat (- (e + int (length ds)))) CHR ''0'' @ ds" "[]" 0 s] ds z ok small
      by (simp add: take_exponent_def zeros_value [of "Suc k" for k, simplified])
  next
    case plain
    then have "dec_str d = (if s then ''-'' else []) @ ds"
      using ds by (simp add: dec_str_def d Let_def ds_def)
    then show ?thesis
      using decimal_of_parts [of ds "[]" "[]" 0 s] ds ok plain by (simp add: take_exponent_def)
  next
    case dotted
    let ?n = "nat (e + int (length ds))"
    have n: "0 < ?n" "?n < length ds" using dotted by auto
    then have "dec_str d = (if s then ''-'' else []) @ take ?n ds @ CHR ''.'' # drop ?n ds"
      using dotted by (simp add: dec_str_def d Let_def ds_def)
    moreover have "\<forall>c \<in> set (take ?n ds). is_digit c" "\<forall>c \<in> set (drop ?n ds). is_digit c"
      using ds(2) by (auto dest: in_set_takeD in_set_dropD)
    ultimately show ?thesis
      using decimal_of_parts [of "take ?n ds" "drop ?n ds" "[]" 0 s] ds ok n dotted by (simp add: take_exponent_def)
  next
    case scientific
    let ?i = "e + int (length ds) - 1"
    have "1 < length ds" using scientific(2) ds(1) by (cases ds) auto
    moreover have "?i \<noteq> 0" using scientific calculation by linarith
    ultimately have "dec_str d = (if s then ''-'' else []) @ take 1 ds @ CHR ''.'' # drop 1 ds @ exponent_text ?i"
      using scientific(1) by (elim disjE) (simp_all add: dec_str_def d Let_def ds_def exponent_text_def)
    moreover have "\<forall>c \<in> set (take 1 ds). is_digit c" "\<forall>c \<in> set (drop 1 ds). is_digit c"
      using ds(2) by (auto dest: in_set_takeD in_set_dropD)
    moreover note exponent_read [of ?i]
    ultimately show ?thesis
      using decimal_of_parts [of "take 1 ds" "drop 1 ds" "exponent_text ?i" ?i s] ds ok \<open>1 < length ds\<close>
      by auto
  next
    case digit
    have "e \<noteq> 0" using digit by linarith
    with digit have "dec_str d = (if s then ''-'' else []) @ ds @ exponent_text e"
      by (auto simp add: dec_str_def d Let_def ds_def exponent_text_def)
    then show ?thesis
      using decimal_of_parts [of ds "[]" "exponent_text e" e s] exponent_read [of e] ds ok
      by auto
  qed
qed

lemma safe_decimal_canonical: "is_numeric p n d \<Longrightarrow> p \<le> 1000 \<Longrightarrow> n \<le> 1000 \<Longrightarrow> safe_decimal (dec_str d) = Inr d"
proof -
  assume d: "is_numeric p n d" "p \<le> 1000" "n \<le> 1000"
  have "ndigits (dcoeff d) \<le> Suc p"
    using d(1) ndigits_le_iff [of "Suc p" "dcoeff d"] by (simp add: is_numeric_def)
  then have "decimal_of_text (dec_str d) = Some (Finite_Num d)"
    using d by (intro decimal_of_dec_str) (simp_all add: is_numeric_def)
  then show ?thesis by (simp add: safe_decimal_def)
qed

end
