(* ===== verification/ComparisonCells.thy ===== *)
theory ComparisonCells
  imports ComparisonDataset
begin

text \<open>
  Where the cells of a comparison come from, and how many there are. The two tables of sources keep
  an invariant over the rows they take; the cells of a row are those sources, one per measure that
  has a value; the counters agree with them.
\<close>

section \<open>Dictionaries and loops\<close>

lemma map_fst_put: "map fst (dict_put k v d) = (if k \<in> fst ` set d then map fst d else map fst d @ [k])"
proof -
  have "map fst (map (\<lambda>(x, w). if x = k then (x, v) else (x, w)) d) = map fst d" by (induction d) auto
  then show ?thesis by (simp add: dict_put_def)
qed

lemma keys_put [simp]: "fst ` set (dict_put k v d) = insert k (fst ` set d)"
  using arg_cong [OF map_fst_put [of k v d], of set] by (auto simp: insert_absorb split: if_splits)

lemma distinct_put: "distinct (map fst d) \<Longrightarrow> distinct (map fst (dict_put k v d))"
  by (simp add: map_fst_put)

lemma map_of_put [simp]: "map_of (dict_put k v d) = (map_of d)(k \<mapsto> v)"
proof -
  have "map_of (map (\<lambda>(x, w). if x = k then (x, v) else (x, w)) d) = (if k \<in> fst ` set d then (map_of d)(k \<mapsto> v) else map_of d)" (is "?l d = _")
  proof (induction d)
    case (Cons p d)
    obtain x w where p: "p = (x, w)" by (cases p)
    have "map_of d k = None" if "k \<notin> fst ` set d" using that by (simp add: map_of_eq_None_iff)
    with Cons show ?case by (simp add: p fun_eq_iff)
  qed simp
  moreover have "map_of (d @ [(k, v)]) = (map_of d)(k \<mapsto> v)" if "k \<notin> fst ` set d"
    using that by (simp add: map_add_def fun_eq_iff map_of_eq_None_iff split: option.split) (metis map_of_eq_None_iff option.distinct(1))
  ultimately show ?thesis by (simp add: dict_put_def)
qed

lemma length_put: "k \<notin> fst ` set d \<Longrightarrow> dict_put k v d = d @ [(k, v)]"
  by (simp add: dict_put_def)

lemma foldE_adds:
  assumes "P s" "foldE f s xs = Inr t"
    and "\<And>s x t. x \<in> set xs \<Longrightarrow> P s \<Longrightarrow> f s x = Inr t \<Longrightarrow> P t \<and> N t = N s + (k::nat)"
  shows "P t \<and> N t = N s + k * length xs"
  using assms
proof (induction xs arbitrary: s)
  case (Cons x xs)
  then obtain u where u: "f s x = Inr u" "foldE f u xs = Inr t" by (auto simp: bindE_Inr_iff)
  then have "P u \<and> N u = N s + k" using Cons.prems(3) [of x s u] Cons.prems(1) u(1) by simp
  moreover have "P t \<and> N t = N u + k * length xs"
  proof (rule Cons.IH)
    show "P u" "foldE f u xs = Inr t" using calculation u(2) by simp_all
    show "P t' \<and> N t' = N s' + k" if "y \<in> set xs" "P s'" "f s' y = Inr t'" for s' y t'
      using Cons.prems(3) [OF _ that(2,3)] that(1) by simp
  qed
  ultimately show ?case by simp
qed simp

section \<open>Measures\<close>

lemma fold_default_keys:
  "list_all (\<lambda>(k, x). sm_code x = k) d \<Longrightarrow> list_all (\<lambda>(k, x). sm_code x = k) (fold set_default ms d)"
  by (induction ms arbitrary: d) (simp_all add: set_default_def)

lemma registry_keys: "map_of semantic_registry code = Some m \<Longrightarrow> sm_code m = code"
proof -
  have "list_all (\<lambda>(k, x). sm_code x = k) semantic_registry"
    unfolding semantic_registry_def by (rule fold_default_keys) (simp add: list_all_iff)
  then show "map_of semantic_registry code = Some m \<Longrightarrow> ?thesis" by (auto simp: list_all_iff dest: map_of_SomeD)
qed

definition defs_ok :: "(string \<times> semantic_measure) list \<Rightarrow> bool" where
  "defs_ok defs \<longleftrightarrow> distinct (map fst defs) \<and> (\<forall>(c, m) \<in> set defs. sm_code m = c \<and> get_measure c = Inr m)"

lemma put_entry: "(c, m) \<in> set (dict_put k v d) \<Longrightarrow> (c, m) = (k, v) \<or> (c, m) \<in> set d"
  by (auto simp: dict_put_def split: if_splits)

lemma semantic_defs_ok:
  assumes "semantic_defs q = Inr defs"
  shows "defs_ok defs"
proof -
  have step: "defs_ok (dict_put (sm_code m) m d)" if "defs_ok d" "get_measure code = Inr m" for d m code
  proof -
    have "sm_code m = code" using registry_keys that(2) by (auto simp: get_measure_def)
    then show ?thesis
      using that distinct_put [of d] put_entry [of _ _ "sm_code m" m d] unfolding defs_ok_def by fastforce
  qed
  have "defs_ok []" by (simp add: defs_ok_def)
  then show ?thesis
    by (rule foldE_rule [OF _ _ assms [unfolded semantic_defs_def]]) (auto simp: bindE_Inr_iff intro: step)
qed

lemma measure_targets_of:
  assumes "(k, m, w) \<in> set (measure_targets p (c, n))"
  shows "m = n \<and> (if p = BOTH_SEPARATE_SERIES then k \<in> {c @ '':SOURCE_REPORTED'', c @ '':SYSTEM_DERIVED''} else k = c)"
  using assms by (cases p) (simp_all add: measure_targets_def split: if_splits, auto)

lemma target_of: "(k, m, w) \<in> set (target_measures p defs) \<Longrightarrow> \<exists>c. (c, m) \<in> set defs"
  by (auto simp: target_measures_def dest!: measure_targets_of)

lemma suffixes_differ: "c @ '':SOURCE_REPORTED'' \<noteq> d @ '':SYSTEM_DERIVED''"
proof
  assume "c @ '':SOURCE_REPORTED'' = d @ '':SYSTEM_DERIVED''"
  from arg_cong [OF this, of rev] show False by simp
qed

lemma measure_targets_distinct: "distinct (map fst (measure_targets p cm))"
  using suffixes_differ by (cases cm; cases p) (simp_all add: measure_targets_def)

lemma measure_targets_apart:
  assumes "c \<noteq> d" "k \<in> fst ` set (measure_targets p (c, m))"
  shows "k \<notin> fst ` set (measure_targets p (d, n))"
proof
  assume "k \<in> fst ` set (measure_targets p (d, n))"
  then have "if p = BOTH_SEPARATE_SERIES then k \<in> {d @ '':SOURCE_REPORTED'', d @ '':SYSTEM_DERIVED''} else k = d"
    by (auto dest: measure_targets_of)
  moreover have "if p = BOTH_SEPARATE_SERIES then k \<in> {c @ '':SOURCE_REPORTED'', c @ '':SYSTEM_DERIVED''} else k = c"
    using assms(2) by (auto dest: measure_targets_of)
  ultimately show False
    using assms(1) suffixes_differ [of c d] suffixes_differ [of d c] by (cases "p = BOTH_SEPARATE_SERIES") auto
qed

lemma target_keys_distinct: "defs_ok defs \<Longrightarrow> distinct (map fst (target_measures p defs))"
proof -
  have "distinct (map fst (concat (map (measure_targets p) ds)))" if "distinct (map fst ds)" for ds
    using that
  proof (induction ds)
    case (Cons cm ds)
    obtain c m where cm: "cm = (c, m)" by (cases cm)
    have "k \<notin> fst ` set (measure_targets p dn)" if "dn \<in> set ds" "k \<in> fst ` set (measure_targets p cm)" for dn k
    proof -
      obtain d n where dn: "dn = (d, n)" by (cases dn)
      have "c \<noteq> d" using Cons.prems that(1) cm dn by force
      then show ?thesis using measure_targets_apart that(2) cm dn by blast
    qed
    then have "fst ` set (measure_targets p cm) \<inter> fst ` set (concat (map (measure_targets p) ds)) = {}" by force
    then show ?case using Cons measure_targets_distinct [of p cm] by simp
  qed simp
  then show "defs_ok defs \<Longrightarrow> ?thesis" by (simp add: target_measures_def defs_ok_def)
qed

section \<open>Sources\<close>

definition shown_evidence :: "comparison_db \<Rightarrow> uuid \<Rightarrow> financial_fact \<Rightarrow> uuid \<Rightarrow> bool" where
  "shown_evidence db org f i \<longleftrightarrow> (\<exists>e \<in> set (k_evidence db). ce_id e = i \<and> ce_org e = org \<and> Some (ce_candidate e) = ff_candidate f \<and>
     (\<exists>v \<in> set (k_versions db). ce_version e = dv_id v \<and> validate_coordinates e v = Inr True))"

lemma first_valid_Some:
  "first_valid evs = Inr (Some i) \<Longrightarrow> \<exists>(e, v) \<in> set evs. ce_id e = i \<and> validate_coordinates e v = Inr True"
  by (induction evs rule: first_valid.induct) (auto simp: bindE_Inr_iff split: if_splits)

lemma first_valid_shown: "first_valid (evidence_of db org f) = Inr (Some i) \<Longrightarrow> shown_evidence db org f i"
  by (drule first_valid_Some) (auto simp: evidence_of_def shown_evidence_def)

definition facts_ok :: "comparison_db \<Rightarrow> uuid \<Rightarrow> comparison_request \<Rightarrow> string list \<Rightarrow> fact_maps \<Rightarrow> bool" where
  "facts_ok db org q metrics st \<longleftrightarrow> (\<forall>k f. map_of (fst st) k = Some f \<longrightarrow>
     k = (ff_institution f, ff_period f, ff_metric_code f) \<and> f \<in> set (k_facts db) \<and> eligible_fact org q metrics f \<and>
     (ff_unit f \<in> {''PERCENT'', ''RATIO''} \<or> ff_currency f = rq_currency q) \<and>
     (\<exists>i. map_of (snd st) (ff_id f) = Some i \<and> shown_evidence db org f i))"

lemma take_fact_ok:
  assumes "facts_ok db org q metrics st" "take_fact db org q st f = Inr st'" "f \<in> set (k_facts db)" "eligible_fact org q metrics f"
    "distinct (map ff_id (k_facts db))"
  shows "facts_ok db org q metrics st'"
proof -
  have same: "g = f" if "g \<in> set (k_facts db)" "ff_id g = ff_id f" for g
    using assms(3,5) that by (auto simp: distinct_map dest: inj_onD)
  consider "st' = st"
    | i where "first_valid (evidence_of db org f) = Inr (Some i)" "ff_unit f \<in> {''PERCENT'', ''RATIO''} \<or> ff_currency f = rq_currency q"
        "st' = (dict_put (ff_institution f, ff_period f, ff_metric_code f) f (fst st), dict_put (ff_id f) i (snd st))"
    using assms(2) by (auto simp: take_fact_def Let_def bindE_Inr_iff split: if_splits option.splits)
  then show ?thesis
  proof cases
    case 2
    then have "shown_evidence db org f i" by (blast intro: first_valid_shown)
    note i = this
    show ?thesis
      unfolding facts_ok_def
    proof (intro allI impI)
      fix k g
      assume g: "map_of (fst st') k = Some g"
      show "k = (ff_institution g, ff_period g, ff_metric_code g) \<and> g \<in> set (k_facts db) \<and> eligible_fact org q metrics g \<and>
          (ff_unit g \<in> {''PERCENT'', ''RATIO''} \<or> ff_currency g = rq_currency q) \<and>
          (\<exists>i. map_of (snd st') (ff_id g) = Some i \<and> shown_evidence db org g i)"
      proof (cases "k = (ff_institution f, ff_period f, ff_metric_code f)")
        case True
        with g 2(3) have "g = f" by simp
        with True show ?thesis using assms(3,4) 2(2) i unfolding 2(3) by simp
      next
        case False
        with g 2(3) have "map_of (fst st) k = Some g" by simp
        with assms(1) have h: "k = (ff_institution g, ff_period g, ff_metric_code g)" "g \<in> set (k_facts db)" "eligible_fact org q metrics g"
          "ff_unit g \<in> {''PERCENT'', ''RATIO''} \<or> ff_currency g = rq_currency q" "\<exists>i. map_of (snd st) (ff_id g) = Some i \<and> shown_evidence db org g i"
          unfolding facts_ok_def by blast+
        then show ?thesis using same [OF h(2)] i unfolding 2(3) by (cases "ff_id g = ff_id f") auto
      qed
    qed
  qed (use assms(1) in simp)
qed

lemma reported_facts_ok:
  assumes "reported_facts db org q metrics = Inr st" "distinct (map ff_id (k_facts db))"
  shows "facts_ok db org q metrics st"
proof (cases "metrics = []")
  case True
  then show ?thesis using assms(1) by (auto simp: reported_facts_def facts_ok_def)
next
  case False
  have "facts_ok db org q metrics ([], [])" by (simp add: facts_ok_def)
  then show ?thesis
    using assms(1) False unfolding reported_facts_def
    by (auto intro: take_fact_ok [OF _ _ _ _ assms(2)] elim!: foldE_rule [where P = "facts_ok db org q metrics", rotated 2])
qed

definition sound_calculation :: "(string \<Rightarrow> string) \<Rightarrow> comparison_db \<Rightarrow> uuid \<Rightarrow> comparison_request \<Rightarrow> string list \<Rightarrow> stored_calculation \<Rightarrow> bool" where
  "sound_calculation sha db org q codes c \<longleftrightarrow> c \<in> set (k_calculations db) \<and> documented db org c \<and>
     (\<exists>a \<in> set (k_attempts db). eligible_calculation org q codes c a \<and> sound_lineage sha c a)"

definition calculations_ok ::
  "(string \<Rightarrow> string) \<Rightarrow> comparison_db \<Rightarrow> uuid \<Rightarrow> comparison_request \<Rightarrow> string list \<Rightarrow> calc_maps \<Rightarrow> bool" where
  "calculations_ok sha db org q codes st \<longleftrightarrow> (\<forall>k c. map_of (fst st) k = Some c \<longrightarrow>
     k = (cl_institution c, cl_period c, cl_formula_code c) \<and> sound_calculation sha db org q codes c)"

lemma derived_calculations_ok:
  assumes "derived_calculations sha db org q codes = Inr st"
  shows "calculations_ok sha db org q codes st"
proof (cases "codes = []")
  case True
  then show ?thesis using assms by (auto simp: derived_calculations_def calculations_ok_def)
next
  case False
  have step: "calculations_ok sha db org q codes t"
    if pair: "ca \<in> set [(c, a). c \<leftarrow> k_calculations db, a \<leftarrow> k_attempts db, eligible_calculation org q codes c a]"
      and before: "calculations_ok sha db org q codes s" and run: "take_calculation sha db org s ca = Inr t" for ca s t
  proof -
    obtain c a where ca: "ca = (c, a)" "c \<in> set (k_calculations db)" "a \<in> set (k_attempts db)" "eligible_calculation org q codes c a"
      using pair by auto
    consider "t = s" | "sound_lineage sha c a" "documented db org c" "fst t = dict_put (cl_institution c, cl_period c, cl_formula_code c) c (fst s)"
      using run by (auto simp: take_calculation_def ca(1) bindE_Inr_iff split: if_splits)
    then show ?thesis
    proof cases
      case 2
      then have "sound_calculation sha db org q codes c" using ca by (auto simp: sound_calculation_def)
      then have "k = (cl_institution x, cl_period x, cl_formula_code x) \<and> sound_calculation sha db org q codes x"
        if "map_of (fst t) k = Some x" for k x
      proof (cases "k = (cl_institution c, cl_period c, cl_formula_code c)")
        case False
        with that 2(3) have "map_of (fst s) k = Some x" by simp
        with before show ?thesis unfolding calculations_ok_def by blast
      qed (use that 2(3) in simp)
      then show ?thesis unfolding calculations_ok_def by blast
    qed (use before in simp)
  qed
  have "calculations_ok sha db org q codes ([], [])" by (simp add: calculations_ok_def)
  moreover have "foldE (take_calculation sha db org) ([], [])
      [(c, a). c \<leftarrow> k_calculations db, a \<leftarrow> k_attempts db, eligible_calculation org q codes c a] = Inr st"
    using assms False by (simp add: derived_calculations_def)
  ultimately show ?thesis
    using foldE_rule [where P = "calculations_ok sha db org q codes" and f = "take_calculation sha db org"] step by blast
qed

section \<open>Cells\<close>

text \<open>\<open>sourced_cells\<close>: every cell is the value chosen for its measure.\<close>

definition sourced_cells ::
  "comparison_request \<Rightarrow> sources \<Rightarrow> target list \<Rightarrow> institution \<Rightarrow> reporting_period \<Rightarrow> (string \<times> dataset_cell) list \<Rightarrow> bool" where
  "sourced_cells q src targets i p cells \<longleftrightarrow> (\<forall>(k, c) \<in> set cells. \<exists>m w h display status.
     (k, m, w) \<in> set targets \<and> cell_value q src (inst_id i) (rp_id p) (k, m, w) = Some h \<and> c = cell_of k m h display status)"

lemma sourced_cells_add:
  assumes "sourced_cells q src targets i p cells" "(k, m, w) \<in> set targets" "cell_value q src (inst_id i) (rp_id p) (k, m, w) = Some h"
  shows "sourced_cells q src targets i p (cells @ [(k, cell_of k m h display status)])"
proof -
  have "\<exists>m' w' h' d' t'. (k, m', w') \<in> set targets \<and> cell_value q src (inst_id i) (rp_id p) (k, m', w') = Some h' \<and>
      cell_of k m h display status = cell_of k m' h' d' t'"
    using assms(2,3) by blast
  with assms(1) show ?thesis by (simp add: sourced_cells_def)
qed

definition counted :: "assembly \<Rightarrow> bool" where
  "counted s \<longleftrightarrow> as_reported s + as_derived s = as_populated s \<and>
     as_populated s = sum_list (map (length \<circ> dr_cells) (as_rows s))"

lemma populate_simps [simp]:
  "as_populated (populate q k m h st s) = as_populated s + 1" "as_missing (populate q k m h st s) = as_missing s"
  "as_rows (populate q k m h st s) = as_rows s"
  "as_reported (populate q k m h st s) + as_derived (populate q k m h st s) = as_reported s + as_derived s + 1"
  by (simp_all add: populate_def Let_def)

lemma miss_simps [simp]:
  "as_populated (miss q i p m s) = as_populated s" "as_missing (miss q i p m s) = as_missing s + 1" "as_rows (miss q i p m s) = as_rows s"
  "as_reported (miss q i p m s) = as_reported s" "as_derived (miss q i p m s) = as_derived s"
  by (simp_all add: miss_def)

lemma assemble_cell_cases:
  assumes "assemble_cell q src i p (s, cells) (k, m, w) = Inr (s', cells')"
  obtains (found) h display status where "cell_value q src (inst_id i) (rp_id p) (k, m, w) = Some h"
      "s' = populate q k m h status s" "cells' = dict_put k (cell_of k m h display status) cells"
    | (absent) "s' = miss q i p m s" "cells' = cells"
  using assms by (auto simp: assemble_cell_def bindE_Inr_iff Let_def split: option.splits)

lemma assemble_cells:
  assumes "foldE (assemble_cell q src i p) (s, cells) ts = Inr (s', cells')"
    and "distinct (map fst ts)" "fst ` set cells \<inter> fst ` set ts = {}" "set ts \<subseteq> set targets" "sourced_cells q src targets i p cells"
  shows "as_populated s' + as_missing s' = as_populated s + as_missing s + length ts \<and>
    as_populated s' + length cells = as_populated s + length cells' \<and>
    as_reported s' + as_derived s' + as_populated s = as_reported s + as_derived s + as_populated s' \<and>
    as_rows s' = as_rows s \<and> sourced_cells q src targets i p cells'"
  using assms
proof (induction ts arbitrary: s cells)
  case (Cons t ts)
  obtain k m w where t: "t = (k, m, w)" by (cases t)
  obtain u cells1 where step: "assemble_cell q src i p (s, cells) (k, m, w) = Inr (u, cells1)"
    and rest: "foldE (assemble_cell q src i p) (u, cells1) ts = Inr (s', cells')"
    using Cons.prems(1) by (auto simp: t bindE_Inr_iff)
  have new: "k \<notin> fst ` set cells" using Cons.prems(3) by (auto simp: t)
  have IH: "?case" if "fst ` set cells1 \<subseteq> insert k (fst ` set cells)" "sourced_cells q src targets i p cells1"
    "as_populated u + as_missing u = as_populated s + as_missing s + 1" "as_populated u + length cells = as_populated s + length cells1"
    "as_reported u + as_derived u + as_populated s = as_reported s + as_derived s + as_populated u" "as_rows u = as_rows s"
  proof -
    have "insert k (fst ` set cells) \<inter> fst ` set ts = {}" using Cons.prems(2,3) by (auto simp: t)
    with that(1) have "fst ` set cells1 \<inter> fst ` set ts = {}" by blast
    from Cons.IH [OF rest _ this] Cons.prems(2,4) that show ?thesis by (simp add: t)
  qed
  from step show ?case
  proof (cases rule: assemble_cell_cases)
    case (found h display status)
    have "(k, m, w) \<in> set targets" using Cons.prems(4) by (simp add: t)
    with found(1) Cons.prems(5) have "sourced_cells q src targets i p cells1"
      using sourced_cells_add by (simp add: found(3) length_put [OF new])
    with found show ?thesis by (intro IH) (simp_all add: length_put [OF new])
  next
    case absent
    with Cons.prems(5) show ?thesis by (intro IH) auto
  qed
qed simp

definition sourced_row :: "comparison_request \<Rightarrow> sources \<Rightarrow> target list \<Rightarrow> institution list \<Rightarrow> reporting_period list \<Rightarrow> dataset_row \<Rightarrow> bool" where
  "sourced_row q src targets insts periods r \<longleftrightarrow> (\<exists>i \<in> set insts. \<exists>p \<in> set periods. \<exists>cells. r = row_of q i p cells \<and> cells \<noteq> [] \<and>
     sourced_cells q src targets i p cells)"

lemma assemble_rows:
  assumes "assemble q src targets insts periods = Inr s" "distinct (map fst targets)"
  shows "(\<forall>r \<in> set (as_rows s). sourced_row q src targets insts periods r) \<and> counted s \<and>
    as_populated s + as_missing s = length insts * length periods * length targets"
proof -
  let ?P = "\<lambda>s. (\<forall>r \<in> set (as_rows s). sourced_row q src targets insts periods r) \<and> counted s"
  let ?N = "\<lambda>s. as_populated s + as_missing s"
  let ?is = "sort_key (\<lambda>i. (inst_display i, uuid_str (inst_id i))) insts"
  let ?ps = "sort_key (\<lambda>p. (rp_start p, rp_end p, rp_type p, uuid_str (rp_id p))) periods"
  have step: "?P t \<and> ?N t = ?N s + length targets"
    if pair: "ip \<in> set (List.product ?is ?ps)" and before: "?P s" and run: "assemble_row q src targets s ip = Inr t" for s ip t
  proof -
    obtain i p where ip: "ip = (i, p)" "i \<in> set insts" "p \<in> set periods" using pair by auto
    obtain u cells where u: "foldE (assemble_cell q src i p) (s, []) targets = Inr (u, cells)"
      "t = (if cells = [] then u else u\<lparr>as_rows := as_rows u @ [row_of q i p cells]\<rparr>)"
      using run by (auto simp: assemble_row_def ip(1) bindE_Inr_iff)
    have "sourced_cells q src targets i p []" by (simp add: sourced_cells_def)
    from assemble_cells [OF u(1) assms(2) _ subset_refl this]
    have c: "as_populated u + as_missing u = as_populated s + as_missing s + length targets" "as_populated u = as_populated s + length cells"
      "as_reported u + as_derived u + as_populated s = as_reported s + as_derived s + as_populated u" "as_rows u = as_rows s"
      "sourced_cells q src targets i p cells" by simp_all
    have row: "dr_cells (row_of q i p cells) = cells" by (simp add: row_of_def)
    have "sourced_row q src targets insts periods (row_of q i p cells)" if "cells \<noteq> []"
      using that c(5) ip by (auto simp: sourced_row_def)
    then show ?thesis using before c unfolding u(2) by (auto simp: counted_def row)
  qed
  have "?P empty_assembly" "?N empty_assembly = 0" by (simp_all add: empty_assembly_def counted_def)
  moreover have "?P s \<and> ?N s = ?N empty_assembly + length targets * length (List.product ?is ?ps)"
    by (rule foldE_adds [where P = ?P and N = ?N, OF _ _ step]) (use calculation assms(1) in \<open>simp_all add: assemble_def\<close>)
  ultimately show ?thesis by (simp add: mult.commute)
qed

end
