(* ===== verification/ComparisonOutcomes.thy ===== *)
theory ComparisonOutcomes
  imports CanonicalValues ComparisonCells "HOL-Library.Sublist" "HOL-Library.Multiset"
begin

text \<open>
  What a comparison promises: every cell is an eligible fact with evidence or a completed calculation
  with its lineage, the counters and the order of the rows are right and the pages cover them, and a
  request that is refused is refused with one of seven codes.
\<close>

section \<open>The parts of a comparison\<close>

lemma build_parts:
  assumes "build_comparison sha ids now org q db = Inr (resp, rows)"
  obtains defs insts periods src rs ps s ordered quality where
    "semantic_defs q = Inr defs" "find_institutions db org q = Inr insts" "find_periods db org q = Inr periods"
    "sources_of sha db org q defs = Inr src" "in_order insts (rq_institutions q) = Inr rs" "in_order periods (rq_periods q) = Inr ps"
    "assemble q src (target_measures (rq_policy q) defs) rs ps = Inr s"
    "sort_rows q (sort_measure_key q (as_measures s)) (as_rows s) = Inr ordered" "rows = top_rows q ordered"
    "data_quality_of (length (rq_institutions q) * length (rq_periods q) * length (target_measures (rq_policy q) defs)) s = Inr quality"
    "resp = response_of ids now q s quality rows"
  using assms unfolding build_comparison_def Let_def by (auto simp: bindE_Inr_iff)

lemma sources_parts:
  assumes "sources_of sha db org q defs = Inr src"
  shows "reported_facts db org q (reported_metrics (rq_policy q) defs) = Inr (src_facts src, src_evidence src)"
    and "derived_calculations sha db org q (derived_formulas (rq_policy q) defs) = Inr (src_calculations src, src_reconciliations src)"
    and "scale_divisor (rq_scale q) = Inr (src_scale src)"
  using assms by (auto simp: sources_of_def bindE_Inr_iff)

lemma in_order_length: "in_order d ks = Inr xs \<Longrightarrow> length xs = length ks"
  by (auto simp: in_order_def mapE_Inr_iff dest: list_all2_lengthD)

section \<open>Sorted rows\<close>

lemma sort_rows_sound:
  assumes "sort_rows q key rows = Inr out"
  shows "set out = set rows" "length out = length rows" "sum_list (map f out) = sum_list (map (f :: dataset_row \<Rightarrow> nat) rows)"
    and "\<exists>ks. mapE (row_sort_key q key) out = Inr ks \<and> sorted ks"
proof -
  obtain ks where ks: "mapE (row_sort_key q key) rows = Inr ks" "out = map snd (sort_key fst (zip ks rows))"
    using assms by (auto simp: sort_rows_def bindE_Inr_iff)
  then have a2: "list_all2 (\<lambda>r k. row_sort_key q key r = Inr k) rows ks" by (simp add: mapE_Inr_iff)
  then have len: "length ks = length rows" by (auto dest: list_all2_lengthD)
  have "mset out = mset (map snd (zip ks rows))" unfolding ks(2) by (simp only: mset_map mset_sort)
  then have m: "mset out = mset rows" using len by (simp only: map_snd_zip)
  show "set out = set rows" by (rule mset_eq_setD [OF m])
  show "length out = length rows" by (rule mset_eq_length [OF m])
  show "sum_list (map f out) = sum_list (map f rows)"
    using arg_cong [OF m, of "image_mset f"] by (metis mset_map sum_mset_sum_list)
  have "row_sort_key q key (snd p) = Inr (fst p)" if "p \<in> set (zip ks rows)" for p
    using a2 that by (auto simp: list_all2_conv_all_nth set_zip)
  then have "list_all2 (\<lambda>r k. row_sort_key q key r = Inr k) out (map fst (sort_key fst (zip ks rows)))"
    unfolding ks(2) list_all2_map1 list_all2_map2 list_all2_same by simp
  then show "\<exists>ks. mapE (row_sort_key q key) out = Inr ks \<and> sorted ks"
    by (intro exI [of _ "map fst (sort_key fst (zip ks rows))"]) (simp add: mapE_Inr_iff)
qed

lemma subseq_members: "subseq xs ys \<Longrightarrow> set xs \<subseteq> set ys"
  by (induction rule: list_emb.induct) auto

lemma best_per_period_subseq: "subseq (best_per_period n counts rows) rows"
  by (induction n counts rows rule: best_per_period.induct) (auto simp: fun_upd_def)

lemma best_per_period_take:
  "filter (\<lambda>r. dr_period r = p) (best_per_period n counts rows) = take (n - counts p) (filter (\<lambda>r. dr_period r = p) rows)"
proof (induction n counts rows rule: best_per_period.induct)
  case (2 n counts r rs)
  show ?case
  proof (cases "counts (dr_period r) < n")
    case True
    then have "n - counts (dr_period r) = Suc (n - Suc (counts (dr_period r)))" by simp
    with True 2(1) show ?thesis by (cases "dr_period r = p") (auto simp: fun_upd_def)
  next
    case False
    with 2(2) show ?thesis by (cases "dr_period r = p") simp_all
  qed
qed simp

lemma top_rows_subseq: "subseq (top_rows q rows) rows"
  by (auto simp: top_rows_def best_per_period_subseq prefix_imp_subseq take_is_prefix split: option.split)

lemma sorted_keys_subseq:
  assumes "subseq xs ys" "mapE f ys = Inr ks" "sorted ks"
  shows "\<exists>js. mapE f xs = Inr js \<and> sorted js \<and> set js \<subseteq> set ks"
  using assms
proof (induction arbitrary: ks rule: list_emb.induct)
  case (list_emb_Cons xs ys y)
  then obtain k ks' where ks: "ks = k # ks'" "mapE f ys = Inr ks'" by (auto simp: bindE_Inr_iff)
  with list_emb_Cons obtain js where "mapE f xs = Inr js" "sorted js" "set js \<subseteq> set ks'" by auto
  then show ?case using ks by auto
next
  case (list_emb_Cons2 x y xs ys)
  then obtain k ks' where ks: "ks = k # ks'" "f y = Inr k" "mapE f ys = Inr ks'" by (auto simp: bindE_Inr_iff)
  with list_emb_Cons2 obtain js where "mapE f xs = Inr js" "sorted js" "set js \<subseteq> set ks'" by auto
  then show ?case using ks list_emb_Cons2 by (auto simp: bindE_Inr_iff)
qed auto

text \<open>The pages, one after another, are all rows.\<close>

lemma pages_cover:
  assumes "0 < n"
  shows "concat (map (\<lambda>p. page_rows p n xs) [1..<Suc (pn_pages (make_pagination (length xs) 1 n))]) = xs"
proof -
  have run: "concat (map (\<lambda>p. page_rows p n xs) [1..<Suc k]) = take (k * n) xs" for k
  proof (induction k)
    case (Suc k)
    have "[1..<Suc (Suc k)] = [1..<Suc k] @ [Suc k]" by simp
    then show ?case using Suc take_add [of "k * n" n xs] by (simp add: page_rows_def add.commute del: upt_Suc)
  qed simp
  define m where "m = length xs + n - 1"
  have "m div n * n + m mod n = m" "m mod n < n" using assms by simp_all
  then have "length xs \<le> m div n * n" using assms unfolding m_def by linarith
  also have "\<dots> \<le> max 1 (m div n) * n" by simp
  finally show ?thesis unfolding run by (simp add: make_pagination_def Let_def m_def)
qed

section \<open>Cells\<close>

definition fact_cell :: "comparison_db \<Rightarrow> uuid \<Rightarrow> comparison_request \<Rightarrow> dataset_row \<Rightarrow> dataset_cell \<Rightarrow> bool" where
  "fact_cell db org q r c \<longleftrightarrow> dc_origin c = SOURCE_REPORTED \<and> (\<exists>f \<in> set (k_facts db). \<exists>m i.
     get_measure (dc_semantic c) = Inr m \<and> sm_reported m = Some (ff_metric_code f) \<and>
     ff_org f = org \<and> ff_institution f = dr_institution r \<and> ff_period f = dr_period r \<and> ff_basis f = rq_basis q \<and>
     ff_review f = ''HUMAN_VERIFIED'' \<and> ff_valid_to f = None \<and> (ff_unit f \<in> {''PERCENT'', ''RATIO''} \<or> ff_currency f = rq_currency q) \<and>
     dc_fact c = Some (ff_id f) \<and> dc_canonical c = dec_str (ff_normalized f) \<and> dc_evidence c = Some i \<and> shown_evidence db org f i)"

definition calculation_cell ::
  "(string \<Rightarrow> string) \<Rightarrow> comparison_db \<Rightarrow> uuid \<Rightarrow> dataset_row \<Rightarrow> dataset_cell \<Rightarrow> bool" where
  "calculation_cell sha db org r c \<longleftrightarrow> dc_origin c = SYSTEM_DERIVED \<and> (\<exists>x \<in> set (k_calculations db). \<exists>a \<in> set (k_attempts db). \<exists>m.
     get_measure (dc_semantic c) = Inr m \<and> sm_derived m = Some (cl_formula_code x) \<and>
     cl_org x = org \<and> cl_institution x = dr_institution r \<and> cl_period x = dr_period r \<and> cl_status x = ''COMPLETED'' \<and>
     cl_attempt x = at_id a \<and> at_status a = ''COMPLETED'' \<and> sound_lineage sha x a \<and> documented db org x \<and>
     dc_calculation c = Some (cl_id x) \<and> dc_canonical c = dec_str (cl_unrounded x))"

lemma choose_value_from: "choose_value p w f c = Some h \<Longrightarrow> f = Some h \<or> c = Some h"
  by (auto simp: choose_value_def or_else_def split: value_source_policy.splits option.splits if_splits)

lemma by_code_Some: "by_code d i p c = Some x \<Longrightarrow> \<exists>s. c = Some s \<and> map_of d (i, p, s) = Some x"
  by (auto simp: by_code_def split: option.splits if_splits)

lemma cell_sourced:
  assumes src: "sources_of sha db org q defs = Inr src" and ids: "distinct (map ff_id (k_facts db))"
    and m: "get_measure (sm_code m) = Inr m" and v: "cell_value q src (inst_id i) (rp_id p) (k, m, w) = Some h"
  shows "fact_cell db org q (row_of q i p cells) (cell_of k m h display status) \<or>
    calculation_cell sha db org (row_of q i p cells) (cell_of k m h display status)"
proof -
  consider (reported) f where "by_code (src_facts src) (inst_id i) (rp_id p) (sm_reported m) = Some f" "chosen_fact (src_evidence src) (Some f) = Some h"
    | (derived) c where "by_code (src_calculations src) (inst_id i) (rp_id p) (sm_derived m) = Some c" "chosen_calculation (Some c) = Some h"
    using v unfolding cell_value_def prod.case by (auto simp: chosen_fact_def chosen_calculation_def dest!: choose_value_from)
  then show ?thesis
  proof cases
    case reported
    obtain s where s: "sm_reported m = Some s" "map_of (src_facts src) (inst_id i, rp_id p, s) = Some f"
      using by_code_Some [OF reported(1)] by blast
    have "facts_ok db org q (reported_metrics (rq_policy q) defs) (src_facts src, src_evidence src)"
      by (rule reported_facts_ok [OF sources_parts(1) [OF src] ids])
    with s(2) have f: "(inst_id i, rp_id p, s) = (ff_institution f, ff_period f, ff_metric_code f)" "f \<in> set (k_facts db)"
      "eligible_fact org q (reported_metrics (rq_policy q) defs) f" "ff_unit f \<in> {''PERCENT'', ''RATIO''} \<or> ff_currency f = rq_currency q"
      "\<exists>i. map_of (src_evidence src) (ff_id f) = Some i \<and> shown_evidence db org f i"
      unfolding facts_ok_def fst_conv snd_conv by blast+
    from f(5) obtain e where e: "map_of (src_evidence src) (ff_id f) = Some e" "shown_evidence db org f e" by blast
    have "fact_cell db org q (row_of q i p cells) (cell_of k m h display status)"
      unfolding fact_cell_def
      by (rule conjI [OF _ bexI [OF exI [of _ m, OF exI [of _ e]] f(2)]])
        (use f(1,3,4) e reported(2) s(1) m in \<open>auto simp: cell_of_def row_of_def chosen_fact_def eligible_fact_def\<close>)
    then show ?thesis ..
  next
    case derived
    obtain s where s: "sm_derived m = Some s" "map_of (src_calculations src) (inst_id i, rp_id p, s) = Some c"
      using by_code_Some [OF derived(1)] by blast
    have "calculations_ok sha db org q (derived_formulas (rq_policy q) defs) (src_calculations src, src_reconciliations src)"
      by (rule derived_calculations_ok [OF sources_parts(2) [OF src]])
    with s(2) have c: "(inst_id i, rp_id p, s) = (cl_institution c, cl_period c, cl_formula_code c)"
      "sound_calculation sha db org q (derived_formulas (rq_policy q) defs) c"
      unfolding calculations_ok_def fst_conv by blast+
    from c(2) obtain a where a: "a \<in> set (k_attempts db)" "eligible_calculation org q (derived_formulas (rq_policy q) defs) c a"
      "sound_lineage sha c a" "c \<in> set (k_calculations db)" "documented db org c"
      by (auto simp: sound_calculation_def)
    have "calculation_cell sha db org (row_of q i p cells) (cell_of k m h display status)"
      unfolding calculation_cell_def
      by (rule conjI [OF _ bexI [OF bexI [OF exI [of _ m] a(1)] a(4)]])
        (use c(1) a derived(2) s(1) m in \<open>auto simp: cell_of_def row_of_def chosen_calculation_def eligible_calculation_def\<close>)
    then show ?thesis ..
  qed
qed

text \<open>C19: every cell of a comparison is an active, verified fact of the tenant with the requested basis and
  currency and a piece of evidence whose coordinates are valid, or the unrounded result of a completed calculation
  whose checksums, hash, inputs and evidence are in order; it is the value of its institution, its period and its measure.\<close>

theorem comparison_cells_sourced:
  assumes "build_comparison sha ids now org q db = Inr (resp, rows)" "distinct (map ff_id (k_facts db))"
    and "r \<in> set rows" "(k, c) \<in> set (dr_cells r)"
  shows "fact_cell db org q r c \<or> calculation_cell sha db org r c"
proof -
  obtain defs src rs ps s ordered where parts: "semantic_defs q = Inr defs" "sources_of sha db org q defs = Inr src"
    "assemble q src (target_measures (rq_policy q) defs) rs ps = Inr s"
    "sort_rows q (sort_measure_key q (as_measures s)) (as_rows s) = Inr ordered" "rows = top_rows q ordered"
    by (rule build_parts [OF assms(1)]) blast
  have defs: "defs_ok defs" by (rule semantic_defs_ok [OF parts(1)])
  have "r \<in> set (as_rows s)"
    using assms(3) sort_rows_sound(1) [OF parts(4)] subseq_members [OF top_rows_subseq, of q ordered] parts(5) by blast
  then obtain i p cells where row: "r = row_of q i p cells" "sourced_cells q src (target_measures (rq_policy q) defs) i p cells"
    using assemble_rows [OF parts(3) target_keys_distinct [OF defs]] by (auto simp: sourced_row_def)
  then obtain m w h display status where cell: "(k, m, w) \<in> set (target_measures (rq_policy q) defs)"
    "cell_value q src (inst_id i) (rp_id p) (k, m, w) = Some h" "c = cell_of k m h display status"
    using assms(4) by (auto simp: sourced_cells_def row_of_def)
  obtain code where "(code, m) \<in> set defs" using target_of [OF cell(1)] by blast
  then have "get_measure (sm_code m) = Inr m" using defs by (auto simp: defs_ok_def)
  from cell_sourced [OF parts(2) assms(2) this cell(2)] show ?thesis unfolding row(1) cell(3) .
qed

section \<open>Counters, order and pages\<close>

lemma data_quality_values:
  assumes "data_quality_of expected s = Inr quality"
  shows "dq_expected quality = expected" "dq_populated quality = as_populated s" "dq_missing quality = as_missing s"
    "dq_reported quality = as_reported s" "dq_derived quality = as_derived s"
  using assms by (auto simp: data_quality_of_def validate_data_quality_def bindE_Inr_iff Let_def)

text \<open>Nothing but the threshold check and the cut depends on the number of rows asked for.\<close>

lemma top_n_unused:
  fixes q :: comparison_request and t :: "nat option"
  defines "q' \<equiv> q\<lparr>rq_top_n := t\<rparr>"
  shows "semantic_defs q' = semantic_defs q" "find_institutions db org q' = find_institutions db org q"
    "find_periods db org q' = find_periods db org q" "sources_of sha db org q' = sources_of sha db org q"
    "assemble q' src = assemble q src" "sort_measure_key q' = sort_measure_key q" "sort_rows q' = sort_rows q"
proof -
  have fields: "rq_institutions q' = rq_institutions q" "rq_measures q' = rq_measures q" "rq_periods q' = rq_periods q"
    "rq_basis q' = rq_basis q" "rq_currency q' = rq_currency q" "rq_scale q' = rq_scale q" "rq_policy q' = rq_policy q"
    "rq_sort_measure q' = rq_sort_measure q" "rq_direction q' = rq_direction q" "rq_common q' = rq_common q"
    "rq_evidence q' = rq_evidence q" "rq_reconciliation q' = rq_reconciliation q"
    by (simp_all add: q'_def)
  have sources: "eligible_fact org q' = eligible_fact org q" "take_fact db org q' = take_fact db org q"
    "eligible_calculation org q' = eligible_calculation org q"
    by (intro ext; simp only: fields eligible_fact_def take_fact_def eligible_calculation_def)+
  show "sources_of sha db org q' = sources_of sha db org q"
    by (intro ext) (simp only: sources_of_def reported_facts_def derived_calculations_def sources fields)
  have cells: "cell_value q' = cell_value q" "reconciliation_of q' = reconciliation_of q" "populate q' = populate q"
    "miss q' = miss q" "row_of q' = row_of q"
    by (intro ext; simp only: fields cell_value_def reconciliation_of_def populate_def measure_item_of_def miss_def row_of_def)+
  have "assemble_cell q' = assemble_cell q" by (intro ext) (simp only: assemble_cell_def cells fields)
  then have "assemble_row q' = assemble_row q" by (intro ext) (simp only: assemble_row_def cells)
  then show "assemble q' src = assemble q src" by (intro ext) (simp only: assemble_def)
  have "row_sort_key q' = row_sort_key q" by (intro ext) (simp only: row_sort_key_def row_value_def fields)
  then show "sort_rows q' = sort_rows q" by (intro ext) (simp only: sort_rows_def)
  show "semantic_defs q' = semantic_defs q" "find_institutions db org q' = find_institutions db org q"
    "find_periods db org q' = find_periods db org q" "sort_measure_key q' = sort_measure_key q"
    by (simp_all only: semantic_defs_def find_institutions_def find_periods_def sort_measure_key_def fields fun_eq_iff simp_thms)
qed

lemma build_with_top_n:
  assumes "build_comparison sha ids now org q db = Inr (resp, rows)" "case t of None \<Rightarrow> True | Some n \<Rightarrow> n \<le> 50"
  obtains resp' ordered where
    "build_comparison sha ids now org (q\<lparr>rq_top_n := t\<rparr>) db = Inr (resp', top_rows (q\<lparr>rq_top_n := t\<rparr>) ordered)"
    "rows = top_rows q ordered"
proof -
  have "check_thresholds q = Inr ()" using assms(1) by (auto simp: build_comparison_def bindE_Inr_iff)
  then have "check_thresholds (q\<lparr>rq_top_n := t\<rparr>) = Inr ()"
    using assms(2) by (auto simp: check_thresholds_def bindE_Inr_iff raise_val_def split: if_splits option.splits)
  then show ?thesis using assms(1) that unfolding build_comparison_def Let_def top_n_unused
    by (auto simp: bindE_Inr_iff)
qed
lemma rows_of_top_n:
  assumes "build_comparison sha ids now org q db = Inr (resp, rows)"
  shows "\<exists>resp' all_rows. build_comparison sha ids now org (q\<lparr>rq_top_n := None\<rparr>) db = Inr (resp', all_rows) \<and>
      (rq_top_n q = None \<longrightarrow> rows = all_rows) \<and>
      (\<forall>n. rq_top_n q = Some n \<longrightarrow> rq_top_scope q = ''DATASET_ROWS_GLOBAL'' \<longrightarrow> rows = take n all_rows) \<and>
      (\<forall>n p. rq_top_n q = Some n \<longrightarrow> rq_top_scope q = ''INSTITUTIONS_PER_PERIOD'' \<longrightarrow>
        filter (\<lambda>r. dr_period r = p) rows = take n (filter (\<lambda>r. dr_period r = p) all_rows))"
proof -
  obtain resp' all_rows where
    b: "build_comparison sha ids now org (q\<lparr>rq_top_n := None\<rparr>) db = Inr (resp', all_rows)" "rows = top_rows q all_rows"
    using build_with_top_n [OF assms, of None] by (auto simp: top_rows_def)
  from b(2) have "(rq_top_n q = None \<longrightarrow> rows = all_rows) \<and>
      (\<forall>n. rq_top_n q = Some n \<longrightarrow> rq_top_scope q = ''DATASET_ROWS_GLOBAL'' \<longrightarrow> rows = take n all_rows) \<and>
      (\<forall>n p. rq_top_n q = Some n \<longrightarrow> rq_top_scope q = ''INSTITUTIONS_PER_PERIOD'' \<longrightarrow>
        filter (\<lambda>r. dr_period r = p) rows = take n (filter (\<lambda>r. dr_period r = p) all_rows))"
    by (simp add: top_rows_def best_per_period_take)
  then show ?thesis by (intro exI) (rule conjI [OF b(1)])
qed

text \<open>C20: the counters of a comparison add up: cells with a value and without one are all cells expected, those with a
  value come from facts or from calculations, and unless only the best rows are kept they are the cells of the rows.
  The rows are in ascending order of their sort keys. Against the same request without a number of rows, they are its
  first \<open>n\<close> rows, or of every period its first \<open>n\<close> rows, exactly (all of them where there are fewer). The page shown
  is a page of the rows, and all pages together are all rows.\<close>

theorem comparison_dataset_adds_up:
  assumes "valid_request q" "build_comparison sha ids now org q db = Inr (resp, rows)"
  shows "dq_populated (ds_quality (cmp_dataset resp)) + dq_missing (ds_quality (cmp_dataset resp)) = dq_expected (ds_quality (cmp_dataset resp)) \<and>
    dq_reported (ds_quality (cmp_dataset resp)) + dq_derived (ds_quality (cmp_dataset resp)) = dq_populated (ds_quality (cmp_dataset resp)) \<and>
    (rq_top_n q = None \<longrightarrow> dq_populated (ds_quality (cmp_dataset resp)) = sum_list (map (length \<circ> dr_cells) rows)) \<and>
    (\<exists>key ks. mapE (row_sort_key q key) rows = Inr ks \<and> sorted ks \<and>
      (\<not> falsy_str (rq_sort_measure q) \<longrightarrow> key = rq_sort_measure q)) \<and>
    (\<exists>resp' all_rows. build_comparison sha ids now org (q\<lparr>rq_top_n := None\<rparr>) db = Inr (resp', all_rows) \<and>
      (rq_top_n q = None \<longrightarrow> rows = all_rows) \<and>
      (\<forall>n. rq_top_n q = Some n \<longrightarrow> rq_top_scope q = ''DATASET_ROWS_GLOBAL'' \<longrightarrow> rows = take n all_rows) \<and>
      (\<forall>n p. rq_top_n q = Some n \<longrightarrow> rq_top_scope q = ''INSTITUTIONS_PER_PERIOD'' \<longrightarrow>
        filter (\<lambda>r. dr_period r = p) rows = take n (filter (\<lambda>r. dr_period r = p) all_rows))) \<and>
    ds_rows (cmp_dataset resp) = page_rows (rq_page q) (rq_page_size q) rows \<and>
    concat (map (\<lambda>p. page_rows p (rq_page_size q) rows) [1..<Suc (pn_pages (ds_pagination (cmp_dataset resp)))]) = rows"
proof -
  obtain defs src rs ps s ordered quality where parts: "semantic_defs q = Inr defs"
    "assemble q src (target_measures (rq_policy q) defs) rs ps = Inr s"
    "sort_rows q (sort_measure_key q (as_measures s)) (as_rows s) = Inr ordered" "rows = top_rows q ordered"
    "data_quality_of (length (rq_institutions q) * length (rq_periods q) * length (target_measures (rq_policy q) defs)) s = Inr quality"
    "resp = response_of ids now q s quality rows"
    by (rule build_parts [OF assms(2)]) blast
  have quality: "ds_quality (cmp_dataset resp) = quality" "ds_rows (cmp_dataset resp) = page_rows (rq_page q) (rq_page_size q) rows"
    "ds_pagination (cmp_dataset resp) = make_pagination (length rows) (rq_page q) (rq_page_size q)"
    by (simp_all add: parts(6) response_of_def Let_def)
  have counts: "counted s" using assemble_rows [OF parts(2) target_keys_distinct [OF semantic_defs_ok [OF parts(1)]]] by blast
  have total: "as_populated s + as_missing s = dq_expected quality"
    using parts(5) by (auto simp: data_quality_of_def validate_data_quality_def bindE_Inr_iff Let_def)
  obtain ks where ks: "mapE (row_sort_key q (sort_measure_key q (as_measures s))) rows = Inr ks" "sorted ks"
    using sort_rows_sound(4) [OF parts(3)] sorted_keys_subseq [OF top_rows_subseq] unfolding parts(4) by blast
  have key: "sort_measure_key q (as_measures s) = rq_sort_measure q" if "\<not> falsy_str (rq_sort_measure q)"
    using that by (simp add: sort_measure_key_def)
  have order: "\<exists>key ks. mapE (row_sort_key q key) rows = Inr ks \<and> sorted ks \<and>
      (\<not> falsy_str (rq_sort_measure q) \<longrightarrow> key = rq_sort_measure q)"
    using ks key by blast
  have "0 < rq_page_size q" using assms(1) by (simp add: valid_request_def)
  moreover have "pn_pages (make_pagination n p m) = pn_pages (make_pagination n 1 m)" for n p m by (simp add: make_pagination_def Let_def)
  ultimately have pages: "concat (map (\<lambda>p. page_rows p (rq_page_size q) rows)
      [1..<Suc (pn_pages (make_pagination (length rows) (rq_page q) (rq_page_size q)))]) = rows"
    using pages_cover [of "rq_page_size q" rows] by metis
  have "as_populated s = sum_list (map (length \<circ> dr_cells) rows)" if "rq_top_n q = None"
    using that counts sort_rows_sound(3) [OF parts(3), of "length \<circ> dr_cells"] by (simp add: parts(4) top_rows_def counted_def)
  then show ?thesis unfolding quality data_quality_values [OF parts(5)]
    using total counts order pages rows_of_top_n [OF assms(2)]
    by (intro conjI impI) (simp_all only: counted_def data_quality_values [OF parts(5)])
qed

text \<open>The calculations shown do not depend on the reporting basis asked for.\<close>

lemma calculations_of_any_basis:
  "derived_calculations sha db org (q\<lparr>rq_basis := b\<rparr>) codes = derived_calculations sha db org q codes"
  by (simp add: derived_calculations_def eligible_calculation_def)

section \<open>Refusals\<close>

text \<open>What the tables guarantee: a version has a media type, stored values fit their columns, a calculation has one reconciliation.\<close>

definition tables_ready :: "comparison_db \<Rightarrow> bool" where
  "tables_ready db \<longleftrightarrow> (\<forall>v \<in> set (k_versions db). dv_detected_mime v \<noteq> None) \<and>
     (\<forall>f \<in> set (k_facts db). is_numeric 28 6 (ff_normalized f)) \<and> (\<forall>c \<in> set (k_calculations db). is_numeric 38 10 (cl_unrounded c)) \<and>
     distinct (map rc_calculation (k_reconciliations db)) \<and> distinct (map ff_id (k_facts db))"

definition comparison_refusals :: "string list" where
  "comparison_refusals = [''SEMANTIC_MEASURE_MAPPING_UNAVAILABLE'', ''INSTITUTION_NOT_FOUND'', ''PERIOD_NOT_FOUND'', ''CURRENCY_MISMATCH'',
     ''EVIDENCE_INCOMPLETE'', ''EVIDENCE_FORMAT_COORDINATES_INVALID'', ''INCOMPLETE_COMMON_PERIOD'']"

abbreviation refused :: "py_exc \<Rightarrow> bool" where
  "refused e \<equiv> e \<in> ValueError ` set comparison_refusals"

lemma mapE_Inl: "mapE f xs = Inl e \<Longrightarrow> \<exists>x \<in> set xs. f x = Inl e"
  by (induction xs) (auto simp: bindE_Inl_iff)

lemma semantic_defs_refused: "semantic_defs q = Inl e \<Longrightarrow> refused e"
  unfolding semantic_defs_def
  by (erule foldE_raises [where P = "\<lambda>_. True", rotated 3])
    (auto simp: bindE_Inl_iff get_measure_def comparison_refusals_def)

lemma find_refused:
  "find_institutions db org q = Inl e \<Longrightarrow> refused e" "find_periods db org q = Inl e \<Longrightarrow> refused e"
  by (auto simp: find_institutions_def find_periods_def Let_def comparison_refusals_def raise_val_def raise_if_def split: if_splits)

lemma first_valid_total:
  "\<forall>(e, v) \<in> set evs. dv_detected_mime v \<noteq> None \<Longrightarrow> \<exists>r. first_valid evs = Inr r"
  by (induction evs rule: first_valid.induct) (auto simp: validate_coordinates_def Let_def)

lemma reported_facts_refused:
  assumes "tables_ready db" "reported_facts db org q metrics = Inl e"
  shows "refused e"
proof -
  have step: "refused x" if "take_fact db org q st f = Inl x" for st f x
  proof -
    have "\<forall>(e, v) \<in> set (evidence_of db org f). dv_detected_mime v \<noteq> None"
      using assms(1) by (auto simp: evidence_of_def tables_ready_def)
    then obtain r where "first_valid (evidence_of db org f) = Inr r" using first_valid_total by blast
    with that show ?thesis
      by (auto simp: take_fact_def Let_def bindE_Inl_iff comparison_refusals_def raise_val_def raise_if_def split: if_splits option.splits)
  qed
  have run: "foldE (take_fact db org q) ([], []) (filter (eligible_fact org q metrics) (k_facts db)) = Inl e"
    using assms(2) by (simp add: reported_facts_def split: if_splits)
  show ?thesis by (rule foldE_raises [where P = "\<lambda>_. True", OF _ _ _ run]) (use step in simp_all)
qed

lemma scalar_unique:
  assumes "distinct (map k xs)" "\<And>x. P x \<Longrightarrow> k x = c"
  shows "\<exists>r. scalar_one_or_none (filter P xs) = Inr r"
proof (cases "filter P xs" rule: scalar_one_or_none.cases)
  case (3 x y zs)
  then have "x \<in> set (filter P xs)" "y \<in> set (filter P xs)" by simp_all
  then have "k x = k y" using assms(2) by auto
  moreover have "distinct (map k (filter P xs))" using assms(1) by (rule distinct_map_filter)
  ultimately show ?thesis using 3 by simp
qed simp_all

lemma derived_calculations_total:
  assumes "tables_ready db"
  shows "derived_calculations sha db org q codes \<noteq> Inl e"
proof
  have step: "take_calculation sha db org st ca \<noteq> Inl x" for st ca x
  proof -
    obtain c a where ca: "ca = (c, a)" by (cases ca)
    have "distinct (map rc_calculation (k_reconciliations db))" using assms by (simp add: tables_ready_def)
    from scalar_unique [OF this, of "\<lambda>r. rc_calculation r = cl_id c \<and> rc_org r = org" "cl_id c"]
    obtain r where "scalar_one_or_none (filter (\<lambda>r. rc_calculation r = cl_id c \<and> rc_org r = org) (k_reconciliations db)) = Inr r"
      by blast
    then show ?thesis by (simp add: take_calculation_def ca)
  qed
  assume "derived_calculations sha db org q codes = Inl e"
  then have "foldE (take_calculation sha db org) ([], [])
      [(c, a). c \<leftarrow> k_calculations db, a \<leftarrow> k_attempts db, eligible_calculation org q codes c a] = Inl e"
    by (simp add: derived_calculations_def split: if_splits)
  then show False by (rule foldE_raises [where P = "\<lambda>_. True" and Q = "\<lambda>_. False", rotated 3]) (simp_all add: step)
qed

lemma scale_divisor_total: "valid_request q \<Longrightarrow> \<exists>d. scale_divisor (rq_scale q) = Inr d \<and> \<not> is_zero d"
  by (auto simp: valid_request_def scale_divisor_def)

lemma format_display_total: "\<not> is_zero d \<Longrightarrow> \<exists>t. format_display v u d = Inr t"
  using ddiv_total [of d default_context v] by (auto simp: format_display_def)

lemma dict_update_keys:
  "fst ` set (dict_update d upd) = fst ` set d \<union> fst ` set upd" "distinct (map fst d) \<Longrightarrow> distinct (map fst (dict_update d upd))"
  unfolding dict_update_def by (induction upd arbitrary: d) (simp_all add: case_prod_unfold distinct_put)

text \<open>When as many rows are found as ids were given, every id has its row.\<close>

lemma in_order_total:
  assumes d: "d = dict_update [] (map (\<lambda>x. (key x, x)) (filter P xs))" and sub: "\<And>x. P x \<Longrightarrow> key x \<in> set ks" and len: "length d = length ks"
  shows "in_order d ks \<noteq> Inl e"
proof
  have keys: "fst ` set d \<subseteq> set ks" "distinct (map fst d)"
    using sub dict_update_keys [of "[]" "map (\<lambda>x. (key x, x)) (filter P xs)"] by (auto simp: d)
  have "card (fst ` set d) = length d" using distinct_card [OF keys(2)] by simp
  also have "\<dots> \<ge> card (set ks)" unfolding len by (rule card_length)
  finally have "fst ` set d = set ks" by (intro card_seteq keys(1)) simp_all
  moreover assume "in_order d ks = Inl e"
  then obtain k where "k \<in> set ks" "map_of d k = None" by (auto simp: in_order_def dest: mapE_Inl)
  ultimately show False by (simp add: map_of_eq_None_iff)
qed

lemma institutions_in_order: "find_institutions db org q = Inr d \<Longrightarrow> \<exists>rs. in_order d (rq_institutions q) = Inr rs"
  using in_order_total [where key = inst_id and P = "\<lambda>i. inst_id i \<in> set (rq_institutions q) \<and> inst_org i = org" and xs = "k_institutions db"
      and d = d and ks = "rq_institutions q"]
  by (cases "in_order d (rq_institutions q)") (auto simp: find_institutions_def Let_def bindE_Inr_iff)

lemma periods_in_order: "find_periods db org q = Inr d \<Longrightarrow> \<exists>ps. in_order d (rq_periods q) = Inr ps"
  using in_order_total [where key = rp_id and P = "\<lambda>p. rp_id p \<in> set (rq_periods q) \<and> rp_org p = org" and xs = "k_periods db"
      and d = d and ks = "rq_periods q"]
  by (cases "in_order d (rq_periods q)") (auto simp: find_periods_def Let_def bindE_Inr_iff)

lemma assemble_refused:
  assumes "\<not> is_zero (src_scale src)" "assemble q src targets insts periods = Inl e"
  shows "refused e"
proof -
  have cell: "refused x" if "assemble_cell q src i p st tgt = Inl x" for i p st tgt x
  proof -
    obtain s cells where st: "st = (s, cells)" by (cases st)
    obtain k m w where tgt: "tgt = (k, m, w)" by (cases tgt)
    show ?thesis
    proof (cases "cell_value q src (inst_id i) (rp_id p) tgt")
      case None
      with that show ?thesis
        by (auto simp: assemble_cell_def st tgt bindE_Inl_iff comparison_refusals_def raise_val_def raise_if_def split: if_splits)
    next
      case (Some h)
      obtain t where "format_display (hs_value h) (sm_unit m) (src_scale src) = Inr t" using format_display_total [OF assms(1)] by blast
      with that Some show ?thesis by (simp add: assemble_cell_def st tgt Let_def)
    qed
  qed
  have row: "refused x" if "assemble_row q src targets s ip = Inl x" for s ip x
  proof -
    obtain i p where ip: "ip = (i, p)" by (cases ip)
    have "foldE (assemble_cell q src i p) (s, []) targets = Inl x"
      using that by (auto simp: assemble_row_def ip bindE_Inl_iff split: prod.splits)
    then show ?thesis by (rule foldE_raises [where P = "\<lambda>_. True", rotated 3]) (simp_all add: cell)
  qed
  show ?thesis
    using assms(2) unfolding assemble_def by (rule foldE_raises [where P = "\<lambda>_. True", rotated 3]) (simp_all add: row)
qed

lemma sort_rows_total:
  assumes ready: "tables_ready db" and src: "sources_of sha db org q defs = Inr src" and defs: "defs_ok defs"
    and run: "assemble q src (target_measures p defs) insts periods = Inr s"
  shows "sort_rows q key (as_rows s) \<noteq> Inl e"
proof
  assume "sort_rows q key (as_rows s) = Inl e"
  then have "mapE (row_sort_key q key) (as_rows s) = Inl e" by (auto simp: sort_rows_def bindE_Inl_iff)
  then obtain r where r: "r \<in> set (as_rows s)" "row_sort_key q key r = Inl e" by (auto dest: mapE_Inl)
  then obtain k c where c: "(k, c) \<in> set (dr_cells r)" "safe_decimal (dc_canonical c) = Inl e"
    by (auto simp: row_sort_key_def row_value_def bindE_Inl_iff split: option.splits if_splits dest: map_of_SomeD)
  obtain i t cells where row: "r = row_of q i t cells" "sourced_cells q src (target_measures p defs) i t cells"
    using assemble_rows [OF run target_keys_distinct [OF defs]] r(1) by (auto simp: sourced_row_def)
  then obtain m w h display status where cell: "(k, m, w) \<in> set (target_measures p defs)"
    "cell_value q src (inst_id i) (rp_id t) (k, m, w) = Some h" "c = cell_of k m h display status"
    using c(1) by (auto simp: sourced_cells_def row_of_def)
  obtain code where "(code, m) \<in> set defs" using target_of [OF cell(1)] by blast
  then have m: "get_measure (sm_code m) = Inr m" using defs by (auto simp: defs_ok_def)
  have "distinct (map ff_id (k_facts db))" using ready by (simp add: tables_ready_def)
  from cell_sourced [OF src this m cell(2)] have "fact_cell db org q r c \<or> calculation_cell sha db org r c"
    unfolding row(1) cell(3) .
  then obtain d where d: "dc_canonical c = dec_str d" "is_numeric 28 6 d \<or> is_numeric 38 10 d"
    using ready unfolding fact_cell_def calculation_cell_def tables_ready_def by blast
  have "safe_decimal (dec_str d) = Inr d"
    using d(2) safe_decimal_canonical [of 28 6 d] safe_decimal_canonical [of 38 10 d] by auto
  with d c show False by simp
qed

lemma completeness_total: "populated \<le> expected \<Longrightarrow> \<exists>t. completeness populated expected = Inr t"
proof (cases "0 < expected")
  case True
  assume le: "populated \<le> expected"
  let ?p = "dec_of_int (int populated)" and ?e = "dec_of_int (int expected)"
  have e: "\<not> is_zero ?e" using True by (simp add: dec_of_int_def)
  obtain r where r: "ddiv default_context ?p ?e = Inr r" using ddiv_total [OF e] by blast
  have v: "dval ?p = of_nat populated" "dval ?e = of_nat expected" by (simp_all add: dec_of_int_def dval_Dec)
  have q: "0 \<le> dval ?p / dval ?e" "dval ?p / dval ?e \<le> 1" using le True by (simp_all add: v)
  have ulp: "0 < half_ulp default_context" "half_ulp default_context < 1 / 10" by (simp_all add: half_ulp_def default_context_def)
  have "\<bar>dval r - dval ?p / dval ?e\<bar> \<le> \<bar>dval ?p / dval ?e\<bar> * (2 * half_ulp default_context)"
    by (rule ddiv_rel [OF r]) (simp add: default_context_def)
  also have "\<dots> \<le> 1 * (2 / 10)" using q ulp by (intro mult_mono) simp_all
  finally have "\<bar>dval r\<bar> \<le> 2" using q by linarith
  moreover have "\<bar>dval (dmul default_context r (Dec False 100 0)) - dval r * dval (Dec False 100 0)\<bar> \<le>
      \<bar>dval r * dval (Dec False 100 0)\<bar> * half_ulp default_context"
    by (rule dmul_rel) (simp add: default_context_def)
  moreover have "\<bar>dval r * dval (Dec False 100 0)\<bar> * half_ulp default_context \<le> \<bar>dval r * dval (Dec False 100 0)\<bar> * 1"
    using ulp by (intro mult_left_mono) simp_all
  ultimately have "\<bar>dval (dmul default_context r (Dec False 100 0))\<bar> < 10 powi 3" by (simp add: dval_Dec)
  from dquantize_total [OF this, of "-2" default_context ROUND_HALF_EVEN]
  obtain x where "dquantize default_context ROUND_HALF_EVEN (dmul default_context r (Dec False 100 0)) (-2) = Inr x"
    by (auto simp: default_context_def)
  with r True show ?thesis by (simp add: completeness_def)
qed (simp add: completeness_def)

lemma data_quality_total: "as_populated s + as_missing s = n \<Longrightarrow> data_quality_of n s \<noteq> Inl e"
  using completeness_total [of "as_populated s" n]
  by (auto simp: data_quality_of_def validate_data_quality_def quality_sum_def Let_def bindE_Inl_iff)

text \<open>C21: a valid request on sound tables is answered or refused with one of seven codes; in particular no value is
  unreadable, no scale unknown, no counter wrong, and nothing else is raised.\<close>

theorem comparison_refused_by_code:
  assumes "valid_request q" "tables_ready db" "build_comparison sha ids now org q db = Inl e"
  shows "e \<in> ValueError ` set comparison_refusals"
proof -
  have "check_thresholds q = Inr ()" using assms(1) by (auto simp: check_thresholds_def valid_request_def split: option.splits)
  then consider "semantic_defs q = Inl e" | defs where "semantic_defs q = Inr defs" "find_institutions db org q = Inl e"
    | defs insts where "semantic_defs q = Inr defs" "find_institutions db org q = Inr insts" "find_periods db org q = Inl e"
    | (found) defs insts periods where "semantic_defs q = Inr defs" "find_institutions db org q = Inr insts" "find_periods db org q = Inr periods"
    using assms(3) by (cases "semantic_defs q"; cases "find_institutions db org q"; cases "find_periods db org q")
      (auto simp: build_comparison_def)
  then show ?thesis
  proof cases
    case found
    obtain rs ps where order: "in_order insts (rq_institutions q) = Inr rs" "in_order periods (rq_periods q) = Inr ps"
      using institutions_in_order [OF found(2)] periods_in_order [OF found(3)] by blast
    obtain scale where scale: "scale_divisor (rq_scale q) = Inr scale" "\<not> is_zero scale" using scale_divisor_total [OF assms(1)] by blast
    show ?thesis
    proof (cases "sources_of sha db org q defs")
      case (Inl x)
      then have "x = e" using assms(3) found \<open>check_thresholds q = Inr ()\<close> by (simp add: build_comparison_def)
      moreover have "refused x"
        using Inl scale(1) derived_calculations_total [OF assms(2)] reported_facts_refused [OF assms(2)]
        by (auto simp: sources_of_def bindE_Inl_iff)
      ultimately show ?thesis by simp
    next
      case (Inr src)
      let ?run = "assemble q src (target_measures (rq_policy q) defs) rs ps"
      have "src_scale src = scale" using sources_parts(3) [OF Inr] scale(1) by simp
      show ?thesis
      proof (cases ?run)
        case (Inl x)
        then have "x = e" using assms(3) found order \<open>sources_of _ _ _ _ _ = Inr src\<close> \<open>check_thresholds q = Inr ()\<close> by (simp add: build_comparison_def)
        then show ?thesis using assemble_refused Inl scale(2) \<open>src_scale src = scale\<close> by blast
      next
        case (Inr s)
        have defs: "defs_ok defs" by (rule semantic_defs_ok [OF found(1)])
        have len: "length rs = length (rq_institutions q)" "length ps = length (rq_periods q)" using order by (auto dest: in_order_length)
        have "as_populated s + as_missing s = length (rq_institutions q) * length (rq_periods q) * length (target_measures (rq_policy q) defs)"
          using assemble_rows [OF Inr target_keys_distinct [OF defs]] len by simp
        then show ?thesis
          using assms(3) found order \<open>sources_of _ _ _ _ _ = Inr src\<close> \<open>check_thresholds q = Inr ()\<close> Inr
            sort_rows_total [OF assms(2) \<open>sources_of _ _ _ _ _ = Inr src\<close> defs Inr] data_quality_total
          by (auto simp: build_comparison_def bindE_Inl_iff Let_def)
      qed
    qed
  qed (use semantic_defs_refused find_refused in blast)+
qed

section \<open>A stored comparison cannot be read back\<close>

text \<open>The endpoint reads the cells of the table from the dictionaries of dataset cells, whose fields have other names.\<close>

theorem stored_comparison_unreadable:
  assumes "build_comparison sha ids now org q db = Inr (resp, rows)"
    and "filter (\<lambda>d. sd_run d = cmp_id resp \<and> sd_org d = org) (k_datasets db') = [stored_of org resp rows]"
    and "page_rows p n rows \<noteq> []"
  shows "get_comparison org (cmp_id resp) p n db' = Inl (AppError ''ValidationError'' ''TableCellDTO'')"
proof -
  obtain defs src rs ps s ordered quality where parts: "semantic_defs q = Inr defs"
    "assemble q src (target_measures (rq_policy q) defs) rs ps = Inr s"
    "sort_rows q (sort_measure_key q (as_measures s)) (as_rows s) = Inr ordered" "rows = top_rows q ordered"
    "data_quality_of (length (rq_institutions q) * length (rq_periods q) * length (target_measures (rq_policy q) defs)) s = Inr quality"
    "resp = response_of ids now q s quality rows"
    by (rule build_parts [OF assms(1)]) blast
  obtain r rest where page: "page_rows p n rows = r # rest" using assms(3) by (cases "page_rows p n rows") auto
  then have "r \<in> set rows" by (metis list.set_intros(1) page_rows_def in_set_takeD in_set_dropD)
  then have "r \<in> set (as_rows s)"
    using sort_rows_sound(1) [OF parts(3)] subseq_members [OF top_rows_subseq, of q ordered] parts(4) by blast
  then obtain c cells where "dr_cells r = c # cells"
    using assemble_rows [OF parts(2) target_keys_distinct [OF semantic_defs_ok [OF parts(1)]]]
    by (auto simp: sourced_row_def row_of_def neq_Nil_conv)
  moreover have "read_table_cell dataset_cell_fields x = Inl (AppError ''ValidationError'' ''TableCellDTO'')" for x
    by (simp add: read_table_cell_def dataset_cell_fields_def table_cell_fields_def)
  ultimately have r: "rebuild_row r = Inl (AppError ''ValidationError'' ''TableCellDTO'')"
    by (simp add: rebuild_row_def case_prod_unfold)
  have "validate_data_quality quality = Inr quality"
    using parts(5) by (auto simp: data_quality_of_def validate_data_quality_def bindE_Inr_iff Let_def)
  moreover have "sd_rows (stored_of org resp rows) = rows" "sd_version (stored_of org resp rows) = ''3.0.0''"
    "sd_quality (stored_of org resp rows) = quality"
    by (simp_all add: stored_of_def parts(6) response_of_def Let_def)
  ultimately show ?thesis
    using assms(2) page r by (simp add: get_comparison_def Let_def)
qed

section \<open>A comparison of one bank\<close>

definition sample_comparison :: comparison_request where
  "sample_comparison = \<lparr>rq_institutions = [2], rq_measures = [\<lparr>sel_code = ''TOTAL_ASSETS'', sel_origin = ''AUTO''\<rparr>], rq_periods = [3],
     rq_basis = ''SOLO'', rq_currency = ''TRY'', rq_scale = ''MILLION'', rq_policy = SOURCE_REPORTED_ONLY, rq_sort_measure = None,
     rq_sort_origin = None, rq_direction = ''desc'', rq_top_n = None, rq_top_scope = ''INSTITUTIONS_PER_PERIOD'', rq_mode = ''CROSS_INSTITUTION'',
     rq_common = ''STRICT_COMMON_PERIOD'', rq_evidence = ''STRICT'', rq_charts = [''line''], rq_reconciliation = True, rq_page = 1,
     rq_page_size = 20\<rparr>"

definition empty_comparison_db :: comparison_db where
  "empty_comparison_db = \<lparr>k_institutions = [], k_periods = [], k_facts = [], k_evidence = [], k_versions = [], k_documents = [],
     k_candidates = [], k_calculations = [], k_attempts = [], k_inputs = [], k_calc_evidence = [], k_reconciliations = [], k_runs = [],
     k_datasets = [], k_audit = []\<rparr>"

definition sample_institution :: institution where
  "sample_institution = \<lparr>inst_id = 2, inst_org = 9, inst_canonical = ''B'', inst_display = ''B'', inst_type = ''BANK'', inst_country = ''TR'',
     inst_regulatory = None, inst_status = ''ACTIVE''\<rparr>"

definition sample_period :: reporting_period where
  "sample_period = \<lparr>rp_id = 3, rp_org = 9, rp_type = ''QUARTER'', rp_presentation = ''CUMULATIVE'', rp_fiscal_year = 2025, rp_quarter = Some 1,
     rp_start = Date 2025 1 1, rp_end = Date 2025 3 31, rp_label = ''Q1'', rp_comparison_key = ''2025-Q1''\<rparr>"

definition sample_asset :: financial_fact where
  "sample_asset = \<lparr>ff_id = 10, ff_org = 9, ff_institution = 2, ff_period = 3, ff_metric_definition = 4, ff_metric_code = ''TOTAL_ASSETS'',
     ff_value = Dec False 5000000000000 (-6), ff_currency = ''TRY'', ff_unit = ''CURRENCY'', ff_scale = ''ONE'',
     ff_normalized = Dec False 5000000000000 (-6), ff_basis = ''SOLO'', ff_candidate = Some 11, ff_document = 12, ff_page = None,
     ff_review = ''HUMAN_VERIFIED'', ff_verified_by = None, ff_supersedes = None, ff_valid_to = None, ff_origin = ''SOURCE_REPORTED''\<rparr>"

definition sample_row_evidence :: candidate_evidence where
  "sample_row_evidence = \<lparr>ce_id = 13, ce_org = 9, ce_candidate = 11, ce_version = 14, ce_page = None, ce_sheet = None, ce_cell = None,
     ce_header = None, ce_row = Some 2, ce_column = Some 3, ce_bbox = [], ce_snippet = None\<rparr>"

definition sample_csv :: document_version where
  "sample_csv = \<lparr>dv_id = 14, dv_org = 9, dv_document = 12, dv_object = 15, dv_number = 1, dv_ingestion = ''COMPLETED'',
     dv_extraction = ''COMPLETED'', dv_detected_mime = Some ''text/csv'', dv_declared_mime = None\<rparr>"

definition sample_comparison_db :: comparison_db where
  "sample_comparison_db = empty_comparison_db\<lparr>k_institutions := [sample_institution], k_periods := [sample_period], k_facts := [sample_asset],
     k_evidence := [sample_row_evidence], k_versions := [sample_csv]\<rparr>"

definition assets_measure :: semantic_measure where
  "assets_measure = currency_line (''TOTAL_ASSETS'', ''Total Assets'')"

lemma fold_default_kept: "map_of d k = Some m \<Longrightarrow> map_of (fold set_default ms d) k = Some m"
  by (induction ms arbitrary: d) (simp_all add: set_default_def)

lemma assets_in_registry: "get_measure ''TOTAL_ASSETS'' = Inr assets_measure"
proof -
  have "map_of semantic_registry ''TOTAL_ASSETS'' = Some assets_measure"
    unfolding semantic_registry_def
    by (rule fold_default_kept) (simp add: measure_definitions_def assets_measure_def currency_line_def)
  then show ?thesis by (simp add: get_measure_def)
qed

lemma sample_defs: "semantic_defs sample_comparison = Inr [(''TOTAL_ASSETS'', assets_measure)]"
  by (simp add: semantic_defs_def sample_comparison_def assets_in_registry dict_put_def) (simp add: assets_measure_def currency_line_def)

lemma sample_asset_simps [simp]:
  "ff_id sample_asset = 10" "ff_institution sample_asset = 2" "ff_period sample_asset = 3" "ff_metric_code sample_asset = ''TOTAL_ASSETS''"
  "ff_currency sample_asset = ''TRY''" "ff_normalized sample_asset = Dec False 5000000000000 (-6)" "ff_candidate sample_asset = Some 11"
  by (simp_all add: sample_asset_def)

lemma sample_comparison_simps [simp]:
  "rq_institutions sample_comparison = [2]" "rq_periods sample_comparison = [3]" "rq_currency sample_comparison = ''TRY''"
  "rq_policy sample_comparison = SOURCE_REPORTED_ONLY" "rq_scale sample_comparison = ''MILLION''" "rq_top_n sample_comparison = None"
  "rq_sort_measure sample_comparison = None" "rq_direction sample_comparison = ''desc''"
  by (simp_all add: sample_comparison_def)

lemma assets_measure_simps [simp]:
  "sm_code assets_measure = ''TOTAL_ASSETS''" "sm_reported assets_measure = Some ''TOTAL_ASSETS''" "sm_derived assets_measure = None"
  by (simp_all add: assets_measure_def currency_line_def)

lemma sample_coordinates: "validate_coordinates sample_row_evidence sample_csv = Inr True"
  by code_simp

definition sample_sources :: sources where
  "sample_sources = \<lparr>src_facts = [((2, 3, ''TOTAL_ASSETS''), sample_asset)], src_evidence = [(10, 13)], src_calculations = [],
     src_reconciliations = [], src_scale = Dec False 1000000 0\<rparr>"

lemma sample_sourced: "sources_of sha sample_comparison_db 9 sample_comparison [(''TOTAL_ASSETS'', assets_measure)] = Inr sample_sources"
proof -
  have asset: "eligible_fact 9 sample_comparison [''TOTAL_ASSETS''] sample_asset"
    by (simp add: eligible_fact_def sample_asset_def sample_comparison_def)
  have evidence: "evidence_of sample_comparison_db 9 sample_asset = [(sample_row_evidence, sample_csv)]"
    by (simp add: evidence_of_def sample_comparison_db_def sample_asset_def) (simp add: sample_row_evidence_def sample_csv_def)
  have codes: "reported_metrics (rq_policy sample_comparison) [(''TOTAL_ASSETS'', assets_measure)] = [''TOTAL_ASSETS'']"
    "derived_formulas (rq_policy sample_comparison) [(''TOTAL_ASSETS'', assets_measure)] = []"
    by (simp_all add: reported_metrics_def derived_formulas_def code_if_def sample_comparison_def assets_measure_def currency_line_def)
  have take: "take_fact sample_comparison_db 9 sample_comparison ([], []) sample_asset = Inr ([((2, 3, ''TOTAL_ASSETS''), sample_asset)], [(10, 13)])"
    by (simp add: take_fact_def Let_def evidence sample_coordinates dict_put_def) (simp add: sample_row_evidence_def)
  have facts: "k_facts sample_comparison_db = [sample_asset]" by (simp add: sample_comparison_db_def)
  show ?thesis
    unfolding sources_of_def codes
    by (simp add: reported_facts_def derived_calculations_def facts asset take)
      (simp add: scale_divisor_def sample_sources_def)
qed

lemma sample_comparison_run:
  "\<exists>resp r c. build_comparison sha ids now 9 sample_comparison sample_comparison_db = Inr (resp, [r]) \<and> dr_cells r = [(''TOTAL_ASSETS'', c)] \<and>
     dc_fact c = Some 10"
proof -
  let ?q = sample_comparison
  have found: "find_institutions sample_comparison_db 9 ?q = Inr [(2, sample_institution)]"
    "find_periods sample_comparison_db 9 ?q = Inr [(3, sample_period)]"
    by (simp_all add: find_institutions_def find_periods_def sample_comparison_db_def dict_update_def dict_put_def Let_def)
      (simp_all add: sample_institution_def sample_period_def)
  have "in_order [(2 :: uuid, sample_institution)] [2] = Inr [sample_institution]" "in_order [(3 :: uuid, sample_period)] [3] = Inr [sample_period]"
    by (simp_all add: in_order_def)
  note order = this
  have targets: "target_measures SOURCE_REPORTED_ONLY [(''TOTAL_ASSETS'', assets_measure)] = [(''TOTAL_ASSETS'', assets_measure, SOURCE_REPORTED)]"
    by (simp add: target_measures_def measure_targets_def falsy_str_def)
  define h where "h = \<lparr>hs_value = Dec False 5000000000000 (-6), hs_origin = SOURCE_REPORTED, hs_fact = Some 10, hs_calculation = None, hs_evidence = Some 13\<rparr>"
  have picked: "cell_value ?q sample_sources 2 3 (''TOTAL_ASSETS'', assets_measure, SOURCE_REPORTED) = Some h"
    by (simp add: cell_value_def choose_value_def by_code_def chosen_fact_def sample_sources_def h_def)
  obtain t where "format_display (hs_value h) (sm_unit assets_measure) (src_scale sample_sources) = Inr t"
    using format_display_total [of "src_scale sample_sources"] by (auto simp: sample_sources_def)
  define status where "status = reconciliation_of ?q (src_reconciliations sample_sources) h"
  define c where "c = cell_of ''TOTAL_ASSETS'' assets_measure h t status"
  define r where "r = row_of ?q sample_institution sample_period [(''TOTAL_ASSETS'', c)]"
  define s1 where "s1 = populate ?q ''TOTAL_ASSETS'' assets_measure h status empty_assembly"
  define s where "s = s1\<lparr>as_rows := [r]\<rparr>"
  have ids: "inst_id sample_institution = 2" "rp_id sample_period = 3" by (simp_all add: sample_institution_def sample_period_def)
  have "assemble_cell ?q sample_sources sample_institution sample_period (empty_assembly, []) (''TOTAL_ASSETS'', assets_measure, SOURCE_REPORTED) =
      Inr (s1, [(''TOTAL_ASSETS'', c)])"
    using picked \<open>format_display _ _ _ = Inr t\<close>
    by (simp add: assemble_cell_def ids Let_def dict_put_def s1_def c_def status_def)
  moreover have "as_rows s1 = []" by (simp add: s1_def empty_assembly_def)
  ultimately have run: "assemble ?q sample_sources [(''TOTAL_ASSETS'', assets_measure, SOURCE_REPORTED)] [sample_institution] [sample_period] = Inr s"
    by (simp add: assemble_def assemble_row_def s_def r_def)
  have cells: "dr_cells r = [(''TOTAL_ASSETS'', c)]" "dc_fact c = Some 10" "dc_canonical c = dec_str (Dec False 5000000000000 (-6))"
    by (simp_all add: r_def c_def row_of_def cell_of_def h_def)
  have counts: "as_populated s = 1" "as_missing s = 0" by (simp_all add: s_def s1_def empty_assembly_def)
  have "is_numeric 28 6 (Dec False 5000000000000 (-6))" by (simp add: is_numeric_def)
  then have "safe_decimal (dec_str (Dec False 5000000000000 (-6))) = Inr (Dec False 5000000000000 (-6))" by (rule safe_decimal_canonical) simp_all
  then have "\<exists>k. row_sort_key ?q key r = Inr k" for key
    by (cases key) (auto simp: row_sort_key_def row_value_def cells)
  then obtain k where "row_sort_key ?q (sort_measure_key ?q (as_measures s)) r = Inr k" by blast
  then have sorted: "sort_rows ?q (sort_measure_key ?q (as_measures s)) (as_rows s) = Inr [r]"
    by (simp add: sort_rows_def s_def)
  obtain quality where quality: "data_quality_of 1 s = Inr quality"
    using data_quality_total [of s 1] counts by (cases "data_quality_of 1 s") auto
  have "check_thresholds ?q = Inr ()" by (simp add: check_thresholds_def) (simp add: sample_comparison_def)
  then have "build_comparison sha ids now 9 ?q sample_comparison_db = Inr (response_of ids now ?q s quality [r], [r])"
    using found sample_sourced order run sorted quality
    by (simp add: build_comparison_def sample_defs targets top_rows_def)
  with cells show ?thesis by blast
qed

section \<open>Witnesses\<close>

lemma comparison_cells_sourced_witness:
  "\<exists>resp r c. build_comparison sample_sha \<lparr>id_run = 20, id_dataset = 21\<rparr> 5 9 sample_comparison sample_comparison_db = Inr (resp, [r]) \<and>
     (fact_cell sample_comparison_db 9 sample_comparison r c \<or> calculation_cell sample_sha sample_comparison_db 9 r c)"
proof -
  obtain resp r c where run: "build_comparison sample_sha \<lparr>id_run = 20, id_dataset = 21\<rparr> 5 9 sample_comparison sample_comparison_db = Inr (resp, [r])"
    "dr_cells r = [(''TOTAL_ASSETS'', c)]"
    using sample_comparison_run by blast
  have "distinct (map ff_id (k_facts sample_comparison_db))" by (simp add: sample_comparison_db_def)
  with comparison_cells_sourced [OF run(1), of r "''TOTAL_ASSETS''" c] run show ?thesis by auto
qed

lemma comparison_dataset_adds_up_witness:
  "\<exists>resp resp' r. build_comparison sample_sha \<lparr>id_run = 20, id_dataset = 21\<rparr> 5 9 (sample_comparison\<lparr>rq_top_n := Some 1\<rparr>)
       sample_comparison_db = Inr (resp, [r]) \<and>
     build_comparison sample_sha \<lparr>id_run = 20, id_dataset = 21\<rparr> 5 9 (sample_comparison\<lparr>rq_top_n := None\<rparr>)
       sample_comparison_db = Inr (resp', [r])"
proof -
  let ?q = "sample_comparison\<lparr>rq_top_n := Some 1\<rparr>"
  obtain resp r c where run: "build_comparison sample_sha \<lparr>id_run = 20, id_dataset = 21\<rparr> 5 9 sample_comparison sample_comparison_db = Inr (resp, [r])"
    "dr_cells r = [(''TOTAL_ASSETS'', c)]"
    using sample_comparison_run by blast
  have q: "rq_top_scope ?q = ''INSTITUTIONS_PER_PERIOD''" "rq_top_n sample_comparison = None" by (simp_all add: sample_comparison_def)
  have n: "case Some 1 of None \<Rightarrow> True | Some n \<Rightarrow> n \<le> (50 :: nat)" by simp
  obtain resp1 ordered where b: "build_comparison sample_sha \<lparr>id_run = 20, id_dataset = 21\<rparr> 5 9 ?q sample_comparison_db =
      Inr (resp1, top_rows ?q ordered)" "[r] = top_rows sample_comparison ordered"
    by (rule build_with_top_n [OF run(1) n])
  have "ordered = [r]" using b(2) q(2) by (simp add: top_rows_def)
  moreover have "top_rows ?q [r] = [r]" using q(1) by (simp add: top_rows_def)
  ultimately have top: "build_comparison sample_sha \<lparr>id_run = 20, id_dataset = 21\<rparr> 5 9 ?q sample_comparison_db = Inr (resp1, [r])"
    using b(1) by simp
  have v: "valid_request ?q" by (simp add: valid_request_def) (simp add: sample_comparison_def)
  obtain resp2 all_rows where all: "build_comparison sample_sha \<lparr>id_run = 20, id_dataset = 21\<rparr> 5 9 (?q\<lparr>rq_top_n := None\<rparr>)
      sample_comparison_db = Inr (resp2, all_rows)"
    using comparison_dataset_adds_up [OF v top] by (elim exE conjE) (rule that)
  have same: "?q\<lparr>rq_top_n := None\<rparr> = sample_comparison" using q(2) by (cases sample_comparison) simp
  have "all_rows = [r]" using all [unfolded same] run(1) by simp
  with all have "build_comparison sample_sha \<lparr>id_run = 20, id_dataset = 21\<rparr> 5 9 (sample_comparison\<lparr>rq_top_n := None\<rparr>)
      sample_comparison_db = Inr (resp2, [r])" by simp
  with top show ?thesis by blast
qed

lemma comparison_refused_by_code_witness:
  "\<exists>e. build_comparison sample_sha \<lparr>id_run = 20, id_dataset = 21\<rparr> 5 9 sample_comparison empty_comparison_db = Inl e \<and>
     e \<in> ValueError ` set comparison_refusals"
proof -
  have "check_thresholds sample_comparison = Inr ()" by (simp add: check_thresholds_def) (simp add: sample_comparison_def)
  then have run: "build_comparison sample_sha \<lparr>id_run = 20, id_dataset = 21\<rparr> 5 9 sample_comparison empty_comparison_db =
      Inl (ValueError ''INSTITUTION_NOT_FOUND'')"
    by (simp add: build_comparison_def sample_defs find_institutions_def empty_comparison_db_def dict_update_def)
  have "valid_request sample_comparison" by (simp add: valid_request_def) (simp add: sample_comparison_def)
  moreover have "tables_ready empty_comparison_db" by (simp add: tables_ready_def empty_comparison_db_def)
  ultimately show ?thesis using comparison_refused_by_code [OF _ _ run] run by blast
qed

end
