(* ===== verification/Spec2Isabelle.thy ===== *)
theory Spec2Isabelle
  imports Formulas FormulaRegistry Calendar CalculationTheorems AnalysisOutcomes FactOutcomes IngestionOutcomes ComparisonOutcomes
begin

text \<open>
  \<^bold>\<open>Verification library of Finance Intelligence\<close>

  The program is a multi-tenant service for the figures banks publish. A filing is uploaded and ingested by a
  worker; the figures found in it become candidates with evidence; a reviewer turns candidates into facts; formulas
  compute ratios from facts; a comparison lays facts and ratios side by side; an analysis answers a question in
  words. Everything is kept in one PostgreSQL database under \<open>src/services/api\<close>, read and written by the API and
  by the workers under \<open>src/services/worker\<close>. The library follows a figure through these parts.

  \<^bold>\<open>How the code is read.\<close> A table is a list of rows in the order of creation, a row a record with the columns that
  some operation reads; the constraints that decide an outcome are checked where a row is written, as
  \<open>IntegrityError\<close>. An operation on the database is a \<open>dbproc\<close> (theory \<open>Session\<close>): it gets a session with committed
  and uncommitted rows and gives the session and a value or the exception raised (\<open>py_exc\<close>), so commit, rollback,
  savepoint and the change of other sessions between two commits are steps of the model. What other sessions may do
  is a hypothesis on them, stated with the property: they respect the constraints among committed rows, or make only
  changes that the services themselves make. Clocks, new identifiers,
  SHA-256, HMAC, the language model, parsers and storage are parameters; where a theorem relies on one of them,
  the assumption stands in its statement. Text is Latin-1. Row locks, logging and row-level security settings are
  left out: every query of the model names the tenant where the code does.

  \<^bold>\<open>Foundations.\<close> \<open>Prelude\<close> holds results with errors, dictionaries and the collections of hints. \<open>PyDecimal\<close> is
  Python's \<open>decimal\<close> (contexts with precision and exponent bounds, rounding modes, quantize, division), with the
  lemmas that bound its rounding error. \<open>PyText\<close> and \<open>TextScan\<close> are the string methods, \<open>json.dumps\<close> and the regular
  expressions the code uses; every scan recurses on the text left over, so no fuel is needed. \<open>Calendar\<close> has dates
  and the annualization factor. \<open>Tables\<close>, \<open>DocumentStore\<close>, \<open>AnalysisStore\<close> and \<open>ComparisonSchemas\<close> have the rows of
  \<open>app/models\<close>; \<open>Tables\<close> also has \<open>AuditService\<close>. \<open>Lifecycle\<close> is the locale of a status table with ranks, from which
  both state machines get their bound on changes.

  \<^bold>\<open>Calculations\<close> (\<open>app/calculations\<close>, \<open>services/calculation_service.py\<close>). \<open>Formulas\<close>: the five formulas, each total
  up to its guards, and the distance of a result from the exact quotient. \<open>FormulaRegistry\<close>: checksums. In
  \<open>CalculationService\<close> one run goes from the request row through the selection of facts, evidence, attempt and
  reconciliation to the recovery block; a concurrent insert of a key that is pending here waits for the end of the
  transaction. \<open>CalculationTheorems\<close> shows what a successful and a failed run leave, that the keys of the tables stay
  unique under concurrent commits, and that a rerun gives the calculation made before. The annualization factor
  (\<open>Calendar\<close>) is compared with the exact length of the period in years.

  \<^bold>\<open>Analyses\<close> (\<open>app/orchestration\<close>, \<open>routers/analyses.py\<close>, \<open>worker/analysis_worker.py\<close>). \<open>AnalysisStateMachine\<close>,
  \<open>Resilience\<close> (breaker, retry, budget, policy), \<open>Clarification\<close>, \<open>AnalysisEngine\<close> and \<open>AnalysisWorker\<close> follow the
  files; \<open>AnalysisSteps\<close> is the step relation of API, workers and maintenance on one database, \<open>AnalysisSafety\<close> its
  invariant and \<open>AnalysisOutcomes\<close> what a run that is not disturbed ends with. A cancellation reads its row without a
  lock; the flag \<open>rc\<close> of the step relation says whether an analysis may become final between its read and its update,
  and the invariant says what a late cancellation can then overwrite.

  \<^bold>\<open>Facts\<close> (\<open>services/normalization_service.py\<close>, \<open>fact_candidate_service.py\<close>, \<open>financial_fact_service.py\<close>).
  \<open>Normalization\<close> reads printed amounts. \<open>FactCandidates\<close> and \<open>FactReview\<close> are the services, \<open>FactLedger\<close> the abstract
  ledger of reviewed figures, \<open>FactRuns\<close> the invariant of the tables and the refinement, \<open>FactOutcomes\<close> every branch of
  an approval.

  \<^bold>\<open>Ingestion\<close> (\<open>worker/command_envelope.py\<close>, \<open>worker/ingestion_worker.py\<close>, \<open>services/state_machine.py\<close>,
  \<open>fact_extraction_service.py\<close>, \<open>llm_fact_extraction_service.py\<close>, \<open>parsers/value_locator.py\<close>). \<open>CommandEnvelope\<close>,
  \<open>IngestionStates\<close>, \<open>FactExtraction\<close>, \<open>LlmFacts\<close>, \<open>ValueLocator\<close> and \<open>IngestionWorker\<close> follow the files.
  \<open>IngestionLedger\<close> states what a history of jobs may look like, \<open>IngestionRuns\<close> that workers and other sessions keep
  to it, \<open>IngestionOutcomes\<close> what a reported outcome and a replayed command leave.

  \<^bold>\<open>Comparisons\<close> (\<open>services/comparison_service.py\<close>, its schemas, the registry of measures and the two routers).
  \<open>ComparisonService\<close> chooses and counts the value of every cell, \<open>ComparisonDataset\<close> sorts, pages, draws and stores;
  \<open>CanonicalValues\<close> shows that a printed decimal is read back, \<open>ComparisonCells\<close> where cells come from and what the
  counters count, \<open>ComparisonOutcomes\<close> the properties; the best rows are stated against the same request without a
  limit.

  \<^bold>\<open>Bounds and fuel.\<close> Loops over finite data are structural recursion. The retry loop and the polling of a worker take
  their number of rounds from the code's limits (four attempts, the attempts of a job); no definition has a fuel
  argument that a caller chooses.

  \<^bold>\<open>Not modelled.\<close> Schema migrations apart from the SQL functions and constraints named above, and the programs that
  run and verify them: they are DDL. Parsers of PDF, spreadsheets and CSV, storage adapters and the HTTP client of the
  model provider: they are calls of libraries. The reading of a question (\<open>request_normalizer.py\<close>,
  \<open>period_expression.py\<close>, \<open>metric_resolution.py\<close>) folds Turkish letters outside Latin-1. Upload endpoints, sign-on,
  configuration, the maintenance worker, scripts and the mobile client are left out.
\<close>

end
